(* ===== verification/Prelude.thy ===== *)
theory Prelude
  imports Main "HOL-Library.Word" "HOL-Library.Monad_Syntax"
begin

text \<open>
  The types and helpers every component shares: machine integers at the width the code
  declares them with, byte strings, little-endian fields of the packed wire structures,
  C strings, and clock arithmetic.

  \<^item> \<open>std::vector<uint8_t>\<close> and \<open>std::string\<close> are lists of bytes; a literal of the
    source is written \<open>bytes_of ''...''\<close>.
  \<^item> The target is the FreeBSD game build (\<open>PLATFORM_FREEBSD\<close>, \<open>__BUILD_FOR_GAME__\<close>,
    \<open>__MT_DB_INFO__\<close>, \<open>__MOBI_PACKET_ENCRYPTION__\<close> and \<open>__OFFSHOP__\<close> all 1, as the
    Makefile sets them) on a little-endian machine.
  \<^item> A read or a write outside an object has no defined result in C++. Where the code can do
    that, the model's function returns an option, and \<open>None\<close> is the undefined behaviour.
  \<^item> Clocks are integers counting nanoseconds.
\<close>

unbundle bit_operations_syntax

type_synonym u8 = "8 word"
type_synonym u16 = "16 word"
type_synonym u32 = "32 word"
type_synonym bytes = "u8 list"
type_synonym time = int

text \<open>\<open>wire_simps\<close>: how a field is laid out; \<open>wire_len\<close>: how long it is.\<close>

named_theorems wire_simps
named_theorems wire_len

subsection \<open>Text\<close>

definition bytes_of :: "string \<Rightarrow> bytes" where
  "bytes_of s = map of_char s"

lemma length_bytes_of [simp]: "length (bytes_of s) = length s"
  by (simp add: bytes_of_def)

text \<open>\<open>c_str()\<close> read as a C string: up to the first NUL.\<close>

definition cstr :: "bytes \<Rightarrow> bytes" where
  "cstr s = takeWhile (\<lambda>b. b \<noteq> 0) s"

lemma cstr_le: "length (cstr s) \<le> length s"
  by (simp add: cstr_def length_takeWhile_le)

lemma zero_notin_cstr [simp]: "0 \<notin> set (cstr s)"
  by (auto simp: cstr_def dest: set_takeWhileD)

lemma cstr_id: "0 \<notin> set s \<Longrightarrow> cstr s = s"
  by (induction s) (auto simp: cstr_def)

lemma cstr_append_nul: "0 \<notin> set s \<Longrightarrow> cstr (s @ 0 # t) = s"
  by (induction s) (auto simp: cstr_def)

text \<open>\<open>std::string::find\<close> of a sub-string, and whether there is one.\<close>

fun is_prefix :: "'a list \<Rightarrow> 'a list \<Rightarrow> bool" where
  "is_prefix [] ys = True"
| "is_prefix (x # xs) [] = False"
| "is_prefix (x # xs) (y # ys) = (x = y \<and> is_prefix xs ys)"

fun has_substr :: "'a list \<Rightarrow> 'a list \<Rightarrow> bool" where
  "has_substr pat [] = is_prefix pat []"
| "has_substr pat (y # ys) = (is_prefix pat (y # ys) \<or> has_substr pat ys)"

lemma is_prefix_iff: "is_prefix xs ys \<longleftrightarrow> (\<exists>zs. ys = xs @ zs)"
  by (induction xs ys rule: is_prefix.induct) auto

lemma has_substr_iff: "has_substr pat s \<longleftrightarrow> (\<exists>a b. s = a @ pat @ b)"
proof (induction s)
  case Nil
  then show ?case by (cases pat) auto
next
  case (Cons y ys)
  show ?case
  proof
    assume "has_substr pat (y # ys)"
    then consider "is_prefix pat (y # ys)" | "has_substr pat ys" by auto
    then show "\<exists>a b. y # ys = a @ pat @ b"
    proof cases
      case 1
      then show ?thesis by (metis append_Nil is_prefix_iff)
    next
      case 2
      then show ?thesis using Cons.IH by (metis append_Cons)
    qed
  next
    assume "\<exists>a b. y # ys = a @ pat @ b"
    then obtain a b where ab: "y # ys = a @ pat @ b" by blast
    show "has_substr pat (y # ys)"
    proof (cases a)
      case Nil
      with ab have "is_prefix pat (y # ys)" by (auto simp: is_prefix_iff)
      then show ?thesis by simp
    next
      case (Cons z zs)
      with ab have "ys = zs @ pat @ b" by simp
      then have "has_substr pat ys" using Cons.IH by blast
      then show ?thesis by simp
    qed
  qed
qed

subsection \<open>Little-endian fields\<close>

definition le16 :: "u16 \<Rightarrow> bytes" where
  "le16 w = [ucast w, ucast (drop_bit 8 w)]"

definition le32 :: "u32 \<Rightarrow> bytes" where
  "le32 w = [ucast w, ucast (drop_bit 8 w), ucast (drop_bit 16 w), ucast (drop_bit 24 w)]"

definition of_le16 :: "u8 \<Rightarrow> u8 \<Rightarrow> u16" where
  "of_le16 a b = ucast a OR push_bit 8 (ucast b)"

definition of_le32 :: "u8 \<Rightarrow> u8 \<Rightarrow> u8 \<Rightarrow> u8 \<Rightarrow> u32" where
  "of_le32 a b c d =
     ucast a OR push_bit 8 (ucast b) OR push_bit 16 (ucast c) OR push_bit 24 (ucast d)"

definition le_bool :: "bool \<Rightarrow> bytes" where
  "le_bool b = [if b then 1 else 0]"

lemma length_le16 [simp, wire_len]: "length (le16 v) = 2"
  and length_le32 [simp, wire_len]: "length (le32 w) = 4"
  and length_le_bool [simp, wire_len]: "length (le_bool b) = 1"
  by (simp_all add: le16_def le32_def le_bool_def)

lemma of_le16_le16 [simp]: "of_le16 (ucast w) (ucast (drop_bit 8 w)) = w"
  unfolding of_le16_def by (rule bit_word_eqI) (auto simp: bit_simps)

lemma of_le32_le32 [simp]:
  "of_le32 (ucast w) (ucast (drop_bit 8 w)) (ucast (drop_bit 16 w)) (ucast (drop_bit 24 w)) = w"
proof (rule bit_word_eqI)
  fix n :: nat
  assume "n < LENGTH(32)"
  then have n: "n < 32" by simp
  consider "n < 8" | "8 \<le> n" "n < 16" | "16 \<le> n" "n < 24" | "24 \<le> n" by linarith
  then show "bit (of_le32 (ucast w) (ucast (drop_bit 8 w)) (ucast (drop_bit 16 w))
      (ucast (drop_bit 24 w))) n \<longleftrightarrow> bit w n"
    by cases (use n in \<open>auto simp: of_le32_def bit_simps\<close>)
qed

text \<open>Reading a field of a received packet at an offset; \<open>None\<close> past the end of the data.\<close>

definition get_u8 :: "bytes \<Rightarrow> nat \<Rightarrow> u8 option" where
  "get_u8 d i = (if i < length d then Some (d ! i) else None)"

definition get_u16 :: "bytes \<Rightarrow> nat \<Rightarrow> u16 option" where
  "get_u16 d i =
     (if i + 2 \<le> length d then Some (of_le16 (d ! i) (d ! (i + 1))) else None)"

definition get_u32 :: "bytes \<Rightarrow> nat \<Rightarrow> u32 option" where
  "get_u32 d i =
     (if i + 4 \<le> length d
      then Some (of_le32 (d ! i) (d ! (i + 1)) (d ! (i + 2)) (d ! (i + 3))) else None)"

definition get_bool :: "bytes \<Rightarrow> nat \<Rightarrow> bool option" where
  "get_bool d i = map_option (\<lambda>b. b \<noteq> 0) (get_u8 d i)"

definition get_chars :: "bytes \<Rightarrow> nat \<Rightarrow> nat \<Rightarrow> bytes option" where
  "get_chars d i n = (if i + n \<le> length d then Some (take n (drop i d)) else None)"

text \<open>Reading a C string: up to the first NUL, which has to lie inside the data.\<close>

definition get_cstr :: "bytes \<Rightarrow> nat \<Rightarrow> bytes option" where
  "get_cstr d i = (if 0 \<in> set (drop i d) then Some (cstr (drop i d)) else None)"

lemma get_u32_at [simp]: "get_u32 (xs @ le32 w @ ys) (length xs) = Some w"
  by (simp add: get_u32_def le32_def nth_append)

lemma get_u16_at [simp]: "get_u16 (xs @ le16 w @ ys) (length xs) = Some w"
  by (simp add: get_u16_def le16_def nth_append)

lemma get_u8_at [simp]: "get_u8 (xs @ b # ys) (length xs) = Some b"
  by (simp add: get_u8_def nth_append)

lemma get_u32_Some: "i + 4 \<le> length d \<Longrightarrow> \<exists>w. get_u32 d i = Some w"
  by (simp add: get_u32_def)

lemma get_u32_None_iff [simp]: "get_u32 d i = None \<longleftrightarrow> length d < i + 4"
  by (auto simp: get_u32_def)

lemma get_u8_None_iff [simp]: "get_u8 d i = None \<longleftrightarrow> length d \<le> i"
  by (auto simp: get_u8_def)

lemma get_u16_None_iff [simp]: "get_u16 d i = None \<longleftrightarrow> length d < i + 2"
  by (auto simp: get_u16_def)

lemma get_bool_None_iff [simp]: "get_bool d i = None \<longleftrightarrow> length d \<le> i"
  by (auto simp: get_bool_def)

lemma get_chars_None_iff [simp]: "get_chars d i n = None \<longleftrightarrow> length d < i + n"
  by (auto simp: get_chars_def)

subsection \<open>Clocks\<close>

text \<open>
  \<open>std::chrono::duration_cast<std::chrono::seconds>\<close> truncates towards zero.
\<close>

definition sec :: time where
  "sec = 1000000000"

definition in_seconds :: "time \<Rightarrow> int" where
  "in_seconds d = (if 0 \<le> d then d div sec else - ((- d) div sec))"

lemma in_seconds_le_iff: "0 \<le> k \<Longrightarrow> in_seconds d > k \<longleftrightarrow> d \<ge> (k + 1) * sec"
proof -
  assume k: "0 \<le> k"
  show ?thesis
  proof (cases "0 \<le> d")
    case True
    then have "in_seconds d = d div sec" by (simp add: in_seconds_def)
    moreover have "d div sec > k \<longleftrightarrow> d \<ge> (k + 1) * sec"
      by (auto simp: sec_def)
    ultimately show ?thesis by simp
  next
    case False
    then have "0 \<le> (- d) div sec"
      by (intro pos_imp_zdiv_nonneg_iff [THEN iffD2]) (auto simp: sec_def)
    with False k have "\<not> in_seconds d > k" by (auto simp: in_seconds_def)
    moreover have "\<not> d \<ge> (k + 1) * sec"
    proof
      assume "(k + 1) * sec \<le> d"
      moreover have "0 \<le> (k + 1) * sec" using k by (simp add: sec_def)
      ultimately show False using False by linarith
    qed
    ultimately show ?thesis by simp
  qed
qed

subsection \<open>Lists and options\<close>

lemma bind_Some_iff: "Option.bind m f = Some y \<longleftrightarrow> (\<exists>x. m = Some x \<and> f x = Some y)"
  by (cases m) auto

lemma bind_None_iff: "Option.bind m f = None \<longleftrightarrow> m = None \<or> (\<exists>x. m = Some x \<and> f x = None)"
  by (cases m) auto

lemma take_length_append [simp]: "take (length xs) (xs @ ys) = xs"
  by simp

lemma unat_u32_lt: "unat (w :: u32) < 2 ^ 32"
  using unsigned_less [of w] by simp

lemma unat_of_nat_u32: "n < 2 ^ 32 \<Longrightarrow> unat (of_nat n :: u32) = n"
  by (simp add: unat_of_nat)

end
