(* ===== verification/Buffer.thy ===== *)
theory Buffer
  imports Prelude
begin

text \<open>
  \<open>network::TMP_BUFFER\<close> (\<open>Source/Raw/Network/buffer.h\<close>, \<open>buffer.cpp\<close>), the write buffer
  every outgoing packet is assembled in, with \<open>str_copy\<close>, and \<open>advance_cursor\<close> of
  \<open>common.h\<close>. The buffer's sizes are \<open>TSIZE\<close>, 32-bit words, so \<open>needSpace\<close> can wrap; a
  write that would then run past the vector is the undefined result \<open>None\<close>.

  The interface the packet builders use is the locale \<open>byte_sink\<close>: writing appends, and
  what was written can be read back. It is interpreted on \<open>TMP_BUFFER\<close> here.
\<close>

subsection \<open>The interface: an append-only sink of bytes\<close>

locale byte_sink =
  fixes put :: "bytes \<Rightarrow> 'b \<Rightarrow> 'b option"
    and contents :: "'b \<Rightarrow> bytes"
    and invar :: "'b \<Rightarrow> bool"
    and room :: nat
  assumes put_ok: "invar b \<Longrightarrow> length (contents b) + length src < room \<Longrightarrow>
      \<exists>b'. put src b = Some b' \<and> invar b' \<and> contents b' = contents b @ src"
begin

primrec puts :: "bytes list \<Rightarrow> 'b \<Rightarrow> 'b option" where
  "puts [] b = Some b"
| "puts (x # xs) b = Option.bind (put x b) (puts xs)"

lemma puts_ok:
  "invar b \<Longrightarrow> length (contents b) + length (concat xs) < room \<Longrightarrow>
   \<exists>b'. puts xs b = Some b' \<and> invar b' \<and> contents b' = contents b @ concat xs"
proof (induction xs arbitrary: b)
  case Nil
  then show ?case by simp
next
  case (Cons x xs)
  from Cons.prems have "length (contents b) + length x < room" by simp
  from put_ok [OF Cons.prems(1) this] obtain b1 where
    b1: "put x b = Some b1" "invar b1" "contents b1 = contents b @ x" by blast
  with Cons.prems have "length (contents b1) + length (concat xs) < room" by simp
  from Cons.IH [OF b1(2) this] b1 show ?case by auto
qed

end

subsection \<open>\<open>TMP_BUFFER\<close>\<close>

record TMP_BUFFER =
  v_data :: bytes
  m_pos :: u32

definition TMP_BUFFER_new :: "u32 \<Rightarrow> TMP_BUFFER" where
  "TMP_BUFFER_new n = \<lparr>v_data = replicate (unat n) 0, m_pos = 0\<rparr>"

text \<open>The write position is not reset, as in the source.\<close>

definition clear_and_resize :: "u32 \<Rightarrow> TMP_BUFFER \<Rightarrow> TMP_BUFFER" where
  "clear_and_resize n b = b\<lparr>v_data := replicate (unat n) 0\<rparr>"

text \<open>\<open>std::vector::resize\<close>, growing with zeros or cutting the tail.\<close>

definition resize :: "nat \<Rightarrow> bytes \<Rightarrow> bytes" where
  "resize n v = take n v @ replicate (n - length v) 0"

lemma length_resize [simp]: "length (resize n v) = n"
  by (simp add: resize_def)

text \<open>
  \<open>write(_data, _size)\<close>: \<open>src\<close> is the memory \<open>_data\<close> points to. Reading past its end, or
  copying past the end of the vector, is \<open>None\<close>.
\<close>

definition buf_write :: "bytes \<Rightarrow> u32 \<Rightarrow> TMP_BUFFER \<Rightarrow> TMP_BUFFER option" where
  "buf_write src n b =
     (let needSpace = m_pos b + n;
          v = (if length (v_data b) < unat needSpace
               then resize (unat needSpace) (v_data b) else v_data b);
          p = unat (m_pos b)
      in if unat n \<le> length src \<and> p + unat n \<le> length v
         then Some (b\<lparr>v_data := take p v @ take (unat n) src @ drop (p + unat n) v,
                      m_pos := needSpace\<rparr>)
         else None)"

definition buf_get :: "TMP_BUFFER \<Rightarrow> bytes" where
  "buf_get b = v_data b"

text \<open>
  \<open>str_copy\<close>: \<open>snprintf(buffer, size, "%s", data)\<close>, at most \<open>size - 1\<close> characters and a
  NUL; the rest of the array is left as it was.
\<close>

definition str_copy :: "bytes \<Rightarrow> nat \<Rightarrow> bytes \<Rightarrow> bytes" where
  "str_copy buffer sz data =
     (if sz = 0 then buffer
      else let w = take (sz - 1) (cstr data) @ [0] in w @ drop (length w) buffer)"

lemma length_str_copy [wire_len]:
  "sz \<le> length buffer \<Longrightarrow> length (str_copy buffer sz data) = length buffer"
  by (auto simp: str_copy_def Let_def min_def)

text \<open>The destination always ends up NUL-terminated inside its \<open>sz\<close> bytes.\<close>

lemma str_copy_terminated:
  assumes "0 < sz"
  shows "cstr (str_copy buffer sz data) = take (sz - 1) (cstr data)"
proof -
  have "0 \<notin> set (take (sz - 1) (cstr data))"
    by (meson in_set_takeD zero_notin_cstr)
  then show ?thesis
    using assms by (simp add: str_copy_def Let_def cstr_append_nul)
qed

lemma str_copy_Some: "0 < sz \<Longrightarrow> 0 \<in> set (str_copy buffer sz data)"
  by (simp add: str_copy_def Let_def)

subsection \<open>\<open>TMP_BUFFER\<close> as a sink\<close>

definition buf_contents :: "TMP_BUFFER \<Rightarrow> bytes" where
  "buf_contents b = take (unat (m_pos b)) (v_data b)"

definition buf_invar :: "TMP_BUFFER \<Rightarrow> bool" where
  "buf_invar b \<longleftrightarrow> unat (m_pos b) \<le> length (v_data b)"

definition buf_put :: "bytes \<Rightarrow> TMP_BUFFER \<Rightarrow> TMP_BUFFER option" where
  "buf_put src b = buf_write src (of_nat (length src)) b"

lemma unat_add_u32: "unat (a :: u32) + unat b < 2 ^ 32 \<Longrightarrow> unat (a + b) = unat a + unat b"
  by (simp add: unat_word_ariths)

lemma buf_write_ok:
  assumes inv: "buf_invar b" and src: "unat n \<le> length src"
    and fits: "unat (m_pos b) + unat n < 2 ^ 32"
  shows "buf_write src n b =
     Some (b\<lparr>v_data := buf_contents b @ take (unat n) src
                @ drop (unat (m_pos b) + unat n) (v_data b),
            m_pos := m_pos b + n\<rparr>)"
proof -
  have need: "unat (m_pos b + n) = unat (m_pos b) + unat n"
    using fits by (rule unat_add_u32)
  show ?thesis
    using inv src
    by (auto simp: buf_write_def Let_def need buf_contents_def buf_invar_def resize_def)
qed

interpretation tmpbuf: byte_sink buf_put buf_contents buf_invar "2 ^ 32"
proof unfold_locales
  fix b :: TMP_BUFFER and src :: bytes
  assume inv: "buf_invar b"
    and fits: "length (buf_contents b) + length src < 2 ^ 32"
  from inv have len: "length (buf_contents b) = unat (m_pos b)"
    by (simp add: buf_contents_def buf_invar_def)
  have n: "unat (of_nat (length src) :: u32) = length src"
    using fits by (intro unat_of_nat_u32) simp
  have fits': "unat (m_pos b) + length src < 2 ^ 32"
    using fits len by simp
  then have pos: "unat (m_pos b + of_nat (length src)) = unat (m_pos b) + length src"
    using unat_add_u32 [of "m_pos b" "of_nat (length src)"] n by simp
  from buf_write_ok [OF inv, of "of_nat (length src)" src] n fits'
  have w: "buf_put src b =
      Some (b\<lparr>v_data := buf_contents b @ src @ drop (unat (m_pos b) + length src) (v_data b),
             m_pos := m_pos b + of_nat (length src)\<rparr>)"
    by (simp add: buf_put_def)
  show "\<exists>b'. buf_put src b = Some b' \<and> buf_invar b' \<and> buf_contents b' = buf_contents b @ src"
    unfolding w using len pos by (simp add: buf_invar_def buf_contents_def)
qed

subsection \<open>Assembling a packet\<close>

text \<open>
  The idiom of every \<open>send*\<close> function: \<open>TMP_BUFFER buf(n); buf.write(p1, n1); \<dots>;
  buf.get()\<close>.
\<close>

primrec write_all :: "(bytes \<times> u32) list \<Rightarrow> TMP_BUFFER \<Rightarrow> TMP_BUFFER option" where
  "write_all [] b = Some b"
| "write_all (p # ps) b = Option.bind (buf_write (fst p) (snd p) b) (write_all ps)"

definition pack :: "u32 \<Rightarrow> (bytes \<times> u32) list \<Rightarrow> bytes option" where
  "pack n ps = map_option buf_get (write_all ps (TMP_BUFFER_new n))"

definition exact :: "bytes \<times> u32 \<Rightarrow> bool" where
  "exact p \<longleftrightarrow> unat (snd p) = length (fst p)"

lemma write_all_exact:
  "buf_invar b \<Longrightarrow> \<forall>p \<in> set ps. exact p \<Longrightarrow>
   unat (m_pos b) + length (concat (map fst ps)) < 2 ^ 32 \<Longrightarrow>
   \<exists>b'. write_all ps b = Some b' \<and> buf_invar b' \<and>
        buf_get b' = buf_contents b @ concat (map fst ps)
          @ drop (unat (m_pos b) + length (concat (map fst ps))) (v_data b)"
proof (induction ps arbitrary: b)
  case Nil
  then show ?case by (simp add: buf_get_def buf_contents_def)
next
  case (Cons p ps)
  obtain src n where p: "p = (src, n)" by (cases p)
  from Cons.prems(2) p have n: "unat n = length src" by (simp add: exact_def)
  from Cons.prems(3) p have fits: "unat (m_pos b) + unat n < 2 ^ 32" by (simp add: n)
  let ?b = "b\<lparr>v_data := buf_contents b @ src @ drop (unat (m_pos b) + unat n) (v_data b),
             m_pos := m_pos b + n\<rparr>"
  have w: "buf_write src n b = Some ?b"
    using buf_write_ok [OF Cons.prems(1) _ fits, of src] n by simp
  have pos: "unat (m_pos ?b) = unat (m_pos b) + length src"
    using unat_add_u32 [OF fits] n by simp
  have lc: "length (buf_contents b) = unat (m_pos b)"
    using Cons.prems(1) by (simp add: buf_contents_def buf_invar_def)
  have inv: "buf_invar ?b" using pos lc n by (simp add: buf_invar_def)
  have cont: "buf_contents ?b = buf_contents b @ src"
    using pos lc n by (simp add: buf_contents_def)
  have "unat (m_pos ?b) + length (concat (map fst ps)) < 2 ^ 32"
    using Cons.prems(3) p pos by simp
  from Cons.IH [OF inv _ this] Cons.prems(2) obtain b' where
    b': "write_all ps ?b = Some b'" "buf_invar b'"
        "buf_get b' = buf_contents ?b @ concat (map fst ps)
           @ drop (unat (m_pos ?b) + length (concat (map fst ps))) (v_data ?b)"
    by auto
  have "drop (unat (m_pos ?b) + length (concat (map fst ps))) (v_data ?b) =
        drop (unat (m_pos b) + length (concat (map fst (p # ps)))) (v_data b)"
    using pos lc n p by (simp add: ac_simps)
  with b' w cont p show ?case by simp
qed

theorem pack_exact:
  assumes "\<forall>p \<in> set ps. exact p" and "length (concat (map fst ps)) < 2 ^ 32"
  shows "pack n ps = Some (concat (map fst ps)
           @ replicate (unat n - length (concat (map fst ps))) 0)"
proof -
  have inv: "buf_invar (TMP_BUFFER_new n)"
    by (simp add: buf_invar_def TMP_BUFFER_new_def)
  from write_all_exact [OF inv assms(1)] assms(2) obtain b' where
    "write_all ps (TMP_BUFFER_new n) = Some b'"
    "buf_get b' = concat (map fst ps)
       @ drop (length (concat (map fst ps))) (replicate (unat n) 0)"
    by (auto simp: TMP_BUFFER_new_def buf_contents_def)
  then show ?thesis by (simp add: pack_def)
qed

corollary pack_full:
  "\<lbrakk>\<forall>p \<in> set ps. exact p; unat n = length (concat (map fst ps))\<rbrakk> \<Longrightarrow>
   pack n ps = Some (concat (map fst ps))"
  using pack_exact [of ps n] unat_u32_lt [of n] by simp

subsection \<open>\<open>advance_cursor\<close>\<close>

text \<open>
  The cursor and the end are offsets into one received buffer. \<open>None\<close>: the function
  returned false and the cursor did not move.
\<close>

definition advance_cursor :: "nat \<Rightarrow> nat \<Rightarrow> nat \<Rightarrow> nat option" where
  "advance_cursor cursor advance data_end =
     (if cursor + advance > data_end then None else Some (cursor + advance))"

lemma advance_cursor_bound: "advance_cursor c n e = Some c' \<Longrightarrow> c' \<le> e \<and> c' = c + n"
  by (auto simp: advance_cursor_def split: if_splits)

end
