(* ===== verification/Flag_Wrapper.thy ===== *)
theory Flag_Wrapper
  imports Prelude
begin

text \<open>
  \<open>NUtility::CFlagWrapper\<close> (\<open>Source/Core/Utility/flag_wrapper.h\<close>): a 32-bit set of flags.
  The abstract view is the set of the bit positions that are on; each operation is a set
  operation there.
\<close>

record CFlagWrapper =
  m_flags :: u32

definition CFlagWrapper_new :: "u32 \<Rightarrow> CFlagWrapper" where
  "CFlagWrapper_new flags = \<lparr>m_flags = flags\<rparr>"

definition GetFlags :: "CFlagWrapper \<Rightarrow> u32" where
  "GetFlags w = m_flags w"

definition AddFlag :: "u32 \<Rightarrow> CFlagWrapper \<Rightarrow> CFlagWrapper" where
  "AddFlag flag w = w\<lparr>m_flags := m_flags w OR flag\<rparr>"

definition AddFlags :: "CFlagWrapper \<Rightarrow> CFlagWrapper \<Rightarrow> CFlagWrapper" where
  "AddFlags other w = w\<lparr>m_flags := m_flags w OR GetFlags other\<rparr>"

definition RemoveFlag :: "u32 \<Rightarrow> CFlagWrapper \<Rightarrow> CFlagWrapper" where
  "RemoveFlag flag w = w\<lparr>m_flags := m_flags w AND NOT flag\<rparr>"

definition RemoveFlags :: "CFlagWrapper \<Rightarrow> CFlagWrapper \<Rightarrow> CFlagWrapper" where
  "RemoveFlags other w = w\<lparr>m_flags := m_flags w AND NOT (GetFlags other)\<rparr>"

definition HasFlag :: "CFlagWrapper \<Rightarrow> u32 \<Rightarrow> bool" where
  "HasFlag w flag \<longleftrightarrow> (m_flags w AND flag) \<noteq> 0"

definition Clear_flags :: "CFlagWrapper \<Rightarrow> CFlagWrapper" where
  "Clear_flags w = w\<lparr>m_flags := 0\<rparr>"

text \<open>\<open>SetFlags\<close> and \<open>operator=(uint32_t)\<close>.\<close>

definition SetFlags :: "u32 \<Rightarrow> CFlagWrapper \<Rightarrow> CFlagWrapper" where
  "SetFlags flags w = w\<lparr>m_flags := flags\<rparr>"

definition ToggleFlag :: "u32 \<Rightarrow> CFlagWrapper \<Rightarrow> CFlagWrapper" where
  "ToggleFlag flag w = w\<lparr>m_flags := m_flags w XOR flag\<rparr>"

subsection \<open>The set of bits\<close>

definition bits :: "u32 \<Rightarrow> nat set" where
  "bits w = {n. bit w n}"

abbreviation flag_bits :: "CFlagWrapper \<Rightarrow> nat set" where
  "flag_bits w \<equiv> bits (m_flags w)"

lemma bits_inject: "bits v = bits w \<longleftrightarrow> v = w"
  by (metis bits_def bit_eqI mem_Collect_eq)

lemma bits_0 [simp]: "bits 0 = {}"
  by (simp add: bits_def)

lemma bits_empty_iff [simp]: "bits w = {} \<longleftrightarrow> w = 0"
  using bits_inject [of w 0] by simp

lemma bits_or [simp]: "bits (v OR w) = bits v \<union> bits w"
  and bits_and [simp]: "bits (v AND w) = bits v \<inter> bits w"
  and bits_xor [simp]: "bits (v XOR w) = (bits v - bits w) \<union> (bits w - bits v)"
  by (auto simp: bits_def bit_simps)

lemma bits_and_not [simp]: "bits (v AND NOT w) = bits v - bits w"
  by (auto simp: bits_def bit_simps dest: bit_imp_le_length)

lemma bits_not: "A \<subseteq> {..<32} \<Longrightarrow> A \<inter> bits (NOT w) = A - bits w"
  by (auto simp: bits_def bit_simps)

lemma bits_bound: "bits w \<subseteq> {..<32}"
  by (auto simp: bits_def dest: bit_imp_le_length)

lemma HasFlag_iff: "HasFlag w f \<longleftrightarrow> flag_bits w \<inter> bits f \<noteq> {}"
  unfolding HasFlag_def by (simp flip: bits_empty_iff)

lemmas flag_ops = AddFlag_def AddFlags_def RemoveFlag_def RemoveFlags_def Clear_flags_def
  SetFlags_def ToggleFlag_def GetFlags_def

lemma HasFlag_0 [simp]: "\<not> HasFlag w 0"
  by (simp add: HasFlag_def)

text \<open>
  The flag word is a set of bit positions: adding is union, removing is difference, toggling is
  symmetric difference, and \<open>HasFlag\<close> of a mask asks for one common bit, not for all of them
  (so it is false for the empty mask).
\<close>

theorem flag_refinement:
  "flag_bits (AddFlag f w) = flag_bits w \<union> bits f \<and>
   flag_bits (AddFlags v w) = flag_bits w \<union> flag_bits v \<and>
   flag_bits (RemoveFlag f w) = flag_bits w - bits f \<and>
   flag_bits (RemoveFlags v w) = flag_bits w - flag_bits v \<and>
   flag_bits (Clear_flags w) = {} \<and>
   flag_bits (SetFlags f w) = bits f \<and>
   flag_bits (ToggleFlag f w) = (flag_bits w - bits f) \<union> (bits f - flag_bits w) \<and>
   (HasFlag w f \<longleftrightarrow> flag_bits w \<inter> bits f \<noteq> {})"
  by (simp add: flag_ops bits_not bits_bound HasFlag_iff)

end
