(* ===== verification/Container.thy ===== *)
theory Container
  imports Prelude
begin

text \<open>
  \<open>improved::Container\<close> (\<open>Source/Core/Utility/container.h\<close>): an index from keys to raw
  pointers beside the vector of \<open>unique_ptr\<close>s that owns the values. The two are kept in
  step by hand in the code, so the model keeps both: a pointer is a number, a fresh one for
  each \<open>make_unique\<close>, and the vector pairs each pointer with the value it owns.

  The abstract view is one partial map from keys to values (\<open>lookup\<close>). \<open>keyed_store\<close> is
  the interface its users rely on, interpreted on \<open>Container\<close> at the end.
\<close>

subsection \<open>The interface: a store of values by key\<close>

locale keyed_store =
  fixes put :: "'k \<Rightarrow> 'v \<Rightarrow> 's \<Rightarrow> bool \<times> 's"
    and del :: "'k \<Rightarrow> 's \<Rightarrow> bool \<times> 's"
    and look :: "'s \<Rightarrow> 'k \<Rightarrow> 'v option"
    and stored :: "'s \<Rightarrow> 'v list"
    and invar :: "'s \<Rightarrow> bool"
  assumes put_fst: "invar s \<Longrightarrow> fst (put k v s) \<longleftrightarrow> look s k = None"
    and put_look: "invar s \<Longrightarrow> look (snd (put k v s)) =
          (if look s k = None then (look s)(k \<mapsto> v) else look s)"
    and put_invar: "invar s \<Longrightarrow> invar (snd (put k v s))"
    and del_fst: "invar s \<Longrightarrow> fst (del k s) \<longleftrightarrow> look s k \<noteq> None"
    and del_look: "invar s \<Longrightarrow> look (snd (del k s)) = (look s)(k := None)"
    and del_invar: "invar s \<Longrightarrow> invar (snd (del k s))"
    and stored_ran: "invar s \<Longrightarrow> set (stored s) = ran (look s)"
begin

text \<open>Deleting a list of keys one after another, whatever each deletion returns.\<close>

definition delete_all :: "'k list \<Rightarrow> 's \<Rightarrow> 's" where
  "delete_all ks s = fold (\<lambda>k s. snd (del k s)) ks s"

lemma delete_all_props:
  "invar s \<Longrightarrow> invar (delete_all ks s) \<and> look (delete_all ks s) = (look s) |` (- set ks)"
proof (induction ks arbitrary: s)
  case Nil
  then show ?case by (simp add: delete_all_def restrict_map_def)
next
  case (Cons k ks)
  have d: "delete_all (k # ks) s = delete_all ks (snd (del k s))"
    by (simp add: delete_all_def)
  from Cons.IH [OF del_invar [OF Cons.prems]] del_look [OF Cons.prems]
  show ?case by (auto simp: d restrict_map_def fun_eq_iff)
qed

text \<open>A property of every stored value survives both operations.\<close>

lemma put_stored: "invar s \<Longrightarrow> set (stored (snd (put k v s))) \<subseteq> insert v (set (stored s))"
  by (auto simp: stored_ran put_invar put_look ran_def split: if_splits)

lemma del_stored: "invar s \<Longrightarrow> set (stored (snd (del k s))) \<subseteq> set (stored s)"
  by (auto simp: stored_ran del_invar del_look ran_def)

lemma reinsert_after_delete:
  "invar s \<Longrightarrow> fst (put k v (snd (del k s)))"
  by (simp add: put_fst del_invar del_look)

end

subsection \<open>The container\<close>

record ('k, 'v) Container =
  key_map :: "'k \<rightharpoonup> nat"
  vec :: "(nat \<times> 'v) list"
  fresh :: nat

definition Container_new :: "('k, 'v) Container" where
  "Container_new = \<lparr>key_map = Map.empty, vec = [], fresh = 0\<rparr>"

definition Emplace :: "'k \<Rightarrow> 'v \<Rightarrow> ('k, 'v) Container \<Rightarrow> bool \<times> ('k, 'v) Container" where
  "Emplace key v c =
     (if key_map c key \<noteq> None then (False, c)
      else let raw = fresh c in
        (True, c\<lparr>key_map := (key_map c)(key \<mapsto> raw), vec := vec c @ [(raw, v)], fresh := Suc raw\<rparr>))"

text \<open>\<open>FindByKey\<close> returns the pointer; \<open>deref\<close> reads the value it points to.\<close>

definition FindByKey :: "('k, 'v) Container \<Rightarrow> 'k \<Rightarrow> nat option" where
  "FindByKey c key = key_map c key"

definition deref :: "('k, 'v) Container \<Rightarrow> nat \<Rightarrow> 'v option" where
  "deref c p = map_of (vec c) p"

definition lookup :: "('k, 'v) Container \<Rightarrow> 'k \<Rightarrow> 'v option" where
  "lookup c key = Option.bind (FindByKey c key) (deref c)"

text \<open>\<open>vec_.erase(find_if(\<dots>))\<close>: the first entry owned through this pointer goes.\<close>

fun erase_ptr :: "nat \<Rightarrow> (nat \<times> 'v) list \<Rightarrow> (nat \<times> 'v) list" where
  "erase_ptr p [] = []"
| "erase_ptr p (e # es) = (if fst e = p then es else e # erase_ptr p es)"

definition EraseByKey :: "'k \<Rightarrow> ('k, 'v) Container \<Rightarrow> bool \<times> ('k, 'v) Container" where
  "EraseByKey key c =
     (case key_map c key of
        None \<Rightarrow> (False, c)
      | Some p \<Rightarrow>
          let c' = c\<lparr>key_map := (key_map c)(key := None)\<rparr> in
          if p \<notin> fst ` set (vec c) then (False, c')
          else (True, c'\<lparr>vec := erase_ptr p (vec c)\<rparr>))"

definition ForEach :: "('v \<Rightarrow> 'v) \<Rightarrow> ('k, 'v) Container \<Rightarrow> ('k, 'v) Container" where
  "ForEach f c = c\<lparr>vec := map (\<lambda>(p, v). (p, f v)) (vec c)\<rparr>"

definition Size :: "('k, 'v) Container \<Rightarrow> nat" where
  "Size c = length (vec c)"

definition Empty :: "('k, 'v) Container \<Rightarrow> bool" where
  "Empty c \<longleftrightarrow> vec c = []"

definition Clear :: "('k, 'v) Container \<Rightarrow> ('k, 'v) Container" where
  "Clear c = c\<lparr>key_map := Map.empty, vec := []\<rparr>"

definition owned_values :: "('k, 'v) Container \<Rightarrow> 'v list" where
  "owned_values c = map snd (vec c)"

subsection \<open>The invariant\<close>

text \<open>
  Index and vector agree: no pointer is owned or indexed twice, the indexed pointers are
  exactly the owned ones, and the allocator has not handed out \<open>fresh\<close> yet.
\<close>

definition ptrs :: "(nat \<times> 'v) list \<Rightarrow> nat set" where
  "ptrs es = fst ` set es"

definition container_inv :: "('k, 'v) Container \<Rightarrow> bool" where
  "container_inv c \<longleftrightarrow>
     distinct (map fst (vec c)) \<and> inj_on (key_map c) (dom (key_map c)) \<and>
     ran (key_map c) = ptrs (vec c) \<and> (\<forall>p \<in> ptrs (vec c). p < fresh c)"

lemma ptrs_simps [simp]:
  "ptrs [] = {}" "ptrs (e # es) = insert (fst e) (ptrs es)" "ptrs (xs @ ys) = ptrs xs \<union> ptrs ys"
  "ptrs (filter (\<lambda>e. fst e \<noteq> p) es) = ptrs es - {p}"
  by (auto simp: ptrs_def)

lemma ptrs_map_of: "map_of es p = None \<longleftrightarrow> p \<notin> ptrs es"
  by (simp add: ptrs_def map_of_eq_None_iff)

lemma erase_ptr_absent: "p \<notin> ptrs es \<Longrightarrow> erase_ptr p es = es"
  by (induction es) auto

lemma filter_ptr_absent: "p \<notin> ptrs es \<Longrightarrow> filter (\<lambda>e. fst e \<noteq> p) es = es"
  by (induction es) auto

lemma distinct_fst_Cons: "distinct (map fst (e # es)) \<longleftrightarrow> fst e \<notin> ptrs es \<and> distinct (map fst es)"
  by (simp add: ptrs_def)

lemma erase_ptr_filter: "distinct (map fst es) \<Longrightarrow> erase_ptr p es = filter (\<lambda>e. fst e \<noteq> p) es"
proof (induction es)
  case (Cons e es)
  then show ?case
    using filter_ptr_absent [of "fst e" es] by (cases "fst e = p") (auto simp: ptrs_def)
qed simp

lemma map_of_filter_ptr: "map_of (filter (\<lambda>e. fst e \<noteq> p) es) = (map_of es)(p := None)"
  by (induction es) (auto simp: fun_eq_iff)

lemma container_inv_new: "container_inv Container_new"
  by (simp add: container_inv_def Container_new_def)

lemma container_inv_ptr: "container_inv c \<Longrightarrow> key_map c k = Some p \<Longrightarrow> p \<in> ptrs (vec c)"
  unfolding container_inv_def by (metis ranI)

lemma container_inv_inj:
  "container_inv c \<Longrightarrow> key_map c k = Some p \<Longrightarrow> key_map c k' = Some p \<Longrightarrow> k' = k"
  unfolding container_inv_def by (metis domI inj_onD)

lemma lookup_unfold: "lookup c k = Option.bind (key_map c k) (map_of (vec c))"
  by (cases "key_map c k") (simp_all add: lookup_def FindByKey_def deref_def)

lemma lookup_None_iff: "container_inv c \<Longrightarrow> lookup c k = None \<longleftrightarrow> key_map c k = None"
  using container_inv_ptr [of c k]
  by (cases "key_map c k") (auto simp: lookup_unfold ptrs_map_of)

lemma Emplace_inv: 
  assumes inv: "container_inv c"
  shows "container_inv (snd (Emplace k v c))"
proof (cases "key_map c k")
  case None
  have fr: "fresh c \<notin> ptrs (vec c)" using inv by (auto simp: container_inv_def)
  have "inj_on ((key_map c)(k \<mapsto> fresh c)) (insert k (dom (key_map c)))"
  proof (rule inj_onI)
    fix x y
    assume xy: "x \<in> insert k (dom (key_map c))" "y \<in> insert k (dom (key_map c))"
      and eq: "((key_map c)(k \<mapsto> fresh c)) x = ((key_map c)(k \<mapsto> fresh c)) y"
    have ne: "key_map c z \<noteq> Some (fresh c)" for z
      using container_inv_ptr [OF inv, of z "fresh c"] fr by blast
    show "x = y"
      using xy eq ne container_inv_inj [OF inv] by (auto split: if_splits)
  qed
  moreover have "distinct (map fst (vec c) @ [fresh c])"
    using inv fr by (simp add: container_inv_def ptrs_def)
  moreover have "ran ((key_map c)(k \<mapsto> fresh c)) = insert (fresh c) (ran (key_map c))"
    using None by simp
  ultimately show ?thesis
    using inv None by (auto simp: container_inv_def Emplace_def Let_def less_Suc_eq)
next
  case (Some p)
  then show ?thesis using inv by (simp add: Emplace_def)
qed

lemma Emplace_lookup:
  assumes inv: "container_inv c"
  shows "lookup (snd (Emplace k v c)) =
    (if lookup c k = None then (lookup c)(k \<mapsto> v) else lookup c)"
proof (cases "key_map c k")
  case None
  have fr: "fresh c \<notin> ptrs (vec c)" using inv by (auto simp: container_inv_def)
  then have nf: "map_of (vec c) (fresh c) = None" by (simp add: ptrs_map_of)
  have "lookup (snd (Emplace k v c)) k' = ((lookup c)(k \<mapsto> v)) k'" for k'
  proof (cases "k' = k")
    case True
    then show ?thesis
      using None nf by (simp add: lookup_unfold Emplace_def Let_def map_add_def)
  next
    case False
    show ?thesis
    proof (cases "key_map c k'")
      case None
      then show ?thesis
        using False \<open>key_map c k = None\<close> by (simp add: lookup_unfold Emplace_def Let_def)
    next
      case (Some p)
      then have "p \<noteq> fresh c" using container_inv_ptr [OF inv Some] fr by blast
      then show ?thesis
        using False Some \<open>key_map c k = None\<close>
        by (simp add: lookup_unfold Emplace_def Let_def map_add_def split: option.split)
    qed
  qed
  then have "lookup (snd (Emplace k v c)) = (lookup c)(k \<mapsto> v)" by blast
  then show ?thesis using None lookup_None_iff [OF inv, of k] by simp
next
  case (Some p)
  then have "lookup c k \<noteq> None" using lookup_None_iff [OF inv, of k] by simp
  then show ?thesis using Some by (simp only: Emplace_def) simp
qed

lemma EraseByKey_eq:
  assumes inv: "container_inv c"
  shows "EraseByKey k c =
    (case key_map c k of None \<Rightarrow> (False, c)
     | Some p \<Rightarrow> (True, c\<lparr>key_map := (key_map c)(k := None),
                        vec := filter (\<lambda>e. fst e \<noteq> p) (vec c)\<rparr>))"
proof (cases "key_map c k")
  case (Some p)
  have "p \<in> fst ` set (vec c)" using container_inv_ptr [OF inv Some] by (simp add: ptrs_def)
  moreover have "erase_ptr p (vec c) = filter (\<lambda>e. fst e \<noteq> p) (vec c)"
    using inv by (intro erase_ptr_filter) (simp add: container_inv_def)
  ultimately show ?thesis using Some by (simp add: EraseByKey_def Let_def)
qed (simp add: EraseByKey_def)

lemma EraseByKey_inv:
  assumes inv: "container_inv c"
  shows "container_inv (snd (EraseByKey k c))"
proof (cases "key_map c k")
  case None
  then show ?thesis using inv by (simp add: EraseByKey_def)
next
  case (Some p)
  have "ran ((key_map c)(k := None)) = ran (key_map c) - {p}"
  proof (rule set_eqI)
    fix y
    have only: "a = k" if "key_map c a = Some p" for a
      using container_inv_inj [OF inv Some that] .
    have "y \<in> ran ((key_map c)(k := None)) \<longleftrightarrow> (\<exists>a. a \<noteq> k \<and> key_map c a = Some y)"
      unfolding ran_def fun_upd_def by (simp add: conj_commute) (metis option.distinct(1))
    also have "\<dots> \<longleftrightarrow> y \<in> ran (key_map c) \<and> y \<noteq> p"
      unfolding ran_def mem_Collect_eq by (metis Some only option.inject)
    finally show "y \<in> ran ((key_map c)(k := None)) \<longleftrightarrow> y \<in> ran (key_map c) - {p}" by simp
  qed
  moreover have "inj_on ((key_map c)(k := None)) (dom (key_map c) - {k})"
  proof (rule inj_onI)
    fix x y
    assume xy: "x \<in> dom (key_map c) - {k}" "y \<in> dom (key_map c) - {k}"
      and "((key_map c)(k := None)) x = ((key_map c)(k := None)) y"
    then have eq: "key_map c x = key_map c y" by simp
    from xy obtain q where q: "key_map c x = Some q" by blast
    from container_inv_inj [OF inv _ q] eq q show "x = y" by metis
  qed
  moreover have "distinct (map fst (filter (\<lambda>e. fst e \<noteq> p) (vec c)))"
    using inv by (simp add: container_inv_def distinct_map_filter)
  ultimately show ?thesis
    using inv Some by (simp add: EraseByKey_eq [OF inv] container_inv_def)
qed

lemma EraseByKey_lookup:
  assumes inv: "container_inv c"
  shows "lookup (snd (EraseByKey k c)) = (lookup c)(k := None)"
proof (cases "key_map c k")
  case None
  then have "lookup c k = None" using lookup_None_iff [OF inv] by simp
  then have "(lookup c)(k := None) = lookup c" by (simp add: fun_upd_idem)
  then show ?thesis using None by (simp add: EraseByKey_def)
next
  case (Some p)
  show ?thesis
  proof
    fix k'
    have other: "q \<noteq> p" if "key_map c k' = Some q" "k' \<noteq> k" for q
      using container_inv_inj [OF inv Some] that by blast
    show "lookup (snd (EraseByKey k c)) k' = ((lookup c)(k := None)) k'"
      using Some other
      by (cases "key_map c k'") (simp_all add: EraseByKey_eq [OF inv] lookup_unfold map_of_filter_ptr)
  qed
qed

lemma owned_lookup:
  assumes inv: "container_inv c"
  shows "set (owned_values c) = ran (lookup c)"
proof
  show "set (owned_values c) \<subseteq> ran (lookup c)"
  proof
    fix v
    assume "v \<in> set (owned_values c)"
    then obtain p where p: "(p, v) \<in> set (vec c)" by (auto simp: owned_values_def)
    then have "p \<in> ran (key_map c)" using inv by (force simp: container_inv_def ptrs_def)
    then obtain k where "key_map c k = Some p" by (auto simp: ran_def)
    moreover have "map_of (vec c) p = Some v"
      using p inv by (simp add: container_inv_def)
    ultimately have "lookup c k = Some v" by (simp add: lookup_unfold)
    then show "v \<in> ran (lookup c)" by (auto simp: ran_def)
  qed
next
  show "ran (lookup c) \<subseteq> set (owned_values c)"
  proof
    fix v
    assume "v \<in> ran (lookup c)"
    then obtain k p where "key_map c k = Some p" "map_of (vec c) p = Some v"
      by (auto simp: ran_def lookup_unfold bind_Some_iff)
    then have "(p, v) \<in> set (vec c)" by (simp add: map_of_SomeD)
    then show "v \<in> set (owned_values c)" unfolding owned_values_def by force
  qed
qed

interpretation cont: keyed_store Emplace EraseByKey lookup owned_values container_inv
proof unfold_locales
  fix s :: "('a, 'b) Container" and k v
  assume inv: "container_inv s"
  show "fst (Emplace k v s) \<longleftrightarrow> lookup s k = None"
    using lookup_None_iff [OF inv, of k] by (auto simp: Emplace_def Let_def)
  show "lookup (snd (Emplace k v s)) =
      (if lookup s k = None then (lookup s)(k \<mapsto> v) else lookup s)"
    by (rule Emplace_lookup [OF inv])
  show "container_inv (snd (Emplace k v s))" by (rule Emplace_inv [OF inv])
  show "fst (EraseByKey k s) \<longleftrightarrow> lookup s k \<noteq> None"
    using lookup_None_iff [OF inv, of k] by (auto simp: EraseByKey_eq [OF inv] split: option.splits)
  show "lookup (snd (EraseByKey k s)) = (lookup s)(k := None)"
    by (rule EraseByKey_lookup [OF inv])
  show "container_inv (snd (EraseByKey k s))" by (rule EraseByKey_inv [OF inv])
  show "set (owned_values s) = ran (lookup s)" by (rule owned_lookup [OF inv])
qed

lemma ForEach_refines:
  fixes c :: "('k, 'v) Container"
  assumes inv: "container_inv c"
  shows "container_inv (ForEach f c) \<and> lookup (ForEach f c) = (\<lambda>k. map_option f (lookup c k))"
proof -
  have fsts: "map fst (map (\<lambda>(p, v). (p, f v)) es) = map fst es" for es :: "(nat \<times> 'v) list"
    by (induction es) auto
  have mo: "map_of (map (\<lambda>(p, v). (p, f v)) es) p = map_option f (map_of es p)"
    for es :: "(nat \<times> 'v) list" and p
    by (induction es) auto
  have "lookup (ForEach f c) k = map_option f (lookup c k)" for k
    by (cases "key_map c k") (simp_all add: lookup_unfold ForEach_def mo)
  moreover have "ptrs (map (\<lambda>(p, v). (p, f v)) (vec c)) = ptrs (vec c)"
    unfolding ptrs_def by (force simp: image_def)
  then have "container_inv (ForEach f c)"
    using inv by (simp add: container_inv_def ForEach_def fsts del: map_map list.map_comp)
  ultimately show ?thesis by blast
qed

lemma Clear_refines: "container_inv (Clear c) \<and> lookup (Clear c) = Map.empty"
  by (auto simp: container_inv_def Clear_def lookup_unfold)

text \<open>The number of elements is the number of keys.\<close>

lemma Size_card:
  assumes inv: "container_inv c"
  shows "Size c = card (dom (key_map c))"
proof -
  have "card (dom (key_map c)) = card (key_map c ` dom (key_map c))"
    using inv by (simp add: container_inv_def card_image)
  also have "key_map c ` dom (key_map c) = Some ` ran (key_map c)"
    by (force simp: ran_def dom_def image_def)
  also have "card (Some ` ran (key_map c)) = card (ran (key_map c))"
    by (simp add: card_image)
  also have "\<dots> = card (set (map fst (vec c)))"
    using inv by (simp add: container_inv_def ptrs_def)
  also have "\<dots> = length (vec c)"
    using inv distinct_card [of "map fst (vec c)"] by (simp only: container_inv_def length_map)
  finally show ?thesis by (simp add: Size_def)
qed

subsection \<open>Refinement\<close>

text \<open>Sequences of calls, on the container and on a plain map.\<close>

datatype ('k, 'v) cop = OpEmplace 'k 'v | OpErase 'k | OpForEach "'v \<Rightarrow> 'v" | OpClear

fun c_op :: "('k, 'v) cop \<Rightarrow> ('k, 'v) Container \<Rightarrow> bool \<times> ('k, 'v) Container" where
  "c_op (OpEmplace k v) c = Emplace k v c"
| "c_op (OpErase k) c = EraseByKey k c"
| "c_op (OpForEach f) c = (True, ForEach f c)"
| "c_op OpClear c = (True, Clear c)"

fun m_op :: "('k, 'v) cop \<Rightarrow> ('k \<rightharpoonup> 'v) \<Rightarrow> bool \<times> ('k \<rightharpoonup> 'v)" where
  "m_op (OpEmplace k v) m = (if m k = None then (True, m(k \<mapsto> v)) else (False, m))"
| "m_op (OpErase k) m = (m k \<noteq> None, m(k := None))"
| "m_op (OpForEach f) m = (True, \<lambda>k. map_option f (m k))"
| "m_op OpClear m = (True, Map.empty)"

fun run_ops :: "('o \<Rightarrow> 's \<Rightarrow> bool \<times> 's) \<Rightarrow> 'o list \<Rightarrow> 's \<Rightarrow> bool list \<times> 's" where
  "run_ops f [] s = ([], s)"
| "run_ops f (x # xs) s =
     (let (b, s) = f x s; (bs, s) = run_ops f xs s in (b # bs, s))"

lemma c_op_refines:
  assumes "container_inv c"
  shows "container_inv (snd (c_op x c)) \<and> fst (c_op x c) = fst (m_op x (lookup c)) \<and>
    lookup (snd (c_op x c)) = snd (m_op x (lookup c))"
  using assms ForEach_refines [OF assms] Clear_refines [of c]
  by (cases x) (auto simp: cont.put_fst cont.put_look cont.put_invar cont.del_fst cont.del_look
      cont.del_invar)

lemma run_ops_refines:
  "container_inv c \<Longrightarrow>
   container_inv (snd (run_ops c_op xs c)) \<and>
   fst (run_ops c_op xs c) = fst (run_ops m_op xs (lookup c)) \<and>
   lookup (snd (run_ops c_op xs c)) = snd (run_ops m_op xs (lookup c))"
proof (induction xs arbitrary: c)
  case (Cons x xs)
  have "container_inv (snd (c_op x c))" and r: "fst (c_op x c) = fst (m_op x (lookup c))"
    "lookup (snd (c_op x c)) = snd (m_op x (lookup c))"
    using c_op_refines [OF Cons.prems] by blast+
  from Cons.IH [OF this(1)] r show ?case
    by (simp add: Let_def case_prod_beta)
qed simp

text \<open>
  C24. \<open>Container\<close> refines a map: whatever sequence of insertions, deletions, updates and clearings is
  made on a fresh container, every call returns what it would return on the map, look-ups
  agree with the map, index and vector stay in step, and the stored values are the map's.
\<close>

theorem container_refinement:
  "let c = snd (run_ops c_op xs Container_new); m = snd (run_ops m_op xs Map.empty)
   in fst (run_ops c_op xs Container_new) = fst (run_ops m_op xs Map.empty) \<and>
      lookup c = m \<and> container_inv c \<and> set (owned_values c) = ran m \<and>
      Size c = card (dom (key_map c))"
proof -
  have "lookup (Container_new :: ('a, 'b) Container) = Map.empty"
    by (rule ext) (simp add: lookup_unfold Container_new_def)
  then show ?thesis
    using run_ops_refines [OF container_inv_new, of xs]
    by (simp add: Let_def cont.stored_ran Size_card)
qed

end
