(* ===== verification/Bounded_Queue.thy ===== *)
theory Bounded_Queue
  imports Prelude
begin

text \<open>
  Three components keep a queue with an upper bound and drop the oldest element when it is
  full: the socket write queue (\<open>raw_client.cpp\<close>), the pending user messages
  (\<open>message_queue.cpp\<close>) and the packets kept for a reconnection (\<open>unprocessed.cpp\<close>).
  \<open>bounded_fifo\<close> is their common contract; each component's theory interprets it.
\<close>

definition push_drop_oldest :: "nat \<Rightarrow> 'a \<Rightarrow> 'a list \<Rightarrow> 'a list" where
  "push_drop_oldest cap x q = (if cap \<le> length q then tl q else q) @ [x]"

lemma length_push: "0 < cap \<Longrightarrow> length q \<le> cap \<Longrightarrow> length (push_drop_oldest cap x q) \<le> cap"
  by (auto simp: push_drop_oldest_def)

lemma set_push: "set (push_drop_oldest cap x q) \<subseteq> insert x (set q)"
  by (cases q) (auto simp: push_drop_oldest_def)

lemma push_last: "\<exists>pre. push_drop_oldest cap x q = pre @ [x]"
  by (simp add: push_drop_oldest_def)

definition last_n :: "nat \<Rightarrow> 'a list \<Rightarrow> 'a list" where
  "last_n n xs = drop (length xs - n) xs"

lemma length_last_n [simp]: "length (last_n n xs) = min n (length xs)"
  by (simp add: last_n_def)

lemma push_last_n:
  assumes "0 < cap"
  shows "push_drop_oldest cap x (last_n cap xs) = last_n cap (xs @ [x])"
proof (cases "cap \<le> length xs")
  case True
  then have "tl (last_n cap xs) = drop (Suc (length xs) - cap) xs"
    using assms by (simp add: last_n_def tl_drop drop_Suc Suc_diff_le flip: drop_Suc)
  with True assms show ?thesis by (simp add: push_drop_oldest_def last_n_def Suc_diff_le)
next
  case False
  then show ?thesis by (simp add: push_drop_oldest_def last_n_def)
qed

locale bounded_fifo =
  fixes push :: "'a \<Rightarrow> 's \<Rightarrow> 's"
    and items :: "'s \<Rightarrow> 'a list"
    and cap :: nat
  assumes cap_pos: "0 < cap"
    and items_push: "items (push x s) = push_drop_oldest cap x (items s)"
begin

lemma bounded: "length (items s) \<le> cap \<Longrightarrow> length (items (push x s)) \<le> cap"
  by (simp add: items_push length_push cap_pos)

lemma newest_kept: "x \<in> set (items (push x s))"
  by (simp add: items_push push_drop_oldest_def)

lemma nothing_else: "set (items (push x s)) \<subseteq> insert x (set (items s))"
  by (simp add: items_push set_push)

lemma room: "length (items s) < cap \<Longrightarrow> items (push x s) = items s @ [x]"
  by (simp add: items_push push_drop_oldest_def)

text \<open>After any number of pushes the queue holds the newest elements, in order.\<close>

lemma pushes:
  assumes "length (items s) \<le> cap"
  shows "items (fold push xs s) = last_n cap (items s @ xs)"
proof (induction xs rule: rev_induct)
  case Nil
  then show ?case using assms by (simp add: last_n_def)
next
  case (snoc x xs)
  then show ?case by (simp add: items_push push_last_n cap_pos)
qed

end

end
