(* ===== verification/Error_Handler.thy ===== *)
theory Error_Handler
  imports Prelude
begin

text \<open>
  \<open>network::ErrorHandler\<close> (\<open>Source/Raw/Network/error_handler.h\<close>, \<open>error_handler.cpp\<close>): how
  an \<open>error_code\<close> and the name of the failing operation decide the category of the error and
  whether the session is closed. An \<open>error_code\<close> is a category, a value and the text its
  category gives for it; the named codes are the FreeBSD \<open>errno\<close> values. The callback that
  \<open>handleError\<close> invokes is the client's (\<open>Raw_Client\<close>).
\<close>

subsection \<open>Error codes\<close>

datatype ec_category = SystemCat | MiscCat | GenericCat | OtherCat nat

record error_code =
  ec_cat :: ec_category
  ec_value :: int
  ec_message :: bytes

datatype asio_error =
  connection_reset | connection_aborted | network_down | broken_pipe | operation_aborted
| shut_down | eof | connection_refused | timed_out | host_unreachable | network_unreachable
| address_family_not_supported

text \<open>\<open>make_error_code\<close> of \<open>boost::asio::error\<close>.\<close>

fun asio_code :: "asio_error \<Rightarrow> ec_category \<times> int" where
  "asio_code connection_reset = (SystemCat, 54)"
| "asio_code connection_aborted = (SystemCat, 53)"
| "asio_code network_down = (SystemCat, 50)"
| "asio_code broken_pipe = (SystemCat, 32)"
| "asio_code operation_aborted = (SystemCat, 85)"
| "asio_code shut_down = (SystemCat, 58)"
| "asio_code eof = (MiscCat, 2)"
| "asio_code connection_refused = (SystemCat, 61)"
| "asio_code timed_out = (SystemCat, 60)"
| "asio_code host_unreachable = (SystemCat, 65)"
| "asio_code network_unreachable = (SystemCat, 51)"
| "asio_code address_family_not_supported = (SystemCat, 47)"

text \<open>\<open>ec == boost::asio::error::\<dots>\<close>, and \<open>if (ec)\<close>.\<close>

definition is_err :: "error_code \<Rightarrow> asio_error \<Rightarrow> bool" where
  "is_err ec e \<longleftrightarrow> (ec_cat ec, ec_value ec) = asio_code e"

definition failed :: "error_code \<Rightarrow> bool" where
  "failed ec \<longleftrightarrow> ec_value ec \<noteq> 0"

definition no_error :: error_code where
  "no_error = \<lparr>ec_cat = SystemCat, ec_value = 0, ec_message = bytes_of ''No error: 0''\<rparr>"

text \<open>The default argument of \<open>session_handle_error\<close>.\<close>

definition protocol_error :: error_code where
  "protocol_error =
     \<lparr>ec_cat = GenericCat, ec_value = 92, ec_message = bytes_of ''Protocol error''\<rparr>"

definition af_not_supported :: error_code where
  "af_not_supported =
     \<lparr>ec_cat = SystemCat, ec_value = 47,
      ec_message = bytes_of ''Address family not supported by protocol family''\<rparr>"

subsection \<open>\<open>ErrorHandler\<close>\<close>

datatype ErrorCategory = NETWORK | PROTOCOL | VALIDATION | BUSINESS | SYSTEM

datatype CloseType = CloseNone | CloseUser | CloseSystem

record ErrorContext =
  category :: ErrorCategory
  ctx_message :: bytes
  ctx_details :: bytes
  should_close_session :: CloseType
  ctx_ec :: error_code

definition ErrorContext_new :: ErrorContext where
  "ErrorContext_new =
     \<lparr>category = SYSTEM, ctx_message = [], ctx_details = [],
      should_close_session = CloseNone, ctx_ec = no_error\<rparr>"

definition adjustErrorCategory :: "error_code \<Rightarrow> ErrorContext \<Rightarrow> ErrorContext" where
  "adjustErrorCategory ec context =
     (if ec_cat ec = SystemCat then context\<lparr>category := NETWORK\<rparr>
      else if ec_cat ec = MiscCat then context\<lparr>category := PROTOCOL\<rparr>
      else context\<lparr>category := SYSTEM\<rparr>)"

definition adjustShouldCloseSession :: "error_code \<Rightarrow> ErrorContext \<Rightarrow> ErrorContext" where
  "adjustShouldCloseSession ec context =
     (let details = (\<lambda>s. has_substr (bytes_of s) (ctx_details context)) in
      if is_err ec connection_reset \<or> is_err ec connection_aborted \<or> is_err ec network_down \<or>
         is_err ec broken_pipe \<or> is_err ec operation_aborted \<or> is_err ec shut_down
      then context\<lparr>should_close_session := CloseSystem\<rparr>
      else if details ''connection reset'' \<or> details ''connection aborted'' \<or>
              details ''broken pipe'' \<or> details ''operation aborted'' \<or>
              details ''connection was closed''
      then context\<lparr>should_close_session := CloseSystem\<rparr>
      else if has_substr (bytes_of ''critical:'') (ctx_message context)
      then context\<lparr>should_close_session := CloseSystem\<rparr>
      else if is_err ec eof \<or> details ''end of file''
      then context\<lparr>should_close_session := CloseUser\<rparr>
      else if is_err ec connection_refused \<or> is_err ec timed_out \<or>
              is_err ec host_unreachable \<or> is_err ec network_unreachable
      then context\<lparr>should_close_session := CloseNone\<rparr>
      else context\<lparr>should_close_session := CloseNone\<rparr>)"

definition categorizeError :: "error_code \<Rightarrow> bytes \<Rightarrow> ErrorContext" where
  "categorizeError ec operation =
     (let context = ErrorContext_new\<lparr>ctx_message := operation,
                      ctx_details := ec_message ec, ctx_ec := ec\<rparr>
      in adjustShouldCloseSession ec (adjustErrorCategory ec context))"

subsection \<open>What is decided\<close>

definition closes :: "error_code \<Rightarrow> bytes \<Rightarrow> CloseType" where
  "closes ec operation = should_close_session (categorizeError ec operation)"

text \<open>The codes of a connection that is gone.\<close>

definition lost_codes :: "asio_error set" where
  "lost_codes = {connection_reset, connection_aborted, network_down, broken_pipe,
     operation_aborted, shut_down}"

definition lost_texts :: "bytes set" where
  "lost_texts = {bytes_of ''connection reset'', bytes_of ''connection aborted'',
     bytes_of ''broken pipe'', bytes_of ''operation aborted'',
     bytes_of ''connection was closed''}"

lemma closes_unfold:
  "closes ec operation =
    (if (\<exists>e \<in> lost_codes. is_err ec e) \<or> (\<exists>t \<in> lost_texts. has_substr t (ec_message ec))
        \<or> has_substr (bytes_of ''critical:'') operation then CloseSystem
     else if is_err ec eof \<or> has_substr (bytes_of ''end of file'') (ec_message ec)
     then CloseUser else CloseNone)"
  unfolding closes_def categorizeError_def adjustShouldCloseSession_def adjustErrorCategory_def
    ErrorContext_new_def Let_def lost_codes_def lost_texts_def
  by simp

lemma category_of:
  "category (categorizeError ec operation) =
     (case ec_cat ec of SystemCat \<Rightarrow> NETWORK | MiscCat \<Rightarrow> PROTOCOL | _ \<Rightarrow> SYSTEM)"
  unfolding categorizeError_def adjustShouldCloseSession_def adjustErrorCategory_def
    ErrorContext_new_def Let_def
  by (simp split: ec_category.split)

text \<open>
  The close decision of every error: a lost connection (by code or by text) and every
  operation marked \<open>critical:\<close> close the session as a system error whatever else holds; the
  peer's end of file closes it as the user's; nothing else does. The category depends on the
  category of the code alone.
\<close>

theorem close_decision:
  "(closes ec operation = CloseSystem \<longleftrightarrow>
      (\<exists>e \<in> lost_codes. is_err ec e) \<or> (\<exists>t \<in> lost_texts. has_substr t (ec_message ec))
      \<or> has_substr (bytes_of ''critical:'') operation) \<and>
   (closes ec operation = CloseUser \<longleftrightarrow>
      closes ec operation \<noteq> CloseSystem \<and>
      (is_err ec eof \<or> has_substr (bytes_of ''end of file'') (ec_message ec))) \<and>
   category (categorizeError ec operation) =
     (case ec_cat ec of SystemCat \<Rightarrow> NETWORK | MiscCat \<Rightarrow> PROTOCOL | _ \<Rightarrow> SYSTEM)"
  by (simp add: closes_unfold category_of)

lemma closes_protocol_error:
  "\<not> has_substr (bytes_of ''critical:'') operation \<Longrightarrow> closes protocol_error operation = CloseNone"
  by (simp add: closes_unfold protocol_error_def lost_codes_def lost_texts_def is_err_def
      bytes_of_def)

end
