(* ===== verification/Crypto.thy ===== *)
theory Crypto
  imports Buffer
begin

text \<open>
  \<open>network::CryptoHelper\<close> and \<open>network::KeyExchange\<close> (\<open>Source/Raw/Network/crypto_helper.cpp\<close>,
  \<open>key_exchange.cpp\<close>): the framing \<open>[size][iv][ciphertext]\<close> of an encrypted packet and the
  X25519/HKDF key agreement. OpenSSL is not part of the repository: the calls the code makes
  (through \<open>openssl_compat.h\<close>) are the fields of the parameter \<open>openssl\<close>, and what OpenSSL
  documents about them is the predicate \<open>openssl_ok\<close>. Each draw of the random generator is
  numbered, and the number of draws made is threaded through the operations.
\<close>

subsection \<open>OpenSSL, as the code uses it\<close>

record openssl =
  RAND_bytes :: "nat \<Rightarrow> nat \<Rightarrow> bytes option"
  aes_256_cbc_encrypt :: "bytes \<Rightarrow> bytes \<Rightarrow> bytes \<Rightarrow> bytes option"
  aes_256_cbc_decrypt :: "bytes \<Rightarrow> bytes \<Rightarrow> bytes \<Rightarrow> bytes option"
  x25519_keygen :: "nat \<Rightarrow> bytes option"
  x25519_public :: "bytes \<Rightarrow> bytes option"
  x25519_derive :: "bytes \<Rightarrow> bytes \<Rightarrow> bytes option"
  hkdf_derive :: "bytes \<Rightarrow> bytes \<Rightarrow> bytes \<Rightarrow> nat \<Rightarrow> bytes option"

text \<open>
  The documented behaviour: \<open>RAND_bytes\<close> and HKDF fill the buffer they are given, CBC with
  padding produces whole blocks and at least one, and decryption with the same key and
  initialisation vector restores the plaintext.
\<close>

definition openssl_ok :: "openssl \<Rightarrow> bool" where
  "openssl_ok ssl \<longleftrightarrow>
     (\<forall>n k r. RAND_bytes ssl n k = Some r \<longrightarrow> length r = k) \<and>
     (\<forall>key iv d c. aes_256_cbc_encrypt ssl key iv d = Some c \<longrightarrow>
        length c = 16 * (length d div 16 + 1) \<and> aes_256_cbc_decrypt ssl key iv c = Some d) \<and>
     (\<forall>salt s info n k. hkdf_derive ssl salt s info n = Some k \<longrightarrow> length k = n)"

lemma openssl_okD:
  assumes "openssl_ok ssl"
  shows "RAND_bytes ssl n k = Some r \<Longrightarrow> length r = k"
    and "aes_256_cbc_encrypt ssl key iv d = Some c \<Longrightarrow> length c = 16 * (length d div 16 + 1)"
    and "aes_256_cbc_encrypt ssl key iv d = Some c \<Longrightarrow> aes_256_cbc_decrypt ssl key iv c = Some d"
    and "hkdf_derive ssl salt s info m = Some h \<Longrightarrow> length h = m"
  using assms unfolding openssl_ok_def by blast+

text \<open>The length arguments of the EVP functions are \<open>int\<close>s; a negative one is refused.\<close>

definition evp_arg :: "bytes \<Rightarrow> bytes option" where
  "evp_arg d = (let n = sint (of_nat (length d) :: u32) in
     if n < 0 then None else Some (take (nat n) d))"

lemma evp_arg_small: "length d < 2 ^ 31 \<Longrightarrow> evp_arg d = Some d"
proof -
  assume "length d < 2 ^ 31"
  then have "int (length d) < 2 ^ 31" by simp
  then have "sint (of_nat (length d) :: u32) = int (length d)"
    by (simp add: signed_of_nat signed_take_bit_int_eq_self)
  then show ?thesis by (simp add: evp_arg_def)
qed

subsection \<open>\<open>CryptoHelper\<close>\<close>

definition KEY_SIZE :: nat where "KEY_SIZE = 32"
definition IV_SIZE :: nat where "IV_SIZE = 16"
definition SIZE_SIZE :: nat where "SIZE_SIZE = 4"

record CryptoHelper =
  ch_key :: bytes
  ch_iv :: bytes

definition CryptoHelper_new :: CryptoHelper where
  "CryptoHelper_new = \<lparr>ch_key = [], ch_iv = []\<rparr>"

definition initialize :: "openssl \<Rightarrow> bytes \<Rightarrow> CryptoHelper \<times> nat \<Rightarrow> bool \<times> CryptoHelper \<times> nat" where
  "initialize ssl new_key = (\<lambda>(c, rng).
     if length new_key \<noteq> KEY_SIZE then (False, c, rng)
     else (case RAND_bytes ssl rng IV_SIZE of
             None \<Rightarrow> (False, c\<lparr>ch_key := new_key, ch_iv := resize IV_SIZE (ch_iv c)\<rparr>, Suc rng)
           | Some iv \<Rightarrow> (True, c\<lparr>ch_key := new_key, ch_iv := iv\<rparr>, Suc rng)))"

text \<open>The frame; \<open>TSIZE total_size\<close> is 32 bits wide.\<close>

definition frame :: "bytes \<Rightarrow> bytes \<Rightarrow> bytes" where
  "frame iv encrypted =
     (let total_size = of_nat (IV_SIZE + length encrypted) :: u32
      in le32 total_size @ iv @ encrypted)"

definition encrypt :: "openssl \<Rightarrow> CryptoHelper \<Rightarrow> bytes \<times> nat \<Rightarrow> bool \<times> bytes \<times> nat" where
  "encrypt ssl c = (\<lambda>(data, rng).
     if data = [] then (False, data, rng)
     else (case RAND_bytes ssl rng IV_SIZE of
             None \<Rightarrow> (False, data, Suc rng)
           | Some current_iv \<Rightarrow>
               (case Option.bind (evp_arg data) (aes_256_cbc_encrypt ssl (ch_key c) current_iv) of
                  None \<Rightarrow> (False, data, Suc rng)
                | Some encrypted \<Rightarrow> (True, frame current_iv encrypted, Suc rng))))"

definition decrypt :: "openssl \<Rightarrow> CryptoHelper \<Rightarrow> bytes \<Rightarrow> bool \<times> bytes" where
  "decrypt ssl c data =
     (if length data \<le> IV_SIZE then (False, data)
      else let received_iv = take IV_SIZE data; encrypted_data = drop IV_SIZE data in
        (case Option.bind (evp_arg encrypted_data)
                (aes_256_cbc_decrypt ssl (ch_key c) received_iv) of
           None \<Rightarrow> (False, data)
         | Some decrypted \<Rightarrow> (True, decrypted)))"

definition generateKey :: "openssl \<Rightarrow> nat \<Rightarrow> bytes \<times> nat" where
  "generateKey ssl rng =
     (case RAND_bytes ssl rng KEY_SIZE of None \<Rightarrow> ([], Suc rng) | Some key \<Rightarrow> (key, Suc rng))"

lemma initialize_key:
  "initialize ssl k (c, rng) = (True, c', rng') \<Longrightarrow> ch_key c' = k \<and> length k = KEY_SIZE"
  by (auto simp: initialize_def split: if_splits option.splits)

lemma encrypt_True_iff:
  "encrypt ssl c (data, rng) = (True, out, rng') \<longleftrightarrow>
     data \<noteq> [] \<and> rng' = Suc rng \<and>
     (\<exists>iv enc. RAND_bytes ssl rng IV_SIZE = Some iv \<and>
        Option.bind (evp_arg data) (aes_256_cbc_encrypt ssl (ch_key c) iv) = Some enc \<and>
        out = frame iv enc)"
  by (auto simp: encrypt_def split: if_splits option.splits)

lemma encrypt_False: "encrypt ssl c (data, rng) = (False, out, rng') \<Longrightarrow> out = data"
  by (auto simp: encrypt_def split: if_splits option.splits)

lemma encrypt_nonempty: "encrypt ssl c (data, rng) = (ok, out, rng') \<Longrightarrow> data \<noteq> [] \<Longrightarrow> out \<noteq> []"
  by (auto simp: encrypt_def frame_def le32_def Let_def split: if_splits option.splits)

text \<open>
  The body of a frame: what \<open>session_read_encrypted\<close> passes to \<open>decrypt\<close> after it read the
  size.
\<close>

definition frame_size :: "bytes \<Rightarrow> u32 option" where
  "frame_size f = get_u32 f 0"

definition frame_body :: "bytes \<Rightarrow> bytes" where
  "frame_body f = drop SIZE_SIZE f"

lemma frame_size_frame: "frame_size (frame iv enc) = Some (of_nat (IV_SIZE + length enc))"
  unfolding frame_size_def frame_def Let_def
  using get_u32_at [of "[]" "of_nat (IV_SIZE + length enc)" "iv @ enc"] by simp

lemma frame_body_frame: "frame_body (frame iv enc) = iv @ enc"
  by (simp add: frame_body_def frame_def Let_def SIZE_SIZE_def)

lemma frame_reads_back:
  assumes ssl: "openssl_ok ssl" and len: "length data < 2 ^ 31 - 32"
    and enc: "encrypt ssl c (data, rng) = (True, out, rng')"
    and key: "ch_key c' = ch_key c"
  shows "\<exists>n. frame_size out = Some n \<and> n \<noteq> 0 \<and> n < - 1 \<and> unat n = length (frame_body out) \<and>
           decrypt ssl c' (frame_body out) = (True, data)"
proof -
  from enc obtain iv e where iv: "RAND_bytes ssl rng IV_SIZE = Some iv"
    and e: "aes_256_cbc_encrypt ssl (ch_key c) iv data = Some e" and out: "out = frame iv e"
    using len by (auto simp: encrypt_True_iff evp_arg_small)
  have liv: "length iv = 16" using openssl_okD(1) [OF ssl iv] by (simp add: IV_SIZE_def)
  have le: "length e = 16 * (length data div 16 + 1)" by (rule openssl_okD(2) [OF ssl e])
  then have small: "16 + length e < 2 ^ 31" using len by simp
  let ?n = "of_nat (16 + length e) :: u32"
  have n: "unat ?n = 16 + length e" using small by (intro unat_of_nat_u32) simp
  moreover have "?n \<noteq> 0" using n by (metis add_is_0 unat_0 zero_neq_numeral)
  moreover have "?n < - 1"
    unfolding word_less_nat_alt n using small by (simp add: unsigned_minus_1_eq_mask mask_eq_exp_minus_1)
  moreover have "decrypt ssl c' (iv @ e) = (True, data)"
  proof -
    have "evp_arg e = Some e" using small by (intro evp_arg_small) simp
    then show ?thesis
      using openssl_okD(3) [OF ssl e] liv le key by (simp add: decrypt_def IV_SIZE_def)
  qed
  ultimately show ?thesis
    using out liv by (simp add: frame_size_frame frame_body_frame IV_SIZE_def del: of_nat_add)
qed

text \<open>
  C5. An encrypted packet reads back: after a successful \<open>encrypt\<close>, the size field is the length of
  the rest of the frame, it passes the reader's check, and \<open>decrypt\<close> of the rest under the
  same key is the packet that was sent.
\<close>

theorem frame_roundtrip:
  assumes ssl: "openssl_ok ssl" and len: "length data < 2 ^ 31 - 32"
    and enc: "encrypt ssl c (data, rng) = (True, out, rng')"
    and key: "ch_key c' = ch_key c"
  shows "\<exists>n. frame_size out = Some n \<and> n \<noteq> 0 \<and> n < - 1 \<and> unat n = length (frame_body out) \<and>
           decrypt ssl c' (frame_body out) = (True, data)"
  by (rule frame_reads_back [OF assms])

subsection \<open>\<open>KeyExchange\<close>\<close>

record KeyExchange =
  private_key :: "bytes option"
  m_public_key :: bytes

definition KeyExchange_new :: "openssl \<Rightarrow> nat \<Rightarrow> KeyExchange \<times> nat" where
  "KeyExchange_new ssl rng =
     (case x25519_keygen ssl rng of
        None \<Rightarrow> (\<lparr>private_key = None, m_public_key = []\<rparr>, Suc rng)
      | Some pkey \<Rightarrow>
          (case x25519_public ssl pkey of
             None \<Rightarrow> (\<lparr>private_key = Some pkey, m_public_key = replicate 32 0\<rparr>, Suc rng)
           | Some pub \<Rightarrow> (\<lparr>private_key = Some pkey, m_public_key = pub\<rparr>, Suc rng)))"

definition getPublicKey :: "KeyExchange \<Rightarrow> bytes" where
  "getPublicKey kx = m_public_key kx"

definition deriveAESKey :: "openssl \<Rightarrow> bytes \<Rightarrow> bytes \<Rightarrow> bool \<times> bytes" where
  "deriveAESKey ssl shared_secret computed =
     (case hkdf_derive ssl (bytes_of ''CryptoHelperSalt'') shared_secret
             (bytes_of ''AES-256-Key'') 32 of
        None \<Rightarrow> (False, computed)
      | Some derived_key \<Rightarrow> (True, derived_key))"

definition computeSharedKey :: "openssl \<Rightarrow> KeyExchange \<Rightarrow> bytes \<Rightarrow> bytes \<Rightarrow> bool \<times> bytes" where
  "computeSharedKey ssl kx peer_public_key computed =
     (case private_key kx of
        None \<Rightarrow> (False, computed)
      | Some pkey \<Rightarrow>
          (case x25519_derive ssl pkey peer_public_key of
             None \<Rightarrow> (False, computed)
           | Some shared_secret \<Rightarrow>
               if \<not> fst (deriveAESKey ssl shared_secret computed) then (False, computed)
               else (True, snd (deriveAESKey ssl shared_secret computed))))"

text \<open>A computed key always has the length \<open>initialize\<close> requires.\<close>

lemma computeSharedKey_length:
  "openssl_ok ssl \<Longrightarrow> computeSharedKey ssl kx peer k0 = (True, k) \<Longrightarrow> length k = KEY_SIZE"
  by (auto simp: computeSharedKey_def deriveAESKey_def KEY_SIZE_def dest: openssl_okD(4)
      split: option.splits if_splits)

text \<open>
  C33. Two peers that agree on the X25519 secret can read each other: whatever one side encrypts with
  the key it derived, the other side decrypts with the key it derived.
\<close>

theorem peers_agree:
  assumes ssl: "openssl_ok ssl"
    and dh: "private_key kxa = Some a" "private_key kxb = Some b"
      "x25519_derive ssl a (getPublicKey kxb) = x25519_derive ssl b (getPublicKey kxa)"
    and ka: "computeSharedKey ssl kxa (getPublicKey kxb) [] = (True, ka)"
    and ia: "initialize ssl ka (CryptoHelper_new, r0) = (True, ca, r1)"
    and kb: "computeSharedKey ssl kxb (getPublicKey kxa) [] = (True, kb)"
    and ib: "initialize ssl kb (CryptoHelper_new, q0) = (True, cb, q1)"
    and len: "length data < 2 ^ 31 - 32"
    and enc: "encrypt ssl ca (data, r1) = (True, out, r2)"
  shows "decrypt ssl cb (frame_body out) = (True, data)"
proof -
  have "kb = ka" using dh ka kb by (simp add: computeSharedKey_def)
  then have "ch_key cb = ch_key ca"
    using initialize_key [OF ia] initialize_key [OF ib] by simp
  from frame_reads_back [OF ssl len enc this] show ?thesis by blast
qed

subsection \<open>A concrete OpenSSL for the examples\<close>

text \<open>
  The witnesses need an instance that satisfies \<open>openssl_ok\<close>: PKCS padding without
  encryption, and constant keys.
\<close>

definition pad16 :: "bytes \<Rightarrow> bytes" where
  "pad16 d = (let k = 16 - length d mod 16 in d @ replicate k (of_nat k))"

definition unpad16 :: "bytes \<Rightarrow> bytes option" where
  "unpad16 c = (if c = [] then None else Some (take (length c - unat (last c)) c))"

definition demo_ssl :: openssl where
  "demo_ssl = \<lparr>RAND_bytes = (\<lambda>n k. Some (replicate k (of_nat n))),
     aes_256_cbc_encrypt = (\<lambda>key iv d. Some (pad16 d)),
     aes_256_cbc_decrypt = (\<lambda>key iv c. unpad16 c),
     x25519_keygen = (\<lambda>n. Some (replicate 32 (of_nat n))),
     x25519_public = (\<lambda>k. Some k),
     x25519_derive = (\<lambda>k p. if length p = 32 then Some (replicate 32 7) else None),
     hkdf_derive = (\<lambda>salt s info n. Some (resize n s))\<rparr>"

lemma unpad_pad: "unpad16 (pad16 d) = Some d"
proof -
  let ?k = "16 - length d mod 16"
  have k: "0 < ?k" "?k \<le> 16" by simp_all
  have "unat (of_nat m :: u8) = m" if "m \<le> 16" for m using that by (simp add: unat_of_nat)
  from this [OF k(2)] show ?thesis
    using k by (simp add: unpad16_def pad16_def Let_def del: of_nat_diff)
qed

lemma length_pad16: "length (pad16 d) = 16 * (length d div 16 + 1)"
proof -
  have "n + (16 - n mod 16) = 16 * (n div 16 + 1)" for n :: nat by presburger
  then show ?thesis by (simp add: pad16_def Let_def)
qed

lemma demo_ssl_ok: "openssl_ok demo_ssl"
  by (auto simp: openssl_ok_def demo_ssl_def unpad_pad length_pad16)

lemma frame_roundtrip_witness:
  "\<exists>out rng' n. encrypt demo_ssl \<lparr>ch_key = replicate 32 1, ch_iv = []\<rparr> ([1, 2, 3], 5) = (True, out, rng')
     \<and> frame_size out = Some n \<and> unat n = length (frame_body out)
     \<and> decrypt demo_ssl \<lparr>ch_key = replicate 32 1, ch_iv = []\<rparr> (frame_body out) = (True, [1, 2, 3])"
proof -
  let ?c = "\<lparr>ch_key = replicate 32 1, ch_iv = []\<rparr> :: CryptoHelper"
  have e: "encrypt demo_ssl ?c ([1, 2, 3], 5) =
      (True, frame (replicate 16 5) (pad16 [1, 2, 3]), Suc 5)"
    by (simp add: encrypt_def demo_ssl_def evp_arg_small IV_SIZE_def)
  from frame_roundtrip [OF demo_ssl_ok _ e refl] e show ?thesis by fastforce
qed

lemma peers_agree_witness:
  "\<exists>cb. fst (initialize demo_ssl (replicate 32 7) (CryptoHelper_new, 0)) \<and>
     initialize demo_ssl (replicate 32 7) (CryptoHelper_new, 1) = (True, cb, 2) \<and>
     decrypt demo_ssl cb (frame_body (frame (replicate 16 1) (pad16 [9, 9]))) = (True, [9, 9])"
proof -
  let ?k = "replicate 32 7 :: bytes"
  let ?kx = "\<lambda>n. \<lparr>private_key = Some (replicate 32 n), m_public_key = replicate 32 n\<rparr>"
  let ?ca = "\<lparr>ch_key = ?k, ch_iv = replicate 16 0\<rparr> :: CryptoHelper"
  let ?cb = "\<lparr>ch_key = ?k, ch_iv = replicate 16 1\<rparr> :: CryptoHelper"
  have sk: "computeSharedKey demo_ssl (?kx a) (getPublicKey (?kx b)) [] = (True, ?k)" for a b
    by (simp add: computeSharedKey_def deriveAESKey_def demo_ssl_def getPublicKey_def resize_def)
  have ia: "initialize demo_ssl ?k (CryptoHelper_new, 0) = (True, ?ca, 1)"
    and ib: "initialize demo_ssl ?k (CryptoHelper_new, 1) = (True, ?cb, 2)"
    by (simp_all add: initialize_def demo_ssl_def KEY_SIZE_def IV_SIZE_def CryptoHelper_new_def)
  have e: "encrypt demo_ssl ?ca ([9, 9], 1) = (True, frame (replicate 16 1) (pad16 [9, 9]), 2)"
    by (simp add: encrypt_def demo_ssl_def evp_arg_small IV_SIZE_def)
  have "decrypt demo_ssl ?cb (frame_body (frame (replicate 16 1) (pad16 [9, 9]))) = (True, [9, 9])"
    by (rule peers_agree [OF demo_ssl_ok, of "?kx 3" "replicate 32 3" "?kx 4" "replicate 32 4"])
      (use sk ia ib e in \<open>simp_all add: demo_ssl_def getPublicKey_def\<close>)
  then show ?thesis using ia ib by simp
qed

end
