(* ===== verification/Raw_Client.thy ===== *)
theory Raw_Client
  imports Error_Handler Crypto Bounded_Queue
begin

text \<open>
  \<open>network::NetworkClientImpl\<close> (\<open>Source/Raw/raw_client.h\<close>, \<open>raw_client.cpp\<close>,
  \<open>raw_session.cpp\<close>, \<open>raw_data.cpp\<close>): the connection, its timers, the session, the write
  queue and the framing of received packets.

  The members are the record \<open>net\<close>; a derived class extends it, so every operation here is
  polymorphic in the extension. The \<open>io_context\<close> is two lists: \<open>tasks\<close> are the closures
  given to \<open>PostTask\<close> that have not run, \<open>ops\<close> the asynchronous operations that have been
  started and whose handler has not run. A timer is a flag, set while its wait is pending. The
  virtual functions are arguments of the operations that call them: \<open>od\<close> is
  \<open>OnDisconnect\<close>, \<open>oe\<close> is \<open>OnEnabledEnc\<close>, \<open>on_data\<close> is \<open>OnDataReceived\<close> and \<open>ivh\<close> is
  \<open>IsValidHeader\<close>. \<open>None\<close> is undefined behaviour (a read or write outside a buffer).
\<close>

subsection \<open>State\<close>

datatype EConnectState = CONNECTED | DISCONNECTED | CONNECTING

datatype EActivityState = ActNone | ActRead | ActWrite | ActBoth

datatype ESendResult =
  SUCCESS | EMPTY_PACKET | NOT_CONNECTED | NOT_INITIALIZED | ENCRYPTION_FAILED

record TPacketDescriptor =
  pd_header :: u8
  fixed_size :: nat
  is_dynamic :: bool
  size_offset :: nat

definition TPacketDescriptor_fixed :: "u8 \<Rightarrow> nat \<Rightarrow> TPacketDescriptor" where
  "TPacketDescriptor_fixed h sz =
     \<lparr>pd_header = h, fixed_size = sz, is_dynamic = False, size_offset = 0\<rparr>"

definition TPacketDescriptor_dynamic :: "u8 \<Rightarrow> nat \<Rightarrow> nat \<Rightarrow> TPacketDescriptor" where
  "TPacketDescriptor_dynamic h sz offset =
     \<lparr>pd_header = h, fixed_size = sz, is_dynamic = True, size_offset = offset\<rparr>"

text \<open>
  The closures the code posts: read on, write, write if the queue is not empty, write and
  read. The asynchronous operations: reading a header, the rest of the fixed part, the dynamic
  part, the size and the body of an encrypted packet; writing; resolving; connecting.
\<close>

datatype task = TRead | TWrite | TWriteIf | TBoth

datatype op =
  ReadHeader
| ReadFixed u8 TPacketDescriptor
| ReadDynamic u8 TPacketDescriptor bytes nat
| ReadSize
| ReadData nat
| WriteOp bytes
| ResolveOp
| ConnectOp

record net =
  packets :: "u8 \<rightharpoonup> TPacketDescriptor"
  connect_state :: EConnectState
  io_running :: bool
  io_stopped :: bool
  is_encrypted :: bool
  work_guard :: bool
  resolver :: bool
  socket_open :: bool
  reconnect_timer :: bool
  connect_timeout_timer :: bool
  crypto :: "CryptoHelper option"
  key_exchange :: "KeyExchange option"
  write_queue :: "bytes list"
  pending_tasks_count :: nat
  tasks :: "task list"
  ops :: "op list"
  last_host :: bytes
  last_port :: u16
  rng :: nat

definition MAX_PENDING_TASKS :: nat where "MAX_PENDING_TASKS = 100000"
definition MAX_WRITE_QUEUE_SIZE :: nat where "MAX_WRITE_QUEUE_SIZE = 100000"
definition HEADER_SIZE :: nat where "HEADER_SIZE = 1"
definition MAX_SIZE_PACKET :: u32 where "MAX_SIZE_PACKET = - 1"

definition IsConnected :: "'a net_scheme \<Rightarrow> bool" where
  "IsConnected s \<longleftrightarrow> connect_state s = CONNECTED"

definition GetPendingTaskCount :: "'a net_scheme \<Rightarrow> nat" where
  "GetPendingTaskCount s = pending_tasks_count s"

definition session_is_crypted :: "'a net_scheme \<Rightarrow> bool" where
  "session_is_crypted s \<longleftrightarrow> crypto s \<noteq> None \<and> is_encrypted s"

subsection \<open>The io context\<close>

definition StopIO :: "'a net_scheme \<Rightarrow> 'a net_scheme" where
  "StopIO s =
     (if \<not> io_running s \<and> io_stopped s then s
      else s\<lparr>work_guard := False, resolver := False, io_stopped := True, io_running := True\<rparr>)"

definition StartIO :: "bool \<Rightarrow> 'a net_scheme \<Rightarrow> 'a net_scheme" where
  "StartIO restart s =
     (let s = (if restart then StopIO s else s) in
      if io_running s \<and> \<not> io_stopped s then s
      else s\<lparr>work_guard := True, resolver := True, io_stopped := False, io_running := True\<rparr>)"

text \<open>The closure is dropped when too many are pending.\<close>

definition PostTask :: "task \<Rightarrow> 'a net_scheme \<Rightarrow> 'a net_scheme" where
  "PostTask t s =
     (if pending_tasks_count s \<ge> MAX_PENDING_TASKS then s
      else s\<lparr>pending_tasks_count := pending_tasks_count s + 1, tasks := tasks s @ [t]\<rparr>)"

definition start_op :: "op \<Rightarrow> 'a net_scheme \<Rightarrow> 'a net_scheme" where
  "start_op p s = s\<lparr>ops := ops s @ [p]\<rparr>"

definition ClearTimers :: "'a net_scheme \<Rightarrow> 'a net_scheme" where
  "ClearTimers s = s\<lparr>connect_timeout_timer := False, reconnect_timer := False\<rparr>"

definition StartReconnectTimer :: "'a net_scheme \<Rightarrow> 'a net_scheme" where
  "StartReconnectTimer s =
     (if connect_state s = CONNECTING \<or> connect_state s = CONNECTED then s
      else s\<lparr>connect_state := CONNECTING, reconnect_timer := True\<rparr>)"

subsection \<open>Sessions and errors\<close>

definition session_stop :: "'a net_scheme \<Rightarrow> 'a net_scheme" where
  "session_stop s =
     (if \<not> IsConnected s then s
      else s\<lparr>is_encrypted := False, crypto := None, write_queue := [], socket_open := False\<rparr>)"

definition Disconnect ::
  "('a net_scheme \<Rightarrow> 'a net_scheme) \<Rightarrow> bool \<Rightarrow> 'a net_scheme \<Rightarrow> 'a net_scheme" where
  "Disconnect od need_reconnect s =
     (if connect_state s = DISCONNECTED then StartReconnectTimer s
      else
        let s = ClearTimers s;
            s = session_stop s;
            s = s\<lparr>connect_state := DISCONNECTED\<rparr>;
            s = od s
        in if need_reconnect then StartReconnectTimer s else s)"

text \<open>
  The error callback installed by the constructor, behind \<open>handleError\<close>.
\<close>

definition error_callback ::
  "('a net_scheme \<Rightarrow> 'a net_scheme) \<Rightarrow> ErrorContext \<Rightarrow> 'a net_scheme \<Rightarrow> 'a net_scheme" where
  "error_callback od context s =
     (if should_close_session context = CloseNone then s else Disconnect od True s)"

definition handleError ::
  "('a net_scheme \<Rightarrow> 'a net_scheme) \<Rightarrow> bytes \<Rightarrow> error_code \<Rightarrow> 'a net_scheme \<Rightarrow> 'a net_scheme" where
  "handleError od operation ec s = error_callback od (categorizeError ec operation) s"

definition session_handle_error ::
  "('a net_scheme \<Rightarrow> 'a net_scheme) \<Rightarrow> bytes \<Rightarrow> error_code \<Rightarrow> 'a net_scheme \<Rightarrow> 'a net_scheme" where
  "session_handle_error od operation ec s = handleError od operation ec s"

text \<open>The overload with an activity: an error that does not close the session goes on.\<close>

definition session_handle_error_act ::
  "('a net_scheme \<Rightarrow> 'a net_scheme) \<Rightarrow> bytes \<Rightarrow> EActivityState \<Rightarrow> error_code \<Rightarrow>
   'a net_scheme \<Rightarrow> 'a net_scheme" where
  "session_handle_error_act od operation activity_state ec s =
     (let context = categorizeError ec operation;
          s = (if should_close_session context = CloseNone \<and> IsConnected s
               then (case activity_state of
                       ActRead \<Rightarrow> PostTask TRead s
                     | ActWrite \<Rightarrow> PostTask TWriteIf s
                     | ActBoth \<Rightarrow> PostTask TBoth s
                     | ActNone \<Rightarrow> s)
               else s)
      in handleError od operation ec s)"

definition session_start ::
  "('a net_scheme \<Rightarrow> 'a net_scheme) \<Rightarrow> 'a net_scheme \<Rightarrow> bool \<times> 'a net_scheme" where
  "session_start od s =
     (if IsConnected s
      then (False, session_handle_error od (bytes_of ''Session already active'') protocol_error s)
      else (True, PostTask TRead (ClearTimers (s\<lparr>connect_state := CONNECTED\<rparr>))))"

definition session_read :: "'a net_scheme \<Rightarrow> 'a net_scheme" where
  "session_read s = (if \<not> IsConnected s then s else start_op ReadHeader s)"

definition session_read_encrypted :: "'a net_scheme \<Rightarrow> 'a net_scheme" where
  "session_read_encrypted s = (if \<not> IsConnected s then s else start_op ReadSize s)"

definition session_write :: "'a net_scheme \<Rightarrow> 'a net_scheme" where
  "session_write s =
     (case write_queue s of
        [] \<Rightarrow> s
      | current_packet # rest \<Rightarrow>
          let s = s\<lparr>write_queue := rest\<rparr> in
          if current_packet = []
          then (if rest \<noteq> [] then PostTask TWrite s else s)
          else start_op (WriteOp current_packet) s)"

definition session_get_public_key :: "openssl \<Rightarrow> 'a net_scheme \<Rightarrow> bytes \<times> 'a net_scheme" where
  "session_get_public_key ssl s =
     (case key_exchange s of
        Some kx \<Rightarrow> (getPublicKey kx, s)
      | None \<Rightarrow>
          let (kx, r) = KeyExchange_new ssl (rng s)
          in (getPublicKey kx, s\<lparr>key_exchange := Some kx, rng := r\<rparr>))"

text \<open>
  \<open>oe\<close> is the derived client's \<open>OnEnabledEnc\<close>, which may throw (\<open>None\<close>).
\<close>

definition session_enable_encryption ::
  "openssl \<Rightarrow> ('a net_scheme \<Rightarrow> 'a net_scheme option) \<Rightarrow> bytes \<Rightarrow> 'a net_scheme \<Rightarrow>
   (bool \<times> 'a net_scheme) option" where
  "session_enable_encryption ssl oe key s =
     (let (kx, r) = (case key_exchange s of Some kx \<Rightarrow> (kx, rng s)
                     | None \<Rightarrow> KeyExchange_new ssl (rng s));
          s = s\<lparr>key_exchange := Some kx, rng := r\<rparr>
      in if is_encrypted s then Some (True, s)
         else
           let (ok, computed_key) = computeSharedKey ssl kx key [] in
           if \<not> ok then Some (False, s)
           else
             let c = (case crypto s of Some c \<Rightarrow> c | None \<Rightarrow> CryptoHelper_new);
                 (ok, c, r) = initialize ssl computed_key (c, rng s);
                 s = s\<lparr>rng := r\<rparr>
             in if \<not> ok then Some (False, s\<lparr>crypto := None\<rparr>)
                else map_option (Pair True) (oe (s\<lparr>crypto := Some c, is_encrypted := True\<rparr>)))"

subsection \<open>Sending\<close>

text \<open>\<open>data\<close> is passed by reference and moved from on success; it is returned.\<close>

definition Send ::
  "openssl \<Rightarrow> ('a net_scheme \<Rightarrow> 'a net_scheme) \<Rightarrow> bytes \<Rightarrow> bool \<Rightarrow> 'a net_scheme \<Rightarrow>
   ESendResult \<times> bytes \<times> 'a net_scheme" where
  "Send ssl od data encr s =
     (if data = [] \<or> hd data = 0
      then (EMPTY_PACKET, data, session_handle_error od (bytes_of ''Empty packet'') protocol_error s)
      else if \<not> IsConnected s
      then (NOT_CONNECTED, data,
            session_handle_error od (bytes_of ''Cannot send: not connected'') protocol_error s)
      else
        let (ok, data, r) =
          (case crypto s of
             Some c \<Rightarrow> if encr \<and> is_encrypted s then encrypt ssl c (data, rng s)
                       else (True, data, rng s)
           | None \<Rightarrow> (True, data, rng s));
            s = s\<lparr>rng := r\<rparr>
        in if \<not> ok
           then (ENCRYPTION_FAILED, data,
                 session_handle_error od (bytes_of ''Encryption failed'') protocol_error s)
           else
             let q = write_queue s;
                 q = (if length q \<ge> MAX_WRITE_QUEUE_SIZE then tl q else q);
                 s = s\<lparr>write_queue := q @ [data]\<rparr>
             in (SUCCESS, [], PostTask TWrite s))"

subsection \<open>Received packets\<close>

definition packet_register_fixed :: "u8 \<Rightarrow> nat \<Rightarrow> 'a net_scheme \<Rightarrow> bool \<times> 'a net_scheme" where
  "packet_register_fixed header total_size s =
     (if packets s header \<noteq> None then (False, s)
      else (True, s\<lparr>packets := (packets s)(header \<mapsto> TPacketDescriptor_fixed header total_size)\<rparr>))"

definition packet_register_dynamic ::
  "u8 \<Rightarrow> nat \<Rightarrow> nat \<Rightarrow> 'a net_scheme \<Rightarrow> bool \<times> 'a net_scheme" where
  "packet_register_dynamic header header_size sz_offset s =
     (if packets s header \<noteq> None then (False, s)
      else (True, s\<lparr>packets := (packets s)
               (header \<mapsto> TPacketDescriptor_dynamic header header_size sz_offset)\<rparr>))"

definition packet_get_descriptor :: "u8 \<Rightarrow> 'a net_scheme \<Rightarrow> TPacketDescriptor option" where
  "packet_get_descriptor header s = packets s header"

type_synonym 's on_data = "u8 \<Rightarrow> bytes \<Rightarrow> 's \<Rightarrow> (bool \<times> 's) option"

text \<open>The text of the error carries the header's number, which no decision depends on.\<close>

definition packet_handle ::
  "('a net_scheme \<Rightarrow> 'a net_scheme) \<Rightarrow> 'a net_scheme on_data \<Rightarrow> u8 \<Rightarrow> bytes \<Rightarrow>
   'a net_scheme \<Rightarrow> 'a net_scheme option" where
  "packet_handle od on_data header data s =
     (case on_data header data s of
        None \<Rightarrow> None
      | Some (ok, s) \<Rightarrow> Some
          (if \<not> ok
           then session_handle_error_act od (bytes_of ''packet handle failed'') ActRead
                  protocol_error s
           else PostTask TRead s))"

text \<open>
  Started once the header is known: the rest of the fixed part is read. An empty fixed part
  has no room for the header.
\<close>

definition packet_process ::
  "(u8 \<Rightarrow> bool) \<Rightarrow> u8 \<Rightarrow> 'a net_scheme \<Rightarrow> 'a net_scheme option" where
  "packet_process ivh header s =
     (if \<not> ivh header then Some s
      else (case packet_get_descriptor header s of
              None \<Rightarrow> Some s
            | Some desc \<Rightarrow>
                if fixed_size desc < HEADER_SIZE then None
                else Some (start_op (ReadFixed header desc) s)))"

definition packet_process_decrypted ::
  "('a net_scheme \<Rightarrow> 'a net_scheme) \<Rightarrow> 'a net_scheme on_data \<Rightarrow> (u8 \<Rightarrow> bool) \<Rightarrow> bytes \<Rightarrow>
   'a net_scheme \<Rightarrow> 'a net_scheme option" where
  "packet_process_decrypted od on_data ivh data s =
     (case data of
        [] \<Rightarrow> Some s
      | header # _ \<Rightarrow>
          if \<not> ivh header then Some s
          else (case packet_get_descriptor header s of
                  None \<Rightarrow> Some (session_handle_error od (bytes_of ''Descriptor not exist.'')
                                  protocol_error s)
                | Some desc \<Rightarrow> packet_handle od on_data header data s))"

subsection \<open>Completion handlers\<close>

text \<open>
  Each handler gets the error code and the bytes the operation read: all it asked for when
  there is no error.
\<close>

definition on_read_header ::
  "('a net_scheme \<Rightarrow> 'a net_scheme) \<Rightarrow> (u8 \<Rightarrow> bool) \<Rightarrow> error_code \<Rightarrow> bytes \<Rightarrow>
   'a net_scheme \<Rightarrow> 'a net_scheme option" where
  "on_read_header od ivh ec data s =
     (if failed ec then Some (session_handle_error_act od (bytes_of ''read header'') ActRead ec s)
      else if \<not> IsConnected s then Some s
      else (case data of [] \<Rightarrow> None | header # _ \<Rightarrow> packet_process ivh header s))"

definition on_read_fixed ::
  "('a net_scheme \<Rightarrow> 'a net_scheme) \<Rightarrow> 'a net_scheme on_data \<Rightarrow> u8 \<Rightarrow> TPacketDescriptor \<Rightarrow>
   error_code \<Rightarrow> bytes \<Rightarrow> 'a net_scheme \<Rightarrow> 'a net_scheme option" where
  "on_read_fixed od on_data header desc ec data s =
     (if \<not> IsConnected s then Some s
      else if failed ec
      then Some (session_handle_error_act od (bytes_of ''read fixed data'') ActRead ec s)
      else
        let v_packet = header # data in
        if \<not> is_dynamic desc then packet_handle od on_data header v_packet s
        else (case get_u32 v_packet (size_offset desc) of
                None \<Rightarrow> None
              | Some dynamic_size \<Rightarrow>
                  Some (start_op (ReadDynamic header desc v_packet (unat dynamic_size)) s)))"

definition on_read_dynamic ::
  "('a net_scheme \<Rightarrow> 'a net_scheme) \<Rightarrow> 'a net_scheme on_data \<Rightarrow> u8 \<Rightarrow> bytes \<Rightarrow>
   error_code \<Rightarrow> bytes \<Rightarrow> 'a net_scheme \<Rightarrow> 'a net_scheme option" where
  "on_read_dynamic od on_data header v_packet ec data s =
     (if \<not> IsConnected s
      then Some (session_handle_error od (bytes_of ''Session is not active to read.'')
                   protocol_error s)
      else if failed ec
      then Some (session_handle_error_act od (bytes_of ''read dynamic data'') ActRead ec s)
      else packet_handle od on_data header (v_packet @ data) s)"

definition on_read_size ::
  "('a net_scheme \<Rightarrow> 'a net_scheme) \<Rightarrow> error_code \<Rightarrow> bytes \<Rightarrow>
   'a net_scheme \<Rightarrow> 'a net_scheme option" where
  "on_read_size od ec data s =
     (if failed ec then Some (session_handle_error_act od (bytes_of ''read size'') ActRead ec s)
      else (case get_u32 data 0 of
              None \<Rightarrow> None
            | Some packet_size \<Rightarrow>
                if \<not> IsConnected s then Some s
                else if packet_size = 0 \<or> packet_size \<ge> MAX_SIZE_PACKET
                then Some (session_handle_error_act od (bytes_of ''invalid packet size'') ActRead
                             protocol_error s)
                else Some (start_op (ReadData (unat packet_size)) s)))"

text \<open>
  \<open>crypto_\<close> is dereferenced and the first decrypted byte is read without a check.
\<close>

definition on_read_data ::
  "openssl \<Rightarrow> ('a net_scheme \<Rightarrow> 'a net_scheme) \<Rightarrow> 'a net_scheme on_data \<Rightarrow> (u8 \<Rightarrow> bool) \<Rightarrow>
   error_code \<Rightarrow> bytes \<Rightarrow> 'a net_scheme \<Rightarrow> 'a net_scheme option" where
  "on_read_data ssl od on_data ivh ec data s =
     (if failed ec
      then Some (session_handle_error_act od (bytes_of ''read encrypted data'') ActRead ec s)
      else if \<not> IsConnected s then Some s
      else (case crypto s of
              None \<Rightarrow> None
            | Some c \<Rightarrow>
                let (ok, data) = decrypt ssl c data in
                if \<not> ok
                then Some (session_handle_error_act od (bytes_of ''decryption failed'') ActRead
                             protocol_error s)
                else if data = [] then None
                else packet_process_decrypted od on_data ivh data s))"

definition on_write ::
  "('a net_scheme \<Rightarrow> 'a net_scheme) \<Rightarrow> error_code \<Rightarrow> 'a net_scheme \<Rightarrow> 'a net_scheme" where
  "on_write od ec s =
     (if failed ec then session_handle_error_act od (bytes_of ''write'') ActWrite ec s
      else if \<not> IsConnected s then s
      else if write_queue s \<noteq> [] then PostTask TWrite s
      else s)"

subsection \<open>Connecting\<close>

definition Connect :: "bytes \<Rightarrow> u16 \<Rightarrow> 'a net_scheme \<Rightarrow> 'a net_scheme" where
  "Connect host port s =
     (if IsConnected s then s
      else start_op ResolveOp
        (s\<lparr>connect_state := CONNECTING, last_host := host, last_port := port,
           connect_timeout_timer := True, resolver := True\<rparr>))"

text \<open>\<open>v4\<close>: the resolver's answer has an IPv4 endpoint.\<close>

definition on_resolve ::
  "('a net_scheme \<Rightarrow> 'a net_scheme) \<Rightarrow> error_code \<Rightarrow> bool \<Rightarrow> 'a net_scheme \<Rightarrow> 'a net_scheme" where
  "on_resolve od ec v4 s =
     (if failed ec then session_handle_error od (bytes_of ''critical: resolution failed'') ec s
      else if \<not> v4
      then session_handle_error od (bytes_of ''no IPv4 endpoint found'') af_not_supported s
      else start_op ConnectOp s)"

text \<open>\<open>opened\<close>: whether the socket is open when the handler runs.\<close>

definition on_connect ::
  "('a net_scheme \<Rightarrow> 'a net_scheme) \<Rightarrow> error_code \<Rightarrow> bool \<Rightarrow> 'a net_scheme \<Rightarrow> 'a net_scheme" where
  "on_connect od ec opened s =
     (let s = s\<lparr>socket_open := opened\<rparr> in
      if failed ec then session_handle_error od (bytes_of ''critical: connection failed'') ec s
      else if \<not> opened
      then session_handle_error od (bytes_of ''critical: socket is not open'') protocol_error s
      else
        let (ok, s) = session_start od s in
        if \<not> ok then session_handle_error od (bytes_of ''critical: session start'') protocol_error s
        else s)"

definition on_connect_timeout ::
  "('a net_scheme \<Rightarrow> 'a net_scheme) \<Rightarrow> error_code \<Rightarrow> 'a net_scheme \<Rightarrow> 'a net_scheme" where
  "on_connect_timeout od ec s =
     (if is_err ec operation_aborted then s
      else
        let s = (if ec_value ec = 0
                 then session_handle_error od
                        (bytes_of ''critical: connect timeout timer error'') ec s
                 else s)
        in if connect_state s \<noteq> CONNECTED
           then session_handle_error od (bytes_of ''critical: connection timeout'') ec
                  (s\<lparr>connect_state := DISCONNECTED\<rparr>)
           else s)"

definition on_reconnect_timer ::
  "('a net_scheme \<Rightarrow> 'a net_scheme) \<Rightarrow> error_code \<Rightarrow> 'a net_scheme \<Rightarrow> 'a net_scheme" where
  "on_reconnect_timer od ec s =
     (if is_err ec operation_aborted then s
      else
        let s = (if ec_value ec \<noteq> 0
                 then session_handle_error od (bytes_of ''critical: Reconnect timer error'') ec s
                 else s)
        in Connect (last_host s) (last_port s) s)"

subsection \<open>Running\<close>

definition read_on :: "'a net_scheme \<Rightarrow> 'a net_scheme" where
  "read_on s = (if session_is_crypted s then session_read_encrypted s else session_read s)"

fun run_task :: "task \<Rightarrow> 'a net_scheme \<Rightarrow> 'a net_scheme" where
  "run_task TRead s = read_on s"
| "run_task TWrite s = session_write s"
| "run_task TWriteIf s = (if write_queue s \<noteq> [] then session_write s else s)"
| "run_task TBoth s = read_on (session_write s)"

text \<open>The wrapper \<open>PostTask\<close> puts around a closure.\<close>

definition run_posted :: "task \<Rightarrow> 'a net_scheme \<Rightarrow> 'a net_scheme" where
  "run_posted t s = run_task t (s\<lparr>pending_tasks_count := pending_tasks_count s - 1\<rparr>)"

text \<open>The bytes an operation reads when it succeeds.\<close>

fun op_wants :: "op \<Rightarrow> nat" where
  "op_wants ReadHeader = HEADER_SIZE"
| "op_wants (ReadFixed h desc) = fixed_size desc - HEADER_SIZE"
| "op_wants (ReadDynamic h desc v n) = n"
| "op_wants ReadSize = SIZE_SIZE"
| "op_wants (ReadData n) = n"
| "op_wants _ = 0"

fun complete ::
  "openssl \<Rightarrow> ('a net_scheme \<Rightarrow> 'a net_scheme) \<Rightarrow> 'a net_scheme on_data \<Rightarrow> (u8 \<Rightarrow> bool) \<Rightarrow>
   op \<Rightarrow> error_code \<Rightarrow> bytes \<Rightarrow> bool \<Rightarrow> 'a net_scheme \<Rightarrow> 'a net_scheme option" where
  "complete ssl od on_data ivh ReadHeader ec data b s = on_read_header od ivh ec data s"
| "complete ssl od on_data ivh (ReadFixed h desc) ec data b s =
     on_read_fixed od on_data h desc ec data s"
| "complete ssl od on_data ivh (ReadDynamic h desc v n) ec data b s =
     on_read_dynamic od on_data h v ec data s"
| "complete ssl od on_data ivh ReadSize ec data b s = on_read_size od ec data s"
| "complete ssl od on_data ivh (ReadData n) ec data b s =
     on_read_data ssl od on_data ivh ec data s"
| "complete ssl od on_data ivh (WriteOp d) ec data b s = Some (on_write od ec s)"
| "complete ssl od on_data ivh ResolveOp ec data b s = Some (on_resolve od ec b s)"
| "complete ssl od on_data ivh ConnectOp ec data b s = Some (on_connect od ec b s)"

text \<open>What \<open>poll_one\<close> may run, and the calls the owner of the client makes.\<close>

datatype event =
  RunTask
| Complete op error_code bytes bool
| ReconnectFires error_code
| TimeoutFires error_code
| CallConnect bytes u16
| CallDisconnect bool
| CallSend bytes bool

fun net_event ::
  "openssl \<Rightarrow> ('a net_scheme \<Rightarrow> 'a net_scheme) \<Rightarrow> 'a net_scheme on_data \<Rightarrow> (u8 \<Rightarrow> bool) \<Rightarrow>
   event \<Rightarrow> 'a net_scheme \<Rightarrow> 'a net_scheme option" where
  "net_event ssl od on_data ivh RunTask s =
     (case tasks s of [] \<Rightarrow> Some s | t # ts \<Rightarrow> Some (run_posted t (s\<lparr>tasks := ts\<rparr>)))"
| "net_event ssl od on_data ivh (Complete p ec data b) s =
     (if p \<in> set (ops s)
      then complete ssl od on_data ivh p ec data b (s\<lparr>ops := remove1 p (ops s)\<rparr>) else Some s)"
| "net_event ssl od on_data ivh (ReconnectFires ec) s =
     Some (if reconnect_timer s then on_reconnect_timer od ec (s\<lparr>reconnect_timer := False\<rparr>) else s)"
| "net_event ssl od on_data ivh (TimeoutFires ec) s =
     Some (if connect_timeout_timer s
           then on_connect_timeout od ec (s\<lparr>connect_timeout_timer := False\<rparr>) else s)"
| "net_event ssl od on_data ivh (CallConnect host port) s = Some (Connect host port s)"
| "net_event ssl od on_data ivh (CallDisconnect need) s = Some (Disconnect od need s)"
| "net_event ssl od on_data ivh (CallSend data encr) s = Some (snd (snd (Send ssl od data encr s)))"

text \<open>The operating system returns as many bytes as were asked for, or an error.\<close>

fun event_ok :: "event \<Rightarrow> bool" where
  "event_ok (Complete p ec data b) \<longleftrightarrow> failed ec \<or> length data = op_wants p"
| "event_ok _ \<longleftrightarrow> True"

text \<open>
  \<open>DoWork\<close>: a number of handlers (as many as fit the time budget), then a lost connection is
  taken up again.
\<close>

primrec poll ::
  "openssl \<Rightarrow> ('a net_scheme \<Rightarrow> 'a net_scheme) \<Rightarrow> 'a net_scheme on_data \<Rightarrow> (u8 \<Rightarrow> bool) \<Rightarrow>
   event list \<Rightarrow> 'a net_scheme \<Rightarrow> 'a net_scheme option" where
  "poll ssl od on_data ivh [] s = Some s"
| "poll ssl od on_data ivh (e # es) s =
     Option.bind (net_event ssl od on_data ivh e s) (poll ssl od on_data ivh es)"

definition DoWork ::
  "openssl \<Rightarrow> ('a net_scheme \<Rightarrow> 'a net_scheme) \<Rightarrow> 'a net_scheme on_data \<Rightarrow> (u8 \<Rightarrow> bool) \<Rightarrow>
   event list \<Rightarrow> 'a net_scheme \<Rightarrow> 'a net_scheme option" where
  "DoWork ssl od on_data ivh es s =
     map_option (\<lambda>s. if connect_state s = DISCONNECTED then StartReconnectTimer s else s)
       (poll ssl od on_data ivh es s)"

text \<open>The constructor.\<close>

definition NetworkClientImpl :: net where
  "NetworkClientImpl = StartIO True
     \<lparr>packets = Map.empty, connect_state = DISCONNECTED, io_running = False, io_stopped = False,
      is_encrypted = False, work_guard = False, resolver = False, socket_open = False,
      reconnect_timer = False, connect_timeout_timer = False, crypto = None,
      key_exchange = None, write_queue = [], pending_tasks_count = 0, tasks = [], ops = [],
      last_host = [], last_port = 0, rng = 0\<rparr>"

end
