(* ===== verification/Raw_Inv.thy ===== *)
theory Raw_Inv
  imports Raw_Client
begin

text \<open>
  What the raw client keeps: the invariant \<open>net_inv\<close> of the members, the well-formedness
  \<open>net_ok\<close> of outstanding reads, the number of read tokens, and the order in which packets
  reach the socket. What a derived client has to guarantee for its virtual functions is the
  locale \<open>net_client\<close>; the client interprets it (theory \<open>Client\<close>).
\<close>

subsection \<open>Errors that do not close the session\<close>

named_theorems net_frame

lemma plain_errors [simp]:
  "closes protocol_error (bytes_of ''Session already active'') = CloseNone"
  "closes protocol_error (bytes_of ''Empty packet'') = CloseNone"
  "closes protocol_error (bytes_of ''Cannot send: not connected'') = CloseNone"
  "closes protocol_error (bytes_of ''Encryption failed'') = CloseNone"
  "closes protocol_error (bytes_of ''Descriptor not exist.'') = CloseNone"
  "closes protocol_error (bytes_of ''packet handle failed'') = CloseNone"
  "closes protocol_error (bytes_of ''invalid packet size'') = CloseNone"
  "closes protocol_error (bytes_of ''decryption failed'') = CloseNone"
  "closes protocol_error (bytes_of ''Session is not active to read.'') = CloseNone"
  by (rule closes_protocol_error, simp add: bytes_of_def)+

lemma handle_error_unfold:
  "session_handle_error od oper ec s =
     (if closes ec oper = CloseNone then s else Disconnect od True s)"
  by (simp add: session_handle_error_def handleError_def error_callback_def closes_def)

lemma handle_error_act_unfold:
  "session_handle_error_act od oper act ec s =
     (if closes ec oper = CloseNone
      then (if IsConnected s
            then (case act of ActRead \<Rightarrow> PostTask TRead s | ActWrite \<Rightarrow> PostTask TWriteIf s
                    | ActBoth \<Rightarrow> PostTask TBoth s | ActNone \<Rightarrow> s)
            else s)
      else Disconnect od True s)"
  by (simp add: session_handle_error_act_def handleError_def error_callback_def closes_def Let_def)

subsection \<open>What the small operations leave alone\<close>

lemma PostTask_frame [simp, net_frame]:
  "connect_state (PostTask t s) = connect_state s" "packets (PostTask t s) = packets s"
  "crypto (PostTask t s) = crypto s" "is_encrypted (PostTask t s) = is_encrypted s"
  "write_queue (PostTask t s) = write_queue s" "ops (PostTask t s) = ops s"
  "rng (PostTask t s) = rng s" "key_exchange (PostTask t s) = key_exchange s"
  "net.more (PostTask t s) = net.more s"
  "IsConnected (PostTask t s) = IsConnected s"
  by (simp_all add: PostTask_def IsConnected_def)

lemma start_op_frame [simp, net_frame]:
  "connect_state (start_op p s) = connect_state s" "packets (start_op p s) = packets s"
  "crypto (start_op p s) = crypto s" "is_encrypted (start_op p s) = is_encrypted s"
  "write_queue (start_op p s) = write_queue s" "ops (start_op p s) = ops s @ [p]"
  "tasks (start_op p s) = tasks s"
  "pending_tasks_count (start_op p s) = pending_tasks_count s"
  "rng (start_op p s) = rng s" "key_exchange (start_op p s) = key_exchange s"
  "net.more (start_op p s) = net.more s"
  "IsConnected (start_op p s) = IsConnected s"
  by (simp_all add: start_op_def IsConnected_def)

lemma ClearTimers_frame [simp, net_frame]:
  "connect_state (ClearTimers s) = connect_state s" "packets (ClearTimers s) = packets s"
  "crypto (ClearTimers s) = crypto s" "is_encrypted (ClearTimers s) = is_encrypted s"
  "write_queue (ClearTimers s) = write_queue s" "ops (ClearTimers s) = ops s"
  "tasks (ClearTimers s) = tasks s"
  "pending_tasks_count (ClearTimers s) = pending_tasks_count s"
  "net.more (ClearTimers s) = net.more s"
  "IsConnected (ClearTimers s) = IsConnected s"
  by (simp_all add: ClearTimers_def IsConnected_def)

lemma StartReconnectTimer_frame [simp, net_frame]:
  "packets (StartReconnectTimer s) = packets s"
  "crypto (StartReconnectTimer s) = crypto s"
  "is_encrypted (StartReconnectTimer s) = is_encrypted s"
  "write_queue (StartReconnectTimer s) = write_queue s" "ops (StartReconnectTimer s) = ops s"
  "tasks (StartReconnectTimer s) = tasks s"
  "pending_tasks_count (StartReconnectTimer s) = pending_tasks_count s"
  "net.more (StartReconnectTimer s) = net.more s"
  "connect_state (StartReconnectTimer s) = CONNECTED \<longleftrightarrow> connect_state s = CONNECTED"
  by (simp_all add: StartReconnectTimer_def)

lemma session_stop_frame [simp, net_frame]:
  "packets (session_stop s) = packets s" "ops (session_stop s) = ops s"
  "tasks (session_stop s) = tasks s" "net.more (session_stop s) = net.more s"
  "pending_tasks_count (session_stop s) = pending_tasks_count s"
  by (simp_all add: session_stop_def)

subsection \<open>The invariant\<close>

text \<open>
  The pending counter counts the posted closures, queue and closures are bounded, no queued
  packet is empty, encryption is on exactly when there is a helper with a key of the right
  length, and nothing of a session survives its end.
\<close>

definition net_inv :: "'a net_scheme \<Rightarrow> bool" where
  "net_inv s \<longleftrightarrow>
     pending_tasks_count s = length (tasks s) \<and> length (tasks s) \<le> MAX_PENDING_TASKS \<and>
     length (write_queue s) \<le> MAX_WRITE_QUEUE_SIZE \<and> [] \<notin> set (write_queue s) \<and>
     (crypto s \<noteq> None \<longleftrightarrow> is_encrypted s) \<and>
     (\<forall>c. crypto s = Some c \<longrightarrow> length (ch_key c) = KEY_SIZE) \<and>
     (connect_state s \<noteq> CONNECTED \<longrightarrow> crypto s = None \<and> write_queue s = [])"

lemma net_inv_PostTask [intro]: "net_inv s \<Longrightarrow> net_inv (PostTask t s)"
  by (auto simp: net_inv_def PostTask_def)

lemma net_inv_start_op [simp]: "net_inv (start_op p s) = net_inv s"
  by (simp add: net_inv_def)

lemma net_inv_ClearTimers [simp]: "net_inv (ClearTimers s) = net_inv s"
  by (simp add: net_inv_def)

lemma net_inv_StartReconnectTimer [simp]: "net_inv (StartReconnectTimer s) = net_inv s"
  by (simp add: net_inv_def)

text \<open>Fields the invariant does not read.\<close>

lemma net_inv_upds [simp]:
  "net_inv (s\<lparr>ops := x\<rparr>) = net_inv s" "net_inv (s\<lparr>rng := r\<rparr>) = net_inv s"
  "net_inv (s\<lparr>key_exchange := k\<rparr>) = net_inv s" "net_inv (s\<lparr>socket_open := b\<rparr>) = net_inv s"
  "net_inv (s\<lparr>reconnect_timer := b\<rparr>) = net_inv s"
  "net_inv (s\<lparr>connect_timeout_timer := b\<rparr>) = net_inv s"
  by (simp_all add: net_inv_def)

lemma net_inv_session_stop:
  "net_inv s \<Longrightarrow> net_inv ((session_stop s)\<lparr>connect_state := DISCONNECTED\<rparr>)"
  by (auto simp: net_inv_def session_stop_def IsConnected_def)

lemma net_inv_Disconnect:
  "net_inv s \<Longrightarrow> (\<And>t. net_inv t \<Longrightarrow> net_inv (od t)) \<Longrightarrow> net_inv (Disconnect od need s)"
  using net_inv_session_stop [of "ClearTimers s"] by (auto simp: Disconnect_def Let_def)

lemma net_inv_handle_error:
  "net_inv s \<Longrightarrow> (\<And>t. net_inv t \<Longrightarrow> net_inv (od t)) \<Longrightarrow>
   net_inv (session_handle_error od oper ec s)"
  by (auto simp: handle_error_unfold intro: net_inv_Disconnect)

lemma net_inv_handle_error_act:
  "net_inv s \<Longrightarrow> (\<And>t. net_inv t \<Longrightarrow> net_inv (od t)) \<Longrightarrow>
   net_inv (session_handle_error_act od oper act ec s)"
  by (auto simp: handle_error_act_unfold intro: net_inv_Disconnect split: EActivityState.split)

lemma net_inv_session_write: "net_inv s \<Longrightarrow> net_inv (session_write s)"
proof (cases "write_queue s")
  case Nil
  then show "net_inv s \<Longrightarrow> ?thesis" by (simp add: session_write_def)
next
  case (Cons p q)
  assume inv: "net_inv s"
  with Cons have "net_inv (s\<lparr>write_queue := q\<rparr>)" by (auto simp: net_inv_def)
  then show ?thesis using Cons by (auto simp: session_write_def Let_def)
qed

lemma net_inv_reads [intro]:
  "net_inv s \<Longrightarrow> net_inv (session_read s)" "net_inv s \<Longrightarrow> net_inv (session_read_encrypted s)"
  "net_inv s \<Longrightarrow> net_inv (read_on s)"
  by (simp_all add: session_read_def session_read_encrypted_def read_on_def)

lemma net_inv_run_task: "net_inv s \<Longrightarrow> net_inv (run_task t s)"
  by (cases t) (auto intro: net_inv_session_write)

lemma net_inv_run_posted:
  assumes "net_inv s" and "tasks s = t # ts"
  shows "net_inv (run_posted t (s\<lparr>tasks := ts\<rparr>))"
proof -
  from assms have "net_inv (s\<lparr>tasks := ts, pending_tasks_count := pending_tasks_count s - 1\<rparr>)"
    by (auto simp: net_inv_def)
  then show ?thesis by (simp add: run_posted_def net_inv_run_task)
qed

subsection \<open>Sending\<close>

definition push_packet :: "bytes \<Rightarrow> bytes list \<Rightarrow> bytes list" where
  "push_packet d q = push_drop_oldest MAX_WRITE_QUEUE_SIZE d q"

text \<open>The bytes \<open>Send\<close> puts into the queue for a packet, and the draws it makes.\<close>

definition wire_form ::
  "openssl \<Rightarrow> bytes \<Rightarrow> bool \<Rightarrow> 'a net_scheme \<Rightarrow> bool \<times> bytes \<times> nat" where
  "wire_form ssl data encr s =
     (case crypto s of
        Some c \<Rightarrow> if encr \<and> is_encrypted s then encrypt ssl c (data, rng s) else (True, data, rng s)
      | None \<Rightarrow> (True, data, rng s))"

lemma Send_eq:
  "Send ssl od data encr s =
     (if data = [] \<or> hd data = 0 then (EMPTY_PACKET, data, s)
      else if \<not> IsConnected s then (NOT_CONNECTED, data, s)
      else (case wire_form ssl data encr s of
              (False, data', r) \<Rightarrow> (ENCRYPTION_FAILED, data, s\<lparr>rng := r\<rparr>)
            | (True, data', r) \<Rightarrow>
                (SUCCESS, [], PostTask TWrite
                   (s\<lparr>rng := r, write_queue := push_packet data' (write_queue s)\<rparr>))))"
  by (auto simp: Send_def wire_form_def push_packet_def push_drop_oldest_def handle_error_unfold
      Let_def dest: encrypt_False split: option.splits if_splits prod.splits bool.splits)

text \<open>
  \<open>Send\<close> on every branch: an empty packet or a zero header, a missing connection and a failed
  encryption are reported without touching queue, tasks or connection; otherwise the packet (a
  frame, if encryption is asked for and on) becomes the newest of the queue and a write is
  posted. No branch closes the session.
\<close>

theorem Send_cases:
  "Send ssl od data encr s =
     (if data = [] \<or> hd data = 0 then (EMPTY_PACKET, data, s)
      else if \<not> IsConnected s then (NOT_CONNECTED, data, s)
      else (case wire_form ssl data encr s of
              (False, data', r) \<Rightarrow> (ENCRYPTION_FAILED, data, s\<lparr>rng := r\<rparr>)
            | (True, data', r) \<Rightarrow>
                (SUCCESS, [], PostTask TWrite
                   (s\<lparr>rng := r, write_queue := push_packet data' (write_queue s)\<rparr>))))"
  by (rule Send_eq)

lemma wire_form_nonempty: "wire_form ssl data encr s = (ok, d, r) \<Longrightarrow> data \<noteq> [] \<Longrightarrow> d \<noteq> []"
  by (auto simp: wire_form_def dest: encrypt_nonempty split: option.splits if_splits)

interpretation wq: bounded_fifo "\<lambda>d s. s\<lparr>write_queue := push_packet d (write_queue s)\<rparr>"
  write_queue MAX_WRITE_QUEUE_SIZE
  by unfold_locales (simp_all add: MAX_WRITE_QUEUE_SIZE_def push_packet_def)

lemma net_inv_push:
  assumes inv: "net_inv s" and conn: "IsConnected s" and d: "d \<noteq> []"
  shows "net_inv (s\<lparr>rng := r, write_queue := push_packet d (write_queue s)\<rparr>)"
proof -
  have "length (push_packet d (write_queue s)) \<le> MAX_WRITE_QUEUE_SIZE"
    using wq.bounded [of s d] inv by (simp add: net_inv_def)
  moreover have "[] \<notin> set (push_packet d (write_queue s))"
    using wq.nothing_else [of d s] inv d by (auto simp: net_inv_def)
  ultimately show ?thesis using inv conn by (simp add: net_inv_def IsConnected_def)
qed

lemma net_inv_Send: "net_inv s \<Longrightarrow> Send ssl od data encr s = (res, data', s') \<Longrightarrow> net_inv s'"
proof -
  assume inv: "net_inv s" and send: "Send ssl od data encr s = (res, data', s')"
  obtain ok d r where w: "wire_form ssl data encr s = (ok, d, r)" by (cases "wire_form ssl data encr s")
  show "net_inv s'"
    using send inv wire_form_nonempty [OF w] net_inv_push [OF inv]
    by (auto simp: Send_eq w split: if_splits bool.splits)
qed

text \<open>What \<open>Send\<close> leaves alone.\<close>

lemma Send_frame:
  assumes "Send ssl od data encr s = (res, data', s')"
  shows "connect_state s' = connect_state s" "packets s' = packets s" "crypto s' = crypto s"
    "is_encrypted s' = is_encrypted s" "ops s' = ops s" "key_exchange s' = key_exchange s"
    "net.more s' = net.more s" "IsConnected s' = IsConnected s"
  using assms by (auto simp: Send_eq IsConnected_def split: if_splits prod.splits bool.splits)

lemma Send_result:
  "Send ssl od data encr s = (SUCCESS, data', s') \<Longrightarrow> IsConnected s \<and> data \<noteq> [] \<and> data' = []"
  by (auto simp: Send_eq split: if_splits prod.splits bool.splits)

subsection \<open>Enabling encryption\<close>

lemma net_inv_enable:
  assumes inv: "net_inv s" and conn: "IsConnected s"
    and oe: "\<And>t u. net_inv t \<Longrightarrow> oe t = Some u \<Longrightarrow> net_inv u"
    and res: "session_enable_encryption ssl oe key s = Some (ok, s')"
  shows "net_inv s'"
proof (cases "is_encrypted s")
  case True
  then show ?thesis
    using res inv by (auto simp: session_enable_encryption_def Let_def split: prod.splits)
next
  case False
  with inv have nc: "crypto s = None" by (simp add: net_inv_def)
  obtain kx r where kx: "(case key_exchange s of Some kx \<Rightarrow> (kx, rng s)
      | None \<Rightarrow> KeyExchange_new ssl (rng s)) = (kx, r)" by fastforce
  let ?s = "s\<lparr>key_exchange := Some kx, rng := r\<rparr>"
  obtain ok1 k where k: "computeSharedKey ssl kx key [] = (ok1, k)" by fastforce
  obtain ok2 c r2 where c: "initialize ssl k (CryptoHelper_new, r) = (ok2, c, r2)"
    by (cases "initialize ssl k (CryptoHelper_new, r)")
  have "net_inv (?s\<lparr>rng := r2, crypto := None\<rparr>)" using inv False nc by (simp add: net_inv_def)
  moreover have "net_inv (?s\<lparr>rng := r2, crypto := Some c, is_encrypted := True\<rparr>)" if ok2
    using inv False conn initialize_key [of ssl k CryptoHelper_new r c r2] c that
    by (simp add: net_inv_def IsConnected_def)
  moreover have "net_inv ?s" using inv by simp
  ultimately show ?thesis
    using res kx k c False nc oe
    by (auto simp: session_enable_encryption_def Let_def split: if_splits)
qed

subsection \<open>Received packets and their descriptors\<close>

text \<open>
  A descriptor leaves room for the header and, when it is dynamic, has its size field inside
  the fixed part. A complete packet has the length its descriptor says.
\<close>

definition desc_wf :: "TPacketDescriptor \<Rightarrow> bool" where
  "desc_wf d \<longleftrightarrow> HEADER_SIZE \<le> fixed_size d \<and>
     (is_dynamic d \<longrightarrow> size_offset d + SIZE_SIZE \<le> fixed_size d)"

definition descs_wf :: "'a net_scheme \<Rightarrow> bool" where
  "descs_wf s \<longleftrightarrow> (\<forall>h d. packets s h = Some d \<longrightarrow> desc_wf d)"

definition packet_wf :: "TPacketDescriptor \<Rightarrow> u8 \<Rightarrow> bytes \<Rightarrow> bool" where
  "packet_wf d h data \<longleftrightarrow> data \<noteq> [] \<and> hd data = h \<and>
     (if is_dynamic d
      then (\<exists>n. get_u32 data (size_offset d) = Some n \<and> length data = fixed_size d + unat n)
      else length data = fixed_size d)"

text \<open>What an outstanding read of the plaintext path stands for.\<close>

fun op_wf :: "(u8 \<rightharpoonup> TPacketDescriptor) \<Rightarrow> op \<Rightarrow> bool" where
  "op_wf ps (ReadFixed h d) \<longleftrightarrow> ps h = Some d"
| "op_wf ps (ReadDynamic h d v n) \<longleftrightarrow>
     ps h = Some d \<and> is_dynamic d \<and> length v = fixed_size d \<and> v \<noteq> [] \<and> hd v = h \<and>
     map_option unat (get_u32 v (size_offset d)) = Some n"
| "op_wf ps _ \<longleftrightarrow> True"

definition net_ok :: "'a net_scheme \<Rightarrow> bool" where
  "net_ok s \<longleftrightarrow> net_inv s \<and> descs_wf s \<and> (\<forall>p \<in> set (ops s). op_wf (packets s) p)"

lemma get_u32_append: "get_u32 v i = Some n \<Longrightarrow> get_u32 (v @ w) i = Some n"
  by (auto simp: get_u32_def nth_append split: if_splits)

text \<open>Operations that keep \<open>packets\<close> and \<open>ops\<close> keep the second half.\<close>

lemma net_ok_frame:
  "net_ok s \<Longrightarrow> net_inv s' \<Longrightarrow> packets s' = packets s \<Longrightarrow> set (ops s') \<subseteq> set (ops s) \<Longrightarrow> net_ok s'"
  by (auto simp: net_ok_def descs_wf_def)

lemma net_ok_start_op:
  "net_ok s \<Longrightarrow> op_wf (packets s) p \<Longrightarrow> net_ok (start_op p s)"
  by (auto simp: net_ok_def descs_wf_def)


subsection \<open>What a derived client guarantees\<close>

text \<open>
  \<open>I\<close> is the derived class's own invariant: it reads its own members and the descriptor table.
  \<open>OnDisconnect\<close> and \<open>OnDataReceived\<close> keep it and the raw client's.
\<close>

locale net_client =
  fixes ssl :: openssl
    and od :: "'a net_scheme \<Rightarrow> 'a net_scheme"
    and on_data :: "'a net_scheme on_data"
    and ivh :: "u8 \<Rightarrow> bool"
    and I :: "'a net_scheme \<Rightarrow> bool"
  assumes I_frame: "I s \<Longrightarrow> packets s' = packets s \<Longrightarrow> net.more s' = net.more s \<Longrightarrow> I s'"
    and od_ok: "net_ok s \<Longrightarrow> I s \<Longrightarrow> net_ok (od s) \<and> I (od s)"
    and data_ok: "net_ok s \<Longrightarrow> I s \<Longrightarrow> IsConnected s \<Longrightarrow> on_data h d s = Some (b, s') \<Longrightarrow>
                  net_ok s' \<and> I s'"
begin

definition ok :: "'a net_scheme \<Rightarrow> bool" where
  "ok s \<longleftrightarrow> net_ok s \<and> I s"

lemma ok_frame:
  "ok s \<Longrightarrow> net_inv s' \<Longrightarrow> packets s' = packets s \<Longrightarrow> net.more s' = net.more s \<Longrightarrow>
   set (ops s') \<subseteq> set (ops s) \<Longrightarrow> ok s'"
  unfolding ok_def using net_ok_frame [of s s'] I_frame [of s s'] by blast

lemma ok_inv: "ok s \<Longrightarrow> net_inv s"
  by (simp add: ok_def net_ok_def)

lemma ok_PostTask: "ok s \<Longrightarrow> ok (PostTask t s)"
  using ok_frame [of s "PostTask t s"] by (simp add: ok_inv net_inv_PostTask)

lemma ok_start_op: "ok s \<Longrightarrow> op_wf (packets s) p \<Longrightarrow> ok (start_op p s)"
  using net_ok_start_op [of s p] I_frame [of s "start_op p s"] by (simp add: ok_def)

lemma ok_StartReconnectTimer: "ok s \<Longrightarrow> ok (StartReconnectTimer s)"
  using ok_frame [of s "StartReconnectTimer s"] by (simp add: ok_inv)

lemma ok_stopped: "ok s \<Longrightarrow> ok ((session_stop (ClearTimers s))\<lparr>connect_state := DISCONNECTED\<rparr>)"
  using ok_frame [of s "(session_stop (ClearTimers s))\<lparr>connect_state := DISCONNECTED\<rparr>"]
    net_inv_session_stop [of "ClearTimers s"] by (simp add: ok_inv)

lemma ok_Disconnect: "ok s \<Longrightarrow> ok (Disconnect od need s)"
  using od_ok ok_stopped [of s] ok_StartReconnectTimer
  by (simp add: Disconnect_def Let_def ok_def)

lemma ok_handle_error: "ok s \<Longrightarrow> ok (session_handle_error od oper ec s)"
  using ok_Disconnect by (simp add: handle_error_unfold)

lemma ok_handle_error_act: "ok s \<Longrightarrow> ok (session_handle_error_act od oper act ec s)"
  using ok_Disconnect ok_PostTask
  by (simp add: handle_error_act_unfold split: EActivityState.split)

lemma ok_Send:
  assumes s: "ok s" and r: "Send ssl od data encr s = (res, data', s')"
  shows "ok s'"
  by (rule ok_frame [OF s net_inv_Send [OF ok_inv [OF s] r]]) (simp_all add: Send_frame [OF r])

lemma ok_session_write: "ok s \<Longrightarrow> ok (session_write s)"
proof (cases "write_queue s")
  case Nil
  then show "ok s \<Longrightarrow> ?thesis" by (simp add: session_write_def)
next
  case (Cons p q)
  assume s: "ok s"
  with Cons have "net_inv (s\<lparr>write_queue := q\<rparr>)" by (auto simp: net_inv_def dest!: ok_inv)
  then have q: "ok (s\<lparr>write_queue := q\<rparr>)" by (intro ok_frame [OF s]) auto
  then show ?thesis
    using Cons ok_PostTask [OF q] ok_start_op [OF q, of "WriteOp p"]
    by (auto simp: session_write_def Let_def)
qed

lemma ok_read_on: "ok s \<Longrightarrow> ok (read_on s)"
  using ok_start_op [of s ReadHeader] ok_start_op [of s ReadSize]
  by (simp add: read_on_def session_read_def session_read_encrypted_def)

lemma ok_run_task: "ok s \<Longrightarrow> ok (run_task t s)"
  using ok_read_on ok_session_write by (cases t) auto

lemma ok_run_posted: "ok s \<Longrightarrow> tasks s = t # ts \<Longrightarrow> ok (run_posted t (s\<lparr>tasks := ts\<rparr>))"
proof -
  assume s: "ok s" and t: "tasks s = t # ts"
  then have "net_inv (s\<lparr>tasks := ts, pending_tasks_count := pending_tasks_count s - 1\<rparr>)"
    by (auto simp: net_inv_def dest!: ok_inv)
  then have "ok (s\<lparr>tasks := ts, pending_tasks_count := pending_tasks_count s - 1\<rparr>)"
    by (intro ok_frame [OF s]) auto
  then show ?thesis by (simp add: run_posted_def ok_run_task)
qed

lemma ok_packet_handle:
  "ok s \<Longrightarrow> IsConnected s \<Longrightarrow> packet_handle od on_data h d s = Some s' \<Longrightarrow> ok s'"
  using data_ok [of s h d] ok_handle_error_act ok_PostTask
  by (auto simp: packet_handle_def ok_def split: option.splits if_splits)

lemma ok_packet_process: "ok s \<Longrightarrow> packet_process ivh h s = Some s' \<Longrightarrow> ok s'"
  using ok_start_op
  by (auto simp: packet_process_def packet_get_descriptor_def split: option.splits if_splits)

lemma ok_packet_process_decrypted:
  "ok s \<Longrightarrow> IsConnected s \<Longrightarrow> packet_process_decrypted od on_data ivh d s = Some s' \<Longrightarrow> ok s'"
  using ok_handle_error ok_packet_handle
  by (auto simp: packet_process_decrypted_def split: list.splits option.splits if_splits)

lemma ok_Connect: "ok s \<Longrightarrow> ok (Connect host port s)"
proof -
  assume s: "ok s"
  show ?thesis
  proof (cases "IsConnected s")
    case False
    with s have "ok (s\<lparr>connect_state := CONNECTING, last_host := host, last_port := port,
         connect_timeout_timer := True, resolver := True\<rparr>)"
      by (intro ok_frame [OF s]) (auto simp: net_inv_def IsConnected_def dest!: ok_inv)
    then show ?thesis using False ok_start_op by (simp add: Connect_def)
  qed (use s in \<open>simp add: Connect_def\<close>)
qed

lemma ok_set_disconnected:
  "ok s \<Longrightarrow> connect_state s \<noteq> CONNECTED \<Longrightarrow> ok (s\<lparr>connect_state := DISCONNECTED\<rparr>)"
  using ok_frame [of s "s\<lparr>connect_state := DISCONNECTED\<rparr>"] 
  by (auto simp: net_inv_def dest!: ok_inv)

lemma ok_session_start: "ok s \<Longrightarrow> session_start od s = (b, s') \<Longrightarrow> ok s'"
proof -
  assume s: "ok s" and r: "session_start od s = (b, s')"
  have "ok (s\<lparr>connect_state := CONNECTED\<rparr>)" using s
    by (intro ok_frame [OF s]) (auto simp: net_inv_def dest!: ok_inv)
  then have "ok (ClearTimers (s\<lparr>connect_state := CONNECTED\<rparr>))"
    using ok_frame [of "s\<lparr>connect_state := CONNECTED\<rparr>"] by (simp add: ok_inv)
  then show ?thesis
    using r ok_PostTask ok_handle_error [OF s] by (auto simp: session_start_def split: if_splits)
qed

lemma ok_upd:
  "ok s \<Longrightarrow> ok (s\<lparr>socket_open := b\<rparr>)" "ok s \<Longrightarrow> ok (s\<lparr>reconnect_timer := b\<rparr>)"
  "ok s \<Longrightarrow> ok (s\<lparr>connect_timeout_timer := b\<rparr>)" "ok s \<Longrightarrow> ok (s\<lparr>ops := remove1 p (ops s)\<rparr>)"
  using ok_frame [of s "s\<lparr>socket_open := b\<rparr>"] ok_frame [of s "s\<lparr>reconnect_timer := b\<rparr>"]
    ok_frame [of s "s\<lparr>connect_timeout_timer := b\<rparr>"]
    ok_frame [of s "s\<lparr>ops := remove1 p (ops s)\<rparr>"]
  by (simp_all add: ok_inv set_remove1_subset)

lemma ok_read_fixed:
  assumes s: "ok s" and d: "packets s h = Some desc" and len: "failed ec \<or> length data = fixed_size desc - HEADER_SIZE"
    and r: "on_read_fixed od on_data h desc ec data s = Some s'"
  shows "ok s'"
proof -
  have wf: "desc_wf desc" using s d by (auto simp: ok_def net_ok_def descs_wf_def)
  have "ok (start_op (ReadDynamic h desc (h # data) (unat n)) s)"
    if "is_dynamic desc" "\<not> failed ec" "get_u32 (h # data) (size_offset desc) = Some n" for n
    using s d len wf that
    by (intro ok_start_op) (auto simp: desc_wf_def HEADER_SIZE_def)
  then show ?thesis
    using r s ok_handle_error_act ok_packet_handle
    by (auto simp: on_read_fixed_def Let_def split: if_splits option.splits)
qed

lemma ok_complete:
  assumes s: "ok s" and wf: "op_wf (packets s) p" and len: "failed ec \<or> length data = op_wants p"
    and r: "complete ssl od on_data ivh p ec data b s = Some s'"
  shows "ok s'"
proof (cases p)
  case ReadHeader
  then show ?thesis
    using r s ok_handle_error_act ok_packet_process
    by (auto simp: on_read_header_def split: if_splits list.splits)
next
  case (ReadFixed h desc)
  then show ?thesis using r s wf len ok_read_fixed by auto
next
  case (ReadDynamic h desc v n)
  then show ?thesis
    using r s ok_handle_error ok_handle_error_act ok_packet_handle
    by (auto simp: on_read_dynamic_def split: if_splits)
next
  case ReadSize
  then show ?thesis
    using r s ok_handle_error_act ok_start_op
    by (auto simp: on_read_size_def split: if_splits option.splits)
next
  case (ReadData n)
  then show ?thesis
    using r s ok_handle_error_act ok_packet_process_decrypted
    by (auto simp: on_read_data_def Let_def split: if_splits option.splits prod.splits)
next
  case (WriteOp d)
  then show ?thesis
    using r s ok_handle_error_act ok_PostTask by (auto simp: on_write_def split: if_splits)
next
  case ResolveOp
  then show ?thesis
    using r s ok_handle_error ok_start_op by (auto simp: on_resolve_def split: if_splits)
next
  case ConnectOp
  then show ?thesis
    using r ok_upd(1) [OF s, of b] ok_handle_error ok_session_start
    by (auto simp: on_connect_def Let_def split: if_splits prod.splits)
qed

theorem ok_event:
  assumes s: "ok s" and e: "event_ok e" and r: "net_event ssl od on_data ivh e s = Some s'"
  shows "ok s'"
proof (cases e)
  case RunTask
  then show ?thesis using r s ok_run_posted by (auto split: list.splits)
next
  case (Complete p ec data b)
  show ?thesis
  proof (cases "p \<in> set (ops s)")
    case True
    then have "op_wf (packets s) p" using s by (auto simp: ok_def net_ok_def)
    then show ?thesis
      using r e True Complete ok_complete [OF ok_upd(4) [OF s, of p], of p ec data b] by auto
  qed (use r s Complete in simp)
next
  case (ReconnectFires ec)
  have "ok (on_reconnect_timer od ec t)" if "ok t" for t
    using that ok_handle_error ok_Connect by (auto simp: on_reconnect_timer_def Let_def)
  then show ?thesis using r s ReconnectFires ok_upd(2) by (auto split: if_splits)
next
  case (TimeoutFires ec)
  have "ok (on_connect_timeout od ec t)" if "ok t" for t
    using that ok_handle_error ok_set_disconnected by (auto simp: on_connect_timeout_def Let_def)
  then show ?thesis using r s TimeoutFires ok_upd(3) by (auto split: if_splits)
next
  case (CallConnect host port)
  then show ?thesis using r s ok_Connect by auto
next
  case (CallDisconnect need)
  then show ?thesis using r s ok_Disconnect by auto
next
  case (CallSend data encr)
  then show ?thesis
    using r s ok_Send [OF s, of data encr] by (cases "Send ssl od data encr s") auto
qed

theorem ok_poll:
  "ok s \<Longrightarrow> \<forall>e \<in> set es. event_ok e \<Longrightarrow> poll ssl od on_data ivh es s = Some s' \<Longrightarrow> ok s'"
proof (induction es arbitrary: s)
  case (Cons e es)
  then show ?case using ok_event by (auto simp: bind_Some_iff)
qed simp

lemma ok_DoWork:
  "ok s \<Longrightarrow> \<forall>e \<in> set es. event_ok e \<Longrightarrow> DoWork ssl od on_data ivh es s = Some s' \<Longrightarrow> ok s'"
  using ok_poll ok_StartReconnectTimer by (auto simp: DoWork_def split: if_splits)

end

subsection \<open>One chain of reads\<close>

fun task_reads :: "task \<Rightarrow> nat" where
  "task_reads TRead = 1" | "task_reads TBoth = 1" | "task_reads _ = 0"

fun op_reads :: "op \<Rightarrow> nat" where
  "op_reads ReadHeader = 1" | "op_reads (ReadFixed h d) = 1" | "op_reads (ReadDynamic h d v n) = 1"
| "op_reads ReadSize = 1" | "op_reads (ReadData n) = 1" | "op_reads _ = 0"

definition read_tokens :: "'a net_scheme \<Rightarrow> nat" where
  "read_tokens s = sum_list (map task_reads (tasks s)) + sum_list (map op_reads (ops s))"

lemma tokens_PostTask: "read_tokens (PostTask t s) \<le> read_tokens s + task_reads t"
  by (simp add: read_tokens_def PostTask_def)

lemma tokens_start_op [simp]: "read_tokens (start_op p s) = read_tokens s + op_reads p"
  by (simp add: read_tokens_def start_op_def)

lemma tokens_frame: "tasks s' = tasks s \<Longrightarrow> ops s' = ops s \<Longrightarrow> read_tokens s' = read_tokens s"
  by (simp add: read_tokens_def)

lemma tokens_simps [simp]:
  "read_tokens (StartReconnectTimer s) = read_tokens s"
  "read_tokens (ClearTimers s) = read_tokens s" "read_tokens (session_stop s) = read_tokens s"
  "read_tokens (s\<lparr>connect_state := st\<rparr>) = read_tokens s"
  "read_tokens (s\<lparr>pending_tasks_count := n\<rparr>) = read_tokens s"
  "read_tokens (s\<lparr>write_queue := q\<rparr>) = read_tokens s"
  "read_tokens (s\<lparr>rng := n\<rparr>) = read_tokens s"
  "read_tokens (s\<lparr>rng := n, write_queue := q\<rparr>) = read_tokens s"
  "read_tokens (s\<lparr>socket_open := x\<rparr>) = read_tokens s"
  "read_tokens (s\<lparr>reconnect_timer := x\<rparr>) = read_tokens s"
  "read_tokens (s\<lparr>connect_timeout_timer := x\<rparr>) = read_tokens s"
  by (simp_all add: read_tokens_def)

lemma tokens_remove_op:
  "p \<in> set (ops s) \<Longrightarrow> read_tokens (s\<lparr>ops := remove1 p (ops s)\<rparr>) + op_reads p = read_tokens s"
  using sum_list_map_remove1 [of p "ops s" op_reads] by (simp add: read_tokens_def)

lemma tokens_Send: "Send ssl od data encr s = (res, data', s') \<Longrightarrow> read_tokens s' \<le> read_tokens s"
proof -
  have "read_tokens (PostTask TWrite (s\<lparr>rng := r, write_queue := q\<rparr>)) \<le> read_tokens s" for r q
    using tokens_PostTask [of TWrite "s\<lparr>rng := r, write_queue := q\<rparr>"] by simp
  then show "Send ssl od data encr s = (res, data', s') \<Longrightarrow> ?thesis"
    by (auto simp: Send_eq split: if_splits prod.splits bool.splits)
qed

lemma tokens_read_on: "read_tokens (read_on s) \<le> read_tokens s + 1"
  by (simp add: read_on_def session_read_def session_read_encrypted_def)

lemma tokens_session_write: "read_tokens (session_write s) \<le> read_tokens s"
  using tokens_PostTask [of TWrite "s\<lparr>write_queue := tl (write_queue s)\<rparr>"]
  by (auto simp: session_write_def Let_def split: list.split)

lemma tokens_run_task: "read_tokens (run_task t s) \<le> read_tokens s + task_reads t"
  using tokens_read_on [of s] tokens_session_write [of s] tokens_read_on [of "session_write s"]
  by (cases t) auto

text \<open>Neither virtual function starts or posts a read.\<close>

locale net_client_reads = net_client ssl od on_data ivh I
  for ssl :: openssl and od :: "'a net_scheme \<Rightarrow> 'a net_scheme"
    and on_data :: "'a net_scheme on_data" and ivh :: "u8 \<Rightarrow> bool"
    and I :: "'a net_scheme \<Rightarrow> bool" +
  assumes od_reads: "read_tokens (od s) \<le> read_tokens s"
    and data_reads: "on_data h d s = Some (b, s') \<Longrightarrow> read_tokens s' \<le> read_tokens s"
begin

lemma reads_Disconnect: "read_tokens (Disconnect od need s) \<le> read_tokens s"
  using od_reads [of "(session_stop (ClearTimers s))\<lparr>connect_state := DISCONNECTED\<rparr>"]
  by (simp add: Disconnect_def Let_def)

lemma reads_error: "read_tokens (session_handle_error od oper ec s) \<le> read_tokens s"
  using reads_Disconnect by (simp add: handle_error_unfold)

lemma reads_error_act:
  "read_tokens (session_handle_error_act od oper act ec s) \<le>
     read_tokens s + (if act = ActRead \<or> act = ActBoth then 1 else 0)"
proof -
  have "read_tokens (PostTask TRead s) \<le> read_tokens s + 1"
    "read_tokens (PostTask TBoth s) \<le> read_tokens s + 1"
    "read_tokens (PostTask TWriteIf s) \<le> read_tokens s"
    using tokens_PostTask [of TRead s] tokens_PostTask [of TBoth s] tokens_PostTask [of TWriteIf s]
    by simp_all
  moreover have "read_tokens (Disconnect od True s) \<le> read_tokens s" by (rule reads_Disconnect)
  ultimately show ?thesis
    by (auto simp: handle_error_act_unfold split: EActivityState.split)
qed

lemma reads_packet_handle:
  assumes "packet_handle od on_data h d s = Some s'"
  shows "read_tokens s' \<le> read_tokens s + 1"
proof -
  obtain b t where t: "on_data h d s = Some (b, t)"
    using assms by (auto simp: packet_handle_def split: option.splits)
  have "read_tokens s' \<le> read_tokens t + 1"
    using assms t reads_error_act [of "bytes_of ''packet handle failed''" ActRead protocol_error t]
      tokens_PostTask [of TRead t]
    by (auto simp: packet_handle_def split: if_splits)
  then show ?thesis using data_reads [OF t] by linarith
qed

lemma reads_complete:
  assumes "complete ssl od on_data ivh p ec data b s = Some s'"
  shows "read_tokens s' \<le> read_tokens s + op_reads p + (if p = ConnectOp then 1 else 0)"
proof (cases p)
  case ReadHeader
  then show ?thesis using assms reads_error_act [of "bytes_of ''read header''" ActRead ec s]
    by (auto simp: on_read_header_def packet_process_def split: if_splits list.splits option.splits)
next
  case (ReadFixed h desc)
  then show ?thesis
    using assms reads_error_act [of "bytes_of ''read fixed data''" ActRead ec s] reads_packet_handle
    by (auto simp: on_read_fixed_def Let_def split: if_splits option.splits)
next
  case (ReadDynamic h desc v n)
  then show ?thesis
    using assms reads_error_act [of "bytes_of ''read dynamic data''" ActRead ec s]
      reads_error [of "bytes_of ''Session is not active to read.''" protocol_error s]
      reads_packet_handle
    by (auto simp: on_read_dynamic_def split: if_splits)
next
  case ReadSize
  then show ?thesis
    using assms reads_error_act [of "bytes_of ''read size''" ActRead ec s]
      reads_error_act [of "bytes_of ''invalid packet size''" ActRead protocol_error s]
    by (auto simp: on_read_size_def split: if_splits option.splits)
next
  case (ReadData n)
  have "read_tokens t \<le> read_tokens s + 1"
    if "packet_process_decrypted od on_data ivh d s = Some t" for d t
    using that reads_packet_handle reads_error [of "bytes_of ''Descriptor not exist.''" protocol_error s]
    by (auto simp: packet_process_decrypted_def split: list.splits option.splits if_splits)
  then show ?thesis
    using assms ReadData reads_error_act [of "bytes_of ''read encrypted data''" ActRead ec s]
      reads_error_act [of "bytes_of ''decryption failed''" ActRead protocol_error s]
    by (auto simp: on_read_data_def Let_def split: if_splits option.splits prod.splits)
next
  case (WriteOp d)
  then show ?thesis
    using assms reads_error_act [of "bytes_of ''write''" ActWrite ec s] tokens_PostTask [of TWrite s]
    by (auto simp: on_write_def split: if_splits)
next
  case ResolveOp
  then show ?thesis
    using assms reads_error [of "bytes_of ''critical: resolution failed''" ec s]
      reads_error [of "bytes_of ''no IPv4 endpoint found''" af_not_supported s]
    by (auto simp: on_resolve_def split: if_splits)
next
  case ConnectOp
  let ?s = "s\<lparr>socket_open := b\<rparr>"
  have st: "read_tokens t \<le> read_tokens ?s + 1" if "session_start od ?s = (x, t)" for x t
    using that reads_error [of "bytes_of ''Session already active''" protocol_error ?s]
      tokens_PostTask [of TRead "ClearTimers (?s\<lparr>connect_state := CONNECTED\<rparr>)"]
    by (auto simp: session_start_def split: if_splits)
  have "read_tokens (session_handle_error od oper e t) \<le> read_tokens ?s + 1"
    if "session_start od ?s = (x, t)" for x t oper e
    using st [OF that] reads_error [of oper e t] by linarith
  then show ?thesis
    using assms ConnectOp st reads_error [of _ _ ?s]
    by (auto simp: on_connect_def Let_def le_SucI split: if_splits prod.splits)
qed

theorem reads_event:
  assumes "net_event ssl od on_data ivh e s = Some s'"
  shows "read_tokens s' \<le> read_tokens s +
           (case e of Complete ConnectOp ec d b \<Rightarrow> 1 | _ \<Rightarrow> 0)"
proof (cases e)
  case RunTask
  show ?thesis
  proof (cases "tasks s")
    case (Cons t ts)
    let ?s = "s\<lparr>tasks := ts, pending_tasks_count := pending_tasks_count s - 1\<rparr>"
    have "read_tokens ?s + task_reads t = read_tokens s"
      using Cons by (simp add: read_tokens_def)
    then show ?thesis using assms RunTask Cons tokens_run_task [of t ?s]
      by (simp add: run_posted_def)
  qed (use assms RunTask in simp)
next
  case (Complete p ec data b)
  show ?thesis
  proof (cases "p \<in> set (ops s)")
    case True
    with assms Complete have r: "complete ssl od on_data ivh p ec data b (s\<lparr>ops := remove1 p (ops s)\<rparr>) = Some s'"
      by simp
    show ?thesis
      using reads_complete [OF r] tokens_remove_op [OF True] Complete by (cases p) auto
  qed (use assms Complete in simp)
next
  case (ReconnectFires ec)
  have "read_tokens (Connect h p t) \<le> read_tokens t" for h p and t :: "'a net_scheme"
    by (auto simp: Connect_def read_tokens_def start_op_def)
  then have "read_tokens (on_reconnect_timer od ec t) \<le> read_tokens t" for t
    using reads_error [of "bytes_of ''critical: Reconnect timer error''" ec t]
    by (auto simp: on_reconnect_timer_def Let_def intro: order_trans)
  from this [of "s\<lparr>reconnect_timer := False\<rparr>"] show ?thesis
    using assms ReconnectFires by (auto split: if_splits)
next
  case (TimeoutFires ec)
  have "read_tokens (on_connect_timeout od ec t) \<le> read_tokens t" for t
  proof -
    let ?u = "if ec_value ec = 0 then session_handle_error od
                (bytes_of ''critical: connect timeout timer error'') ec t else t"
    have "read_tokens ?u \<le> read_tokens t" using reads_error by simp
    moreover have "read_tokens (session_handle_error od
        (bytes_of ''critical: connection timeout'') ec (?u\<lparr>connect_state := DISCONNECTED\<rparr>)) \<le> read_tokens ?u"
      using reads_error [of _ _ "?u\<lparr>connect_state := DISCONNECTED\<rparr>"] by simp
    ultimately show ?thesis unfolding on_connect_timeout_def Let_def by auto
  qed
  from this [of "s\<lparr>connect_timeout_timer := False\<rparr>"] show ?thesis
    using assms TimeoutFires by (auto split: if_splits)
next
  case (CallConnect host port)
  then show ?thesis using assms by (auto simp: Connect_def read_tokens_def start_op_def)
next
  case (CallDisconnect need)
  then show ?thesis using assms reads_Disconnect by auto
next
  case (CallSend data encr)
  then show ?thesis using assms tokens_Send by (cases "Send ssl od data encr s") auto
qed

end

end
