(* ===== verification/Raw_Delivery.thy ===== *)
theory Raw_Delivery
  imports Raw_Inv
begin

text \<open>
  What the raw client delivers: the packets \<open>OnDataReceived\<close> is called with are complete, the
  framing itself never leaves its buffers, packets reach the socket in the order of \<open>Send\<close>,
  and once the posted writes have run nothing is left in the queue.
\<close>

subsection \<open>Complete packets only\<close>

fun is_read_data :: "event \<Rightarrow> bool" where
  "is_read_data (Complete (ReadData n) ec d b) \<longleftrightarrow> True"
| "is_read_data _ \<longleftrightarrow> False"

lemma packet_handle_agree:
  "on_data h d s = on_data' h d s \<Longrightarrow>
   packet_handle od on_data h d s = packet_handle od on_data' h d s"
  by (simp add: packet_handle_def)

lemma fixed_complete:
  assumes "ps h = Some desc" and "desc_wf desc" and "\<not> is_dynamic desc"
    and "length data = fixed_size desc - HEADER_SIZE"
  shows "packet_wf desc h (h # data)"
  using assms by (simp add: packet_wf_def desc_wf_def HEADER_SIZE_def)

lemma dynamic_complete:
  assumes "op_wf ps (ReadDynamic h desc v n)" and "length data = n"
  shows "packet_wf desc h (v @ data)"
  using assms get_u32_append by (fastforce simp: packet_wf_def)

text \<open>
  C6. On the plaintext path \<open>OnDataReceived\<close> only ever sees complete packets: a step of a
  well-formed client does the same for any two handlers that agree on packets whose length
  is what their registered descriptor (and, for a dynamic packet, its size field) says.
\<close>

theorem plain_delivery:
  fixes s :: "'a net_scheme"
  assumes ok: "net_ok s" and e: "event_ok e" "\<not> is_read_data e"
    and agree: "\<And>h desc d (t :: 'a net_scheme). packets s h = Some desc \<Longrightarrow> packet_wf desc h d \<Longrightarrow>
                  on_data h d t = on_data' h d t"
  shows "net_event ssl od on_data ivh e s = net_event ssl od on_data' ivh e s"
proof (cases e)
  case (Complete p ec data b)
  show ?thesis
  proof (cases "p \<in> set (ops s)")
    case True
    then have wf: "op_wf (packets s) p" using ok by (auto simp: net_ok_def)
    let ?s = "s\<lparr>ops := remove1 p (ops s)\<rparr>"
    have "complete ssl od on_data ivh p ec data b ?s = complete ssl od on_data' ivh p ec data b ?s"
    proof (cases p)
      case (ReadFixed h desc)
      with wf ok have d: "packets s h = Some desc" "desc_wf desc"
        by (auto simp: net_ok_def descs_wf_def)
      have "packet_handle od on_data h (h # data) ?s = packet_handle od on_data' h (h # data) ?s"
        if "\<not> failed ec" "\<not> is_dynamic desc"
      proof -
        have "length data = fixed_size desc - HEADER_SIZE"
          using that e Complete ReadFixed by simp
        then have "packet_wf desc h (h # data)" using d that(2) by (simp add: fixed_complete)
        then show ?thesis using agree [OF d(1)] by (intro packet_handle_agree)
      qed
      then show ?thesis using ReadFixed by (simp add: on_read_fixed_def Let_def)
    next
      case (ReadDynamic h desc v n)
      have "packet_handle od on_data h (v @ data) ?s = packet_handle od on_data' h (v @ data) ?s"
        if "\<not> failed ec"
      proof -
        have "length data = n" using that e Complete ReadDynamic by simp
        then have "packet_wf desc h (v @ data)"
          using wf ReadDynamic dynamic_complete by blast
        moreover have "packets s h = Some desc" using wf ReadDynamic by simp
        ultimately show ?thesis using agree by (intro packet_handle_agree) blast
      qed
      then show ?thesis using ReadDynamic by (simp add: on_read_dynamic_def)
    qed (use e Complete in auto)
    then show ?thesis using Complete True by simp
  qed (use Complete in simp)
qed simp_all

lemma on_data_defined_handle:
  "on_data h d s \<noteq> None \<Longrightarrow> packet_handle od on_data h d s \<noteq> None"
  by (auto simp: packet_handle_def)

text \<open>
  C7. The plaintext framing has no undefined behaviour of its own: no step of a well-formed client
  reads or writes outside a buffer, provided the handlers do not on complete packets.
\<close>

theorem plain_defined:
  fixes s :: "'a net_scheme"
  assumes ok: "net_ok s" and e: "event_ok e" "\<not> is_read_data e"
    and data: "\<And>h desc d (t :: 'a net_scheme). packets s h = Some desc \<Longrightarrow> packet_wf desc h d \<Longrightarrow>
                 on_data h d t \<noteq> None"
  shows "net_event ssl od on_data ivh e s \<noteq> None"
proof (cases e)
  case RunTask
  then show ?thesis by (simp split: list.split)
next
  case (Complete p ec data b)
  show ?thesis
  proof (cases "p \<in> set (ops s)")
    case True
    then have wf: "op_wf (packets s) p" using ok by (auto simp: net_ok_def)
    let ?s = "s\<lparr>ops := remove1 p (ops s)\<rparr>"
    have "complete ssl od on_data ivh p ec data b ?s \<noteq> None"
    proof (cases p)
      case ReadHeader
      have "packet_process ivh h ?s \<noteq> None" for h
      proof -
        have "\<not> fixed_size d < HEADER_SIZE" if "packets s h = Some d" for d
          using ok that by (auto simp: net_ok_def descs_wf_def desc_wf_def not_less)
        then show ?thesis
          by (auto simp: packet_process_def packet_get_descriptor_def split: option.split)
      qed
      then show ?thesis
        using e Complete ReadHeader
        by (cases data) (auto simp: on_read_header_def HEADER_SIZE_def)
    next
      case (ReadFixed h desc)
      with wf ok have d: "packets s h = Some desc" "desc_wf desc"
        by (auto simp: net_ok_def descs_wf_def)
      have len: "length data = fixed_size desc - HEADER_SIZE" if "\<not> failed ec"
        using that e Complete ReadFixed by simp
      have "packet_handle od on_data h (h # data) ?s \<noteq> None"
        if "\<not> failed ec" "\<not> is_dynamic desc"
        using data [OF d(1)] fixed_complete [of "packets s" h desc data] d that(2) len [OF that(1)]
        by (intro on_data_defined_handle) blast
      moreover have "get_u32 (h # data) (size_offset desc) \<noteq> None"
        if "\<not> failed ec" "is_dynamic desc"
        using len [OF that(1)] that(2) d(2)
        by (simp add: desc_wf_def HEADER_SIZE_def SIZE_SIZE_def)
      ultimately show ?thesis
        using ReadFixed by (auto simp: on_read_fixed_def Let_def split: option.split)
    next
      case (ReadDynamic h desc v n)
      have "packet_handle od on_data h (v @ data) ?s \<noteq> None" if "\<not> failed ec"
      proof -
        have "length data = n" using that e Complete ReadDynamic by simp
        then have "packet_wf desc h (v @ data)"
          using wf ReadDynamic dynamic_complete by blast
        moreover have "packets s h = Some desc" using wf ReadDynamic by simp
        ultimately show ?thesis using data by (intro on_data_defined_handle) blast
      qed
      then show ?thesis using ReadDynamic by (simp add: on_read_dynamic_def)
    next
      case ReadSize
      then show ?thesis
        using e Complete by (auto simp: on_read_size_def SIZE_SIZE_def split: option.split)
    qed (use e Complete in auto)
    then show ?thesis using Complete True by simp
  qed (use Complete in simp)
qed simp_all

text \<open>
  The encrypted path does not have this guarantee: a peer that encrypts the empty string makes
  the client read the first byte of an empty vector.
\<close>

lemma encrypted_empty_undefined:
  "net_event demo_ssl od on_data ivh
     (Complete (ReadData 32) no_error (replicate 16 0 @ pad16 []) False)
     (NetworkClientImpl\<lparr>connect_state := CONNECTED, is_encrypted := True,
        crypto := Some \<lparr>ch_key = replicate 32 0, ch_iv = []\<rparr>, ops := [ReadData 32]\<rparr>) = None"
proof -
  have "length (pad16 []) = 16" by (simp add: length_pad16)
  then have "decrypt demo_ssl c (replicate 16 0 @ pad16 []) = (True, [])" for c
    by (simp add: decrypt_def IV_SIZE_def demo_ssl_def evp_arg_small unpad_pad)
  then show ?thesis
    by (simp add: on_read_data_def failed_def no_error_def IsConnected_def)
qed

subsection \<open>Reads go on\<close>

text \<open>
  A header without a descriptor ends the reading of a connected client: nothing is posted and
  nothing is outstanding any more.
\<close>

lemma unknown_header_stalls:
  assumes "IsConnected s" and "ops s = [ReadHeader]" and "tasks s = []"
    and "packets s h = None" and "\<not> failed ec"
  shows "\<exists>s'. net_event ssl od on_data ivh (Complete ReadHeader ec [h] b) s = Some s' \<and>
           IsConnected s' \<and> read_tokens s' = 0"
  using assms
  by (simp add: on_read_header_def packet_process_def packet_get_descriptor_def IsConnected_def
      read_tokens_def)

subsection \<open>The order on the socket\<close>

fun op_written :: "op \<Rightarrow> bytes list" where
  "op_written (WriteOp d) = [d]"
| "op_written _ = []"

text \<open>What has been handed to the socket and not completed, then what waits in the queue.\<close>

definition in_flight :: "'a net_scheme \<Rightarrow> bytes list" where
  "in_flight s = concat (map op_written (ops s))"

definition outgoing :: "'a net_scheme \<Rightarrow> bytes list" where
  "outgoing s = in_flight s @ write_queue s"

lemma outgoing_PostTask [simp]: "outgoing (PostTask t s) = outgoing s"
  by (simp add: outgoing_def in_flight_def)

lemma session_write_outgoing:
  "[] \<notin> set (write_queue s) \<Longrightarrow>
   outgoing (session_write s) = outgoing s \<and> write_queue (session_write s) = tl (write_queue s)"
  by (auto simp: session_write_def Let_def outgoing_def in_flight_def split: list.split)

lemma outgoing_read_on [simp]: "outgoing (read_on s) = outgoing s"
  by (simp add: read_on_def session_read_def session_read_encrypted_def outgoing_def in_flight_def)

lemma read_on_queue [simp]: "write_queue (read_on s) = write_queue s"
  by (simp add: read_on_def session_read_def session_read_encrypted_def)

lemma run_task_outgoing:
  "[] \<notin> set (write_queue s) \<Longrightarrow> outgoing (run_task t s) = outgoing s"
  by (cases t) (simp_all add: session_write_outgoing)


subsection \<open>Everything sent is written\<close>

definition writes_posted :: "'a net_scheme \<Rightarrow> nat" where
  "writes_posted s = length (filter (\<lambda>t. t = TWrite) (tasks s))"

text \<open>As long as no closure is dropped there is a posted write for every queued packet.\<close>

lemma Send_writes_posted:
  assumes "length (write_queue s) \<le> writes_posted s" and "Send ssl od data encr s = (res, data', s')"
    and "pending_tasks_count s < MAX_PENDING_TASKS"
  shows "length (write_queue s') \<le> writes_posted s'"
  using assms
  by (auto simp: Send_eq writes_posted_def PostTask_def push_packet_def push_drop_oldest_def
      split: if_splits prod.splits bool.splits)

primrec run_tasks :: "nat \<Rightarrow> 'a net_scheme \<Rightarrow> 'a net_scheme" where
  "run_tasks 0 s = s"
| "run_tasks (Suc n) s =
     run_tasks n (case tasks s of [] \<Rightarrow> s | t # ts \<Rightarrow> run_posted t (s\<lparr>tasks := ts\<rparr>))"

lemma poll_run_tasks:
  "poll ssl od on_data ivh (replicate n RunTask) s = Some (run_tasks n s)"
proof (induction n arbitrary: s)
  case (Suc n)
  then show ?case by (cases "tasks s") simp_all
qed simp

lemma session_write_tasks:
  "[] \<notin> set (write_queue s) \<Longrightarrow> tasks (session_write s) = tasks s"
  by (auto simp: session_write_def Let_def split: list.split)

lemma read_on_tasks [simp]: "tasks (read_on s) = tasks s"
  by (simp add: read_on_def session_read_def session_read_encrypted_def)

lemma run_task_tasks: "[] \<notin> set (write_queue s) \<Longrightarrow> tasks (run_task t s) = tasks s"
  by (cases t) (simp_all add: session_write_tasks)

lemma run_task_queue:
  "[] \<notin> set (write_queue s) \<Longrightarrow>
   write_queue (run_task t s) = (if t = TRead then write_queue s else tl (write_queue s))"
  by (cases t) (simp_all add: session_write_outgoing)

lemma run_tasks_flush:
  "net_inv s \<Longrightarrow> length (write_queue s) \<le> writes_posted s \<Longrightarrow> n = length (tasks s) \<Longrightarrow>
   write_queue (run_tasks n s) = [] \<and> outgoing (run_tasks n s) = outgoing s"
proof (induction n arbitrary: s)
  case 0
  then show ?case by (simp add: writes_posted_def)
next
  case (Suc n)
  then obtain t ts where ts: "tasks s = t # ts" by (cases "tasks s") auto
  let ?s = "s\<lparr>tasks := ts, pending_tasks_count := pending_tasks_count s - 1\<rparr>"
  let ?s' = "run_posted t (s\<lparr>tasks := ts\<rparr>)"
  have ne: "[] \<notin> set (write_queue ?s)" using Suc.prems by (simp add: net_inv_def)
  have inv: "net_inv ?s'" by (rule net_inv_run_posted [OF Suc.prems(1) ts])
  have out: "outgoing ?s' = outgoing s"
    using run_task_outgoing [OF ne, of t]
    by (simp add: run_posted_def outgoing_def in_flight_def)
  have "length (write_queue ?s') \<le> writes_posted ?s'"
    using Suc.prems(2) run_task_queue [OF ne, of t] run_task_tasks [OF ne, of t] ts
    by (auto simp: run_posted_def writes_posted_def split: if_splits)
  moreover have "n = length (tasks ?s')"
    using Suc.prems(3) run_task_tasks [OF ne, of t] ts by (simp add: run_posted_def)
  ultimately show ?case using Suc.IH [OF inv] ts out by simp
qed

text \<open>
  C10. Nothing is left behind: when every queued packet has its posted write (which \<open>Send\<close>
  maintains until closures are dropped), running the closures that are posted now hands the
  whole queue to the socket, in order.
\<close>

theorem queue_flushed:
  assumes "net_inv s" and "length (write_queue s) \<le> writes_posted s"
  shows "\<exists>s'. poll ssl od on_data ivh (replicate (length (tasks s)) RunTask) s = Some s' \<and>
           write_queue s' = [] \<and> in_flight s' = outgoing s"
  using run_tasks_flush [OF assms refl] poll_run_tasks [of ssl od on_data ivh "length (tasks s)" s]
  by (metis append_Nil2 outgoing_def)

subsection \<open>The theorems on an example\<close>

lemma NetworkClientImpl_sel [simp]:
  "tasks NetworkClientImpl = []" "pending_tasks_count NetworkClientImpl = 0"
  "write_queue NetworkClientImpl = []" "crypto NetworkClientImpl = None"
  "is_encrypted NetworkClientImpl = False" "packets NetworkClientImpl = Map.empty"
  "ops NetworkClientImpl = []" "connect_state NetworkClientImpl = DISCONNECTED"
  by (simp_all add: NetworkClientImpl_def StartIO_def StopIO_def Let_def)

definition demo_desc :: TPacketDescriptor where
  "demo_desc = TPacketDescriptor_fixed 7 3"

definition demo_net :: net where
  "demo_net = NetworkClientImpl\<lparr>connect_state := CONNECTED, packets := [7 \<mapsto> demo_desc],
     ops := [ReadFixed 7 demo_desc]\<rparr>"

lemma demo_net_ok: "net_ok demo_net"
  by (simp add: net_ok_def net_inv_def descs_wf_def desc_wf_def demo_net_def demo_desc_def
      TPacketDescriptor_fixed_def HEADER_SIZE_def)

definition demo_event :: event where
  "demo_event = Complete (ReadFixed 7 demo_desc) no_error [1, 2] False"

lemma demo_event_ok: "event_ok demo_event" "\<not> is_read_data demo_event"
  by (simp_all add: demo_event_def demo_desc_def TPacketDescriptor_fixed_def HEADER_SIZE_def)

text \<open>A handler that is undefined on incomplete packets.\<close>

definition strict :: "u8 \<Rightarrow> bytes \<Rightarrow> net \<Rightarrow> (bool \<times> net) option" where
  "strict h d s = (if length d = 3 then Some (True, s) else None)"

lemma demo_strict: "packets demo_net h = Some desc \<Longrightarrow> packet_wf desc h d \<Longrightarrow> strict h d t = Some (True, t)"
  by (auto simp: demo_net_def packet_wf_def strict_def demo_desc_def TPacketDescriptor_fixed_def
      split: if_splits)

lemma plain_delivery_witness:
  "net_event demo_ssl id (\<lambda>h d s. Some (True, s)) (\<lambda>h. True) demo_event demo_net =
   net_event demo_ssl id strict (\<lambda>h. True) demo_event demo_net"
  by (rule plain_delivery [OF demo_net_ok demo_event_ok]) (simp add: demo_strict)

lemma plain_defined_witness:
  "net_event demo_ssl id strict (\<lambda>h. True) demo_event demo_net \<noteq> None"
  by (rule plain_defined [OF demo_net_ok demo_event_ok]) (simp add: demo_strict)


lemma queue_flushed_witness:
  "let s = demo_net\<lparr>write_queue := [[4, 5], [6]], tasks := [TWrite, TWrite], pending_tasks_count := 2\<rparr>
   in \<exists>s'. poll demo_ssl id strict (\<lambda>h. True) [RunTask, RunTask] s = Some s' \<and>
        write_queue s' = [] \<and> in_flight s' = [[4, 5], [6]]"
proof -
  let ?s = "demo_net\<lparr>write_queue := [[4, 5], [6]], tasks := [TWrite, TWrite], pending_tasks_count := 2\<rparr>"
  have "net_inv ?s" "length (write_queue ?s) \<le> writes_posted ?s"
    by (simp_all add: demo_net_def net_inv_def MAX_WRITE_QUEUE_SIZE_def MAX_PENDING_TASKS_def
        writes_posted_def)
  from queue_flushed [OF this, of demo_ssl id strict "\<lambda>h. True"] show ?thesis
    by (simp add: numeral_2_eq_2 outgoing_def in_flight_def demo_net_def Let_def)
qed

end
