(* ===== verification/Packets.thy ===== *)
theory Packets
  imports Buffer
begin

text \<open>
  The wire structures of \<open>mobigame/constants/packets.h\<close> in the configuration the game is built
  with, and the enumerations of \<open>packet_constants.h\<close> they carry. Each packed struct is a record
  whose fields carry the struct's name, with \<open>X_new\<close> its default member initialisers, \<open>ser_X\<close>
  its bytes in memory, \<open>sizeof_X\<close> its size and, for the structs the client receives, \<open>get_X\<close> the
  reading of it at an offset of the received data. An array of characters is a list with its
  declared number of bytes; \<open>resize\<close> is the identity on such a list.
\<close>

subsection \<open>Headers\<close>

abbreviation HEADER_MS_LOGIN :: u8 where "HEADER_MS_LOGIN \<equiv> 1"
abbreviation HEADER_MS_LOGOUT :: u8 where "HEADER_MS_LOGOUT \<equiv> 2"
abbreviation HEADER_SM_MESSAGE :: u8 where "HEADER_SM_MESSAGE \<equiv> 3"
abbreviation HEADER_MS_MESSAGE :: u8 where "HEADER_MS_MESSAGE \<equiv> 4"
abbreviation HEADER_MS_MESSAGE_NAME :: u8 where "HEADER_MS_MESSAGE_NAME \<equiv> 5"
abbreviation HEADER_MS_SHOUT :: u8 where "HEADER_MS_SHOUT \<equiv> 6"
abbreviation HEADER_SM_LOGIN :: u8 where "HEADER_SM_LOGIN \<equiv> 7"
abbreviation HEADER_SM_LOGOUT :: u8 where "HEADER_SM_LOGOUT \<equiv> 8"
abbreviation HEADER_MS_ONLINE :: u8 where "HEADER_MS_ONLINE \<equiv> 9"
abbreviation HEADER_MS_DATA_UPDATE :: u8 where "HEADER_MS_DATA_UPDATE \<equiv> 10"
abbreviation HEADER_MS_USER_CHECK :: u8 where "HEADER_MS_USER_CHECK \<equiv> 11"
abbreviation HEADER_SM_USER_CHECK :: u8 where "HEADER_SM_USER_CHECK \<equiv> 12"
abbreviation HEADER_MS_GUILD_JOIN :: u8 where "HEADER_MS_GUILD_JOIN \<equiv> 13"
abbreviation HEADER_MS_GUILD_LEAVE :: u8 where "HEADER_MS_GUILD_LEAVE \<equiv> 14"
abbreviation HEADER_MS_GUILD_POINT :: u8 where "HEADER_MS_GUILD_POINT \<equiv> 15"
abbreviation HEADER_MS_GUILD_STATS :: u8 where "HEADER_MS_GUILD_STATS \<equiv> 16"
abbreviation HEADER_MS_MESSENGER_ADD :: u8 where "HEADER_MS_MESSENGER_ADD \<equiv> 17"
abbreviation HEADER_MS_MESSENGER_REMOVE :: u8 where "HEADER_MS_MESSENGER_REMOVE \<equiv> 18"
abbreviation HEADER_MS_LEVEL_UP :: u8 where "HEADER_MS_LEVEL_UP \<equiv> 19"
abbreviation HEADER_MS_KEY_EXCHANGE :: u8 where "HEADER_MS_KEY_EXCHANGE \<equiv> 20"
abbreviation HEADER_SM_KEY_EXCHANGE :: u8 where "HEADER_SM_KEY_EXCHANGE \<equiv> 21"
abbreviation HEADER_SM_DB_INFO :: u8 where "HEADER_SM_DB_INFO \<equiv> 22"
abbreviation HEADER_MS_DB_INFO :: u8 where "HEADER_MS_DB_INFO \<equiv> 23"
abbreviation HEADER_MS_GUILD_WAR :: u8 where "HEADER_MS_GUILD_WAR \<equiv> 24"
abbreviation HEADER_MS_ADMIN_NOTIFICATION :: u8 where "HEADER_MS_ADMIN_NOTIFICATION \<equiv> 25"
abbreviation HEADER_SM_CORE_AUTHORITY :: u8 where "HEADER_SM_CORE_AUTHORITY \<equiv> 26"
abbreviation HEADER_MS_KILL :: u8 where "HEADER_MS_KILL \<equiv> 27"
abbreviation HEADER_MS_CONFIG :: u8 where "HEADER_MS_CONFIG \<equiv> 28"
abbreviation HEADER_MS_CHARACTER :: u8 where "HEADER_MS_CHARACTER \<equiv> 29"
abbreviation HEADER_MS_SYNC :: u8 where "HEADER_MS_SYNC \<equiv> 30"
abbreviation HEADER_SM_CACHE_STATUS :: u8 where "HEADER_SM_CACHE_STATUS \<equiv> 31"
abbreviation HEADER_SM_FORWARD :: u8 where "HEADER_SM_FORWARD \<equiv> 32"
abbreviation HEADER_MS_MOBILE_NOTIFY :: u8 where "HEADER_MS_MOBILE_NOTIFY \<equiv> 33"
abbreviation HEADER_SM_VALIDATE_LOGIN :: u8 where "HEADER_SM_VALIDATE_LOGIN \<equiv> 34"
abbreviation HEADER_MS_VALIDATE_LOGIN :: u8 where "HEADER_MS_VALIDATE_LOGIN \<equiv> 35"
abbreviation HEADER_MS_OFFSHOP :: u8 where "HEADER_MS_OFFSHOP \<equiv> 36"
abbreviation HEADER_SM_OFFSHOP :: u8 where "HEADER_SM_OFFSHOP \<equiv> 37"
abbreviation HEADER_SM_CHARACTER :: u8 where "HEADER_SM_CHARACTER \<equiv> 38"
abbreviation HEADER_MS_SHOP_OP_RESPONSE :: u8 where "HEADER_MS_SHOP_OP_RESPONSE \<equiv> 39"
abbreviation HEADER_MAX :: u8 where "HEADER_MAX \<equiv> 40"

subsection \<open>Enumerations\<close>

datatype ESubGuildWar =
  WAR_NONE | WAR_START | WAR_END | PLAYER_KILL | PLAYER_JOIN | PLAYER_LEAVE | PLAYER_POSITION_UPDATE | WAR_NOTIFICATION

fun ESubGuildWar_code :: "ESubGuildWar \<Rightarrow> u16" where
  "ESubGuildWar_code WAR_NONE = 0"
| "ESubGuildWar_code WAR_START = 1"
| "ESubGuildWar_code WAR_END = 2"
| "ESubGuildWar_code PLAYER_KILL = 3"
| "ESubGuildWar_code PLAYER_JOIN = 4"
| "ESubGuildWar_code PLAYER_LEAVE = 5"
| "ESubGuildWar_code PLAYER_POSITION_UPDATE = 6"
| "ESubGuildWar_code WAR_NOTIFICATION = 7"

datatype ESubModifyCharacter =
  MC_DISCONNECT | LOAD_CH | MANAGE_CH

fun ESubModifyCharacter_code :: "ESubModifyCharacter \<Rightarrow> u8" where
  "ESubModifyCharacter_code MC_DISCONNECT = 0"
| "ESubModifyCharacter_code LOAD_CH = 1"
| "ESubModifyCharacter_code MANAGE_CH = 2"

datatype ESubCharacter =
  CHANGE_RACE | CHANGE_EMPIRE | CHANGE_SEX | CHANGE_NAME | LOAD_CH_STATE | RESPONSE_DISCONNECT

fun ESubCharacter_code :: "ESubCharacter \<Rightarrow> u8" where
  "ESubCharacter_code CHANGE_RACE = 0"
| "ESubCharacter_code CHANGE_EMPIRE = 1"
| "ESubCharacter_code CHANGE_SEX = 2"
| "ESubCharacter_code CHANGE_NAME = 3"
| "ESubCharacter_code LOAD_CH_STATE = 4"
| "ESubCharacter_code RESPONSE_DISCONNECT = 5"

datatype ESubOffshop =
  SHOP_INFO | SHOP_OPEN | SHOP_CLOSE | SHOP_UPDATE_SLOT_COUNT | ITEM_ADD | ITEM_REMOVE | ITEM_BUY | ITEM_UPDATE_POS | ITEM_UPDATE_PRICE | DURATION_RESTORE

fun ESubOffshop_code :: "ESubOffshop \<Rightarrow> u8" where
  "ESubOffshop_code SHOP_INFO = 0"
| "ESubOffshop_code SHOP_OPEN = 1"
| "ESubOffshop_code SHOP_CLOSE = 2"
| "ESubOffshop_code SHOP_UPDATE_SLOT_COUNT = 3"
| "ESubOffshop_code ITEM_ADD = 4"
| "ESubOffshop_code ITEM_REMOVE = 5"
| "ESubOffshop_code ITEM_BUY = 6"
| "ESubOffshop_code ITEM_UPDATE_POS = 7"
| "ESubOffshop_code ITEM_UPDATE_PRICE = 8"
| "ESubOffshop_code DURATION_RESTORE = 9"

datatype ENotificationChannels =
  CH_SYSTEM | CH_CHAT | CH_FRIENDS | CH_GUILD | CH_EVENTS | CH_MAX

fun ENotificationChannels_code :: "ENotificationChannels \<Rightarrow> u8" where
  "ENotificationChannels_code CH_SYSTEM = 0"
| "ENotificationChannels_code CH_CHAT = 1"
| "ENotificationChannels_code CH_FRIENDS = 2"
| "ENotificationChannels_code CH_GUILD = 3"
| "ENotificationChannels_code CH_EVENTS = 4"
| "ENotificationChannels_code CH_MAX = 5"

datatype ENotificationSubHeader =
  NSH_ADD | NSH_REMOVE | NSH_LIST

fun ENotificationSubHeader_code :: "ENotificationSubHeader \<Rightarrow> u8" where
  "ENotificationSubHeader_code NSH_ADD = 0"
| "ENotificationSubHeader_code NSH_REMOVE = 1"
| "ENotificationSubHeader_code NSH_LIST = 2"

datatype EDataUpdateTypes =
  CREATE_PLAYER | DELETE_PLAYER | CREATE_GUILD | DELETE_GUILD

fun EDataUpdateTypes_code :: "EDataUpdateTypes \<Rightarrow> u8" where
  "EDataUpdateTypes_code CREATE_PLAYER = 0"
| "EDataUpdateTypes_code DELETE_PLAYER = 1"
| "EDataUpdateTypes_code CREATE_GUILD = 2"
| "EDataUpdateTypes_code DELETE_GUILD = 3"

datatype EUserCheckResponse =
  UC_VALID | UC_OFFLINE | UC_BLOCKED | UC_NOT_EXIST

fun EUserCheckResponse_code :: "EUserCheckResponse \<Rightarrow> u8" where
  "EUserCheckResponse_code UC_VALID = 0"
| "EUserCheckResponse_code UC_OFFLINE = 1"
| "EUserCheckResponse_code UC_BLOCKED = 2"
| "EUserCheckResponse_code UC_NOT_EXIST = 3"

datatype EMobiLoad =
  ML_SUCCESS | ML_LOADING | WRONG_PWD | ML_INGAME_REAL | INVALID_LOCATION | PLAYER_LOAD_FAILED | NO_ACCOUNT_TABLE | INDEX_OVERFLOW | INVALID_PID | NAME_CHANGED | ML_SHUTDOWN | USER_LIMIT | ID_NOT_EXISTS | NOT_AVAIL | BAD_SOCIAL_ID | AGE_LIMIT | ML_BLOCKED | NOBILL | INVALID_STATUS | ML_LOGOUT | NO_ACTIVITY | ML_OTHERS

fun EMobiLoad_code :: "EMobiLoad \<Rightarrow> u8" where
  "EMobiLoad_code ML_SUCCESS = 0"
| "EMobiLoad_code ML_LOADING = 1"
| "EMobiLoad_code WRONG_PWD = 2"
| "EMobiLoad_code ML_INGAME_REAL = 3"
| "EMobiLoad_code INVALID_LOCATION = 4"
| "EMobiLoad_code PLAYER_LOAD_FAILED = 5"
| "EMobiLoad_code NO_ACCOUNT_TABLE = 6"
| "EMobiLoad_code INDEX_OVERFLOW = 7"
| "EMobiLoad_code INVALID_PID = 8"
| "EMobiLoad_code NAME_CHANGED = 9"
| "EMobiLoad_code ML_SHUTDOWN = 10"
| "EMobiLoad_code USER_LIMIT = 11"
| "EMobiLoad_code ID_NOT_EXISTS = 12"
| "EMobiLoad_code NOT_AVAIL = 13"
| "EMobiLoad_code BAD_SOCIAL_ID = 14"
| "EMobiLoad_code AGE_LIMIT = 15"
| "EMobiLoad_code ML_BLOCKED = 16"
| "EMobiLoad_code NOBILL = 17"
| "EMobiLoad_code INVALID_STATUS = 18"
| "EMobiLoad_code ML_LOGOUT = 19"
| "EMobiLoad_code NO_ACTIVITY = 20"
| "EMobiLoad_code ML_OTHERS = 21"

datatype EResponseModify =
  RM_SUCCESS | RM_NOT_EXISTS_CH | RM_OTHERS

fun EResponseModify_code :: "EResponseModify \<Rightarrow> u8" where
  "EResponseModify_code RM_SUCCESS = 0"
| "EResponseModify_code RM_NOT_EXISTS_CH = 1"
| "EResponseModify_code RM_OTHERS = 2"

datatype EResponseShopOperation =
  SO_SUCCESS | SO_INGAME_REAL | SO_NOT_EXISTS_CH | NOT_EXISTS_SHOP | NOT_EXISTS_ITEM | SO_FLOOD | CHARACTER_ACTIONS | NOT_ENOUGH_SAFEBOX_SPACE | NOT_ENOUGH_MONEY | PRICE_MISMATCH | INVALID_CELL | INVALID_SALE_PRICE | SO_OTHERS

fun EResponseShopOperation_code :: "EResponseShopOperation \<Rightarrow> u8" where
  "EResponseShopOperation_code SO_SUCCESS = 0"
| "EResponseShopOperation_code SO_INGAME_REAL = 1"
| "EResponseShopOperation_code SO_NOT_EXISTS_CH = 2"
| "EResponseShopOperation_code NOT_EXISTS_SHOP = 3"
| "EResponseShopOperation_code NOT_EXISTS_ITEM = 4"
| "EResponseShopOperation_code SO_FLOOD = 5"
| "EResponseShopOperation_code CHARACTER_ACTIONS = 6"
| "EResponseShopOperation_code NOT_ENOUGH_SAFEBOX_SPACE = 7"
| "EResponseShopOperation_code NOT_ENOUGH_MONEY = 8"
| "EResponseShopOperation_code PRICE_MISMATCH = 9"
| "EResponseShopOperation_code INVALID_CELL = 10"
| "EResponseShopOperation_code INVALID_SALE_PRICE = 11"
| "EResponseShopOperation_code SO_OTHERS = 12"

text \<open>\<open>EAuthorityType\<close> is a set of bits.\<close>

definition AUTH_NONE :: u16 where "AUTH_NONE = 0"
definition NOTIFICATION_MANAGER :: u16 where "NOTIFICATION_MANAGER = 2"
definition CONFIG_MANAGER :: u16 where "CONFIG_MANAGER = 4"
definition P2P_MANAGER :: u16 where "P2P_MANAGER = 8"
definition DB_MANAGER :: u16 where "DB_MANAGER = 16"
definition SM_MANAGER :: u16 where "SM_MANAGER = 32"

definition MAX_SOCKETS_COUNT :: nat where "MAX_SOCKETS_COUNT = 8"
definition MAX_ATTR_COUNT :: nat where "MAX_ATTR_COUNT = 15"
definition CHARACTER_NAME_MAX_LENGTH :: nat where "CHARACTER_NAME_MAX_LENGTH = 24"

subsection \<open>Prices and attributes\<close>

datatype TAttr = TAttr (attr_type: u16) (attr_value: u16)

datatype TPriceInfo = TPriceInfo (yang: u32) (cheque: u32)

instantiation TPriceInfo :: "{zero, plus, minus}"
begin

definition zero_TPriceInfo :: TPriceInfo where
  "zero_TPriceInfo = TPriceInfo 0 0"

definition plus_TPriceInfo :: "TPriceInfo \<Rightarrow> TPriceInfo \<Rightarrow> TPriceInfo" where
  "plus_TPriceInfo l r = TPriceInfo (yang l + yang r) (cheque l + cheque r)"

definition minus_TPriceInfo :: "TPriceInfo \<Rightarrow> TPriceInfo \<Rightarrow> TPriceInfo" where
  "minus_TPriceInfo l r = TPriceInfo (yang l - yang r) (cheque l - cheque r)"

instance ..

end

instance TPriceInfo :: comm_monoid_add
  by intro_classes (simp_all add: zero_TPriceInfo_def plus_TPriceInfo_def)

text \<open>The product is formed in 32 bits and widened afterwards.\<close>

definition GetTotalAsYang :: "u32 \<Rightarrow> TPriceInfo \<Rightarrow> int" where
  "GetTotalAsYang yang_per_cheque p = uint (yang p) + uint (yang_per_cheque * cheque p)"

definition ser_TPriceInfo :: "TPriceInfo \<Rightarrow> bytes" where
  "ser_TPriceInfo p = le32 (yang p) @ le32 (cheque p)"

definition get_TPriceInfo :: "bytes \<Rightarrow> nat \<Rightarrow> TPriceInfo option" where
  "get_TPriceInfo d i = do {
     y \<leftarrow> get_u32 d i;
     c \<leftarrow> get_u32 d (i + 4);
     Some (TPriceInfo y c) }"

definition ser_attrs :: "TAttr list \<Rightarrow> bytes" where
  "ser_attrs as = resize (4 * MAX_ATTR_COUNT) (concat (map (\<lambda>a. le16 (attr_type a) @ le16 (attr_value a)) as))"

definition ser_sockets :: "u16 list \<Rightarrow> bytes" where
  "ser_sockets ss = resize (2 * MAX_SOCKETS_COUNT) (concat (map le16 ss))"

lemma length_composite [simp, wire_len]:
  "length (ser_TPriceInfo p) = 8" "length (ser_attrs as) = 60" "length (ser_sockets ss) = 16"
  by (simp_all add: ser_TPriceInfo_def ser_attrs_def ser_sockets_def MAX_ATTR_COUNT_def
      MAX_SOCKETS_COUNT_def)

subsection \<open>Fields at an offset\<close>

lemma resize_id [simp]: "length v = n \<Longrightarrow> resize n v = v"
  by (simp add: resize_def)

lemma get_u8_skip: "get_u8 (xs @ d) (length xs + k) = get_u8 d k"
  by (simp add: get_u8_def nth_append)

lemma get_u16_skip: "get_u16 (xs @ d) (length xs + k) = get_u16 d k"
  by (simp add: get_u16_def nth_append add.assoc)

lemma get_u32_skip: "get_u32 (xs @ d) (length xs + k) = get_u32 d k"
  by (simp add: get_u32_def nth_append add.assoc)

lemma get_bool_skip: "get_bool (xs @ d) (length xs + k) = get_bool d k"
  by (simp add: get_bool_def get_u8_skip)

lemma get_chars_skip: "get_chars (xs @ d) (length xs + k) n = get_chars d k n"
  by (simp add: get_chars_def add.assoc)

lemma get_TPriceInfo_skip: "get_TPriceInfo (xs @ d) (length xs + k) = get_TPriceInfo d k"
  by (simp add: get_TPriceInfo_def get_u32_skip add.assoc)

lemma get_ex [simp]:
  "(\<exists>x. get_u8 d i = Some x) \<longleftrightarrow> i + 1 \<le> length d"
  "(\<exists>x. get_u16 d i = Some x) \<longleftrightarrow> i + 2 \<le> length d"
  "(\<exists>x. get_u32 d i = Some x) \<longleftrightarrow> i + 4 \<le> length d"
  "(\<exists>x. get_bool d i = Some x) \<longleftrightarrow> i + 1 \<le> length d"
  "(\<exists>x. get_chars d i n = Some x) \<longleftrightarrow> i + n \<le> length d"
  by (auto simp: get_u8_def get_u16_def get_u32_def get_bool_def get_chars_def)

lemma get_TPriceInfo_None_iff [simp]: "get_TPriceInfo d i = None \<longleftrightarrow> length d < i + 8"
  by (auto simp: get_TPriceInfo_def bind_None_iff)

lemma get_TPriceInfo_ex [simp]: "(\<exists>x. get_TPriceInfo d i = Some x) \<longleftrightarrow> i + 8 \<le> length d"
  by (metis get_TPriceInfo_None_iff not_None_eq not_less)

lemma get_at_start:
  "get_u8 (b # d) 0 = Some b"
  "get_u16 (le16 v @ d) 0 = Some v"
  "get_u32 (le32 w @ d) 0 = Some w"
  "get_bool (le_bool c @ d) 0 = Some c"
  "get_TPriceInfo (ser_TPriceInfo p @ d) 0 = Some p"
  using get_u16_at [of "[]"] get_u32_at [of "[]"] get_u32_skip [of "le32 (yang p)" _ 0]
  by (simp_all add: get_u8_def get_bool_def le_bool_def get_TPriceInfo_def ser_TPriceInfo_def)

lemma get_chars_start: "length v = n \<Longrightarrow> get_chars (v @ d) 0 n = Some v"
  by (simp add: get_chars_def)

text \<open>Skipping over a field in front, and over everything before the struct.\<close>

lemma get_over:
  "length v \<le> k \<Longrightarrow> get_u32 (v @ d) k = get_u32 d (k - length v)"
  "length v \<le> k \<Longrightarrow> get_u16 (v @ d) k = get_u16 d (k - length v)"
  "length v \<le> k \<Longrightarrow> get_u8 (v @ d) k = get_u8 d (k - length v)"
  "length v \<le> k \<Longrightarrow> get_bool (v @ d) k = get_bool d (k - length v)"
  "length v \<le> k \<Longrightarrow> get_chars (v @ d) k m = get_chars d (k - length v) m"
  "length v \<le> k \<Longrightarrow> get_TPriceInfo (v @ d) k = get_TPriceInfo d (k - length v)"
  using get_u32_skip [of v d "k - length v"] get_u16_skip [of v d "k - length v"]
    get_u8_skip [of v d "k - length v"] get_bool_skip [of v d "k - length v"]
    get_chars_skip [of v d "k - length v" m] get_TPriceInfo_skip [of v d "k - length v"]
  by simp_all

lemma get_over_byte:
  "0 < k \<Longrightarrow> get_u32 (b # d) k = get_u32 d (k - 1)"
  "0 < k \<Longrightarrow> get_u16 (b # d) k = get_u16 d (k - 1)"
  "0 < k \<Longrightarrow> get_u8 (b # d) k = get_u8 d (k - 1)"
  "0 < k \<Longrightarrow> get_bool (b # d) k = get_bool d (k - 1)"
  "0 < k \<Longrightarrow> get_chars (b # d) k m = get_chars d (k - 1) m"
  "0 < k \<Longrightarrow> get_TPriceInfo (b # d) k = get_TPriceInfo d (k - 1)"
  using get_over [of "[b]" k] by simp_all

lemma get_next:
  "get_u32 (xs @ d) (Suc (length xs)) = get_u32 d 1"
  "get_u16 (xs @ d) (Suc (length xs)) = get_u16 d 1"
  "get_u8 (xs @ d) (Suc (length xs)) = get_u8 d 1"
  "get_bool (xs @ d) (Suc (length xs)) = get_bool d 1"
  "get_chars (xs @ d) (Suc (length xs)) m = get_chars d 1 m"
  "get_TPriceInfo (xs @ d) (Suc (length xs)) = get_TPriceInfo d 1"
  using get_u32_skip [of xs d 1] get_u16_skip [of xs d 1] get_u8_skip [of xs d 1]
    get_bool_skip [of xs d 1] get_chars_skip [of xs d 1 m] get_TPriceInfo_skip [of xs d 1]
  by simp_all

lemma get_here:
  "get_u32 (xs @ d) (length xs) = get_u32 d 0"
  "get_TPriceInfo (xs @ d) (length xs) = get_TPriceInfo d 0"
  "get_chars (xs @ d) (length xs) m = get_chars d 0 m"
  using get_u32_skip [of xs d 0] get_chars_skip [of xs d 0 m] get_TPriceInfo_skip [of xs d 0]
  by simp_all

lemmas field_at = get_u8_skip get_u16_skip get_u32_skip get_bool_skip get_chars_skip
  get_TPriceInfo_skip get_at_start get_chars_start get_next get_here get_over get_over_byte

subsection \<open>The structures\<close>

record MSDBInfo =
  MSDBInfo_header :: u8
  MSDBInfo_host :: bytes
  MSDBInfo_user :: bytes
  MSDBInfo_password :: bytes

definition MSDBInfo_new :: MSDBInfo where
  "MSDBInfo_new = \<lparr>MSDBInfo_header = HEADER_MS_DB_INFO,
     MSDBInfo_host = replicate 22 0,
     MSDBInfo_user = replicate 33 0,
     MSDBInfo_password = replicate 33 0\<rparr>"

definition ser_MSDBInfo :: "MSDBInfo \<Rightarrow> bytes" where
  "ser_MSDBInfo p =
     [MSDBInfo_header p] @
     resize 22 (MSDBInfo_host p) @
     resize 33 (MSDBInfo_user p) @
     resize 33 (MSDBInfo_password p)"

definition sizeof_MSDBInfo :: nat where "sizeof_MSDBInfo = 89"

lemma length_ser_MSDBInfo [simp, wire_len]: "length (ser_MSDBInfo p) = sizeof_MSDBInfo"
  by (simp add: ser_MSDBInfo_def sizeof_MSDBInfo_def)

record SMValidateMobileLogin =
  SMValidateMobileLogin_header :: u8
  SMValidateMobileLogin_size :: u32
  SMValidateMobileLogin_acc_id :: u32
  SMValidateMobileLogin_request_id :: u32

definition SMValidateMobileLogin_new :: SMValidateMobileLogin where
  "SMValidateMobileLogin_new = \<lparr>SMValidateMobileLogin_header = HEADER_SM_VALIDATE_LOGIN,
     SMValidateMobileLogin_size = 0,
     SMValidateMobileLogin_acc_id = 0,
     SMValidateMobileLogin_request_id = 0\<rparr>"

definition ser_SMValidateMobileLogin :: "SMValidateMobileLogin \<Rightarrow> bytes" where
  "ser_SMValidateMobileLogin p =
     [SMValidateMobileLogin_header p] @
     le32 (SMValidateMobileLogin_size p) @
     le32 (SMValidateMobileLogin_acc_id p) @
     le32 (SMValidateMobileLogin_request_id p)"

definition sizeof_SMValidateMobileLogin :: nat where "sizeof_SMValidateMobileLogin = 13"

lemma length_ser_SMValidateMobileLogin [simp, wire_len]: "length (ser_SMValidateMobileLogin p) = sizeof_SMValidateMobileLogin"
  by (simp add: ser_SMValidateMobileLogin_def sizeof_SMValidateMobileLogin_def)

record MSValidateMobileLogin =
  MSValidateMobileLogin_header :: u8
  MSValidateMobileLogin_is_valid :: bool
  MSValidateMobileLogin_acc_id :: u32
  MSValidateMobileLogin_request_id :: u32

definition MSValidateMobileLogin_new :: MSValidateMobileLogin where
  "MSValidateMobileLogin_new = \<lparr>MSValidateMobileLogin_header = HEADER_MS_VALIDATE_LOGIN,
     MSValidateMobileLogin_is_valid = False,
     MSValidateMobileLogin_acc_id = 0,
     MSValidateMobileLogin_request_id = 0\<rparr>"

definition ser_MSValidateMobileLogin :: "MSValidateMobileLogin \<Rightarrow> bytes" where
  "ser_MSValidateMobileLogin p =
     [MSValidateMobileLogin_header p] @
     le_bool (MSValidateMobileLogin_is_valid p) @
     le32 (MSValidateMobileLogin_acc_id p) @
     le32 (MSValidateMobileLogin_request_id p)"

definition sizeof_MSValidateMobileLogin :: nat where "sizeof_MSValidateMobileLogin = 10"

lemma length_ser_MSValidateMobileLogin [simp, wire_len]: "length (ser_MSValidateMobileLogin p) = sizeof_MSValidateMobileLogin"
  by (simp add: ser_MSValidateMobileLogin_def sizeof_MSValidateMobileLogin_def)

record MSDataUpdate =
  MSDataUpdate_header :: u8
  MSDataUpdate_id :: u32
  MSDataUpdate_type :: u8

definition MSDataUpdate_new :: MSDataUpdate where
  "MSDataUpdate_new = \<lparr>MSDataUpdate_header = HEADER_MS_DATA_UPDATE,
     MSDataUpdate_id = 0,
     MSDataUpdate_type = 0\<rparr>"

definition ser_MSDataUpdate :: "MSDataUpdate \<Rightarrow> bytes" where
  "ser_MSDataUpdate p =
     [MSDataUpdate_header p] @
     le32 (MSDataUpdate_id p) @
     [MSDataUpdate_type p]"

definition sizeof_MSDataUpdate :: nat where "sizeof_MSDataUpdate = 6"

lemma length_ser_MSDataUpdate [simp, wire_len]: "length (ser_MSDataUpdate p) = sizeof_MSDataUpdate"
  by (simp add: ser_MSDataUpdate_def sizeof_MSDataUpdate_def)

record SMMessage =
  SMMessage_header :: u8
  SMMessage_size :: u32
  SMMessage_name :: bytes
  SMMessage_receiver_acc_id :: u32

definition SMMessage_new :: SMMessage where
  "SMMessage_new = \<lparr>SMMessage_header = HEADER_SM_MESSAGE,
     SMMessage_size = 0,
     SMMessage_name = replicate 25 0,
     SMMessage_receiver_acc_id = 0\<rparr>"

definition ser_SMMessage :: "SMMessage \<Rightarrow> bytes" where
  "ser_SMMessage p =
     [SMMessage_header p] @
     le32 (SMMessage_size p) @
     resize 25 (SMMessage_name p) @
     le32 (SMMessage_receiver_acc_id p)"

definition sizeof_SMMessage :: nat where "sizeof_SMMessage = 34"

lemma length_ser_SMMessage [simp, wire_len]: "length (ser_SMMessage p) = sizeof_SMMessage"
  by (simp add: ser_SMMessage_def sizeof_SMMessage_def)

record TKeyExchange =
  TKeyExchange_header :: u8
  TKeyExchange_size :: u32
  TKeyExchange_is_auth_core :: bool

definition TKeyExchange_new :: TKeyExchange where
  "TKeyExchange_new = \<lparr>TKeyExchange_header = 0,
     TKeyExchange_size = 0,
     TKeyExchange_is_auth_core = False\<rparr>"

definition ser_TKeyExchange :: "TKeyExchange \<Rightarrow> bytes" where
  "ser_TKeyExchange p =
     [TKeyExchange_header p] @
     le32 (TKeyExchange_size p) @
     le_bool (TKeyExchange_is_auth_core p)"

definition sizeof_TKeyExchange :: nat where "sizeof_TKeyExchange = 6"

lemma length_ser_TKeyExchange [simp, wire_len]: "length (ser_TKeyExchange p) = sizeof_TKeyExchange"
  by (simp add: ser_TKeyExchange_def sizeof_TKeyExchange_def)

record SMLogin =
  SMLogin_header :: u8
  SMLogin_name :: bytes

definition SMLogin_new :: SMLogin where
  "SMLogin_new = \<lparr>SMLogin_header = HEADER_SM_LOGIN,
     SMLogin_name = replicate 25 0\<rparr>"

definition ser_SMLogin :: "SMLogin \<Rightarrow> bytes" where
  "ser_SMLogin p =
     [SMLogin_header p] @
     resize 25 (SMLogin_name p)"

definition sizeof_SMLogin :: nat where "sizeof_SMLogin = 26"

lemma length_ser_SMLogin [simp, wire_len]: "length (ser_SMLogin p) = sizeof_SMLogin"
  by (simp add: ser_SMLogin_def sizeof_SMLogin_def)

record SMLogout =
  SMLogout_header :: u8
  SMLogout_name :: bytes

definition SMLogout_new :: SMLogout where
  "SMLogout_new = \<lparr>SMLogout_header = HEADER_SM_LOGOUT,
     SMLogout_name = replicate 25 0\<rparr>"

definition ser_SMLogout :: "SMLogout \<Rightarrow> bytes" where
  "ser_SMLogout p =
     [SMLogout_header p] @
     resize 25 (SMLogout_name p)"

definition sizeof_SMLogout :: nat where "sizeof_SMLogout = 26"

lemma length_ser_SMLogout [simp, wire_len]: "length (ser_SMLogout p) = sizeof_SMLogout"
  by (simp add: ser_SMLogout_def sizeof_SMLogout_def)

record MSLadderPoint =
  MSLadderPoint_header :: u8
  MSLadderPoint_guild_id :: u32
  MSLadderPoint_point :: u32

definition MSLadderPoint_new :: MSLadderPoint where
  "MSLadderPoint_new = \<lparr>MSLadderPoint_header = HEADER_MS_GUILD_POINT,
     MSLadderPoint_guild_id = 0,
     MSLadderPoint_point = 0\<rparr>"

definition ser_MSLadderPoint :: "MSLadderPoint \<Rightarrow> bytes" where
  "ser_MSLadderPoint p =
     [MSLadderPoint_header p] @
     le32 (MSLadderPoint_guild_id p) @
     le32 (MSLadderPoint_point p)"

definition sizeof_MSLadderPoint :: nat where "sizeof_MSLadderPoint = 9"

lemma length_ser_MSLadderPoint [simp, wire_len]: "length (ser_MSLadderPoint p) = sizeof_MSLadderPoint"
  by (simp add: ser_MSLadderPoint_def sizeof_MSLadderPoint_def)

record MSGuildStats =
  MSGuildStats_header :: u8
  MSGuildStats_guild_id :: u32
  MSGuildStats_win :: u32
  MSGuildStats_draw :: u32
  MSGuildStats_loss :: u32

definition MSGuildStats_new :: MSGuildStats where
  "MSGuildStats_new = \<lparr>MSGuildStats_header = HEADER_MS_GUILD_STATS,
     MSGuildStats_guild_id = 0,
     MSGuildStats_win = 0,
     MSGuildStats_draw = 0,
     MSGuildStats_loss = 0\<rparr>"

definition ser_MSGuildStats :: "MSGuildStats \<Rightarrow> bytes" where
  "ser_MSGuildStats p =
     [MSGuildStats_header p] @
     le32 (MSGuildStats_guild_id p) @
     le32 (MSGuildStats_win p) @
     le32 (MSGuildStats_draw p) @
     le32 (MSGuildStats_loss p)"

definition sizeof_MSGuildStats :: nat where "sizeof_MSGuildStats = 17"

lemma length_ser_MSGuildStats [simp, wire_len]: "length (ser_MSGuildStats p) = sizeof_MSGuildStats"
  by (simp add: ser_MSGuildStats_def sizeof_MSGuildStats_def)

record MSKill =
  MSKill_header :: u8
  MSKill_killer_pid :: u32
  MSKill_victim_pid :: u32

definition MSKill_new :: MSKill where
  "MSKill_new = \<lparr>MSKill_header = HEADER_MS_KILL,
     MSKill_killer_pid = 0,
     MSKill_victim_pid = 0\<rparr>"

definition ser_MSKill :: "MSKill \<Rightarrow> bytes" where
  "ser_MSKill p =
     [MSKill_header p] @
     le32 (MSKill_killer_pid p) @
     le32 (MSKill_victim_pid p)"

definition sizeof_MSKill :: nat where "sizeof_MSKill = 9"

lemma length_ser_MSKill [simp, wire_len]: "length (ser_MSKill p) = sizeof_MSKill"
  by (simp add: ser_MSKill_def sizeof_MSKill_def)

record MSMessage =
  MSMessage_header :: u8
  MSMessage_size :: u32
  MSMessage_sender_pid :: u32
  MSMessage_receiver_pid :: u32
  MSMessage_code_page :: u16

definition MSMessage_new :: MSMessage where
  "MSMessage_new = \<lparr>MSMessage_header = HEADER_MS_MESSAGE,
     MSMessage_size = 0,
     MSMessage_sender_pid = 0,
     MSMessage_receiver_pid = 0,
     MSMessage_code_page = 0\<rparr>"

definition ser_MSMessage :: "MSMessage \<Rightarrow> bytes" where
  "ser_MSMessage p =
     [MSMessage_header p] @
     le32 (MSMessage_size p) @
     le32 (MSMessage_sender_pid p) @
     le32 (MSMessage_receiver_pid p) @
     le16 (MSMessage_code_page p)"

definition sizeof_MSMessage :: nat where "sizeof_MSMessage = 15"

lemma length_ser_MSMessage [simp, wire_len]: "length (ser_MSMessage p) = sizeof_MSMessage"
  by (simp add: ser_MSMessage_def sizeof_MSMessage_def)

record MSLogin =
  MSLogin_header :: u8
  MSLogin_pid :: u32
  MSLogin_map_idx :: u32
  MSLogin_is_mobile_request :: bool

definition MSLogin_new :: MSLogin where
  "MSLogin_new = \<lparr>MSLogin_header = HEADER_MS_LOGIN,
     MSLogin_pid = 0,
     MSLogin_map_idx = 0,
     MSLogin_is_mobile_request = False\<rparr>"

definition ser_MSLogin :: "MSLogin \<Rightarrow> bytes" where
  "ser_MSLogin p =
     [MSLogin_header p] @
     le32 (MSLogin_pid p) @
     le32 (MSLogin_map_idx p) @
     le_bool (MSLogin_is_mobile_request p)"

definition sizeof_MSLogin :: nat where "sizeof_MSLogin = 10"

lemma length_ser_MSLogin [simp, wire_len]: "length (ser_MSLogin p) = sizeof_MSLogin"
  by (simp add: ser_MSLogin_def sizeof_MSLogin_def)

record MSLogout =
  MSLogout_header :: u8
  MSLogout_pid :: u32

definition MSLogout_new :: MSLogout where
  "MSLogout_new = \<lparr>MSLogout_header = HEADER_MS_LOGOUT,
     MSLogout_pid = 0\<rparr>"

definition ser_MSLogout :: "MSLogout \<Rightarrow> bytes" where
  "ser_MSLogout p =
     [MSLogout_header p] @
     le32 (MSLogout_pid p)"

definition sizeof_MSLogout :: nat where "sizeof_MSLogout = 5"

lemma length_ser_MSLogout [simp, wire_len]: "length (ser_MSLogout p) = sizeof_MSLogout"
  by (simp add: ser_MSLogout_def sizeof_MSLogout_def)

record MSOnline =
  MSOnline_header :: u8
  MSOnline_empires0 :: u32
  MSOnline_empires1 :: u32
  MSOnline_empires2 :: u32

definition MSOnline_new :: MSOnline where
  "MSOnline_new = \<lparr>MSOnline_header = HEADER_MS_ONLINE,
     MSOnline_empires0 = 0,
     MSOnline_empires1 = 0,
     MSOnline_empires2 = 0\<rparr>"

definition ser_MSOnline :: "MSOnline \<Rightarrow> bytes" where
  "ser_MSOnline p =
     [MSOnline_header p] @
     le32 (MSOnline_empires0 p) @
     le32 (MSOnline_empires1 p) @
     le32 (MSOnline_empires2 p)"

definition sizeof_MSOnline :: nat where "sizeof_MSOnline = 13"

lemma length_ser_MSOnline [simp, wire_len]: "length (ser_MSOnline p) = sizeof_MSOnline"
  by (simp add: ser_MSOnline_def sizeof_MSOnline_def)

record MSShout =
  MSShout_header :: u8
  MSShout_size :: u32
  MSShout_pid :: u32
  MSShout_code_page :: u16

definition MSShout_new :: MSShout where
  "MSShout_new = \<lparr>MSShout_header = HEADER_MS_SHOUT,
     MSShout_size = 0,
     MSShout_pid = 0,
     MSShout_code_page = 0\<rparr>"

definition ser_MSShout :: "MSShout \<Rightarrow> bytes" where
  "ser_MSShout p =
     [MSShout_header p] @
     le32 (MSShout_size p) @
     le32 (MSShout_pid p) @
     le16 (MSShout_code_page p)"

definition sizeof_MSShout :: nat where "sizeof_MSShout = 11"

lemma length_ser_MSShout [simp, wire_len]: "length (ser_MSShout p) = sizeof_MSShout"
  by (simp add: ser_MSShout_def sizeof_MSShout_def)

record MSMessageName =
  MSMessageName_header :: u8
  MSMessageName_size :: u32
  MSMessageName_sender_pid :: u32
  MSMessageName_receiver_name :: bytes
  MSMessageName_code_page :: u16

definition MSMessageName_new :: MSMessageName where
  "MSMessageName_new = \<lparr>MSMessageName_header = HEADER_MS_MESSAGE_NAME,
     MSMessageName_size = 0,
     MSMessageName_sender_pid = 0,
     MSMessageName_receiver_name = replicate 25 0,
     MSMessageName_code_page = 0\<rparr>"

definition ser_MSMessageName :: "MSMessageName \<Rightarrow> bytes" where
  "ser_MSMessageName p =
     [MSMessageName_header p] @
     le32 (MSMessageName_size p) @
     le32 (MSMessageName_sender_pid p) @
     resize 25 (MSMessageName_receiver_name p) @
     le16 (MSMessageName_code_page p)"

definition sizeof_MSMessageName :: nat where "sizeof_MSMessageName = 36"

lemma length_ser_MSMessageName [simp, wire_len]: "length (ser_MSMessageName p) = sizeof_MSMessageName"
  by (simp add: ser_MSMessageName_def sizeof_MSMessageName_def)

record MSUserCheck =
  MSUserCheck_header :: u8
  MSUserCheck_name :: bytes
  MSUserCheck_sender_pid :: u32
  MSUserCheck_container_id :: u32

definition MSUserCheck_new :: MSUserCheck where
  "MSUserCheck_new = \<lparr>MSUserCheck_header = HEADER_MS_USER_CHECK,
     MSUserCheck_name = replicate 25 0,
     MSUserCheck_sender_pid = 0,
     MSUserCheck_container_id = 0\<rparr>"

definition ser_MSUserCheck :: "MSUserCheck \<Rightarrow> bytes" where
  "ser_MSUserCheck p =
     [MSUserCheck_header p] @
     resize 25 (MSUserCheck_name p) @
     le32 (MSUserCheck_sender_pid p) @
     le32 (MSUserCheck_container_id p)"

definition sizeof_MSUserCheck :: nat where "sizeof_MSUserCheck = 34"

lemma length_ser_MSUserCheck [simp, wire_len]: "length (ser_MSUserCheck p) = sizeof_MSUserCheck"
  by (simp add: ser_MSUserCheck_def sizeof_MSUserCheck_def)

record SMUserCheck =
  SMUserCheck_header :: u8
  SMUserCheck_container_id :: u32
  SMUserCheck_response :: u8

definition SMUserCheck_new :: SMUserCheck where
  "SMUserCheck_new = \<lparr>SMUserCheck_header = HEADER_SM_USER_CHECK,
     SMUserCheck_container_id = 0,
     SMUserCheck_response = 0\<rparr>"

definition ser_SMUserCheck :: "SMUserCheck \<Rightarrow> bytes" where
  "ser_SMUserCheck p =
     [SMUserCheck_header p] @
     le32 (SMUserCheck_container_id p) @
     [SMUserCheck_response p]"

definition sizeof_SMUserCheck :: nat where "sizeof_SMUserCheck = 6"

lemma length_ser_SMUserCheck [simp, wire_len]: "length (ser_SMUserCheck p) = sizeof_SMUserCheck"
  by (simp add: ser_SMUserCheck_def sizeof_SMUserCheck_def)

record MSLevelUp =
  MSLevelUp_header :: u8
  MSLevelUp_pid :: u32
  MSLevelUp_level :: u32

definition MSLevelUp_new :: MSLevelUp where
  "MSLevelUp_new = \<lparr>MSLevelUp_header = HEADER_MS_LEVEL_UP,
     MSLevelUp_pid = 0,
     MSLevelUp_level = 0\<rparr>"

definition ser_MSLevelUp :: "MSLevelUp \<Rightarrow> bytes" where
  "ser_MSLevelUp p =
     [MSLevelUp_header p] @
     le32 (MSLevelUp_pid p) @
     le32 (MSLevelUp_level p)"

definition sizeof_MSLevelUp :: nat where "sizeof_MSLevelUp = 9"

lemma length_ser_MSLevelUp [simp, wire_len]: "length (ser_MSLevelUp p) = sizeof_MSLevelUp"
  by (simp add: ser_MSLevelUp_def sizeof_MSLevelUp_def)

record MSGuildLeave =
  MSGuildLeave_header :: u8
  MSGuildLeave_pid :: u32

definition MSGuildLeave_new :: MSGuildLeave where
  "MSGuildLeave_new = \<lparr>MSGuildLeave_header = HEADER_MS_GUILD_LEAVE,
     MSGuildLeave_pid = 0\<rparr>"

definition ser_MSGuildLeave :: "MSGuildLeave \<Rightarrow> bytes" where
  "ser_MSGuildLeave p =
     [MSGuildLeave_header p] @
     le32 (MSGuildLeave_pid p)"

definition sizeof_MSGuildLeave :: nat where "sizeof_MSGuildLeave = 5"

lemma length_ser_MSGuildLeave [simp, wire_len]: "length (ser_MSGuildLeave p) = sizeof_MSGuildLeave"
  by (simp add: ser_MSGuildLeave_def sizeof_MSGuildLeave_def)

record MSGuildJoin =
  MSGuildJoin_header :: u8
  MSGuildJoin_guild_id :: u32
  MSGuildJoin_pid :: u32
  MSGuildJoin_b_leader :: bool

definition MSGuildJoin_new :: MSGuildJoin where
  "MSGuildJoin_new = \<lparr>MSGuildJoin_header = HEADER_MS_GUILD_JOIN,
     MSGuildJoin_guild_id = 0,
     MSGuildJoin_pid = 0,
     MSGuildJoin_b_leader = False\<rparr>"

definition ser_MSGuildJoin :: "MSGuildJoin \<Rightarrow> bytes" where
  "ser_MSGuildJoin p =
     [MSGuildJoin_header p] @
     le32 (MSGuildJoin_guild_id p) @
     le32 (MSGuildJoin_pid p) @
     le_bool (MSGuildJoin_b_leader p)"

definition sizeof_MSGuildJoin :: nat where "sizeof_MSGuildJoin = 10"

lemma length_ser_MSGuildJoin [simp, wire_len]: "length (ser_MSGuildJoin p) = sizeof_MSGuildJoin"
  by (simp add: ser_MSGuildJoin_def sizeof_MSGuildJoin_def)

record MSMessengerAdd =
  MSMessengerAdd_header :: u8
  MSMessengerAdd_name :: bytes
  MSMessengerAdd_target :: bytes

definition MSMessengerAdd_new :: MSMessengerAdd where
  "MSMessengerAdd_new = \<lparr>MSMessengerAdd_header = HEADER_MS_MESSENGER_ADD,
     MSMessengerAdd_name = replicate 25 0,
     MSMessengerAdd_target = replicate 25 0\<rparr>"

definition ser_MSMessengerAdd :: "MSMessengerAdd \<Rightarrow> bytes" where
  "ser_MSMessengerAdd p =
     [MSMessengerAdd_header p] @
     resize 25 (MSMessengerAdd_name p) @
     resize 25 (MSMessengerAdd_target p)"

definition sizeof_MSMessengerAdd :: nat where "sizeof_MSMessengerAdd = 51"

lemma length_ser_MSMessengerAdd [simp, wire_len]: "length (ser_MSMessengerAdd p) = sizeof_MSMessengerAdd"
  by (simp add: ser_MSMessengerAdd_def sizeof_MSMessengerAdd_def)

record MSMessengerRemove =
  MSMessengerRemove_header :: u8
  MSMessengerRemove_name :: bytes
  MSMessengerRemove_target :: bytes

definition MSMessengerRemove_new :: MSMessengerRemove where
  "MSMessengerRemove_new = \<lparr>MSMessengerRemove_header = HEADER_MS_MESSENGER_REMOVE,
     MSMessengerRemove_name = replicate 25 0,
     MSMessengerRemove_target = replicate 25 0\<rparr>"

definition ser_MSMessengerRemove :: "MSMessengerRemove \<Rightarrow> bytes" where
  "ser_MSMessengerRemove p =
     [MSMessengerRemove_header p] @
     resize 25 (MSMessengerRemove_name p) @
     resize 25 (MSMessengerRemove_target p)"

definition sizeof_MSMessengerRemove :: nat where "sizeof_MSMessengerRemove = 51"

lemma length_ser_MSMessengerRemove [simp, wire_len]: "length (ser_MSMessengerRemove p) = sizeof_MSMessengerRemove"
  by (simp add: ser_MSMessengerRemove_def sizeof_MSMessengerRemove_def)

record MSGuildWar =
  MSGuildWar_header :: u8
  MSGuildWar_size :: u32
  MSGuildWar_subheader :: u16

definition MSGuildWar_new :: MSGuildWar where
  "MSGuildWar_new = \<lparr>MSGuildWar_header = HEADER_MS_GUILD_WAR,
     MSGuildWar_size = 0,
     MSGuildWar_subheader = 0\<rparr>"

definition ser_MSGuildWar :: "MSGuildWar \<Rightarrow> bytes" where
  "ser_MSGuildWar p =
     [MSGuildWar_header p] @
     le32 (MSGuildWar_size p) @
     le16 (MSGuildWar_subheader p)"

definition sizeof_MSGuildWar :: nat where "sizeof_MSGuildWar = 7"

lemma length_ser_MSGuildWar [simp, wire_len]: "length (ser_MSGuildWar p) = sizeof_MSGuildWar"
  by (simp add: ser_MSGuildWar_def sizeof_MSGuildWar_def)

record SGuildWarStart =
  SGuildWarStart_guild_id0 :: u32
  SGuildWarStart_guild_id1 :: u32
  SGuildWarStart_scoreLimit :: u32

definition SGuildWarStart_new :: SGuildWarStart where
  "SGuildWarStart_new = \<lparr>SGuildWarStart_guild_id0 = 0,
     SGuildWarStart_guild_id1 = 0,
     SGuildWarStart_scoreLimit = 0\<rparr>"

definition ser_SGuildWarStart :: "SGuildWarStart \<Rightarrow> bytes" where
  "ser_SGuildWarStart p =
     le32 (SGuildWarStart_guild_id0 p) @
     le32 (SGuildWarStart_guild_id1 p) @
     le32 (SGuildWarStart_scoreLimit p)"

definition sizeof_SGuildWarStart :: nat where "sizeof_SGuildWarStart = 12"

lemma length_ser_SGuildWarStart [simp, wire_len]: "length (ser_SGuildWarStart p) = sizeof_SGuildWarStart"
  by (simp add: ser_SGuildWarStart_def sizeof_SGuildWarStart_def)

record SGuildWarEnd =
  SGuildWarEnd_guild_id0 :: u32
  SGuildWarEnd_guild_id1 :: u32

definition SGuildWarEnd_new :: SGuildWarEnd where
  "SGuildWarEnd_new = \<lparr>SGuildWarEnd_guild_id0 = 0,
     SGuildWarEnd_guild_id1 = 0\<rparr>"

definition ser_SGuildWarEnd :: "SGuildWarEnd \<Rightarrow> bytes" where
  "ser_SGuildWarEnd p =
     le32 (SGuildWarEnd_guild_id0 p) @
     le32 (SGuildWarEnd_guild_id1 p)"

definition sizeof_SGuildWarEnd :: nat where "sizeof_SGuildWarEnd = 8"

lemma length_ser_SGuildWarEnd [simp, wire_len]: "length (ser_SGuildWarEnd p) = sizeof_SGuildWarEnd"
  by (simp add: ser_SGuildWarEnd_def sizeof_SGuildWarEnd_def)

record SGuildWarPlayerKill =
  SGuildWarPlayerKill_guild_id0 :: u32
  SGuildWarPlayerKill_guild_id1 :: u32
  SGuildWarPlayerKill_killer_pid :: u32
  SGuildWarPlayerKill_victim_pid :: u32

definition SGuildWarPlayerKill_new :: SGuildWarPlayerKill where
  "SGuildWarPlayerKill_new = \<lparr>SGuildWarPlayerKill_guild_id0 = 0,
     SGuildWarPlayerKill_guild_id1 = 0,
     SGuildWarPlayerKill_killer_pid = 0,
     SGuildWarPlayerKill_victim_pid = 0\<rparr>"

definition ser_SGuildWarPlayerKill :: "SGuildWarPlayerKill \<Rightarrow> bytes" where
  "ser_SGuildWarPlayerKill p =
     le32 (SGuildWarPlayerKill_guild_id0 p) @
     le32 (SGuildWarPlayerKill_guild_id1 p) @
     le32 (SGuildWarPlayerKill_killer_pid p) @
     le32 (SGuildWarPlayerKill_victim_pid p)"

definition sizeof_SGuildWarPlayerKill :: nat where "sizeof_SGuildWarPlayerKill = 16"

lemma length_ser_SGuildWarPlayerKill [simp, wire_len]: "length (ser_SGuildWarPlayerKill p) = sizeof_SGuildWarPlayerKill"
  by (simp add: ser_SGuildWarPlayerKill_def sizeof_SGuildWarPlayerKill_def)

record SGuildWarPlayerJoin =
  SGuildWarPlayerJoin_guild_id :: u32
  SGuildWarPlayerJoin_pid :: u32

definition SGuildWarPlayerJoin_new :: SGuildWarPlayerJoin where
  "SGuildWarPlayerJoin_new = \<lparr>SGuildWarPlayerJoin_guild_id = 0,
     SGuildWarPlayerJoin_pid = 0\<rparr>"

definition ser_SGuildWarPlayerJoin :: "SGuildWarPlayerJoin \<Rightarrow> bytes" where
  "ser_SGuildWarPlayerJoin p =
     le32 (SGuildWarPlayerJoin_guild_id p) @
     le32 (SGuildWarPlayerJoin_pid p)"

definition sizeof_SGuildWarPlayerJoin :: nat where "sizeof_SGuildWarPlayerJoin = 8"

lemma length_ser_SGuildWarPlayerJoin [simp, wire_len]: "length (ser_SGuildWarPlayerJoin p) = sizeof_SGuildWarPlayerJoin"
  by (simp add: ser_SGuildWarPlayerJoin_def sizeof_SGuildWarPlayerJoin_def)

record SGuildWarPlayerLeave =
  SGuildWarPlayerLeave_guild_id :: u32
  SGuildWarPlayerLeave_pid :: u32

definition SGuildWarPlayerLeave_new :: SGuildWarPlayerLeave where
  "SGuildWarPlayerLeave_new = \<lparr>SGuildWarPlayerLeave_guild_id = 0,
     SGuildWarPlayerLeave_pid = 0\<rparr>"

definition ser_SGuildWarPlayerLeave :: "SGuildWarPlayerLeave \<Rightarrow> bytes" where
  "ser_SGuildWarPlayerLeave p =
     le32 (SGuildWarPlayerLeave_guild_id p) @
     le32 (SGuildWarPlayerLeave_pid p)"

definition sizeof_SGuildWarPlayerLeave :: nat where "sizeof_SGuildWarPlayerLeave = 8"

lemma length_ser_SGuildWarPlayerLeave [simp, wire_len]: "length (ser_SGuildWarPlayerLeave p) = sizeof_SGuildWarPlayerLeave"
  by (simp add: ser_SGuildWarPlayerLeave_def sizeof_SGuildWarPlayerLeave_def)

record SGuildWarPlayerPositionUpdate =
  SGuildWarPlayerPositionUpdate_guild_id :: u32
  SGuildWarPlayerPositionUpdate_pid :: u32
  SGuildWarPlayerPositionUpdate_pos0 :: u32
  SGuildWarPlayerPositionUpdate_pos1 :: u32

definition SGuildWarPlayerPositionUpdate_new :: SGuildWarPlayerPositionUpdate where
  "SGuildWarPlayerPositionUpdate_new = \<lparr>SGuildWarPlayerPositionUpdate_guild_id = 0,
     SGuildWarPlayerPositionUpdate_pid = 0,
     SGuildWarPlayerPositionUpdate_pos0 = 0,
     SGuildWarPlayerPositionUpdate_pos1 = 0\<rparr>"

definition ser_SGuildWarPlayerPositionUpdate :: "SGuildWarPlayerPositionUpdate \<Rightarrow> bytes" where
  "ser_SGuildWarPlayerPositionUpdate p =
     le32 (SGuildWarPlayerPositionUpdate_guild_id p) @
     le32 (SGuildWarPlayerPositionUpdate_pid p) @
     le32 (SGuildWarPlayerPositionUpdate_pos0 p) @
     le32 (SGuildWarPlayerPositionUpdate_pos1 p)"

definition sizeof_SGuildWarPlayerPositionUpdate :: nat where "sizeof_SGuildWarPlayerPositionUpdate = 16"

lemma length_ser_SGuildWarPlayerPositionUpdate [simp, wire_len]: "length (ser_SGuildWarPlayerPositionUpdate p) = sizeof_SGuildWarPlayerPositionUpdate"
  by (simp add: ser_SGuildWarPlayerPositionUpdate_def sizeof_SGuildWarPlayerPositionUpdate_def)

record SGuildWarNotification =
  SGuildWarNotification_guild_id0 :: u32
  SGuildWarNotification_guild_id1 :: u32

definition SGuildWarNotification_new :: SGuildWarNotification where
  "SGuildWarNotification_new = \<lparr>SGuildWarNotification_guild_id0 = 0,
     SGuildWarNotification_guild_id1 = 0\<rparr>"

definition ser_SGuildWarNotification :: "SGuildWarNotification \<Rightarrow> bytes" where
  "ser_SGuildWarNotification p =
     le32 (SGuildWarNotification_guild_id0 p) @
     le32 (SGuildWarNotification_guild_id1 p)"

definition sizeof_SGuildWarNotification :: nat where "sizeof_SGuildWarNotification = 8"

lemma length_ser_SGuildWarNotification [simp, wire_len]: "length (ser_SGuildWarNotification p) = sizeof_SGuildWarNotification"
  by (simp add: ser_SGuildWarNotification_def sizeof_SGuildWarNotification_def)

record MSNotification =
  MSNotification_header :: u8
  MSNotification_size :: u32
  MSNotification_subheader :: u8

definition MSNotification_new :: MSNotification where
  "MSNotification_new = \<lparr>MSNotification_header = HEADER_MS_ADMIN_NOTIFICATION,
     MSNotification_size = 0,
     MSNotification_subheader = 0\<rparr>"

definition ser_MSNotification :: "MSNotification \<Rightarrow> bytes" where
  "ser_MSNotification p =
     [MSNotification_header p] @
     le32 (MSNotification_size p) @
     [MSNotification_subheader p]"

definition sizeof_MSNotification :: nat where "sizeof_MSNotification = 6"

lemma length_ser_MSNotification [simp, wire_len]: "length (ser_MSNotification p) = sizeof_MSNotification"
  by (simp add: ser_MSNotification_def sizeof_MSNotification_def)

record SMCoreAuthority =
  SMCoreAuthority_header :: u8
  SMCoreAuthority_authority_type :: u16

definition SMCoreAuthority_new :: SMCoreAuthority where
  "SMCoreAuthority_new = \<lparr>SMCoreAuthority_header = HEADER_SM_CORE_AUTHORITY,
     SMCoreAuthority_authority_type = 0\<rparr>"

definition ser_SMCoreAuthority :: "SMCoreAuthority \<Rightarrow> bytes" where
  "ser_SMCoreAuthority p =
     [SMCoreAuthority_header p] @
     le16 (SMCoreAuthority_authority_type p)"

definition sizeof_SMCoreAuthority :: nat where "sizeof_SMCoreAuthority = 3"

lemma length_ser_SMCoreAuthority [simp, wire_len]: "length (ser_SMCoreAuthority p) = sizeof_SMCoreAuthority"
  by (simp add: ser_SMCoreAuthority_def sizeof_SMCoreAuthority_def)

record MSConfig =
  MSConfig_header :: u8
  MSConfig_size :: u32
  MSConfig_security_size :: u32
  MSConfig_dp_to_mt_size :: u32
  MSConfig_dp_to_mobile_size :: u32
  MSConfig_maintenance_notification_size :: u32

definition MSConfig_new :: MSConfig where
  "MSConfig_new = \<lparr>MSConfig_header = HEADER_MS_CONFIG,
     MSConfig_size = 0,
     MSConfig_security_size = 0,
     MSConfig_dp_to_mt_size = 0,
     MSConfig_dp_to_mobile_size = 0,
     MSConfig_maintenance_notification_size = 0\<rparr>"

definition ser_MSConfig :: "MSConfig \<Rightarrow> bytes" where
  "ser_MSConfig p =
     [MSConfig_header p] @
     le32 (MSConfig_size p) @
     le32 (MSConfig_security_size p) @
     le32 (MSConfig_dp_to_mt_size p) @
     le32 (MSConfig_dp_to_mobile_size p) @
     le32 (MSConfig_maintenance_notification_size p)"

definition sizeof_MSConfig :: nat where "sizeof_MSConfig = 21"

lemma length_ser_MSConfig [simp, wire_len]: "length (ser_MSConfig p) = sizeof_MSConfig"
  by (simp add: ser_MSConfig_def sizeof_MSConfig_def)

record MSConfigStatic =
  MSConfigStatic_max_active_sessions :: u32
  MSConfigStatic_max_missed_heartbeats :: u8
  MSConfigStatic_max_login_attempts :: u32
  MSConfigStatic_login_block_duration_minutes :: u32
  MSConfigStatic_rate_limit_per_second :: u32
  MSConfigStatic_rate_limit_max_overflows :: u32
  MSConfigStatic_rate_limit_block_duration_minutes :: u32
  MSConfigStatic_online_counter_enabled :: bool
  MSConfigStatic_maintenance_mode_enabled :: bool
  MSConfigStatic_maintenance_est_duration :: u16

definition MSConfigStatic_new :: MSConfigStatic where
  "MSConfigStatic_new = \<lparr>MSConfigStatic_max_active_sessions = 0,
     MSConfigStatic_max_missed_heartbeats = 0,
     MSConfigStatic_max_login_attempts = 0,
     MSConfigStatic_login_block_duration_minutes = 0,
     MSConfigStatic_rate_limit_per_second = 0,
     MSConfigStatic_rate_limit_max_overflows = 0,
     MSConfigStatic_rate_limit_block_duration_minutes = 0,
     MSConfigStatic_online_counter_enabled = False,
     MSConfigStatic_maintenance_mode_enabled = False,
     MSConfigStatic_maintenance_est_duration = 0\<rparr>"

definition ser_MSConfigStatic :: "MSConfigStatic \<Rightarrow> bytes" where
  "ser_MSConfigStatic p =
     le32 (MSConfigStatic_max_active_sessions p) @
     [MSConfigStatic_max_missed_heartbeats p] @
     le32 (MSConfigStatic_max_login_attempts p) @
     le32 (MSConfigStatic_login_block_duration_minutes p) @
     le32 (MSConfigStatic_rate_limit_per_second p) @
     le32 (MSConfigStatic_rate_limit_max_overflows p) @
     le32 (MSConfigStatic_rate_limit_block_duration_minutes p) @
     le_bool (MSConfigStatic_online_counter_enabled p) @
     le_bool (MSConfigStatic_maintenance_mode_enabled p) @
     le16 (MSConfigStatic_maintenance_est_duration p)"

definition sizeof_MSConfigStatic :: nat where "sizeof_MSConfigStatic = 29"

lemma length_ser_MSConfigStatic [simp, wire_len]: "length (ser_MSConfigStatic p) = sizeof_MSConfigStatic"
  by (simp add: ser_MSConfigStatic_def sizeof_MSConfigStatic_def)

record MSCharacter =
  MSCharacter_header :: u8
  MSCharacter_size :: u32
  MSCharacter_sub_header :: u8

definition MSCharacter_new :: MSCharacter where
  "MSCharacter_new = \<lparr>MSCharacter_header = HEADER_MS_CHARACTER,
     MSCharacter_size = 0,
     MSCharacter_sub_header = 0\<rparr>"

definition ser_MSCharacter :: "MSCharacter \<Rightarrow> bytes" where
  "ser_MSCharacter p =
     [MSCharacter_header p] @
     le32 (MSCharacter_size p) @
     [MSCharacter_sub_header p]"

definition sizeof_MSCharacter :: nat where "sizeof_MSCharacter = 6"

lemma length_ser_MSCharacter [simp, wire_len]: "length (ser_MSCharacter p) = sizeof_MSCharacter"
  by (simp add: ser_MSCharacter_def sizeof_MSCharacter_def)

record MSChangeRace =
  MSChangeRace_pid :: u32
  MSChangeRace_race :: u8

definition MSChangeRace_new :: MSChangeRace where
  "MSChangeRace_new = \<lparr>MSChangeRace_pid = 0,
     MSChangeRace_race = 0\<rparr>"

definition ser_MSChangeRace :: "MSChangeRace \<Rightarrow> bytes" where
  "ser_MSChangeRace p =
     le32 (MSChangeRace_pid p) @
     [MSChangeRace_race p]"

definition sizeof_MSChangeRace :: nat where "sizeof_MSChangeRace = 5"

lemma length_ser_MSChangeRace [simp, wire_len]: "length (ser_MSChangeRace p) = sizeof_MSChangeRace"
  by (simp add: ser_MSChangeRace_def sizeof_MSChangeRace_def)

record MSChangeSex =
  MSChangeSex_pid :: u32
  MSChangeSex_sex :: u8

definition MSChangeSex_new :: MSChangeSex where
  "MSChangeSex_new = \<lparr>MSChangeSex_pid = 0,
     MSChangeSex_sex = 0\<rparr>"

definition ser_MSChangeSex :: "MSChangeSex \<Rightarrow> bytes" where
  "ser_MSChangeSex p =
     le32 (MSChangeSex_pid p) @
     [MSChangeSex_sex p]"

definition sizeof_MSChangeSex :: nat where "sizeof_MSChangeSex = 5"

lemma length_ser_MSChangeSex [simp, wire_len]: "length (ser_MSChangeSex p) = sizeof_MSChangeSex"
  by (simp add: ser_MSChangeSex_def sizeof_MSChangeSex_def)

record MSChangeEmpire =
  MSChangeEmpire_pid :: u32
  MSChangeEmpire_empire :: u8

definition MSChangeEmpire_new :: MSChangeEmpire where
  "MSChangeEmpire_new = \<lparr>MSChangeEmpire_pid = 0,
     MSChangeEmpire_empire = 0\<rparr>"

definition ser_MSChangeEmpire :: "MSChangeEmpire \<Rightarrow> bytes" where
  "ser_MSChangeEmpire p =
     le32 (MSChangeEmpire_pid p) @
     [MSChangeEmpire_empire p]"

definition sizeof_MSChangeEmpire :: nat where "sizeof_MSChangeEmpire = 5"

lemma length_ser_MSChangeEmpire [simp, wire_len]: "length (ser_MSChangeEmpire p) = sizeof_MSChangeEmpire"
  by (simp add: ser_MSChangeEmpire_def sizeof_MSChangeEmpire_def)

record MSChangeName =
  MSChangeName_pid :: u32
  MSChangeName_name :: bytes

definition MSChangeName_new :: MSChangeName where
  "MSChangeName_new = \<lparr>MSChangeName_pid = 0,
     MSChangeName_name = replicate 25 0\<rparr>"

definition ser_MSChangeName :: "MSChangeName \<Rightarrow> bytes" where
  "ser_MSChangeName p =
     le32 (MSChangeName_pid p) @
     resize 25 (MSChangeName_name p)"

definition sizeof_MSChangeName :: nat where "sizeof_MSChangeName = 29"

lemma length_ser_MSChangeName [simp, wire_len]: "length (ser_MSChangeName p) = sizeof_MSChangeName"
  by (simp add: ser_MSChangeName_def sizeof_MSChangeName_def)

record MSLoadCharacter =
  MSLoadCharacter_pid :: u32
  MSLoadCharacter_response_code :: u8

definition MSLoadCharacter_new :: MSLoadCharacter where
  "MSLoadCharacter_new = \<lparr>MSLoadCharacter_pid = 0,
     MSLoadCharacter_response_code = 0\<rparr>"

definition ser_MSLoadCharacter :: "MSLoadCharacter \<Rightarrow> bytes" where
  "ser_MSLoadCharacter p =
     le32 (MSLoadCharacter_pid p) @
     [MSLoadCharacter_response_code p]"

definition sizeof_MSLoadCharacter :: nat where "sizeof_MSLoadCharacter = 5"

lemma length_ser_MSLoadCharacter [simp, wire_len]: "length (ser_MSLoadCharacter p) = sizeof_MSLoadCharacter"
  by (simp add: ser_MSLoadCharacter_def sizeof_MSLoadCharacter_def)

record MSReSync =
  MSReSync_header :: u8
  MSReSync_size :: u32
  MSReSync_count_sync :: u32
  MSReSync_count_war :: u32
  MSReSync_count_mobi_ch :: u32

definition MSReSync_new :: MSReSync where
  "MSReSync_new = \<lparr>MSReSync_header = HEADER_MS_SYNC,
     MSReSync_size = 0,
     MSReSync_count_sync = 0,
     MSReSync_count_war = 0,
     MSReSync_count_mobi_ch = 0\<rparr>"

definition ser_MSReSync :: "MSReSync \<Rightarrow> bytes" where
  "ser_MSReSync p =
     [MSReSync_header p] @
     le32 (MSReSync_size p) @
     le32 (MSReSync_count_sync p) @
     le32 (MSReSync_count_war p) @
     le32 (MSReSync_count_mobi_ch p)"

definition sizeof_MSReSync :: nat where "sizeof_MSReSync = 17"

lemma length_ser_MSReSync [simp, wire_len]: "length (ser_MSReSync p) = sizeof_MSReSync"
  by (simp add: ser_MSReSync_def sizeof_MSReSync_def)

record TWarElem =
  TWarElem_gids0 :: u32
  TWarElem_gids1 :: u32
  TWarElem_scores0 :: u32
  TWarElem_scores1 :: u32
  TWarElem_team_size0 :: u32
  TWarElem_team_size1 :: u32

definition TWarElem_new :: TWarElem where
  "TWarElem_new = \<lparr>TWarElem_gids0 = 0,
     TWarElem_gids1 = 0,
     TWarElem_scores0 = 0,
     TWarElem_scores1 = 0,
     TWarElem_team_size0 = 0,
     TWarElem_team_size1 = 0\<rparr>"

definition ser_TWarElem :: "TWarElem \<Rightarrow> bytes" where
  "ser_TWarElem p =
     le32 (TWarElem_gids0 p) @
     le32 (TWarElem_gids1 p) @
     le32 (TWarElem_scores0 p) @
     le32 (TWarElem_scores1 p) @
     le32 (TWarElem_team_size0 p) @
     le32 (TWarElem_team_size1 p)"

definition sizeof_TWarElem :: nat where "sizeof_TWarElem = 24"

lemma length_ser_TWarElem [simp, wire_len]: "length (ser_TWarElem p) = sizeof_TWarElem"
  by (simp add: ser_TWarElem_def sizeof_TWarElem_def)

record TWarFighter =
  TWarFighter_pid :: u32
  TWarFighter_kills :: u32
  TWarFighter_deaths :: u32

definition TWarFighter_new :: TWarFighter where
  "TWarFighter_new = \<lparr>TWarFighter_pid = 0,
     TWarFighter_kills = 0,
     TWarFighter_deaths = 0\<rparr>"

definition ser_TWarFighter :: "TWarFighter \<Rightarrow> bytes" where
  "ser_TWarFighter p =
     le32 (TWarFighter_pid p) @
     le32 (TWarFighter_kills p) @
     le32 (TWarFighter_deaths p)"

definition sizeof_TWarFighter :: nat where "sizeof_TWarFighter = 12"

lemma length_ser_TWarFighter [simp, wire_len]: "length (ser_TWarFighter p) = sizeof_TWarFighter"
  by (simp add: ser_TWarFighter_def sizeof_TWarFighter_def)

record SMCacheStatus =
  SMCacheStatus_header :: u8
  SMCacheStatus_is_ready :: bool

definition SMCacheStatus_new :: SMCacheStatus where
  "SMCacheStatus_new = \<lparr>SMCacheStatus_header = HEADER_SM_CACHE_STATUS,
     SMCacheStatus_is_ready = False\<rparr>"

definition ser_SMCacheStatus :: "SMCacheStatus \<Rightarrow> bytes" where
  "ser_SMCacheStatus p =
     [SMCacheStatus_header p] @
     le_bool (SMCacheStatus_is_ready p)"

definition sizeof_SMCacheStatus :: nat where "sizeof_SMCacheStatus = 2"

lemma length_ser_SMCacheStatus [simp, wire_len]: "length (ser_SMCacheStatus p) = sizeof_SMCacheStatus"
  by (simp add: ser_SMCacheStatus_def sizeof_SMCacheStatus_def)

record SMForward =
  SMForward_header :: u8
  SMForward_size :: u32
  SMForward_sub_header :: u16

definition SMForward_new :: SMForward where
  "SMForward_new = \<lparr>SMForward_header = HEADER_SM_FORWARD,
     SMForward_size = 0,
     SMForward_sub_header = 0\<rparr>"

definition ser_SMForward :: "SMForward \<Rightarrow> bytes" where
  "ser_SMForward p =
     [SMForward_header p] @
     le32 (SMForward_size p) @
     le16 (SMForward_sub_header p)"

definition sizeof_SMForward :: nat where "sizeof_SMForward = 7"

lemma length_ser_SMForward [simp, wire_len]: "length (ser_SMForward p) = sizeof_SMForward"
  by (simp add: ser_SMForward_def sizeof_SMForward_def)

record MSMobileNotification =
  MSMobileNotification_header :: u8
  MSMobileNotification_size :: u32
  MSMobileNotification_type :: u8
  MSMobileNotification_pid :: u32

definition MSMobileNotification_new :: MSMobileNotification where
  "MSMobileNotification_new = \<lparr>MSMobileNotification_header = HEADER_MS_MOBILE_NOTIFY,
     MSMobileNotification_size = 0,
     MSMobileNotification_type = 0,
     MSMobileNotification_pid = 0\<rparr>"

definition ser_MSMobileNotification :: "MSMobileNotification \<Rightarrow> bytes" where
  "ser_MSMobileNotification p =
     [MSMobileNotification_header p] @
     le32 (MSMobileNotification_size p) @
     [MSMobileNotification_type p] @
     le32 (MSMobileNotification_pid p)"

definition sizeof_MSMobileNotification :: nat where "sizeof_MSMobileNotification = 10"

lemma length_ser_MSMobileNotification [simp, wire_len]: "length (ser_MSMobileNotification p) = sizeof_MSMobileNotification"
  by (simp add: ser_MSMobileNotification_def sizeof_MSMobileNotification_def)

record MSOffshop =
  MSOffshop_header :: u8
  MSOffshop_size :: u32
  MSOffshop_sub_id :: u8
  MSOffshop_owner_pid :: u32

definition MSOffshop_new :: MSOffshop where
  "MSOffshop_new = \<lparr>MSOffshop_header = HEADER_MS_OFFSHOP,
     MSOffshop_size = 0,
     MSOffshop_sub_id = 0,
     MSOffshop_owner_pid = 0\<rparr>"

definition ser_MSOffshop :: "MSOffshop \<Rightarrow> bytes" where
  "ser_MSOffshop p =
     [MSOffshop_header p] @
     le32 (MSOffshop_size p) @
     [MSOffshop_sub_id p] @
     le32 (MSOffshop_owner_pid p)"

definition sizeof_MSOffshop :: nat where "sizeof_MSOffshop = 10"

lemma length_ser_MSOffshop [simp, wire_len]: "length (ser_MSOffshop p) = sizeof_MSOffshop"
  by (simp add: ser_MSOffshop_def sizeof_MSOffshop_def)

record SMOffshop =
  SMOffshop_header :: u8
  SMOffshop_size :: u32
  SMOffshop_sub_id :: u8
  SMOffshop_sender_pid :: u32
  SMOffshop_shop_pid :: u32

definition SMOffshop_new :: SMOffshop where
  "SMOffshop_new = \<lparr>SMOffshop_header = HEADER_SM_OFFSHOP,
     SMOffshop_size = 0,
     SMOffshop_sub_id = 0,
     SMOffshop_sender_pid = 0,
     SMOffshop_shop_pid = 0\<rparr>"

definition ser_SMOffshop :: "SMOffshop \<Rightarrow> bytes" where
  "ser_SMOffshop p =
     [SMOffshop_header p] @
     le32 (SMOffshop_size p) @
     [SMOffshop_sub_id p] @
     le32 (SMOffshop_sender_pid p) @
     le32 (SMOffshop_shop_pid p)"

definition sizeof_SMOffshop :: nat where "sizeof_SMOffshop = 14"

lemma length_ser_SMOffshop [simp, wire_len]: "length (ser_SMOffshop p) = sizeof_SMOffshop"
  by (simp add: ser_SMOffshop_def sizeof_SMOffshop_def)

record TShopCreate =
  TShopCreate_slot_count :: u32

definition TShopCreate_new :: TShopCreate where
  "TShopCreate_new = \<lparr>TShopCreate_slot_count = 0\<rparr>"

definition ser_TShopCreate :: "TShopCreate \<Rightarrow> bytes" where
  "ser_TShopCreate p =
     le32 (TShopCreate_slot_count p)"

definition sizeof_TShopCreate :: nat where "sizeof_TShopCreate = 4"

lemma length_ser_TShopCreate [simp, wire_len]: "length (ser_TShopCreate p) = sizeof_TShopCreate"
  by (simp add: ser_TShopCreate_def sizeof_TShopCreate_def)

record TItemAdd =
  TItemAdd_vid :: u32
  TItemAdd_vnum :: u32
  TItemAdd_pos :: u32
  TItemAdd_count :: u32
  TItemAdd_sockets :: "u16 list"
  TItemAdd_attrs :: "TAttr list"
  TItemAdd_price :: TPriceInfo

definition TItemAdd_new :: TItemAdd where
  "TItemAdd_new = \<lparr>TItemAdd_vid = 0,
     TItemAdd_vnum = 0,
     TItemAdd_pos = 0,
     TItemAdd_count = 0,
     TItemAdd_sockets = replicate MAX_SOCKETS_COUNT 0,
     TItemAdd_attrs = replicate MAX_ATTR_COUNT (TAttr 0 0),
     TItemAdd_price = TPriceInfo 0 0\<rparr>"

definition ser_TItemAdd :: "TItemAdd \<Rightarrow> bytes" where
  "ser_TItemAdd p =
     le32 (TItemAdd_vid p) @
     le32 (TItemAdd_vnum p) @
     le32 (TItemAdd_pos p) @
     le32 (TItemAdd_count p) @
     ser_sockets (TItemAdd_sockets p) @
     ser_attrs (TItemAdd_attrs p) @
     ser_TPriceInfo (TItemAdd_price p)"

definition sizeof_TItemAdd :: nat where "sizeof_TItemAdd = 100"

lemma length_ser_TItemAdd [simp, wire_len]: "length (ser_TItemAdd p) = sizeof_TItemAdd"
  by (simp add: ser_TItemAdd_def sizeof_TItemAdd_def)

record TItemRemove =
  TItemRemove_vid :: u32

definition TItemRemove_new :: TItemRemove where
  "TItemRemove_new = \<lparr>TItemRemove_vid = 0\<rparr>"

definition ser_TItemRemove :: "TItemRemove \<Rightarrow> bytes" where
  "ser_TItemRemove p =
     le32 (TItemRemove_vid p)"

definition sizeof_TItemRemove :: nat where "sizeof_TItemRemove = 4"

lemma length_ser_TItemRemove [simp, wire_len]: "length (ser_TItemRemove p) = sizeof_TItemRemove"
  by (simp add: ser_TItemRemove_def sizeof_TItemRemove_def)

record TItemUpdatePos =
  TItemUpdatePos_vid :: u32
  TItemUpdatePos_pos_uptodate :: u32

definition TItemUpdatePos_new :: TItemUpdatePos where
  "TItemUpdatePos_new = \<lparr>TItemUpdatePos_vid = 0,
     TItemUpdatePos_pos_uptodate = 0\<rparr>"

definition ser_TItemUpdatePos :: "TItemUpdatePos \<Rightarrow> bytes" where
  "ser_TItemUpdatePos p =
     le32 (TItemUpdatePos_vid p) @
     le32 (TItemUpdatePos_pos_uptodate p)"

definition sizeof_TItemUpdatePos :: nat where "sizeof_TItemUpdatePos = 8"

lemma length_ser_TItemUpdatePos [simp, wire_len]: "length (ser_TItemUpdatePos p) = sizeof_TItemUpdatePos"
  by (simp add: ser_TItemUpdatePos_def sizeof_TItemUpdatePos_def)

record TItemUpdatePrice =
  TItemUpdatePrice_vid :: u32
  TItemUpdatePrice_price :: TPriceInfo

definition TItemUpdatePrice_new :: TItemUpdatePrice where
  "TItemUpdatePrice_new = \<lparr>TItemUpdatePrice_vid = 0,
     TItemUpdatePrice_price = TPriceInfo 0 0\<rparr>"

definition ser_TItemUpdatePrice :: "TItemUpdatePrice \<Rightarrow> bytes" where
  "ser_TItemUpdatePrice p =
     le32 (TItemUpdatePrice_vid p) @
     ser_TPriceInfo (TItemUpdatePrice_price p)"

definition sizeof_TItemUpdatePrice :: nat where "sizeof_TItemUpdatePrice = 12"

lemma length_ser_TItemUpdatePrice [simp, wire_len]: "length (ser_TItemUpdatePrice p) = sizeof_TItemUpdatePrice"
  by (simp add: ser_TItemUpdatePrice_def sizeof_TItemUpdatePrice_def)

record TItemBuy =
  TItemBuy_buyer_pid :: u32
  TItemBuy_vid :: u32

definition TItemBuy_new :: TItemBuy where
  "TItemBuy_new = \<lparr>TItemBuy_buyer_pid = 0,
     TItemBuy_vid = 0\<rparr>"

definition ser_TItemBuy :: "TItemBuy \<Rightarrow> bytes" where
  "ser_TItemBuy p =
     le32 (TItemBuy_buyer_pid p) @
     le32 (TItemBuy_vid p)"

definition sizeof_TItemBuy :: nat where "sizeof_TItemBuy = 8"

lemma length_ser_TItemBuy [simp, wire_len]: "length (ser_TItemBuy p) = sizeof_TItemBuy"
  by (simp add: ser_TItemBuy_def sizeof_TItemBuy_def)

record SMItemBuy =
  SMItemBuy_vid :: u32
  SMItemBuy_seen_price :: TPriceInfo

definition SMItemBuy_new :: SMItemBuy where
  "SMItemBuy_new = \<lparr>SMItemBuy_vid = 0,
     SMItemBuy_seen_price = TPriceInfo 0 0\<rparr>"

definition ser_SMItemBuy :: "SMItemBuy \<Rightarrow> bytes" where
  "ser_SMItemBuy p =
     le32 (SMItemBuy_vid p) @
     ser_TPriceInfo (SMItemBuy_seen_price p)"

definition sizeof_SMItemBuy :: nat where "sizeof_SMItemBuy = 12"

lemma length_ser_SMItemBuy [simp, wire_len]: "length (ser_SMItemBuy p) = sizeof_SMItemBuy"
  by (simp add: ser_SMItemBuy_def sizeof_SMItemBuy_def)

record MSResponseOperation =
  MSResponseOperation_header :: u8
  MSResponseOperation_to_pid :: u32
  MSResponseOperation_response :: u8

definition MSResponseOperation_new :: MSResponseOperation where
  "MSResponseOperation_new = \<lparr>MSResponseOperation_header = HEADER_MS_SHOP_OP_RESPONSE,
     MSResponseOperation_to_pid = 0,
     MSResponseOperation_response = 0\<rparr>"

definition ser_MSResponseOperation :: "MSResponseOperation \<Rightarrow> bytes" where
  "ser_MSResponseOperation p =
     [MSResponseOperation_header p] @
     le32 (MSResponseOperation_to_pid p) @
     [MSResponseOperation_response p]"

definition sizeof_MSResponseOperation :: nat where "sizeof_MSResponseOperation = 6"

lemma length_ser_MSResponseOperation [simp, wire_len]: "length (ser_MSResponseOperation p) = sizeof_MSResponseOperation"
  by (simp add: ser_MSResponseOperation_def sizeof_MSResponseOperation_def)

record SMModifyCharacter =
  SMModifyCharacter_header :: u8
  SMModifyCharacter_size :: u32
  SMModifyCharacter_sub_id :: u8
  SMModifyCharacter_pid :: u32

definition SMModifyCharacter_new :: SMModifyCharacter where
  "SMModifyCharacter_new = \<lparr>SMModifyCharacter_header = HEADER_SM_CHARACTER,
     SMModifyCharacter_size = 0,
     SMModifyCharacter_sub_id = 0,
     SMModifyCharacter_pid = 0\<rparr>"

definition ser_SMModifyCharacter :: "SMModifyCharacter \<Rightarrow> bytes" where
  "ser_SMModifyCharacter p =
     [SMModifyCharacter_header p] @
     le32 (SMModifyCharacter_size p) @
     [SMModifyCharacter_sub_id p] @
     le32 (SMModifyCharacter_pid p)"

definition sizeof_SMModifyCharacter :: nat where "sizeof_SMModifyCharacter = 10"

lemma length_ser_SMModifyCharacter [simp, wire_len]: "length (ser_SMModifyCharacter p) = sizeof_SMModifyCharacter"
  by (simp add: ser_SMModifyCharacter_def sizeof_SMModifyCharacter_def)

record TLoadCharacter =
  TLoadCharacter_login :: bytes
  TLoadCharacter_pw :: bytes

definition TLoadCharacter_new :: TLoadCharacter where
  "TLoadCharacter_new = \<lparr>TLoadCharacter_login = replicate 33 0,
     TLoadCharacter_pw = replicate 33 0\<rparr>"

definition ser_TLoadCharacter :: "TLoadCharacter \<Rightarrow> bytes" where
  "ser_TLoadCharacter p =
     resize 33 (TLoadCharacter_login p) @
     resize 33 (TLoadCharacter_pw p)"

definition sizeof_TLoadCharacter :: nat where "sizeof_TLoadCharacter = 66"

lemma length_ser_TLoadCharacter [simp, wire_len]: "length (ser_TLoadCharacter p) = sizeof_TLoadCharacter"
  by (simp add: ser_TLoadCharacter_def sizeof_TLoadCharacter_def)

lemmas sizeof_simps =
  sizeof_MSDBInfo_def
  sizeof_SMValidateMobileLogin_def
  sizeof_MSValidateMobileLogin_def
  sizeof_MSDataUpdate_def
  sizeof_SMMessage_def
  sizeof_TKeyExchange_def
  sizeof_SMLogin_def
  sizeof_SMLogout_def
  sizeof_MSLadderPoint_def
  sizeof_MSGuildStats_def
  sizeof_MSKill_def
  sizeof_MSMessage_def
  sizeof_MSLogin_def
  sizeof_MSLogout_def
  sizeof_MSOnline_def
  sizeof_MSShout_def
  sizeof_MSMessageName_def
  sizeof_MSUserCheck_def
  sizeof_SMUserCheck_def
  sizeof_MSLevelUp_def
  sizeof_MSGuildLeave_def
  sizeof_MSGuildJoin_def
  sizeof_MSMessengerAdd_def
  sizeof_MSMessengerRemove_def
  sizeof_MSGuildWar_def
  sizeof_SGuildWarStart_def
  sizeof_SGuildWarEnd_def
  sizeof_SGuildWarPlayerKill_def
  sizeof_SGuildWarPlayerJoin_def
  sizeof_SGuildWarPlayerLeave_def
  sizeof_SGuildWarPlayerPositionUpdate_def
  sizeof_SGuildWarNotification_def
  sizeof_MSNotification_def
  sizeof_SMCoreAuthority_def
  sizeof_MSConfig_def
  sizeof_MSConfigStatic_def
  sizeof_MSCharacter_def
  sizeof_MSChangeRace_def
  sizeof_MSChangeSex_def
  sizeof_MSChangeEmpire_def
  sizeof_MSChangeName_def
  sizeof_MSLoadCharacter_def
  sizeof_MSReSync_def
  sizeof_TWarElem_def
  sizeof_TWarFighter_def
  sizeof_SMCacheStatus_def
  sizeof_SMForward_def
  sizeof_MSMobileNotification_def
  sizeof_MSOffshop_def
  sizeof_SMOffshop_def
  sizeof_TShopCreate_def
  sizeof_TItemAdd_def
  sizeof_TItemRemove_def
  sizeof_TItemUpdatePos_def
  sizeof_TItemUpdatePrice_def
  sizeof_TItemBuy_def
  sizeof_SMItemBuy_def
  sizeof_MSResponseOperation_def
  sizeof_SMModifyCharacter_def
  sizeof_TLoadCharacter_def

lemmas struct_defs =
  MSDBInfo_new_def ser_MSDBInfo_def
  SMValidateMobileLogin_new_def ser_SMValidateMobileLogin_def
  MSValidateMobileLogin_new_def ser_MSValidateMobileLogin_def
  MSDataUpdate_new_def ser_MSDataUpdate_def
  SMMessage_new_def ser_SMMessage_def
  TKeyExchange_new_def ser_TKeyExchange_def
  SMLogin_new_def ser_SMLogin_def
  SMLogout_new_def ser_SMLogout_def
  MSLadderPoint_new_def ser_MSLadderPoint_def
  MSGuildStats_new_def ser_MSGuildStats_def
  MSKill_new_def ser_MSKill_def
  MSMessage_new_def ser_MSMessage_def
  MSLogin_new_def ser_MSLogin_def
  MSLogout_new_def ser_MSLogout_def
  MSOnline_new_def ser_MSOnline_def
  MSShout_new_def ser_MSShout_def
  MSMessageName_new_def ser_MSMessageName_def
  MSUserCheck_new_def ser_MSUserCheck_def
  SMUserCheck_new_def ser_SMUserCheck_def
  MSLevelUp_new_def ser_MSLevelUp_def
  MSGuildLeave_new_def ser_MSGuildLeave_def
  MSGuildJoin_new_def ser_MSGuildJoin_def
  MSMessengerAdd_new_def ser_MSMessengerAdd_def
  MSMessengerRemove_new_def ser_MSMessengerRemove_def
  MSGuildWar_new_def ser_MSGuildWar_def
  SGuildWarStart_new_def ser_SGuildWarStart_def
  SGuildWarEnd_new_def ser_SGuildWarEnd_def
  SGuildWarPlayerKill_new_def ser_SGuildWarPlayerKill_def
  SGuildWarPlayerJoin_new_def ser_SGuildWarPlayerJoin_def
  SGuildWarPlayerLeave_new_def ser_SGuildWarPlayerLeave_def
  SGuildWarPlayerPositionUpdate_new_def ser_SGuildWarPlayerPositionUpdate_def
  SGuildWarNotification_new_def ser_SGuildWarNotification_def
  MSNotification_new_def ser_MSNotification_def
  SMCoreAuthority_new_def ser_SMCoreAuthority_def
  MSConfig_new_def ser_MSConfig_def
  MSConfigStatic_new_def ser_MSConfigStatic_def
  MSCharacter_new_def ser_MSCharacter_def
  MSChangeRace_new_def ser_MSChangeRace_def
  MSChangeSex_new_def ser_MSChangeSex_def
  MSChangeEmpire_new_def ser_MSChangeEmpire_def
  MSChangeName_new_def ser_MSChangeName_def
  MSLoadCharacter_new_def ser_MSLoadCharacter_def
  MSReSync_new_def ser_MSReSync_def
  TWarElem_new_def ser_TWarElem_def
  TWarFighter_new_def ser_TWarFighter_def
  SMCacheStatus_new_def ser_SMCacheStatus_def
  SMForward_new_def ser_SMForward_def
  MSMobileNotification_new_def ser_MSMobileNotification_def
  MSOffshop_new_def ser_MSOffshop_def
  SMOffshop_new_def ser_SMOffshop_def
  TShopCreate_new_def ser_TShopCreate_def
  TItemAdd_new_def ser_TItemAdd_def
  TItemRemove_new_def ser_TItemRemove_def
  TItemUpdatePos_new_def ser_TItemUpdatePos_def
  TItemUpdatePrice_new_def ser_TItemUpdatePrice_def
  TItemBuy_new_def ser_TItemBuy_def
  SMItemBuy_new_def ser_SMItemBuy_def
  MSResponseOperation_new_def ser_MSResponseOperation_def
  SMModifyCharacter_new_def ser_SMModifyCharacter_def
  TLoadCharacter_new_def ser_TLoadCharacter_def

subsection \<open>Reading received structs\<close>

text \<open>
  \<open>reinterpret_cast<const T*>(data.data() + i)\<close> and reading its members; \<open>None\<close> when a member
  lies outside the data. An array of characters is well formed when it has its declared length.
\<close>

definition get_SMValidateMobileLogin :: "bytes \<Rightarrow> nat \<Rightarrow> SMValidateMobileLogin option" where
  "get_SMValidateMobileLogin d i = do {
     x0 \<leftarrow> get_u8 d (i + 0);
     x1 \<leftarrow> get_u32 d (i + 1);
     x2 \<leftarrow> get_u32 d (i + 5);
     x3 \<leftarrow> get_u32 d (i + 9);
     Some \<lparr>SMValidateMobileLogin_header = x0, SMValidateMobileLogin_size = x1, SMValidateMobileLogin_acc_id = x2, SMValidateMobileLogin_request_id = x3\<rparr> }"

lemma get_SMValidateMobileLogin_ser [simp]:
  "get_SMValidateMobileLogin (xs @ ser_SMValidateMobileLogin p @ ys) (length xs) = Some p"
  unfolding get_SMValidateMobileLogin_def ser_SMValidateMobileLogin_def by (simp add: field_at)

lemma get_SMValidateMobileLogin_None_iff [simp]: "get_SMValidateMobileLogin d i = None \<longleftrightarrow> length d < i + sizeof_SMValidateMobileLogin"
  unfolding get_SMValidateMobileLogin_def sizeof_SMValidateMobileLogin_def by (auto simp: bind_None_iff not_less)

definition get_SMMessage :: "bytes \<Rightarrow> nat \<Rightarrow> SMMessage option" where
  "get_SMMessage d i = do {
     x0 \<leftarrow> get_u8 d (i + 0);
     x1 \<leftarrow> get_u32 d (i + 1);
     x2 \<leftarrow> get_chars d (i + 5) 25;
     x3 \<leftarrow> get_u32 d (i + 30);
     Some \<lparr>SMMessage_header = x0, SMMessage_size = x1, SMMessage_name = x2, SMMessage_receiver_acc_id = x3\<rparr> }"

lemma get_SMMessage_ser [simp]:
  "length (SMMessage_name p) = 25 \<Longrightarrow> get_SMMessage (xs @ ser_SMMessage p @ ys) (length xs) = Some p"
  unfolding get_SMMessage_def ser_SMMessage_def by (simp add: field_at)

lemma get_SMMessage_None_iff [simp]: "get_SMMessage d i = None \<longleftrightarrow> length d < i + sizeof_SMMessage"
  unfolding get_SMMessage_def sizeof_SMMessage_def by (auto simp: bind_None_iff not_less)

definition get_TKeyExchange :: "bytes \<Rightarrow> nat \<Rightarrow> TKeyExchange option" where
  "get_TKeyExchange d i = do {
     x0 \<leftarrow> get_u8 d (i + 0);
     x1 \<leftarrow> get_u32 d (i + 1);
     x2 \<leftarrow> get_bool d (i + 5);
     Some \<lparr>TKeyExchange_header = x0, TKeyExchange_size = x1, TKeyExchange_is_auth_core = x2\<rparr> }"

lemma get_TKeyExchange_ser [simp]:
  "get_TKeyExchange (xs @ ser_TKeyExchange p @ ys) (length xs) = Some p"
  unfolding get_TKeyExchange_def ser_TKeyExchange_def by (simp add: field_at)

lemma get_TKeyExchange_None_iff [simp]: "get_TKeyExchange d i = None \<longleftrightarrow> length d < i + sizeof_TKeyExchange"
  unfolding get_TKeyExchange_def sizeof_TKeyExchange_def by (auto simp: bind_None_iff not_less)

definition get_SMLogin :: "bytes \<Rightarrow> nat \<Rightarrow> SMLogin option" where
  "get_SMLogin d i = do {
     x0 \<leftarrow> get_u8 d (i + 0);
     x1 \<leftarrow> get_chars d (i + 1) 25;
     Some \<lparr>SMLogin_header = x0, SMLogin_name = x1\<rparr> }"

lemma get_SMLogin_ser [simp]:
  "length (SMLogin_name p) = 25 \<Longrightarrow> get_SMLogin (xs @ ser_SMLogin p @ ys) (length xs) = Some p"
  unfolding get_SMLogin_def ser_SMLogin_def by (simp add: field_at)

lemma get_SMLogin_None_iff [simp]: "get_SMLogin d i = None \<longleftrightarrow> length d < i + sizeof_SMLogin"
  unfolding get_SMLogin_def sizeof_SMLogin_def by (auto simp: bind_None_iff not_less)

definition get_SMLogout :: "bytes \<Rightarrow> nat \<Rightarrow> SMLogout option" where
  "get_SMLogout d i = do {
     x0 \<leftarrow> get_u8 d (i + 0);
     x1 \<leftarrow> get_chars d (i + 1) 25;
     Some \<lparr>SMLogout_header = x0, SMLogout_name = x1\<rparr> }"

lemma get_SMLogout_ser [simp]:
  "length (SMLogout_name p) = 25 \<Longrightarrow> get_SMLogout (xs @ ser_SMLogout p @ ys) (length xs) = Some p"
  unfolding get_SMLogout_def ser_SMLogout_def by (simp add: field_at)

lemma get_SMLogout_None_iff [simp]: "get_SMLogout d i = None \<longleftrightarrow> length d < i + sizeof_SMLogout"
  unfolding get_SMLogout_def sizeof_SMLogout_def by (auto simp: bind_None_iff not_less)

definition get_SMUserCheck :: "bytes \<Rightarrow> nat \<Rightarrow> SMUserCheck option" where
  "get_SMUserCheck d i = do {
     x0 \<leftarrow> get_u8 d (i + 0);
     x1 \<leftarrow> get_u32 d (i + 1);
     x2 \<leftarrow> get_u8 d (i + 5);
     Some \<lparr>SMUserCheck_header = x0, SMUserCheck_container_id = x1, SMUserCheck_response = x2\<rparr> }"

lemma get_SMUserCheck_ser [simp]:
  "get_SMUserCheck (xs @ ser_SMUserCheck p @ ys) (length xs) = Some p"
  unfolding get_SMUserCheck_def ser_SMUserCheck_def by (simp add: field_at)

lemma get_SMUserCheck_None_iff [simp]: "get_SMUserCheck d i = None \<longleftrightarrow> length d < i + sizeof_SMUserCheck"
  unfolding get_SMUserCheck_def sizeof_SMUserCheck_def by (auto simp: bind_None_iff not_less)

definition get_SMCoreAuthority :: "bytes \<Rightarrow> nat \<Rightarrow> SMCoreAuthority option" where
  "get_SMCoreAuthority d i = do {
     x0 \<leftarrow> get_u8 d (i + 0);
     x1 \<leftarrow> get_u16 d (i + 1);
     Some \<lparr>SMCoreAuthority_header = x0, SMCoreAuthority_authority_type = x1\<rparr> }"

lemma get_SMCoreAuthority_ser [simp]:
  "get_SMCoreAuthority (xs @ ser_SMCoreAuthority p @ ys) (length xs) = Some p"
  unfolding get_SMCoreAuthority_def ser_SMCoreAuthority_def by (simp add: field_at)

lemma get_SMCoreAuthority_None_iff [simp]: "get_SMCoreAuthority d i = None \<longleftrightarrow> length d < i + sizeof_SMCoreAuthority"
  unfolding get_SMCoreAuthority_def sizeof_SMCoreAuthority_def by (auto simp: bind_None_iff not_less)

definition get_SMCacheStatus :: "bytes \<Rightarrow> nat \<Rightarrow> SMCacheStatus option" where
  "get_SMCacheStatus d i = do {
     x0 \<leftarrow> get_u8 d (i + 0);
     x1 \<leftarrow> get_bool d (i + 1);
     Some \<lparr>SMCacheStatus_header = x0, SMCacheStatus_is_ready = x1\<rparr> }"

lemma get_SMCacheStatus_ser [simp]:
  "get_SMCacheStatus (xs @ ser_SMCacheStatus p @ ys) (length xs) = Some p"
  unfolding get_SMCacheStatus_def ser_SMCacheStatus_def by (simp add: field_at)

lemma get_SMCacheStatus_None_iff [simp]: "get_SMCacheStatus d i = None \<longleftrightarrow> length d < i + sizeof_SMCacheStatus"
  unfolding get_SMCacheStatus_def sizeof_SMCacheStatus_def by (auto simp: bind_None_iff not_less)

definition get_SMForward :: "bytes \<Rightarrow> nat \<Rightarrow> SMForward option" where
  "get_SMForward d i = do {
     x0 \<leftarrow> get_u8 d (i + 0);
     x1 \<leftarrow> get_u32 d (i + 1);
     x2 \<leftarrow> get_u16 d (i + 5);
     Some \<lparr>SMForward_header = x0, SMForward_size = x1, SMForward_sub_header = x2\<rparr> }"

lemma get_SMForward_ser [simp]:
  "get_SMForward (xs @ ser_SMForward p @ ys) (length xs) = Some p"
  unfolding get_SMForward_def ser_SMForward_def by (simp add: field_at)

lemma get_SMForward_None_iff [simp]: "get_SMForward d i = None \<longleftrightarrow> length d < i + sizeof_SMForward"
  unfolding get_SMForward_def sizeof_SMForward_def by (auto simp: bind_None_iff not_less)

definition get_SMOffshop :: "bytes \<Rightarrow> nat \<Rightarrow> SMOffshop option" where
  "get_SMOffshop d i = do {
     x0 \<leftarrow> get_u8 d (i + 0);
     x1 \<leftarrow> get_u32 d (i + 1);
     x2 \<leftarrow> get_u8 d (i + 5);
     x3 \<leftarrow> get_u32 d (i + 6);
     x4 \<leftarrow> get_u32 d (i + 10);
     Some \<lparr>SMOffshop_header = x0, SMOffshop_size = x1, SMOffshop_sub_id = x2, SMOffshop_sender_pid = x3, SMOffshop_shop_pid = x4\<rparr> }"

lemma get_SMOffshop_ser [simp]:
  "get_SMOffshop (xs @ ser_SMOffshop p @ ys) (length xs) = Some p"
  unfolding get_SMOffshop_def ser_SMOffshop_def by (simp add: field_at)

lemma get_SMOffshop_None_iff [simp]: "get_SMOffshop d i = None \<longleftrightarrow> length d < i + sizeof_SMOffshop"
  unfolding get_SMOffshop_def sizeof_SMOffshop_def by (auto simp: bind_None_iff not_less)

definition get_TItemRemove :: "bytes \<Rightarrow> nat \<Rightarrow> TItemRemove option" where
  "get_TItemRemove d i = do {
     x0 \<leftarrow> get_u32 d (i + 0);
     Some \<lparr>TItemRemove_vid = x0\<rparr> }"

lemma get_TItemRemove_ser [simp]:
  "get_TItemRemove (xs @ ser_TItemRemove p @ ys) (length xs) = Some p"
  unfolding get_TItemRemove_def ser_TItemRemove_def by (simp add: field_at)

lemma get_TItemRemove_None_iff [simp]: "get_TItemRemove d i = None \<longleftrightarrow> length d < i + sizeof_TItemRemove"
  unfolding get_TItemRemove_def sizeof_TItemRemove_def by (auto simp: bind_None_iff not_less)

definition get_TItemUpdatePos :: "bytes \<Rightarrow> nat \<Rightarrow> TItemUpdatePos option" where
  "get_TItemUpdatePos d i = do {
     x0 \<leftarrow> get_u32 d (i + 0);
     x1 \<leftarrow> get_u32 d (i + 4);
     Some \<lparr>TItemUpdatePos_vid = x0, TItemUpdatePos_pos_uptodate = x1\<rparr> }"

lemma get_TItemUpdatePos_ser [simp]:
  "get_TItemUpdatePos (xs @ ser_TItemUpdatePos p @ ys) (length xs) = Some p"
  unfolding get_TItemUpdatePos_def ser_TItemUpdatePos_def by (simp add: field_at)

lemma get_TItemUpdatePos_None_iff [simp]: "get_TItemUpdatePos d i = None \<longleftrightarrow> length d < i + sizeof_TItemUpdatePos"
  unfolding get_TItemUpdatePos_def sizeof_TItemUpdatePos_def by (auto simp: bind_None_iff not_less)

definition get_TItemUpdatePrice :: "bytes \<Rightarrow> nat \<Rightarrow> TItemUpdatePrice option" where
  "get_TItemUpdatePrice d i = do {
     x0 \<leftarrow> get_u32 d (i + 0);
     x1 \<leftarrow> get_TPriceInfo d (i + 4);
     Some \<lparr>TItemUpdatePrice_vid = x0, TItemUpdatePrice_price = x1\<rparr> }"

lemma get_TItemUpdatePrice_ser [simp]:
  "get_TItemUpdatePrice (xs @ ser_TItemUpdatePrice p @ ys) (length xs) = Some p"
  unfolding get_TItemUpdatePrice_def ser_TItemUpdatePrice_def by (simp add: field_at)

lemma get_TItemUpdatePrice_None_iff [simp]: "get_TItemUpdatePrice d i = None \<longleftrightarrow> length d < i + sizeof_TItemUpdatePrice"
  unfolding get_TItemUpdatePrice_def sizeof_TItemUpdatePrice_def by (auto simp: bind_None_iff not_less)

definition get_SMItemBuy :: "bytes \<Rightarrow> nat \<Rightarrow> SMItemBuy option" where
  "get_SMItemBuy d i = do {
     x0 \<leftarrow> get_u32 d (i + 0);
     x1 \<leftarrow> get_TPriceInfo d (i + 4);
     Some \<lparr>SMItemBuy_vid = x0, SMItemBuy_seen_price = x1\<rparr> }"

lemma get_SMItemBuy_ser [simp]:
  "get_SMItemBuy (xs @ ser_SMItemBuy p @ ys) (length xs) = Some p"
  unfolding get_SMItemBuy_def ser_SMItemBuy_def by (simp add: field_at)

lemma get_SMItemBuy_None_iff [simp]: "get_SMItemBuy d i = None \<longleftrightarrow> length d < i + sizeof_SMItemBuy"
  unfolding get_SMItemBuy_def sizeof_SMItemBuy_def by (auto simp: bind_None_iff not_less)

definition get_SMModifyCharacter :: "bytes \<Rightarrow> nat \<Rightarrow> SMModifyCharacter option" where
  "get_SMModifyCharacter d i = do {
     x0 \<leftarrow> get_u8 d (i + 0);
     x1 \<leftarrow> get_u32 d (i + 1);
     x2 \<leftarrow> get_u8 d (i + 5);
     x3 \<leftarrow> get_u32 d (i + 6);
     Some \<lparr>SMModifyCharacter_header = x0, SMModifyCharacter_size = x1, SMModifyCharacter_sub_id = x2, SMModifyCharacter_pid = x3\<rparr> }"

lemma get_SMModifyCharacter_ser [simp]:
  "get_SMModifyCharacter (xs @ ser_SMModifyCharacter p @ ys) (length xs) = Some p"
  unfolding get_SMModifyCharacter_def ser_SMModifyCharacter_def by (simp add: field_at)

lemma get_SMModifyCharacter_None_iff [simp]: "get_SMModifyCharacter d i = None \<longleftrightarrow> length d < i + sizeof_SMModifyCharacter"
  unfolding get_SMModifyCharacter_def sizeof_SMModifyCharacter_def by (auto simp: bind_None_iff not_less)

definition get_TLoadCharacter :: "bytes \<Rightarrow> nat \<Rightarrow> TLoadCharacter option" where
  "get_TLoadCharacter d i = do {
     x0 \<leftarrow> get_chars d (i + 0) 33;
     x1 \<leftarrow> get_chars d (i + 33) 33;
     Some \<lparr>TLoadCharacter_login = x0, TLoadCharacter_pw = x1\<rparr> }"

lemma get_TLoadCharacter_ser [simp]:
  "length (TLoadCharacter_login p) = 33 \<Longrightarrow> length (TLoadCharacter_pw p) = 33 \<Longrightarrow> get_TLoadCharacter (xs @ ser_TLoadCharacter p @ ys) (length xs) = Some p"
  unfolding get_TLoadCharacter_def ser_TLoadCharacter_def by (simp add: field_at)

lemma get_TLoadCharacter_None_iff [simp]: "get_TLoadCharacter d i = None \<longleftrightarrow> length d < i + sizeof_TLoadCharacter"
  unfolding get_TLoadCharacter_def sizeof_TLoadCharacter_def by (auto simp: bind_None_iff not_less)

end
