(* ===== verification/Messenger.thy ===== *)
theory Messenger
  imports Packets "HOL-Library.List_Lexorder"
begin

text \<open>
  The friend lists of the game core: \<open>MessengerManagerEnhanced\<close> and the parts of
  \<open>MessengerManager\<close> that are in the repository (\<open>game.src/messenger_manager.h\<close>,
  \<open>messenger_manager.cpp\<close>). A player is in the game, on the mobile client, both or neither;
  a change is sent to those who have the player in their list and are in the game.

  Sets and maps are the code's. \<open>std::set<std::string>\<close> iterates in the order of the bytes,
  so a loop over a set is a fold over its sorted list. What is handed to the connections is
  appended to \<open>msg_out\<close>. The engine's \<open>FindPC\<close> is the argument \<open>pc\<close>: the handle of the
  connection of the character with this name, if there is one. \<open>MessengerManager::\<dots>\<close>
  functions whose bodies the repository elides are modelled as far as they are written.
\<close>

subsection \<open>State\<close>

text \<open>
  What the connections are sent: a status update with its 16-bit status and 8-bit name
  length, a friend list, a chat line about an added friend, a whisper; and the queries handed
  to the database.
\<close>

datatype outgoing_msg =
  UpdateStatus u32 u16 u8 bytes
| FriendList u32 "(u8 \<times> u8 \<times> bytes) list"
| FriendAdded u32 bytes
| QueryFriends bytes
| DeleteFriends bytes

record messenger =
  m_set_mobileAccount :: "bytes set"
  m_set_loginAccount :: "bytes set"
  m_Relation :: "bytes \<rightharpoonup> bytes set"
  m_InverseRelation :: "bytes \<rightharpoonup> bytes set"
  msg_out :: "outgoing_msg list"

definition messenger_new :: messenger where
  "messenger_new = \<lparr>m_set_mobileAccount = {}, m_set_loginAccount = {},
     m_Relation = Map.empty, m_InverseRelation = Map.empty, msg_out = []\<rparr>"

definition emit :: "outgoing_msg \<Rightarrow> messenger \<Rightarrow> messenger" where
  "emit e m = m\<lparr>msg_out := msg_out m @ [e]\<rparr>"

subsection \<open>Status\<close>

text \<open>\<open>EUserStatus\<close>.\<close>

definition ST_OFFLINE :: u16 where "ST_OFFLINE = 1"
definition ST_IN_GAME :: u16 where "ST_IN_GAME = 2"
definition ST_IN_MOBILE :: u16 where "ST_IN_MOBILE = 4"

definition IsAccountInGame :: "messenger \<Rightarrow> bytes \<Rightarrow> bool" where
  "IsAccountInGame m account \<longleftrightarrow> account \<in> m_set_loginAccount m"

definition IsAccountInMobile :: "messenger \<Rightarrow> bytes \<Rightarrow> bool" where
  "IsAccountInMobile m account \<longleftrightarrow> account \<in> m_set_mobileAccount m"

definition GetUserStatus :: "messenger \<Rightarrow> bytes \<Rightarrow> u16" where
  "GetUserStatus m account =
     (let inGame = IsAccountInGame m account; inMobile = IsAccountInMobile m account in
      if inGame \<and> inMobile then ST_IN_GAME OR ST_IN_MOBILE
      else if inGame then ST_IN_GAME
      else if inMobile then ST_IN_MOBILE
      else ST_OFFLINE)"

definition SetAccountGameStatus :: "bytes \<Rightarrow> bool \<Rightarrow> messenger \<Rightarrow> messenger" where
  "SetAccountGameStatus account inGame m =
     (if inGame then m\<lparr>m_set_loginAccount := insert account (m_set_loginAccount m)\<rparr>
      else m\<lparr>m_set_loginAccount := m_set_loginAccount m - {account}\<rparr>)"

definition SetAccountMobileStatus :: "bytes \<Rightarrow> bool \<Rightarrow> messenger \<Rightarrow> messenger" where
  "SetAccountMobileStatus account inMobile m =
     (if inMobile then m\<lparr>m_set_mobileAccount := insert account (m_set_mobileAccount m)\<rparr>
      else m\<lparr>m_set_mobileAccount := m_set_mobileAccount m - {account}\<rparr>)"

definition IsMessageToMobile :: "messenger \<Rightarrow> bytes \<Rightarrow> bool" where
  "IsMessageToMobile m companion \<longleftrightarrow> IsAccountInMobile m companion \<and> \<not> IsAccountInGame m companion"

subsection \<open>Notifications\<close>

text \<open>The friends of an account are those who have it in their list.\<close>

definition friends_of :: "messenger \<Rightarrow> bytes \<Rightarrow> bytes list" where
  "friends_of m account =
     (case m_InverseRelation m account of None \<Rightarrow> [] | Some S \<Rightarrow> sorted_list_of_set S)"

definition ForEachFriend ::
  "bytes \<Rightarrow> (bytes \<Rightarrow> messenger \<Rightarrow> messenger) \<Rightarrow> messenger \<Rightarrow> messenger" where
  "ForEachFriend account callback m = fold callback (friends_of m account) m"

definition SendStatusUpdate ::
  "(bytes \<Rightarrow> u32 option) \<Rightarrow> bytes \<Rightarrow> bytes \<Rightarrow> u16 \<Rightarrow> messenger \<Rightarrow> messenger" where
  "SendStatusUpdate pc account companion newStatus m =
     (case pc (cstr account) of
        None \<Rightarrow> m
      | Some d \<Rightarrow> emit (UpdateStatus d newStatus (of_nat (length companion)) companion) m)"

definition NotifyStatusChange ::
  "(bytes \<Rightarrow> u32 option) \<Rightarrow> bytes \<Rightarrow> u16 \<Rightarrow> messenger \<Rightarrow> messenger" where
  "NotifyStatusChange pc account newStatus m =
     ForEachFriend account
       (\<lambda>friendAccount m. if \<not> IsAccountInGame m friendAccount then m
          else SendStatusUpdate pc friendAccount account newStatus m) m"

text \<open>The clean-up that three functions repeat.\<close>

definition forget_relations :: "bytes \<Rightarrow> messenger \<Rightarrow> messenger" where
  "forget_relations account m =
     m\<lparr>m_Relation := (\<lambda>k. map_option (\<lambda>S. S - {account}) (m_Relation m k))(account := None)\<rparr>"

definition MobileLogin :: "(bytes \<Rightarrow> u32 option) \<Rightarrow> bytes \<Rightarrow> messenger \<Rightarrow> messenger" where
  "MobileLogin pc account m =
     (if IsAccountInMobile m account then m
      else
        let m = SetAccountMobileStatus account True m;
            newStatus = GetUserStatus m account
        in NotifyStatusChange pc account newStatus m)"

definition MobileLogout :: "(bytes \<Rightarrow> u32 option) \<Rightarrow> bytes \<Rightarrow> messenger \<Rightarrow> messenger" where
  "MobileLogout pc account m =
     (if \<not> IsAccountInMobile m account then m
      else
        let m = SetAccountMobileStatus account False m;
            newStatus = GetUserStatus m account;
            m = NotifyStatusChange pc account newStatus m
        in if newStatus = ST_OFFLINE then forget_relations account m else m)"

definition lost_account :: "(bytes \<Rightarrow> u32 option) \<Rightarrow> bytes \<Rightarrow> messenger \<Rightarrow> messenger" where
  "lost_account pc acc m =
     (let newStatus = (if IsAccountInGame m acc then ST_IN_GAME else ST_OFFLINE);
          m = NotifyStatusChange pc acc newStatus m
      in if newStatus = ST_OFFLINE then forget_relations acc m else m)"

definition HandleConnectionLost :: "(bytes \<Rightarrow> u32 option) \<Rightarrow> messenger \<Rightarrow> messenger" where
  "HandleConnectionLost pc m =
     (fold (lost_account pc) (sorted_list_of_set (m_set_mobileAccount m)) m)
       \<lparr>m_set_mobileAccount := {}\<rparr>"

subsection \<open>The game's own calls\<close>

text \<open>
  \<open>escape\<close> is the database's \<open>EscapeString\<close>. The rows of the query arrive later and are
  added by \<open>LoadList\<close>, of which the repository holds the end: the notification.
\<close>

definition Login ::
  "(bytes \<Rightarrow> bytes) \<Rightarrow> bytes \<Rightarrow> messenger \<Rightarrow> messenger" where
  "Login escape account m =
     (if account \<noteq> cstr (escape account) then m
      else if IsAccountInGame m account then m
      else SetAccountGameStatus account True (emit (QueryFriends account) m))"

definition LoadList_notify ::
  "(bytes \<Rightarrow> u32 option) \<Rightarrow> bytes \<Rightarrow> messenger \<Rightarrow> messenger" where
  "LoadList_notify pc account m =
     (let currentStatus = GetUserStatus m account
      in NotifyStatusChange pc account currentStatus m)"

definition Logout :: "(bytes \<Rightarrow> u32 option) \<Rightarrow> bytes \<Rightarrow> messenger \<Rightarrow> messenger" where
  "Logout pc account m =
     (if \<not> IsAccountInGame m account then m
      else
        let m = SetAccountGameStatus account False m;
            newStatus = GetUserStatus m account;
            m = NotifyStatusChange pc account newStatus m
        in if newStatus = ST_OFFLINE then forget_relations account m else m)"

definition IsInList :: "messenger \<Rightarrow> bytes \<Rightarrow> bytes \<Rightarrow> bool" where
  "IsInList m account companion \<longleftrightarrow>
     (case m_Relation m account of
        None \<Rightarrow> False
      | Some S \<Rightarrow> if S = {} then False else companion \<in> S)"

definition SendLogin ::
  "(bytes \<Rightarrow> u32 option) \<Rightarrow> bytes \<Rightarrow> bytes \<Rightarrow> messenger \<Rightarrow> messenger" where
  "SendLogin pc account companion m =
     (if companion = [] then m
      else SendStatusUpdate pc account companion (GetUserStatus m companion) m)"

definition SendLogout ::
  "(bytes \<Rightarrow> u32 option) \<Rightarrow> bytes \<Rightarrow> bytes \<Rightarrow> messenger \<Rightarrow> messenger" where
  "SendLogout pc account companion m =
     (if companion = [] then m
      else SendStatusUpdate pc account companion (GetUserStatus m companion) m)"

text \<open>\<open>m[k].insert(x)\<close> makes an empty set first if there is none.\<close>

definition map_insert :: "bytes \<Rightarrow> bytes \<Rightarrow> (bytes \<rightharpoonup> bytes set) \<Rightarrow> (bytes \<rightharpoonup> bytes set)" where
  "map_insert k x r = r(k \<mapsto> insert x (case r k of None \<Rightarrow> {} | Some S \<Rightarrow> S))"

definition map_erase :: "bytes \<Rightarrow> bytes \<Rightarrow> (bytes \<rightharpoonup> bytes set) \<Rightarrow> (bytes \<rightharpoonup> bytes set)" where
  "map_erase k x r = (case r k of None \<Rightarrow> r | Some S \<Rightarrow> r(k \<mapsto> S - {x}))"

definition AddToList_raw ::
  "(bytes \<Rightarrow> u32 option) \<Rightarrow> bytes \<Rightarrow> bytes \<Rightarrow> messenger \<Rightarrow> messenger" where
  "AddToList_raw pc account companion m =
     (let m = m\<lparr>m_Relation := map_insert account companion (m_Relation m),
               m_InverseRelation := map_insert companion account (m_InverseRelation m)\<rparr>;
          m = (case pc (cstr account) of None \<Rightarrow> m | Some d \<Rightarrow> emit (FriendAdded d companion) m);
          companionStatus = GetUserStatus m companion
      in if (companionStatus AND ST_IN_GAME) \<noteq> 0 \<or> (companionStatus AND ST_IN_MOBILE) \<noteq> 0
         then SendLogin pc account companion m
         else SendLogout pc account companion m)"

definition RemoveFromList_raw :: "bytes \<Rightarrow> bytes \<Rightarrow> messenger \<Rightarrow> messenger" where
  "RemoveFromList_raw account companion m =
     m\<lparr>m_Relation := map_erase account companion (m_Relation m),
       m_InverseRelation := map_erase companion account (m_InverseRelation m)\<rparr>"

text \<open>
  \<open>RemoveAllList\<close> walks the set that \<open>RemoveFromList\<close> (the argument \<open>rm\<close>, elided in the
  repository) erases from: once the element the iterator stands on is gone, advancing it is
  undefined.
\<close>

fun remove_each ::
  "(bytes \<Rightarrow> bytes \<Rightarrow> messenger \<Rightarrow> messenger) \<Rightarrow> bytes \<Rightarrow> bytes list \<Rightarrow> messenger \<Rightarrow> messenger option" where
  "remove_each rm account [] m = Some m"
| "remove_each rm account (f # fs) m =
     (let m = rm account f m in
      (case m_Relation m account of
         None \<Rightarrow> None
       | Some S \<Rightarrow> if f \<notin> S then None else remove_each rm account fs m))"

definition RemoveAllList ::
  "(bytes \<Rightarrow> bytes) \<Rightarrow> (bytes \<Rightarrow> bytes \<Rightarrow> messenger \<Rightarrow> messenger) \<Rightarrow> bytes \<Rightarrow> messenger \<Rightarrow>
   messenger option" where
  "RemoveAllList escape rm account m =
     (if account \<noteq> cstr (escape account) then Some m
      else (case m_Relation m account of
              None \<Rightarrow> Some m
            | Some S \<Rightarrow>
                remove_each rm account (sorted_list_of_set S) (emit (DeleteFriends account) m)))"

definition SendList :: "(bytes \<Rightarrow> u32 option) \<Rightarrow> bytes \<Rightarrow> messenger \<Rightarrow> messenger" where
  "SendList pc account m =
     (case pc (cstr account) of
        None \<Rightarrow> m
      | Some d \<Rightarrow>
          (case m_Relation m account of
             None \<Rightarrow> m
           | Some S \<Rightarrow>
               if S = {} then m
               else emit (FriendList d (map (\<lambda>f. (ucast (GetUserStatus m f), of_nat (length f), f))
                      (sorted_list_of_set S))) m))"

subsection \<open>What is sent\<close>

lemma emit_frame [simp]:
  "m_set_mobileAccount (emit e m) = m_set_mobileAccount m"
  "m_set_loginAccount (emit e m) = m_set_loginAccount m"
  "m_Relation (emit e m) = m_Relation m" "m_InverseRelation (emit e m) = m_InverseRelation m"
  "msg_out (emit e m) = msg_out m @ [e]"
  by (simp_all add: emit_def)

lemma status_frame [simp]:
  "m_set_mobileAccount (SendStatusUpdate pc a c st m) = m_set_mobileAccount m"
  "m_set_loginAccount (SendStatusUpdate pc a c st m) = m_set_loginAccount m"
  "m_Relation (SendStatusUpdate pc a c st m) = m_Relation m"
  "m_InverseRelation (SendStatusUpdate pc a c st m) = m_InverseRelation m"
  by (simp_all add: SendStatusUpdate_def split: option.split)

text \<open>
  The updates a change of \<open>account\<close> to a status has to cause: one for every friend who is in
  the game and connected, in the order of their names.
\<close>

definition updates :: "(bytes \<Rightarrow> u32 option) \<Rightarrow> messenger \<Rightarrow> bytes \<Rightarrow> u16 \<Rightarrow> outgoing_msg list" where
  "updates pc m account st =
     concat (map (\<lambda>f. case pc (cstr f) of None \<Rightarrow> []
                    | Some d \<Rightarrow> [UpdateStatus d st (of_nat (length account)) account])
       (filter (IsAccountInGame m) (friends_of m account)))"

lemma InGame_frame [simp]: "IsAccountInGame (m\<lparr>msg_out := x\<rparr>) = IsAccountInGame m"
  by (rule ext) (simp add: IsAccountInGame_def)

lemma notify_fold:
  "fold (\<lambda>f m. if \<not> IsAccountInGame m f then m else SendStatusUpdate pc f account st m) fs m =
     m\<lparr>msg_out := msg_out m @
        concat (map (\<lambda>f. case pc (cstr f) of None \<Rightarrow> []
                    | Some d \<Rightarrow> [UpdateStatus d st (of_nat (length account)) account])
       (filter (IsAccountInGame m) fs))\<rparr>"
proof (induction fs arbitrary: m)
  case (Cons f fs)
  show ?case
    unfolding fold_simps Cons.IH
    by (simp add: SendStatusUpdate_def emit_def split: option.split)
qed simp

lemma NotifyStatusChange_eq:
  "NotifyStatusChange pc account st m = m\<lparr>msg_out := msg_out m @ updates pc m account st\<rparr>"
  by (simp add: NotifyStatusChange_def ForEachFriend_def notify_fold updates_def)

lemma updates_cong:
  "m_set_loginAccount m' = m_set_loginAccount m \<Longrightarrow> m_InverseRelation m' = m_InverseRelation m \<Longrightarrow>
   updates pc m' account st = updates pc m account st"
  by (simp add: updates_def friends_of_def IsAccountInGame_def [abs_def])

lemma updates_mobile [simp]: "updates pc (m\<lparr>m_set_mobileAccount := x\<rparr>) a st = updates pc m a st"
  by (rule updates_cong) simp_all

text \<open>
  The status a player's friends are told is always the true one: a mobile login or logout and a
  game logout that change anything send, to every connected in-game friend and to nobody else,
  one update each with the status the player has afterwards; a repeated login or logout sends
  nothing and changes nothing.
\<close>

theorem status_updates:
  "(let m' = MobileLogin pc a m in
      if IsAccountInMobile m a then m' = m
      else IsAccountInMobile m' a \<and> IsAccountInGame m' a = IsAccountInGame m a \<and>
           msg_out m' = msg_out m @ updates pc m a (GetUserStatus m' a)) \<and>
   (let m' = MobileLogout pc a m in
      if \<not> IsAccountInMobile m a then m' = m
      else \<not> IsAccountInMobile m' a \<and> IsAccountInGame m' a = IsAccountInGame m a \<and>
           msg_out m' = msg_out m @ updates pc m a (GetUserStatus m' a)) \<and>
   (let m' = Logout pc a m in
      if \<not> IsAccountInGame m a then m' = m
      else \<not> IsAccountInGame m' a \<and> IsAccountInMobile m' a = IsAccountInMobile m a \<and>
           msg_out m' = msg_out m @
             updates pc (m\<lparr>m_set_loginAccount := m_set_loginAccount m - {a}\<rparr>) a
               (GetUserStatus m' a))"
  by (simp add: MobileLogin_def MobileLogout_def Logout_def NotifyStatusChange_eq Let_def
      SetAccountMobileStatus_def SetAccountGameStatus_def IsAccountInMobile_def
      IsAccountInGame_def GetUserStatus_def forget_relations_def)

subsection \<open>Losing the connection\<close>

lemma lost_account_out:
  "msg_out (lost_account pc acc m) = msg_out m @
     updates pc m acc (if IsAccountInGame m acc then ST_IN_GAME else ST_OFFLINE)"
  by (simp add: lost_account_def NotifyStatusChange_eq Let_def forget_relations_def)

lemma lost_account_frame [simp]:
  "m_set_loginAccount (lost_account pc acc m) = m_set_loginAccount m"
  "m_InverseRelation (lost_account pc acc m) = m_InverseRelation m"
  "m_set_mobileAccount (lost_account pc acc m) = m_set_mobileAccount m"
  by (simp_all add: lost_account_def NotifyStatusChange_eq Let_def forget_relations_def)

lemma lost_fold_frame [simp]:
  "m_set_loginAccount (fold (lost_account pc) as m) = m_set_loginAccount m"
  "m_InverseRelation (fold (lost_account pc) as m) = m_InverseRelation m"
  by (induction as arbitrary: m) simp_all

lemma lost_fold_out:
  "msg_out (fold (lost_account pc) as m) = msg_out m @
     concat (map (\<lambda>acc. updates pc m acc (if IsAccountInGame m acc then ST_IN_GAME else ST_OFFLINE)) as)"
proof (induction as arbitrary: m)
  case (Cons a as)
  have "updates pc (lost_account pc a m) acc st = updates pc m acc st" for acc st
    by (rule updates_cong) simp_all
  then show ?case
    unfolding fold_simps Cons.IH by (simp add: lost_account_out IsAccountInGame_def)
qed simp

text \<open>
  When the bridge is lost nobody is on the mobile client any more, who is in the game stays there,
  and every account that was on the mobile client is announced to its in-game friends with the
  status it has from then on.
\<close>

theorem connection_lost:
  "let m' = HandleConnectionLost pc m in
     (\<forall>a. \<not> IsAccountInMobile m' a \<and> IsAccountInGame m' a = IsAccountInGame m a) \<and>
     msg_out m' = msg_out m @
       concat (map (\<lambda>acc. updates pc m acc (GetUserStatus m' acc))
         (sorted_list_of_set (m_set_mobileAccount m)))"
proof -
  let ?m' = "HandleConnectionLost pc m"
  have st: "GetUserStatus ?m' acc = (if IsAccountInGame m acc then ST_IN_GAME else ST_OFFLINE)" for acc
    by (simp add: HandleConnectionLost_def GetUserStatus_def IsAccountInGame_def
        IsAccountInMobile_def)
  have "msg_out ?m' = msg_out m @
       concat (map (\<lambda>acc. updates pc m acc (GetUserStatus ?m' acc))
         (sorted_list_of_set (m_set_mobileAccount m)))"
    unfolding st by (simp add: HandleConnectionLost_def lost_fold_out)
  then show ?thesis
    by (simp add: HandleConnectionLost_def IsAccountInMobile_def IsAccountInGame_def)
qed

subsection \<open>The two directions of the relation\<close>

text \<open>
  Who is in somebody's list is found from the other side: the forward relation is contained in
  the inverse one. The converse fails on purpose, since a player who leaves is forgotten only
  in the forward direction.
\<close>

definition rel_finite :: "(bytes \<rightharpoonup> bytes set) \<Rightarrow> bool" where
  "rel_finite r \<longleftrightarrow> (\<forall>a S. r a = Some S \<longrightarrow> finite S)"

definition rel_sub :: "(bytes \<rightharpoonup> bytes set) \<Rightarrow> (bytes \<rightharpoonup> bytes set) \<Rightarrow> bool" where
  "rel_sub r i \<longleftrightarrow> (\<forall>a S c. r a = Some S \<longrightarrow> c \<in> S \<longrightarrow> (\<exists>T. i c = Some T \<and> a \<in> T))"

definition messenger_inv :: "messenger \<Rightarrow> bool" where
  "messenger_inv m \<longleftrightarrow>
     finite (m_set_mobileAccount m) \<and> finite (m_set_loginAccount m) \<and>
     rel_finite (m_Relation m) \<and> rel_finite (m_InverseRelation m) \<and>
     rel_sub (m_Relation m) (m_InverseRelation m)"

lemma rel_finite_ops:
  "rel_finite r \<Longrightarrow> rel_finite (map_insert k x r)"
  "rel_finite r \<Longrightarrow> rel_finite (map_erase k x r)"
  "rel_finite r \<Longrightarrow> rel_finite ((\<lambda>k. map_option (\<lambda>S. S - {a}) (r k))(a := None))"
  by (auto simp: rel_finite_def map_insert_def map_erase_def split: option.splits if_splits)

lemma rel_sub_forget:
  "rel_sub r i \<Longrightarrow> rel_sub ((\<lambda>k. map_option (\<lambda>S. S - {a}) (r k))(a := None)) i"
  unfolding rel_sub_def by (auto split: if_splits)

lemma map_insert_mem:
  "(\<exists>T. map_insert k x r c = Some T \<and> y \<in> T) \<longleftrightarrow>
     (c = k \<and> y = x) \<or> (\<exists>T. r c = Some T \<and> y \<in> T)"
  by (auto simp: map_insert_def split: option.splits)

lemma map_erase_mem:
  "(\<exists>T. map_erase k x r c = Some T \<and> y \<in> T) \<longleftrightarrow>
     \<not> (c = k \<and> y = x) \<and> (\<exists>T. r c = Some T \<and> y \<in> T)"
  by (auto simp: map_erase_def split: option.splits)

lemma rel_sub_alt:
  "rel_sub r i \<longleftrightarrow> (\<forall>a c. (\<exists>S. r a = Some S \<and> c \<in> S) \<longrightarrow> (\<exists>T. i c = Some T \<and> a \<in> T))"
  unfolding rel_sub_def by blast

lemma rel_sub_insert: "rel_sub r i \<Longrightarrow> rel_sub (map_insert a c r) (map_insert c a i)"
  unfolding rel_sub_alt map_insert_mem by blast

lemma rel_sub_erase: "rel_sub r i \<Longrightarrow> rel_sub (map_erase a c r) (map_erase c a i)"
  unfolding rel_sub_alt map_erase_mem by blast

lemma inv_emit [simp]: "messenger_inv (emit e m) = messenger_inv m"
  by (simp add: messenger_inv_def)

lemma inv_SendStatusUpdate [simp]: "messenger_inv (SendStatusUpdate pc a c st m) = messenger_inv m"
  by (simp add: messenger_inv_def)

lemma inv_Notify [simp]: "messenger_inv (NotifyStatusChange pc a st m) = messenger_inv m"
  by (simp add: NotifyStatusChange_eq messenger_inv_def)

lemma inv_forget: "messenger_inv m \<Longrightarrow> messenger_inv (forget_relations a m)"
  by (simp add: messenger_inv_def forget_relations_def rel_finite_ops rel_sub_forget)

lemma inv_set_game: "messenger_inv m \<Longrightarrow> messenger_inv (SetAccountGameStatus a b m)"
  and inv_set_mobile: "messenger_inv m \<Longrightarrow> messenger_inv (SetAccountMobileStatus a b m)"
  by (simp_all add: messenger_inv_def SetAccountGameStatus_def SetAccountMobileStatus_def)

lemma inv_lost: "messenger_inv m \<Longrightarrow> messenger_inv (lost_account pc a m)"
  by (simp add: lost_account_def Let_def inv_forget)

lemma inv_lost_fold: "messenger_inv m \<Longrightarrow> messenger_inv (fold (lost_account pc) as m)"
  by (induction as arbitrary: m) (simp_all add: inv_lost)

lemma inv_HandleConnectionLost: "messenger_inv m \<Longrightarrow> messenger_inv (HandleConnectionLost pc m)"
  using inv_lost_fold [of m pc "sorted_list_of_set (m_set_mobileAccount m)"]
  by (simp add: HandleConnectionLost_def messenger_inv_def)

lemma inv_add:
  "messenger_inv m \<Longrightarrow>
   messenger_inv (m\<lparr>m_Relation := map_insert a c (m_Relation m),
     m_InverseRelation := map_insert c a (m_InverseRelation m)\<rparr>)"
  by (simp add: messenger_inv_def rel_finite_ops rel_sub_insert)

lemma inv_remove: "messenger_inv m \<Longrightarrow> messenger_inv (RemoveFromList_raw a c m)"
  by (simp add: messenger_inv_def RemoveFromList_raw_def rel_finite_ops rel_sub_erase)

lemma inv_AddToList_raw: "messenger_inv m \<Longrightarrow> messenger_inv (AddToList_raw pc a c m)"
  by (simp add: AddToList_raw_def Let_def SendLogin_def SendLogout_def inv_add split: option.split)

text \<open>The calls on the manager.\<close>

datatype mcall =
  CMobileLogin bytes | CMobileLogout bytes | CLost | CLogin bytes | CLogout bytes
| CLoadList bytes | CAdd bytes bytes | CRemove bytes bytes | CSendList bytes

fun mcall_run ::
  "(bytes \<Rightarrow> u32 option) \<Rightarrow> (bytes \<Rightarrow> bytes) \<Rightarrow> mcall \<Rightarrow> messenger \<Rightarrow> messenger" where
  "mcall_run pc esc (CMobileLogin a) m = MobileLogin pc a m"
| "mcall_run pc esc (CMobileLogout a) m = MobileLogout pc a m"
| "mcall_run pc esc CLost m = HandleConnectionLost pc m"
| "mcall_run pc esc (CLogin a) m = Login esc a m"
| "mcall_run pc esc (CLogout a) m = Logout pc a m"
| "mcall_run pc esc (CLoadList a) m = LoadList_notify pc a m"
| "mcall_run pc esc (CAdd a c) m = AddToList_raw pc a c m"
| "mcall_run pc esc (CRemove a c) m = RemoveFromList_raw a c m"
| "mcall_run pc esc (CSendList a) m = SendList pc a m"

lemma mcall_inv: "messenger_inv m \<Longrightarrow> messenger_inv (mcall_run pc esc c m)"
  by (cases c)
    (simp_all add: MobileLogin_def MobileLogout_def Logout_def Login_def LoadList_notify_def
      SendList_def Let_def inv_set_game inv_set_mobile inv_forget inv_HandleConnectionLost
      inv_AddToList_raw inv_remove split: option.split)

text \<open>
  C40. The friend relation stays navigable from both ends: after any sequence of calls on a fresh
  manager, whoever has a companion in the list is found by the companion's notifications, and
  \<open>IsInList\<close> says so.
\<close>

theorem relation_invariant:
  "let m = fold (mcall_run pc esc) cs messenger_new in
     messenger_inv m \<and> (\<forall>a c. IsInList m a c \<longrightarrow> a \<in> set (friends_of m c))"
proof -
  have "messenger_inv (fold (mcall_run pc esc) cs m)" if "messenger_inv m" for m
    using that by (induction cs arbitrary: m) (simp_all add: mcall_inv)
  moreover have "messenger_inv messenger_new"
    by (simp add: messenger_inv_def messenger_new_def rel_finite_def rel_sub_def)
  moreover have "a \<in> set (friends_of m c)" if "messenger_inv m" "IsInList m a c" for m a c
  proof -
    from that(2) obtain S where S: "m_Relation m a = Some S" "c \<in> S"
      by (auto simp: IsInList_def split: option.splits if_splits)
    with that(1) obtain T where "m_InverseRelation m c = Some T" "a \<in> T" "finite T"
      unfolding messenger_inv_def rel_sub_def rel_finite_def by metis
    then show ?thesis by (simp add: friends_of_def)
  qed
  ultimately show ?thesis by (simp add: Let_def)
qed

lemma relation_invariant_witness:
  "let m = fold (mcall_run (\<lambda>_. None) id) [CAdd [97] [98]] messenger_new in
     IsInList m [97] [98] \<and> [97] \<in> set (friends_of m [98])"
proof -
  have "IsInList (fold (mcall_run (\<lambda>_. None) id) [CAdd [97] [98]] messenger_new) [97] [98]"
    by (simp add: IsInList_def AddToList_raw_def Let_def SendLogin_def SendLogout_def map_insert_def
        messenger_new_def)
  then show ?thesis
    using relation_invariant [of "\<lambda>_. None" id "[CAdd [97] [98]]"] unfolding Let_def by blast
qed

text \<open>
  \<open>RemoveAllList\<close> has no defined result for a player with friends when \<open>RemoveFromList\<close> erases
  what it is asked to: the loop runs over the set it shrinks.
\<close>

lemma RemoveAllList_undefined:
  assumes "m_Relation m a = Some S" and "finite S" and "S \<noteq> {}" and "a = cstr (escape a)"
  shows "RemoveAllList escape RemoveFromList_raw a m = None"
proof -
  obtain f fs where fs: "sorted_list_of_set S = f # fs"
    using assms by (metis list.exhaust sorted_list_of_set_eq_Nil_iff)
  have "f \<notin> S - {f}" by simp
  then show ?thesis
    using assms fs
    by (simp add: RemoveAllList_def RemoveFromList_raw_def map_erase_def Let_def)
qed

end
