(* ===== verification/Mobi_State.thy ===== *)
theory Mobi_State
  imports Raw_Delivery Messenger Container Flag_Wrapper Packets
begin

text \<open>
  The state of the game core's mobile client: \<open>MobiClient\<close> with its helpers, \<open>CMobiCharManager\<close>
  and the messenger, as one record that extends the raw client's (\<open>GameClientBase\<close> derives from
  \<open>NetworkClientImpl\<close>). The code reaches these objects through singletons and the back pointer
  \<open>client_\<close>; here every operation takes and returns the record \<open>mobi\<close>.

  The game engine around the overlay is not in the repository. What the code asks of it is the
  parameter \<open>engine\<close>; what it is told to do is appended to \<open>engine_out\<close>.
\<close>

subsection \<open>Constants\<close>

definition MESSAGE_TIMEOUT :: int where "MESSAGE_TIMEOUT = 120"
definition MAX_MESSAGE_COUNT :: nat where "MAX_MESSAGE_COUNT = 5000"
definition CLEANUP_INTERVAL :: int where "CLEANUP_INTERVAL = 60"
definition DATA_TIMEOUT :: int where "DATA_TIMEOUT = 180"
definition MAX_UNPROCESSED_COUNT :: nat where "MAX_UNPROCESSED_COUNT = 30000"
definition READ_FILE_INTERVAL :: int where "READ_FILE_INTERVAL = 300"
definition DEFAULT_CODEPAGE :: u16 where "DEFAULT_CODEPAGE = 1254"

subsection \<open>The engine\<close>

datatype phase = PHASE_OTHER | PHASE_AUTH | PHASE_LOGIN | PHASE_SELECT | PHASE_LOADING

text \<open>
  A connection and the manager of the connections: the members the code reads or writes. A pointer
  to a connection is its handle. \<open>d_can_mobi_warp\<close> is the flag of the connection's character.
\<close>

record DESC =
  d_is_mobile_request :: bool
  d_last_activity :: time
  d_login_key :: u32
  d_phase :: phase
  d_has_character :: bool
  d_can_mobi_warp :: bool
  d_account_id :: u32
  d_players :: "u32 list"
  d_handshaking :: bool
  d_pong :: bool
  d_host :: bytes

record DESC_MANAGER =
  m_map_handle :: "u32 \<rightharpoonup> DESC"
  m_set_pkDesc :: "u32 list"
  m_iHandleCount :: u32
  m_iSocketsConnected :: int

text \<open>A team of a war map and its members, in the order of the map of statistics.\<close>

record TeamData =
  dwID :: u32
  iScore :: u32
  iMemberCount :: u32

record TMemberStats =
  dwGuildId :: u32
  dwKills :: u32
  dwDeaths :: u32

record CWarMap =
  has_guilds :: bool
  m_TeamData0 :: TeamData
  m_TeamData1 :: TeamData
  map_MemberStats :: "(u32 \<times> TMemberStats) list"

text \<open>Parsed JSON, as \<open>nlohmann::json\<close> presents it.\<close>

datatype json =
  JNull | JBool bool | JNum int | JStr bytes | JArr "json list" | JObj "(bytes \<times> json) list"

text \<open>
  What the code asks the private shops. A character is its player id, a shop its owner's. The
  repository shows the shop manager as fragments: \<open>ellipsis n\<close> stands for the \<open>n\<close>-th passage it
  leaves out, which either returns a value (\<open>Some\<close>) or goes on (\<open>None\<close>); \<open>shop_of_passage\<close>,
  \<open>item_at_pos\<close> and \<open>item_table_exists\<close> are what such a passage leaves in the local variables
  \<open>shop\<close>, \<open>iter\<close> and \<open>table\<close>.
\<close>

record shop_item =
  si_id :: u32
  si_pos :: u32
  si_total_yang :: int

record shop_engine =
  GetIkarusShop :: "u32 \<Rightarrow> u32 option"
  CheckGMLevel :: "u32 \<Rightarrow> bool"
  IkarusShopFloodCheck :: "u32 \<Rightarrow> bool"
  IsGoodSalePrice :: "TPriceInfo \<Rightarrow> bool"
  CheckCharacterActions :: "u32 \<Rightarrow> bool"
  CheckSafeboxSize :: "u32 \<Rightarrow> bool"
  shop_of_passage :: "u32 \<Rightarrow> u32"
  enough_gold :: "u32 \<Rightarrow> bool"
  allowed_spawn_map :: "u32 \<Rightarrow> bool"
  GetShopByOwnerID :: "u32 \<Rightarrow> u32 option"
  GetDuration :: "u32 \<Rightarrow> int"
  GetItem :: "u32 \<Rightarrow> u32 \<Rightarrow> shop_item option"
  CanBuy :: "u32 \<Rightarrow> shop_item \<Rightarrow> bool"
  item_at_pos :: "u32 \<Rightarrow> u32 \<Rightarrow> bool"
  item_table_exists :: "u32 \<Rightarrow> u32 \<Rightarrow> bool"
  ReserveSpace :: "u32 \<Rightarrow> u32 \<Rightarrow> bool"
  EXTEND_IKASHOP_PRO :: bool
  ENABLE_IKASHOP_ENTITIES :: bool
  ellipsis :: "nat \<Rightarrow> bool option"

text \<open>
  The engine and the libraries as this code uses them: OpenSSL; \<open>FindPC\<close>; the global flags;
  a character by player id with its connection; a database query's rows; \<open>str_to_number\<close>; the
  players behind the client connections with their mobile flag; the war maps; look-ups and
  destruction of connections; the peer-to-peer character table; the files, the parser over their
  text and the key derivation for encrypted ones; a connection as its constructor leaves it; the
  lengths of a login and a password; the private shops; the game's whisper packet by its
  size field, type and sender, its size, that of its name array, and its type for a receiver
  that does not exist; the money a cheque is worth.
\<close>

record engine =
  ssl :: openssl
  FindPC :: "bytes \<Rightarrow> u32 option"
  g_bAuthServer :: bool
  g_bShutdown :: bool
  test_server :: bool
  FindByPID :: "u32 \<Rightarrow> u32 option option"
  DirectQuery :: "bytes \<Rightarrow> bytes list list option option"
  str_to_number :: "bytes \<Rightarrow> u32"
  client_pids :: "(u32 \<times> bool) list"
  war_maps :: "CWarMap list"
  FindByLoginName :: "DESC_MANAGER \<Rightarrow> bytes \<Rightarrow> u32 option"
  FindByLoginKey :: "DESC_MANAGER \<Rightarrow> u32 \<Rightarrow> u32 option"
  DestroyDesc :: "u32 \<Rightarrow> DESC_MANAGER \<Rightarrow> DESC_MANAGER"
  p2p_FindByPID :: "u32 \<Rightarrow> bool option"
  read_file :: "bytes \<Rightarrow> bytes option"
  json_parse :: "bytes \<Rightarrow> json option"
  EVP_BytesToKey :: "bytes \<Rightarrow> bytes option"
  DESC_new :: DESC
  LOGIN_MAX_LEN :: nat
  PASSWD_MAX_LEN :: nat
  shop :: shop_engine
  GCWhisper :: "u16 \<Rightarrow> u8 \<Rightarrow> bytes \<Rightarrow> bytes"
  sizeof_GCWhisper :: nat
  sizeof_szNameFrom :: nat
  WHISPER_TYPE_NOT_EXIST :: u8
  YANG_PER_CHEQUE :: u32

text \<open>
  What the engine is told. \<open>EnterGame\<close> carries the value of \<open>can_mobi_warp\<close> during the call;
  \<open>GameCall\<close> is any other function of the game by its name, with the numbers it is given.
\<close>

datatype engine_call =
  ClientPacket u32 bytes
| DestroyLoginKey u32
| DestroyDescOf u32
| P2PClearPid u32
| AuthLogin u32 bytes bytes
| DBMobiLogin u32 u32
| DBMobiWarp u32 u32 "32 word" u16
| LoginByKey u32 u32 bytes
| PlayerSelect u32 int
| EnterGame u32 bool
| GameCall string "u32 list"

subsection \<open>The client\<close>

record TMSMessageContainer =
  mc_buf :: TMP_BUFFER
  mc_container_id :: u32
  mc_sender_pid :: u32
  mc_receiver_name :: bytes
  mc_created_time :: time

record TUnprocessedContainer =
  uc_container_id :: u32
  uc_data :: bytes
  uc_bUsed :: bool
  uc_created_time :: time
  uc_need_encrypt :: bool

record TDBInfo =
  db_host :: bytes
  db_user :: bytes
  db_password :: bytes

record TBridgeInfo =
  bridge_host :: bytes
  bridge_port :: u16

record TMobiLoginInfo =
  li_pid :: u32
  li_login :: bytes

record TMobiCharacter =
  mch_info :: TMobiLoginInfo
  mch_handle_id :: u32

record mobi = net +
  message_queue :: "TMSMessageContainer list"
  msg_last_cleanup :: time
  s_message_container_id :: u32
  unp_packets :: "TUnprocessedContainer list"
  unp_last_cleanup :: time
  s_unprocessed_container_id :: u32
  authority :: CFlagWrapper
  notif_authority :: CFlagWrapper
  config_authority :: CFlagWrapper
  db_info :: "TDBInfo option"
  bridge_info :: "TBridgeInfo option"
  notif_last_checktime :: time
  config_last_checktime :: time
  last_sent :: time
  refresh_interval :: int
  bridge_cache_ready :: bool
  sync_packet_sent :: bool
  sync_retry_count :: u8
  messenger_state :: messenger
  mobi_descs :: "(u32, TMobiCharacter) Container"
  ch_last_cleanup :: time
  desc_manager :: DESC_MANAGER
  engine_out :: "engine_call list"

definition call_engine :: "engine_call \<Rightarrow> mobi \<Rightarrow> mobi" where
  "call_engine c s = s\<lparr>engine_out := engine_out s @ [c]\<rparr>"

definition with_messenger :: "(messenger \<Rightarrow> messenger) \<Rightarrow> mobi \<Rightarrow> mobi" where
  "with_messenger f s = s\<lparr>messenger_state := f (messenger_state s)\<rparr>"

text \<open>\<open>SetBridgeCacheStatus\<close>, and \<open>GameClientBase::OnDisconnect\<close> and \<open>IsValidHeader\<close>.\<close>

definition SetBridgeCacheStatus :: "bool \<Rightarrow> mobi \<Rightarrow> mobi" where
  "SetBridgeCacheStatus uptodate s =
     (if bridge_cache_ready s = uptodate then s
      else let s = s\<lparr>bridge_cache_ready := uptodate\<rparr> in
        if \<not> bridge_cache_ready s then s\<lparr>sync_packet_sent := False\<rparr> else s)"

definition OnDisconnect :: "engine \<Rightarrow> mobi \<Rightarrow> mobi" where
  "OnDisconnect eng s =
     with_messenger (HandleConnectionLost (FindPC eng)) (SetBridgeCacheStatus False s)"

definition IsValidHeader :: "u8 \<Rightarrow> bool" where
  "IsValidHeader header \<longleftrightarrow> header > 0 \<and> header \<le> HEADER_MAX"

text \<open>\<open>Send\<close> of this client.\<close>

abbreviation mSend :: "engine \<Rightarrow> bytes \<Rightarrow> bool \<Rightarrow> mobi \<Rightarrow> ESendResult \<times> bytes \<times> mobi" where
  "mSend eng \<equiv> Send (ssl eng) (OnDisconnect eng)"

subsection \<open>Nothing of the network changes\<close>

lemma net_frame_upds:
  "net.truncate (call_engine c s) = net.truncate s"
  "net.truncate (with_messenger f s) = net.truncate s"
  "net.truncate (SetBridgeCacheStatus b s) = net.truncate s"
  "net.truncate (OnDisconnect eng s) = net.truncate s"
  by (simp_all add: net.truncate_def call_engine_def with_messenger_def SetBridgeCacheStatus_def
      OnDisconnect_def Let_def)

text \<open>The network's predicates read the network's part only.\<close>

lemma net_truncate_eqD:
  fixes s t :: mobi
  assumes "net.truncate s = net.truncate t"
  shows "packets s = packets t" "connect_state s = connect_state t" "is_encrypted s = is_encrypted t"
    "crypto s = crypto t" "key_exchange s = key_exchange t" "write_queue s = write_queue t"
    "pending_tasks_count s = pending_tasks_count t" "tasks s = tasks t" "ops s = ops t"
    "rng s = rng t" "IsConnected s = IsConnected t"
  using assms by (simp_all add: net.truncate_def IsConnected_def)

lemma net_ok_truncate:
  fixes s t :: mobi
  assumes "net.truncate s = net.truncate t"
  shows "net_ok s \<longleftrightarrow> net_ok t" "net_inv s \<longleftrightarrow> net_inv t" "read_tokens s = read_tokens t"
  using net_truncate_eqD [OF assms]
  by (simp_all add: net_ok_def net_inv_def descs_wf_def read_tokens_def)

lemma net_more_eqD:
  fixes s t :: mobi
  assumes "net.more s = net.more t"
  shows "message_queue s = message_queue t"
    "msg_last_cleanup s = msg_last_cleanup t"
    "s_message_container_id s = s_message_container_id t"
    "unp_packets s = unp_packets t"
    "unp_last_cleanup s = unp_last_cleanup t"
    "s_unprocessed_container_id s = s_unprocessed_container_id t"
    "authority s = authority t"
    "notif_authority s = notif_authority t"
    "config_authority s = config_authority t"
    "db_info s = db_info t"
    "bridge_info s = bridge_info t"
    "notif_last_checktime s = notif_last_checktime t"
    "config_last_checktime s = config_last_checktime t"
    "last_sent s = last_sent t"
    "refresh_interval s = refresh_interval t"
    "bridge_cache_ready s = bridge_cache_ready t"
    "sync_packet_sent s = sync_packet_sent t"
    "sync_retry_count s = sync_retry_count t"
    "messenger_state s = messenger_state t"
    "mobi_descs s = mobi_descs t"
    "ch_last_cleanup s = ch_last_cleanup t"
    "desc_manager s = desc_manager t"
    "engine_out s = engine_out t"
  using assms by (cases s, cases t, simp)+

text \<open>What \<open>Send\<close> leaves alone in the client.\<close>

lemmas mSend_more = net_more_eqD [OF Send_frame(7)]

subsection \<open>The start\<close>

text \<open>The members as their initialisers leave them.\<close>

definition DESC_MANAGER_new :: DESC_MANAGER where
  "DESC_MANAGER_new =
     \<lparr>m_map_handle = Map.empty, m_set_pkDesc = [], m_iHandleCount = 0, m_iSocketsConnected = 0\<rparr>"

definition mobi_init :: mobi where
  "mobi_init = net.extend NetworkClientImpl
     (mobi.fields [] 0 0 [] 0 0 (CFlagWrapper_new 0) (CFlagWrapper_new 0) (CFlagWrapper_new 0)
        None None 0 0 0 15 False False 0 messenger_new Container_new 0
        DESC_MANAGER_new [])"

lemma mobi_init_sel [simp]:
  "tasks mobi_init = []" "pending_tasks_count mobi_init = 0" "write_queue mobi_init = []"
  "crypto mobi_init = None" "is_encrypted mobi_init = False" "packets mobi_init = Map.empty"
  "ops mobi_init = []" "connect_state mobi_init = DISCONNECTED" "rng mobi_init = 0"
  "key_exchange mobi_init = None"
  "message_queue mobi_init = []" "s_message_container_id mobi_init = 0"
  "unp_packets mobi_init = []" "s_unprocessed_container_id mobi_init = 0" "msg_last_cleanup mobi_init = 0"
  "unp_last_cleanup mobi_init = 0" "notif_authority mobi_init = CFlagWrapper_new 0"
  "config_authority mobi_init = CFlagWrapper_new 0" "db_info mobi_init = None"
  "bridge_info mobi_init = None" "notif_last_checktime mobi_init = 0"
  "config_last_checktime mobi_init = 0" "ch_last_cleanup mobi_init = 0"
  "desc_manager mobi_init = DESC_MANAGER_new"
  "authority mobi_init = CFlagWrapper_new 0"
  "messenger_state mobi_init = messenger_new" "mobi_descs mobi_init = Container_new"
  "bridge_cache_ready mobi_init = False" "sync_packet_sent mobi_init = False"
  "sync_retry_count mobi_init = 0" "engine_out mobi_init = []" "last_sent mobi_init = 0"
  "refresh_interval mobi_init = 15"
  by (simp_all add: mobi_init_def net.extend_def mobi.defs NetworkClientImpl_def StartIO_def StopIO_def Let_def)

text \<open>An engine without players, shops, data base and files, for the examples.\<close>

definition demo_shop :: shop_engine where
  "demo_shop = \<lparr>GetIkarusShop = (\<lambda>c. None), CheckGMLevel = (\<lambda>c. True),
     IkarusShopFloodCheck = (\<lambda>c. True), IsGoodSalePrice = (\<lambda>p. True),
     CheckCharacterActions = (\<lambda>c. True), CheckSafeboxSize = (\<lambda>c. True), shop_of_passage = (\<lambda>c. c), enough_gold = (\<lambda>c. True),
     allowed_spawn_map = (\<lambda>c. True), GetShopByOwnerID = (\<lambda>w. None), GetDuration = (\<lambda>w. 0),
     GetItem = (\<lambda>w i. None), CanBuy = (\<lambda>c i. True), item_at_pos = (\<lambda>w p. False),
     item_table_exists = (\<lambda>w p. False), ReserveSpace = (\<lambda>w p. False),
     EXTEND_IKASHOP_PRO = False, ENABLE_IKASHOP_ENTITIES = False, ellipsis = (\<lambda>n. None)\<rparr>"

definition demo_eng :: engine where
  "demo_eng = \<lparr>ssl = demo_ssl, FindPC = (\<lambda>n. None), g_bAuthServer = False, g_bShutdown = False,
     test_server = False, FindByPID = (\<lambda>p. None),
     DirectQuery = (\<lambda>q. None), str_to_number = (\<lambda>s. 0), client_pids = [], war_maps = [],
     FindByLoginName = (\<lambda>m n. None), FindByLoginKey = (\<lambda>m k. None), DestroyDesc = (\<lambda>h m. m\<lparr>m_map_handle := (m_map_handle m)(h := None)\<rparr>),
     p2p_FindByPID = (\<lambda>p. None), read_file = (\<lambda>f. None), json_parse = (\<lambda>t. None),
     EVP_BytesToKey = (\<lambda>p. None),
     DESC_new = \<lparr>d_is_mobile_request = False, d_last_activity = 0, d_login_key = 0, d_phase = PHASE_OTHER,
       d_has_character = False, d_can_mobi_warp = False, d_account_id = 0, d_players = [],
       d_handshaking = False, d_pong = False, d_host = []\<rparr>,
     LOGIN_MAX_LEN = 30, PASSWD_MAX_LEN = 16, shop = demo_shop,
     GCWhisper = (\<lambda>n t w. 34 # le16 n @ t # resize 25 w), sizeof_GCWhisper = 29,
     sizeof_szNameFrom = 25, WHISPER_TYPE_NOT_EXIST = 1, YANG_PER_CHEQUE = 100000000\<rparr>"

lemma demo_eng_ssl [simp]: "ssl demo_eng = demo_ssl"
  by (simp add: demo_eng_def)

end
