(* ===== verification/Unprocessed.thy ===== *)
theory Unprocessed
  imports Mobi_State "HOL-Library.Multiset"
begin

text \<open>
  The two stores of packets that wait (\<open>mobigame/unprocessed\<close>): user messages that wait for the
  bridge's answer whether the receiver is reachable (\<open>message_queue.cpp\<close>, \<open>CMessageHelper\<close>),
  and packets that could not be sent while disconnected (\<open>unprocessed.cpp\<close>,
  \<open>CUnprocessedHelper\<close>), with their containers (\<open>containers.cpp\<close>). \<open>now\<close> is the reading of
  the steady clock during the call.
\<close>

subsection \<open>Containers\<close>

definition is_expired :: "time \<Rightarrow> time \<Rightarrow> int \<Rightarrow> bool" where
  "is_expired now created_time timeout \<longleftrightarrow> in_seconds (now - created_time) > timeout"

text \<open>The buffer is read including the terminator behind the message.\<close>

definition TMSMessageContainer_new ::
  "time \<Rightarrow> u32 \<Rightarrow> bytes \<Rightarrow> bytes \<Rightarrow> u32 \<Rightarrow> u16 \<Rightarrow> TMSMessageContainer option" where
  "TMSMessageContainer_new now sender_pid receiver_name message containerID code_page =
     (let packet = MSMessageName_new
            \<lparr>MSMessageName_receiver_name :=
               str_copy (MSMessageName_receiver_name MSMessageName_new) 25 receiver_name,
             MSMessageName_sender_pid := sender_pid,
             MSMessageName_code_page := code_page,
             MSMessageName_size := of_nat (length message) + 1\<rparr>;
          buf = clear_and_resize (of_nat sizeof_MSMessageName + MSMessageName_size packet)
                  (TMP_BUFFER_new 0)
      in do {
        buf \<leftarrow> buf_write (ser_MSMessageName packet) (of_nat sizeof_MSMessageName) buf;
        buf \<leftarrow> buf_write (message @ [0]) (MSMessageName_size packet) buf;
        Some \<lparr>mc_buf = buf, mc_container_id = containerID, mc_sender_pid = sender_pid,
              mc_receiver_name = receiver_name, mc_created_time = now\<rparr> })"

definition container_process ::
  "engine \<Rightarrow> TMSMessageContainer \<Rightarrow> mobi \<Rightarrow> bool \<times> mobi" where
  "container_process eng c s =
     (let (res, data, s) = mSend eng (buf_get (mc_buf c)) True s in (res = SUCCESS, s))"

definition get_sender_pid :: "TMSMessageContainer \<Rightarrow> u32" where
  "get_sender_pid c = mc_sender_pid c"

definition get_receiver_name :: "TMSMessageContainer \<Rightarrow> bytes" where
  "get_receiver_name c = cstr (mc_receiver_name c)"

definition TUnprocessedContainer_new :: "time \<Rightarrow> bytes \<Rightarrow> u32 \<Rightarrow> bool \<Rightarrow> TUnprocessedContainer" where
  "TUnprocessedContainer_new now data containerID encr =
     \<lparr>uc_container_id = containerID, uc_data = data, uc_bUsed = False,
      uc_created_time = now, uc_need_encrypt = encr\<rparr>"

subsection \<open>Messages that wait for an answer\<close>

fun find_index :: "('a \<Rightarrow> bool) \<Rightarrow> 'a list \<Rightarrow> nat option" where
  "find_index P [] = None"
| "find_index P (x # xs) = (if P x then Some 0 else map_option Suc (find_index P xs))"

text \<open>\<open>*it = std::move(q.back()); q.pop_back();\<close> unless \<open>it\<close> is the last.\<close>

definition swap_remove :: "nat \<Rightarrow> 'a list \<Rightarrow> 'a list" where
  "swap_remove i xs =
     (let xs' = (if i \<noteq> length xs - 1 then xs[i := last xs] else xs) in butlast xs')"

definition message_get_container_id :: "mobi \<Rightarrow> u32" where
  "message_get_container_id s = s_message_container_id s"

definition push_message :: "TMSMessageContainer \<Rightarrow> mobi \<Rightarrow> mobi" where
  "push_message c s =
     s\<lparr>message_queue := push_drop_oldest MAX_MESSAGE_COUNT c (message_queue s)\<rparr>"

definition message_add ::
  "time \<Rightarrow> u32 \<Rightarrow> bytes \<Rightarrow> bytes \<Rightarrow> u16 \<Rightarrow> mobi \<Rightarrow> mobi option" where
  "message_add now sender_pid nameTo message code_page s =
     map_option (\<lambda>c. push_message c (s\<lparr>s_message_container_id := s_message_container_id s + 1\<rparr>))
       (TMSMessageContainer_new now sender_pid nameTo message (s_message_container_id s) code_page)"

definition message_find :: "u32 \<Rightarrow> mobi \<Rightarrow> nat option" where
  "message_find container_id s =
     find_index (\<lambda>msg. mc_container_id msg = container_id) (message_queue s)"

definition message_process :: "engine \<Rightarrow> u32 \<Rightarrow> mobi \<Rightarrow> bool \<times> mobi" where
  "message_process eng container_id s =
     (case message_find container_id s of
        None \<Rightarrow> (False, s)
      | Some i \<Rightarrow>
          let (ret, s) = container_process eng (message_queue s ! i) s
          in (ret, s\<lparr>message_queue := swap_remove i (message_queue s)\<rparr>))"

definition message_remove :: "u32 \<Rightarrow> mobi \<Rightarrow> mobi" where
  "message_remove container_id s =
     (case message_find container_id s of
        None \<Rightarrow> s
      | Some i \<Rightarrow> s\<lparr>message_queue := swap_remove i (message_queue s)\<rparr>)"

definition message_cleanup_expired :: "time \<Rightarrow> mobi \<Rightarrow> mobi" where
  "message_cleanup_expired now s =
     (if now - msg_last_cleanup s < CLEANUP_INTERVAL * sec then s
      else s\<lparr>msg_last_cleanup := now,
             message_queue := filter (\<lambda>msg. \<not> is_expired now (mc_created_time msg) MESSAGE_TIMEOUT)
               (message_queue s)\<rparr>)"

definition message_get_container :: "u32 \<Rightarrow> mobi \<Rightarrow> TMSMessageContainer option" where
  "message_get_container container_id s =
     map_option (\<lambda>i. message_queue s ! i) (message_find container_id s)"

definition message_get_sender_pid :: "u32 \<Rightarrow> mobi \<Rightarrow> u32" where
  "message_get_sender_pid container_id s =
     (case message_find container_id s of
        Some i \<Rightarrow> get_sender_pid (message_queue s ! i) | None \<Rightarrow> 0)"

definition message_get_receiver_name :: "u32 \<Rightarrow> mobi \<Rightarrow> bytes" where
  "message_get_receiver_name container_id s =
     (case message_find container_id s of
        Some i \<Rightarrow> get_receiver_name (message_queue s ! i) | None \<Rightarrow> [])"

subsection \<open>Packets that wait for a connection\<close>

definition IsSyncPacket :: "u8 \<Rightarrow> bool" where
  "IsSyncPacket header \<longleftrightarrow>
     header = HEADER_MS_DATA_UPDATE \<or> header = HEADER_MS_GUILD_JOIN \<or>
     header = HEADER_MS_GUILD_LEAVE \<or> header = HEADER_MS_GUILD_WAR"

definition push_unprocessed :: "TUnprocessedContainer \<Rightarrow> mobi \<Rightarrow> mobi" where
  "push_unprocessed c s =
     s\<lparr>unp_packets := push_drop_oldest MAX_UNPROCESSED_COUNT c (unp_packets s)\<rparr>"

definition unprocessed_add :: "time \<Rightarrow> bytes \<Rightarrow> bool \<Rightarrow> mobi \<Rightarrow> bool \<times> mobi" where
  "unprocessed_add now data encr s =
     (if data = [] then (False, s)
      else if \<not> IsSyncPacket (hd data) then (False, s)
      else (True,
        push_unprocessed (TUnprocessedContainer_new now data (s_unprocessed_container_id s) encr)
          (s\<lparr>s_unprocessed_container_id := s_unprocessed_container_id s + 1\<rparr>)))"

definition unprocessed_cleanup_expired :: "time \<Rightarrow> mobi \<Rightarrow> mobi" where
  "unprocessed_cleanup_expired now s =
     (if now - unp_last_cleanup s < CLEANUP_INTERVAL * sec then s
      else s\<lparr>unp_last_cleanup := now,
             unp_packets := filter (\<lambda>msg. \<not> (is_expired now (uc_created_time msg) DATA_TIMEOUT \<or> uc_bUsed msg))
               (unp_packets s)\<rparr>)"

fun process_containers ::
  "engine \<Rightarrow> TUnprocessedContainer list \<Rightarrow> mobi \<Rightarrow> TUnprocessedContainer list \<times> mobi" where
  "process_containers eng [] s = ([], s)"
| "process_containers eng (u # us) s =
     (let (res, data, s) = mSend eng (uc_data u) (uc_need_encrypt u) s;
          u = u\<lparr>uc_data := data\<rparr>;
          u = (if res = SUCCESS then u\<lparr>uc_bUsed := True\<rparr> else u);
          (us, s) = process_containers eng us s
      in (u # us, s))"

definition unprocessed_process :: "engine \<Rightarrow> time \<Rightarrow> mobi \<Rightarrow> mobi" where
  "unprocessed_process eng now s =
     (let (us, s) = process_containers eng (unp_packets s) s
      in unprocessed_cleanup_expired now (s\<lparr>unp_packets := us\<rparr>))"

subsection \<open>The bounded queues\<close>

interpretation msgq: bounded_fifo push_message message_queue MAX_MESSAGE_COUNT
  by unfold_locales (simp_all add: MAX_MESSAGE_COUNT_def push_message_def)

interpretation unpq: bounded_fifo push_unprocessed unp_packets MAX_UNPROCESSED_COUNT
  by unfold_locales (simp_all add: MAX_UNPROCESSED_COUNT_def push_unprocessed_def)

subsection \<open>Lists\<close>

lemma find_index_Some:
  "find_index P xs = Some i \<Longrightarrow> i < length xs \<and> P (xs ! i) \<and> (\<forall>j < i. \<not> P (xs ! j))"
proof (induction xs arbitrary: i)
  case (Cons x xs)
  then show ?case by (auto simp: less_Suc_eq_0_disj split: if_splits)
qed simp

lemma find_index_None: "find_index P xs = None \<longleftrightarrow> (\<forall>x \<in> set xs. \<not> P x)"
  by (induction xs) auto

lemma mset_swap_remove:
  assumes "i < length xs"
  shows "mset (swap_remove i xs) = mset xs - {# xs ! i #}"
proof (cases "i = length xs - 1")
  case True
  then have "xs = butlast xs @ [xs ! i]"
    using assms by (metis append_butlast_last_id last_conv_nth length_0_conv not_less0)
  then have "mset xs = mset (butlast xs) + {# xs ! i #}"
    by (metis mset.simps(1) mset.simps(2) mset_append union_mset_add_mset_right)
  then show ?thesis using True by (simp add: swap_remove_def)
next
  case False
  let ?ys = "xs[i := last xs]"
  have ne: "xs \<noteq> []" and lt: "i < length xs - 1" using assms False by auto
  have "last ?ys = last xs"
    using ne lt by (simp add: last_conv_nth)
  then have "mset ?ys = mset (butlast ?ys) + {# last xs #}"
    using ne by (metis append_butlast_last_id list_update_nonempty mset.simps(1) mset.simps(2) mset_append
        union_mset_add_mset_right)
  moreover have "mset ?ys = add_mset (last xs) (mset xs - {# xs ! i #})"
    using assms by (rule mset_update)
  ultimately show ?thesis using False by (simp add: swap_remove_def Let_def)
qed

subsection \<open>Messages: identified, bounded, delivered once\<close>

definition msg_inv :: "mobi \<Rightarrow> bool" where
  "msg_inv s \<longleftrightarrow>
     length (message_queue s) \<le> MAX_MESSAGE_COUNT \<and>
     distinct (map mc_container_id (message_queue s)) \<and>
     (\<forall>c \<in> set (message_queue s). mc_container_id c < s_message_container_id s)"

lemma message_get_container_Some:
  "message_get_container i s = Some c \<Longrightarrow> c \<in> set (message_queue s) \<and> mc_container_id c = i"
  by (auto simp: message_get_container_def message_find_def dest: find_index_Some)

lemma message_get_container_None:
  "message_get_container i s = None \<longleftrightarrow> (\<forall>c \<in> set (message_queue s). mc_container_id c \<noteq> i)"
  by (simp add: message_get_container_def message_find_def find_index_None)

lemma message_get_container_unique:
  assumes "distinct (map mc_container_id (message_queue s))" and "c \<in> set (message_queue s)"
  shows "message_get_container (mc_container_id c) s = Some c"
proof -
  obtain c' where c': "message_get_container (mc_container_id c) s = Some c'"
    using assms(2) message_get_container_None by (metis not_None_eq)
  then have "c' \<in> set (message_queue s)" "mc_container_id c' = mc_container_id c"
    using message_get_container_Some by auto
  then have "c' = c" using assms by (meson distinct_map inj_onD)
  with c' show ?thesis by simp
qed

lemma container_buf:
  assumes "length message < 2 ^ 32 - 64"
    and "TMSMessageContainer_new now pid name message cid cp = Some c"
  shows "buf_get (mc_buf c) =
      ser_MSMessageName (MSMessageName_new
        \<lparr>MSMessageName_receiver_name := str_copy (replicate 25 0) 25 name,
         MSMessageName_sender_pid := pid, MSMessageName_code_page := cp,
         MSMessageName_size := of_nat (length message + 1)\<rparr>) @ message @ [0]"
    and "mc_container_id c = cid" "mc_sender_pid c = pid" "mc_receiver_name c = name"
proof -
  let ?p = "MSMessageName_new
        \<lparr>MSMessageName_receiver_name := str_copy (replicate 25 0) 25 name,
         MSMessageName_sender_pid := pid, MSMessageName_code_page := cp,
         MSMessageName_size := of_nat (length message + 1)\<rparr>"
  let ?n = "of_nat sizeof_MSMessageName + of_nat (length message + 1) :: u32"
  let ?parts = "[(ser_MSMessageName ?p, of_nat sizeof_MSMessageName),
      (message @ [0], of_nat (length message + 1))] :: (bytes \<times> u32) list"
  have sz: "sizeof_MSMessageName = 36" by (simp add: sizeof_MSMessageName_def)
  have len: "length (concat (map fst ?parts)) = 36 + (length message + 1)"
    by (simp add: sz)
  have small: "36 + (length message + 1) < 2 ^ 32" using assms(1) by simp
  have ex: "\<forall>p \<in> set ?parts. exact p"
    using assms(1) by (simp add: exact_def sz unat_of_nat_u32 del: of_nat_Suc)
  have "?n = of_nat (36 + (length message + 1))" by (simp add: sz)
  then have n: "unat ?n = 36 + (length message + 1)"
    using unat_of_nat_u32 [OF small] by (simp only:)
  have full: "pack ?n ?parts = Some (concat (map fst ?parts))"
    by (rule pack_full [OF ex]) (simp only: n len)
  have clr: "clear_and_resize ?n (TMP_BUFFER_new 0) = TMP_BUFFER_new ?n"
    by (simp add: clear_and_resize_def TMP_BUFFER_new_def)
  have new: "MSMessageName_receiver_name MSMessageName_new = replicate 25 0"
    by (simp add: MSMessageName_new_def)
  have one: "of_nat (length message + 1) = (of_nat (length message) + 1 :: u32)" by simp
  obtain b1 where b1: "buf_write (ser_MSMessageName ?p) (of_nat sizeof_MSMessageName)
        (TMP_BUFFER_new ?n) = Some b1"
    and b2: "buf_write (message @ [0]) (of_nat (length message + 1)) b1 = Some (mc_buf c)"
    and c: "mc_container_id c = cid" "mc_sender_pid c = pid" "mc_receiver_name c = name"
    using assms(2) clr unfolding TMSMessageContainer_new_def Let_def new one
    by (auto simp: bind_Some_iff)
  have "pack ?n ?parts = Some (buf_get (mc_buf c))"
    using b1 b2 by (simp add: pack_def)
  then show "buf_get (mc_buf c) = ser_MSMessageName ?p @ message @ [0]"
    using full by simp
  from c show "mc_container_id c = cid" "mc_sender_pid c = pid" "mc_receiver_name c = name" .
qed

lemma distinct_submset: "mset xs \<subseteq># mset ys \<Longrightarrow> distinct ys \<Longrightarrow> distinct xs"
proof (unfold distinct_count_atmost_1, intro allI)
  fix a
  assume sub: "mset xs \<subseteq># mset ys"
    and ys: "\<forall>a. count (mset ys) a = (if a \<in> set ys then 1 else 0)"
  have "count (mset xs) a \<le> count (mset ys) a" using sub by (rule mset_subset_eq_count)
  moreover have "a \<in> set xs \<Longrightarrow> count (mset xs) a > 0" by simp
  moreover have "a \<notin> set xs \<Longrightarrow> count (mset xs) a = 0" by (simp add: count_eq_zero_iff)
  ultimately show "count (mset xs) a = (if a \<in> set xs then 1 else 0)"
    using ys by (metis One_nat_def Suc_leI le_antisym le_zero_eq not_less0)
qed

lemma msg_inv_cong:
  "message_queue s' = message_queue s \<Longrightarrow> s_message_container_id s' = s_message_container_id s \<Longrightarrow>
   msg_inv s' = msg_inv s"
  by (simp add: msg_inv_def)

lemma msg_inv_mset:
  assumes "msg_inv s" and "mset q \<subseteq># mset (message_queue s)"
  shows "msg_inv (s\<lparr>message_queue := q\<rparr>)"
proof -
  have "length q \<le> length (message_queue s)" using assms(2) size_mset_mono by fastforce
  moreover have "set q \<subseteq> set (message_queue s)" using assms(2) set_mset_mono by fastforce
  moreover have "distinct (map mc_container_id q)"
  proof -
    have "mset (map mc_container_id q) \<subseteq># mset (map mc_container_id (message_queue s))"
      using assms(2) by (simp add: image_mset_subseteq_mono)
    then show ?thesis
      using assms(1) distinct_submset unfolding msg_inv_def by blast
  qed
  ultimately show ?thesis using assms(1) by (auto simp: msg_inv_def)
qed

lemma message_find_of_container:
  "message_get_container cid s = Some c \<Longrightarrow>
   \<exists>i. message_find cid s = Some i \<and> i < length (message_queue s) \<and> message_queue s ! i = c \<and>
       mc_container_id c = cid"
  by (auto simp: message_get_container_def message_find_def dest: find_index_Some)

lemma removed_container:
  assumes inv: "msg_inv s" and c: "message_get_container cid s = Some c"
    and q: "mset q = mset (message_queue s) - {# c #}"
  shows "msg_inv (s\<lparr>message_queue := q\<rparr>)" and "\<forall>c' \<in> set q. mc_container_id c' \<noteq> cid"
proof -
  have c': "c \<in> set (message_queue s)" "mc_container_id c = cid"
    using message_get_container_Some [OF c] by auto
  show "msg_inv (s\<lparr>message_queue := q\<rparr>)" by (rule msg_inv_mset [OF inv]) (simp add: q)
  have d: "distinct (map mc_container_id (message_queue s))" using inv by (simp add: msg_inv_def)
  show "\<forall>c' \<in> set q. mc_container_id c' \<noteq> cid"
  proof
    fix x
    assume "x \<in> set q"
    then have x: "x \<in># mset (message_queue s) - {# c #}" using q by (metis set_mset_mset)
    then have "x \<in> set (message_queue s)" by (metis in_diffD set_mset_mset)
    moreover have "x \<noteq> c"
    proof
      assume "x = c"
      then have "2 \<le> count (mset (message_queue s)) c"
        using x by (simp add: count_greater_zero_iff [symmetric] del: count_greater_zero_iff)
      moreover have "count (mset (message_queue s)) c \<le> 1"
        using d c'(1) by (metis distinct_count_atmost_1 distinct_map order_refl)
      ultimately show False by simp
    qed
    ultimately show "mc_container_id x \<noteq> cid"
      using d c' by (metis distinct_map inj_onD)
  qed
qed

text \<open>
  C22. A stored message is answered exactly once: when the bridge confirms the receiver, its packet is
  given to \<open>Send\<close> and the message is gone whatever \<open>Send\<close> returns; when it refuses, the message
  is gone and nothing is sent. A second answer with the same identifier finds nothing, and no
  other message is touched.
\<close>

theorem message_answered:
  assumes inv: "msg_inv s" and c: "message_get_container cid s = Some c"
  shows "(let (ret, s') = message_process eng cid s;
              (res, data, t) = mSend eng (buf_get (mc_buf c)) True s
          in ret = (res = SUCCESS) \<and> write_queue s' = write_queue t \<and>
             mset (message_queue s') = mset (message_queue s) - {# c #} \<and>
             message_get_container cid s' = None \<and> message_process eng cid s' = (False, s') \<and>
             msg_inv s') \<and>
         (let s' = message_remove cid s
          in write_queue s' = write_queue s \<and>
             mset (message_queue s') = mset (message_queue s) - {# c #} \<and>
             message_get_container cid s' = None \<and> msg_inv s')"
proof -
  obtain i where i: "message_find cid s = Some i" "i < length (message_queue s)"
    "message_queue s ! i = c" using message_find_of_container [OF c] by blast
  let ?q = "swap_remove i (message_queue s)"
  have q: "mset ?q = mset (message_queue s) - {# c #}"
    using mset_swap_remove [OF i(2)] i(3) by simp
  note rem = removed_container [OF inv c q]
  obtain res data t where send: "mSend eng (buf_get (mc_buf c)) True s = (res, data, t)"
    by (cases "mSend eng (buf_get (mc_buf c)) True s")
  have qt: "message_queue t = message_queue s" "s_message_container_id t = s_message_container_id s"
    using mSend_more(1,3) [OF send] by auto
  let ?t = "t\<lparr>message_queue := ?q\<rparr>"
  have p: "message_process eng cid s = (res = SUCCESS, ?t)"
    using i send qt by (simp add: message_process_def container_process_def)
  have none: "message_get_container cid u = None" "message_find cid u = None"
    if "message_queue u = ?q" for u
    using rem(2) that message_get_container_None [of cid u]
    by (simp_all add: message_find_def find_index_None)
  have "msg_inv ?t" using rem(1) msg_inv_cong [of ?t "s\<lparr>message_queue := ?q\<rparr>"] qt by simp
  then show ?thesis
    using p send q none [of ?t] none [of "s\<lparr>message_queue := ?q\<rparr>"] rem(1) i
    by (simp add: message_remove_def message_process_def)
qed

lemma container_exists:
  assumes "length message < 2 ^ 32 - 64"
  shows "\<exists>c. TMSMessageContainer_new now pid name message cid cp = Some c"
proof -
  let ?p = "MSMessageName_new
        \<lparr>MSMessageName_receiver_name :=
           str_copy (MSMessageName_receiver_name MSMessageName_new) 25 name,
         MSMessageName_sender_pid := pid, MSMessageName_code_page := cp,
         MSMessageName_size := of_nat (length message) + 1\<rparr>"
  let ?n = "of_nat sizeof_MSMessageName + MSMessageName_size ?p"
  let ?parts = "[(ser_MSMessageName ?p, of_nat sizeof_MSMessageName),
      (message @ [0], MSMessageName_size ?p)] :: (bytes \<times> u32) list"
  have sz: "sizeof_MSMessageName = 36" by (simp add: sizeof_MSMessageName_def)
  have one: "of_nat (length message) + 1 = (of_nat (length message + 1) :: u32)" by simp
  have "unat (of_nat (length message + 1) :: u32) = length message + 1"
    using assms by (intro unat_of_nat_u32) simp
  then have ex: "\<forall>p \<in> set ?parts. exact p"
    unfolding one by (simp add: exact_def sz del: of_nat_Suc)
  have "length (concat (map fst ?parts)) < 2 ^ 32" using assms by (simp add: sz)
  from pack_exact [OF ex this, of ?n] obtain b where
    "write_all ?parts (TMP_BUFFER_new ?n) = Some b" by (auto simp: pack_def)
  moreover have "clear_and_resize ?n (TMP_BUFFER_new 0) = TMP_BUFFER_new ?n"
    by (simp add: clear_and_resize_def TMP_BUFFER_new_def)
  ultimately show ?thesis
    by (auto simp: TMSMessageContainer_new_def Let_def bind_Some_iff)
qed

lemma less_succ_u32: "(x :: u32) \<noteq> - 1 \<Longrightarrow> y \<le> x \<Longrightarrow> y < x + 1"
proof -
  assume x: "x \<noteq> - 1" and y: "y \<le> x"
  have "x + 1 \<noteq> 0" using x by (metis add_eq_0_iff2)
  then have "unat (x + 1) = unat x + 1" by (metis Suc_eq_plus1 add.commute unatSuc)
  then show ?thesis using y by (simp add: word_less_nat_alt word_le_nat_alt)
qed

lemma msg_inv_push:
  assumes inv: "msg_inv s" and wrap: "s_message_container_id s \<noteq> - 1"
    and c: "mc_container_id c = s_message_container_id s"
  shows "msg_inv (push_message c (s\<lparr>s_message_container_id := s_message_container_id s + 1\<rparr>))"
proof -
  let ?q = "push_drop_oldest MAX_MESSAGE_COUNT c (message_queue s)"
  let ?old = "if MAX_MESSAGE_COUNT \<le> length (message_queue s) then tl (message_queue s)
    else message_queue s"
  have q: "?q = ?old @ [c]" by (simp add: push_drop_oldest_def)
  have old: "set ?old \<subseteq> set (message_queue s)" by (cases "message_queue s") auto
  have lt: "\<forall>x \<in> set ?old. mc_container_id x < s_message_container_id s"
    using inv old unfolding msg_inv_def by blast
  have "distinct (map mc_container_id ?old)"
    using inv by (cases "message_queue s") (auto simp: msg_inv_def)
  then have "distinct (map mc_container_id ?q)" unfolding q using lt c by auto
  moreover have "length ?q \<le> MAX_MESSAGE_COUNT"
    using inv by (intro length_push) (auto simp: msg_inv_def MAX_MESSAGE_COUNT_def)
  moreover have "\<forall>x \<in> set ?q. mc_container_id x < s_message_container_id s + 1"
    unfolding q using lt c less_succ_u32 [OF wrap] by (auto simp: less_imp_le)
  ultimately show ?thesis by (simp add: msg_inv_def push_message_def)
qed

lemma msg_inv_cleanup: "msg_inv s \<Longrightarrow> msg_inv (message_cleanup_expired now s)"
proof -
  assume inv: "msg_inv s"
  let ?f = "filter (\<lambda>msg. \<not> is_expired now (mc_created_time msg) MESSAGE_TIMEOUT) (message_queue s)"
  have "msg_inv (s\<lparr>message_queue := ?f\<rparr>)" by (rule msg_inv_mset [OF inv]) (simp add: multiset_filter_subset)
  then show ?thesis using inv by (simp add: message_cleanup_expired_def msg_inv_def)
qed

text \<open>
  Storing a message keeps the store bounded and its identifiers distinct, and the message can be
  found under the identifier the request to the bridge carried, with the packet to be sent
  complete (until the 32-bit counter wraps).
\<close>

theorem message_stored:
  assumes inv: "msg_inv s" and wrap: "s_message_container_id s \<noteq> - 1"
    and len: "length message < 2 ^ 32 - 64"
  shows "\<exists>s' c. message_add now pid name message cp s = Some s' \<and> msg_inv s' \<and>
           message_get_container (message_get_container_id s) s' = Some c \<and>
           get_sender_pid c = pid \<and> get_receiver_name c = cstr name \<and>
           drop sizeof_MSMessageName (buf_get (mc_buf c)) = message @ [0]"
proof -
  obtain c where new: "TMSMessageContainer_new now pid name message (s_message_container_id s) cp = Some c"
    using container_exists [OF len] by blast
  note c = container_buf [OF len new]
  let ?s = "push_message c (s\<lparr>s_message_container_id := s_message_container_id s + 1\<rparr>)"
  have add: "message_add now pid name message cp s = Some ?s" by (simp add: message_add_def new)
  have inv': "msg_inv ?s" by (rule msg_inv_push [OF inv wrap c(2)])
  have "c \<in> set (message_queue ?s)" by (rule msgq.newest_kept)
  then have "message_get_container (mc_container_id c) ?s = Some c"
    using inv' by (intro message_get_container_unique) (simp_all add: msg_inv_def)
  moreover have "drop sizeof_MSMessageName (buf_get (mc_buf c)) = message @ [0]"
    using c(1) by simp
  ultimately show ?thesis
    using add inv' c by (auto simp: message_get_container_id_def get_sender_pid_def get_receiver_name_def)
qed

subsection \<open>Packets that wait: replayed once, in order\<close>

text \<open>
  A packet is kept as it was given to \<open>Send\<close>; a used one was moved from and is empty.
\<close>

definition unp_inv :: "mobi \<Rightarrow> bool" where
  "unp_inv s \<longleftrightarrow> length (unp_packets s) \<le> MAX_UNPROCESSED_COUNT \<and>
     (\<forall>u \<in> set (unp_packets s).
        if uc_bUsed u then uc_data u = [] else uc_data u \<noteq> [] \<and> IsSyncPacket (hd (uc_data u)))"

text \<open>What the socket gets is the packet, or what the peer decrypts to it.\<close>

definition carries :: "openssl \<Rightarrow> CryptoHelper option \<Rightarrow> bool \<Rightarrow> bytes \<Rightarrow> bytes \<Rightarrow> bool" where
  "carries lib c encr d data \<longleftrightarrow>
     (case c of
        Some k \<Rightarrow> if encr then decrypt lib k (frame_body d) = (True, data) else d = data
      | None \<Rightarrow> d = data)"

definition never_fails :: "openssl \<Rightarrow> bool" where
  "never_fails lib \<longleftrightarrow> (\<forall>n k. RAND_bytes lib n k \<noteq> None) \<and>
     (\<forall>key iv d. aes_256_cbc_encrypt lib key iv d \<noteq> None)"

lemma wire_carries:
  assumes "openssl_ok lib" and "net_inv s" and "length data < 2 ^ 31 - 32"
    and "wire_form lib data encr s = (True, d, r)"
  shows "carries lib (crypto s) encr d data"
proof (cases "crypto s")
  case (Some c)
  then have enc: "is_encrypted s" using assms(2) by (auto simp: net_inv_def)
  show ?thesis
  proof (cases encr)
    case True
    then have "encrypt lib c (data, rng s) = (True, d, r)"
      using assms(4) Some enc by (simp add: wire_form_def)
    from frame_reads_back [OF assms(1,3) this refl] show ?thesis
      using Some True by (auto simp: carries_def)
  qed (use assms(4) Some in \<open>simp add: wire_form_def carries_def\<close>)
qed (use assms(4) in \<open>simp add: wire_form_def carries_def\<close>)

lemma wire_form_total:
  assumes "never_fails lib" and "length data < 2 ^ 31 - 32" and "data \<noteq> []"
  shows "fst (wire_form lib data encr s)"
  using assms
  by (auto simp: wire_form_def encrypt_def evp_arg_small never_fails_def split: option.split)
    (metis option.distinct(1))+

lemma IsSyncPacket_nonzero: "IsSyncPacket h \<Longrightarrow> h \<noteq> 0"
  by (auto simp: IsSyncPacket_def)

lemma process_used:
  "\<forall>u \<in> set us. uc_data u = [] \<Longrightarrow> process_containers eng us s = (us, s)"
proof (induction us arbitrary: s)
  case (Cons u us)
  have "u\<lparr>uc_data := []\<rparr> = u" using Cons.prems by simp
  then show ?case using Cons by (simp add: Send_eq)
qed simp

lemma process_unused:
  assumes ssl: "openssl_ok (ssl eng)" "never_fails (ssl eng)"
  shows "net_inv s \<Longrightarrow> IsConnected s \<Longrightarrow>
     \<forall>u \<in> set us. length (uc_data u) < 2 ^ 31 - 32 \<and>
        (if uc_bUsed u then uc_data u = [] else uc_data u \<noteq> [] \<and> hd (uc_data u) \<noteq> 0) \<Longrightarrow>
     length (write_queue s) + length us \<le> MAX_WRITE_QUEUE_SIZE \<Longrightarrow>
     \<exists>us' s' ds. process_containers eng us s = (us', s') \<and> write_queue s' = write_queue s @ ds \<and>
        list_all2 (\<lambda>d u. carries (ssl eng) (crypto s) (uc_need_encrypt u) d (uc_data u))
          ds (filter (\<lambda>u. \<not> uc_bUsed u) us) \<and>
        (\<forall>u \<in> set us'. uc_bUsed u \<and> uc_data u = []) \<and> length us' = length us \<and>
        net.more s' = net.more s"
proof (induction us arbitrary: s)
  case (Cons u us)
  note prem = Cons.prems
  show ?case
  proof (cases "uc_bUsed u")
    case True
    have upd: "u\<lparr>uc_data := []\<rparr> = u" using prem(3) True by simp
    have send: "mSend eng (uc_data u) (uc_need_encrypt u) s = (EMPTY_PACKET, [], s)"
      using prem(3) True by (simp add: Send_eq)
    from Cons.IH [OF prem(1,2)] prem(3,4) obtain us' s' ds where
      ih: "process_containers eng us s = (us', s')" "write_queue s' = write_queue s @ ds"
        "list_all2 (\<lambda>d u. carries (ssl eng) (crypto s) (uc_need_encrypt u) d (uc_data u))
          ds (filter (\<lambda>u. \<not> uc_bUsed u) us)"
        "\<forall>u \<in> set us'. uc_bUsed u \<and> uc_data u = []" "length us' = length us"
        "net.more s' = net.more s" by auto
    then show ?thesis using True send upd prem(3) by auto
  next
    case False
    obtain d r where w: "wire_form (ssl eng) (uc_data u) (uc_need_encrypt u) s = (True, d, r)"
      using wire_form_total [OF ssl(2), of "uc_data u" "uc_need_encrypt u" s] prem(3) False
      by (cases "wire_form (ssl eng) (uc_data u) (uc_need_encrypt u) s") auto
    have push: "push_packet d (write_queue s) = write_queue s @ [d]"
      using wq.room [of s d] prem(4) by simp
    obtain s1 where send: "mSend eng (uc_data u) (uc_need_encrypt u) s = (SUCCESS, [], s1)"
      and q1: "write_queue s1 = write_queue s @ [d]"
      using prem(2,3) False w push by (simp add: Send_eq)
    note fr = Send_frame [OF send]
    have "length (write_queue s1) + length us \<le> MAX_WRITE_QUEUE_SIZE" using prem(4) q1 by simp
    from Cons.IH [OF net_inv_Send [OF prem(1) send] _ _ this] prem(2,3) fr obtain us' s' ds where
      ih: "process_containers eng us s1 = (us', s')" "write_queue s' = write_queue s1 @ ds"
        "list_all2 (\<lambda>d u. carries (ssl eng) (crypto s) (uc_need_encrypt u) d (uc_data u))
          ds (filter (\<lambda>u. \<not> uc_bUsed u) us)"
        "\<forall>u \<in> set us'. uc_bUsed u \<and> uc_data u = []" "length us' = length us"
        "net.more s' = net.more s" by auto
    have "carries (ssl eng) (crypto s) (uc_need_encrypt u) d (uc_data u)"
      using wire_carries [OF ssl(1) prem(1) _ w] prem(3) by simp
    then show ?thesis
      using False send ih q1 fr(7)
      by (intro exI [of _ "u\<lparr>uc_data := [], uc_bUsed := True\<rparr> # us'"] exI [of _ s'] exI [of _ "d # ds"]) simp
  qed
qed simp

lemma replay:
  assumes ssl: "openssl_ok (ssl eng)" "never_fails (ssl eng)"
    and net: "net_inv s" "IsConnected s" and unp: "unp_inv s"
    and len: "\<forall>u \<in> set (unp_packets s). length (uc_data u) < 2 ^ 31 - 32"
    and room: "length (write_queue s) + length (unp_packets s) \<le> MAX_WRITE_QUEUE_SIZE"
  shows "\<exists>ds. let s' = unprocessed_process eng now s in
           write_queue s' = write_queue s @ ds \<and>
           list_all2 (\<lambda>d u. carries (ssl eng) (crypto s) (uc_need_encrypt u) d (uc_data u))
             ds (filter (\<lambda>u. \<not> uc_bUsed u) (unp_packets s)) \<and>
           unp_inv s' \<and> (\<forall>u \<in> set (unp_packets s'). uc_bUsed u) \<and>
           write_queue (unprocessed_process eng later s') = write_queue s'"
proof -
  have "\<forall>u \<in> set (unp_packets s). length (uc_data u) < 2 ^ 31 - 32 \<and>
        (if uc_bUsed u then uc_data u = [] else uc_data u \<noteq> [] \<and> hd (uc_data u) \<noteq> 0)"
    using len unp IsSyncPacket_nonzero by (auto simp: unp_inv_def)
  from process_unused [OF ssl net this room] obtain us' s' ds where
    p: "process_containers eng (unp_packets s) s = (us', s')"
      "write_queue s' = write_queue s @ ds"
      "list_all2 (\<lambda>d u. carries (ssl eng) (crypto s) (uc_need_encrypt u) d (uc_data u))
          ds (filter (\<lambda>u. \<not> uc_bUsed u) (unp_packets s))"
      "\<forall>u \<in> set us'. uc_bUsed u \<and> uc_data u = []" "length us' = length (unp_packets s)"
    by blast
  let ?t = "unprocessed_process eng now s"
  have t: "write_queue ?t = write_queue s @ ds" "set (unp_packets ?t) \<subseteq> set us'"
    "length (unp_packets ?t) \<le> length us'"
    using p by (auto simp: unprocessed_process_def unprocessed_cleanup_expired_def)
  have "unp_inv ?t" using t p unp by (auto simp: unp_inv_def)
  moreover have "write_queue (unprocessed_process eng later ?t) = write_queue ?t"
  proof -
    have "\<forall>u \<in> set (unp_packets ?t). uc_data u = []" using t(2) p(4) by blast
    from process_used [OF this] show ?thesis
      by (simp add: unprocessed_process_def [of eng later] unprocessed_cleanup_expired_def)
  qed
  ultimately show ?thesis using t p by (auto simp: Let_def)
qed

text \<open>
  C15. After a reconnection every packet that waited is sent exactly once and in the order it was
  kept: with a connection and room, processing appends to the write queue one entry for each
  packet not yet sent, which the peer reads as that packet; all are marked as used, and
  processing again sends nothing.
\<close>

theorem replay_once:
  assumes ssl: "openssl_ok (ssl eng)" "never_fails (ssl eng)"
    and net: "net_inv s" "IsConnected s" and unp: "unp_inv s"
    and len: "\<forall>u \<in> set (unp_packets s). length (uc_data u) < 2 ^ 31 - 32"
    and room: "length (write_queue s) + length (unp_packets s) \<le> MAX_WRITE_QUEUE_SIZE"
  shows "\<exists>ds. let s' = unprocessed_process eng now s in
           write_queue s' = write_queue s @ ds \<and>
           list_all2 (\<lambda>d u. carries (ssl eng) (crypto s) (uc_need_encrypt u) d (uc_data u))
             ds (filter (\<lambda>u. \<not> uc_bUsed u) (unp_packets s)) \<and>
           unp_inv s' \<and> (\<forall>u \<in> set (unp_packets s'). uc_bUsed u) \<and>
           write_queue (unprocessed_process eng later s') = write_queue s'"
  by (rule replay [OF assms])

lemma unp_inv_add: "unp_inv s \<Longrightarrow> unp_inv (snd (unprocessed_add now data encr s))"
proof (cases "data \<noteq> [] \<and> IsSyncPacket (hd data)")
  case True
  assume inv: "unp_inv s"
  let ?c = "TUnprocessedContainer_new now data (s_unprocessed_container_id s) encr"
  let ?s = "s\<lparr>s_unprocessed_container_id := s_unprocessed_container_id s + 1\<rparr>"
  have "length (unp_packets (push_unprocessed ?c ?s)) \<le> MAX_UNPROCESSED_COUNT"
    using inv by (intro unpq.bounded) (simp add: unp_inv_def)
  moreover have "set (unp_packets (push_unprocessed ?c ?s)) \<subseteq> insert ?c (set (unp_packets s))"
    using unpq.nothing_else [of ?c ?s] by simp
  ultimately show ?thesis
    using inv True by (auto simp: unp_inv_def unprocessed_add_def TUnprocessedContainer_new_def)
qed (auto simp: unprocessed_add_def)

lemma unp_inv_cleanup: "unp_inv s \<Longrightarrow> unp_inv (unprocessed_cleanup_expired now s)"
  using le_trans [OF length_filter_le]
  by (auto simp: unp_inv_def unprocessed_cleanup_expired_def)

subsection \<open>The theorems on an example\<close>

definition demo_online :: mobi where
  "demo_online = mobi_init\<lparr>connect_state := CONNECTED,
     unp_packets := [TUnprocessedContainer_new 0 [HEADER_MS_GUILD_LEAVE, 7, 0, 0, 0] 0 True]\<rparr>"

lemma never_fails_demo: "never_fails demo_ssl"
  by (simp add: never_fails_def demo_ssl_def)

lemma demo_online_inv: "net_inv demo_online" "IsConnected demo_online" "unp_inv demo_online"
  by (simp_all add: demo_online_def net_inv_def IsConnected_def unp_inv_def IsSyncPacket_def
      TUnprocessedContainer_new_def MAX_UNPROCESSED_COUNT_def)

lemma replay_once_witness:
  "\<exists>d. write_queue (unprocessed_process demo_eng 5 demo_online) = [d] \<and>
     carries demo_ssl None True d [HEADER_MS_GUILD_LEAVE, 7, 0, 0, 0] \<and>
     write_queue (unprocessed_process demo_eng 9 (unprocessed_process demo_eng 5 demo_online)) = [d]"
proof -
  have ssl: "openssl_ok (ssl demo_eng)" "never_fails (ssl demo_eng)"
    by (simp_all add: demo_ssl_ok never_fails_demo)
  have "\<forall>u \<in> set (unp_packets demo_online). length (uc_data u) < 2 ^ 31 - 32"
    and "length (write_queue demo_online) + length (unp_packets demo_online) \<le> MAX_WRITE_QUEUE_SIZE"
    by (simp_all add: demo_online_def TUnprocessedContainer_new_def MAX_WRITE_QUEUE_SIZE_def)
  from replay_once [OF ssl demo_online_inv this, of 5 9] obtain ds where
    ds: "write_queue (unprocessed_process demo_eng 5 demo_online) = write_queue demo_online @ ds"
      "list_all2 (\<lambda>d u. carries demo_ssl (crypto demo_online) (uc_need_encrypt u) d (uc_data u))
         ds (filter (\<lambda>u. \<not> uc_bUsed u) (unp_packets demo_online))"
      "write_queue (unprocessed_process demo_eng 9 (unprocessed_process demo_eng 5 demo_online)) =
       write_queue (unprocessed_process demo_eng 5 demo_online)"
    by (auto simp: Let_def)
  then show ?thesis
    by (auto simp: demo_online_def TUnprocessedContainer_new_def list_all2_Cons2)
qed

lemma demo_online_msg: "msg_inv demo_online"
  by (simp add: msg_inv_def demo_online_def)

lemma message_stored_witness:
  "\<exists>s' c. message_add 3 42 (bytes_of ''Ayse'') (bytes_of ''selam'') 1254 demo_online = Some s' \<and>
     message_get_container 0 s' = Some c \<and> get_sender_pid c = 42 \<and>
     drop sizeof_MSMessageName (buf_get (mc_buf c)) = bytes_of ''selam'' @ [0]"
proof -
  have "s_message_container_id demo_online \<noteq> - 1" and "message_get_container_id demo_online = 0"
    by (simp_all add: demo_online_def message_get_container_id_def)
  then show ?thesis
    using message_stored [OF demo_online_msg, of "bytes_of ''selam''" 3 42 "bytes_of ''Ayse''" 1254]
    by fastforce
qed

lemma message_answered_witness:
  "\<exists>c s. message_get_container 0 s = Some c \<and>
     message_get_container 0 (snd (message_process demo_eng 0 s)) = None \<and>
     write_queue (message_remove 0 s) = write_queue s"
proof -
  let ?c = "\<lparr>mc_buf = TMP_BUFFER_new 3, mc_container_id = 0, mc_sender_pid = 42,
     mc_receiver_name = [65], mc_created_time = 0\<rparr> :: TMSMessageContainer"
  let ?s = "demo_online\<lparr>message_queue := [?c], s_message_container_id := 1\<rparr>"
  have inv: "msg_inv ?s" and c: "message_get_container 0 ?s = Some ?c"
    by (simp_all add: msg_inv_def demo_online_def MAX_MESSAGE_COUNT_def message_get_container_def
        message_find_def)
  from message_answered [OF inv c, of demo_eng] have
    "message_get_container 0 (snd (message_process demo_eng 0 ?s)) = None"
    "write_queue (message_remove 0 ?s) = write_queue ?s"
    by (simp_all add: Let_def split: prod.splits)
  then show ?thesis using c by blast
qed

end
