(* ===== verification/Mobi_Client.thy ===== *)
theory Mobi_Client
  imports Unprocessed
begin

text \<open>
  The sending half of \<open>MobiClient\<close> (\<open>mobigame/mobi_client.cpp\<close>, \<open>mobi/base.cpp\<close>): one function per
  packet the game sends to the bridge. Each checks its arguments, fills the wire structure,
  assembles it in a \<open>TMP_BUFFER\<close> and gives it to \<open>SendPacket\<close>. \<open>None\<close> is undefined behaviour.
  \<open>now\<close> is the reading of the clock during the call.
\<close>

subsection \<open>\<open>SendPacket\<close>\<close>

definition HasAuthority :: "u16 \<Rightarrow> mobi \<Rightarrow> bool" where
  "HasAuthority flag s = HasFlag (authority s) (ucast flag)"

definition IsCoreP2PManager :: "mobi \<Rightarrow> bool" where
  "IsCoreP2PManager s = HasAuthority P2P_MANAGER s"

definition SendPacket :: "engine \<Rightarrow> time \<Rightarrow> bytes \<Rightarrow> bool \<Rightarrow> mobi \<Rightarrow> bool \<times> mobi" where
  "SendPacket eng now data encr s =
     (if data = [] then (False, s)
      else let (res, data, s) = mSend eng data encr s in
        (case res of
           SUCCESS \<Rightarrow> (True, s)
         | NOT_CONNECTED \<Rightarrow> (False, snd (unprocessed_add now data encr s))
         | _ \<Rightarrow> (False, s)))"

text \<open>\<open>TMP_BUFFER buf(n); buf.write(\<dots>); \<dots> return SendPacket(buf.get());\<close>\<close>

definition send_parts ::
  "engine \<Rightarrow> time \<Rightarrow> u32 \<Rightarrow> (bytes \<times> u32) list \<Rightarrow> mobi \<Rightarrow> (bool \<times> mobi) option" where
  "send_parts eng now n parts s =
     map_option (\<lambda>data. SendPacket eng now data True s) (pack n parts)"

definition IsBoss :: "u32 \<Rightarrow> bool" where
  "IsBoss id' \<longleftrightarrow> id' \<in> set
     [691, 692, 693, 791, 991, 992, 993, 1091,
      1092, 1093, 1094, 1095, 2191, 1191, 1192,
      1304, 1306, 1307, 1901, 1902, 1903, 2206,
      2207, 2291, 2306, 2492, 2493, 2494, 2598,
      3090, 3091, 3191, 3290, 3291, 3390, 3391,
      3490, 3491, 3691, 3791, 3790, 3890, 3891,
      5001, 5002, 5004, 5161, 5162, 5163, 6091,
      6191]"

subsection \<open>Players and messages\<close>

definition sendLogin ::
  "engine \<Rightarrow> time \<Rightarrow> u32 \<Rightarrow> u32 \<Rightarrow> bool \<Rightarrow> mobi \<Rightarrow> (bool \<times> mobi) option" where
  "sendLogin eng now pid map_idx is_mobile_request s =
     (if pid = 0 then Some (False, s)
      else let packet = MSLogin_new
            \<lparr>MSLogin_header := HEADER_MS_LOGIN,
             MSLogin_pid := pid,
             MSLogin_map_idx := map_idx,
             MSLogin_is_mobile_request := is_mobile_request\<rparr>
        in send_parts eng now (of_nat sizeof_MSLogin)
             [(ser_MSLogin packet, of_nat sizeof_MSLogin)] s)"

definition sendLogout ::
  "engine \<Rightarrow> time \<Rightarrow> u32 \<Rightarrow> mobi \<Rightarrow> (bool \<times> mobi) option" where
  "sendLogout eng now pid s =
     (if pid = 0 then Some (False, s)
      else let packet = MSLogout_new
            \<lparr>MSLogout_header := HEADER_MS_LOGOUT,
             MSLogout_pid := pid\<rparr>
        in send_parts eng now (of_nat sizeof_MSLogout)
             [(ser_MSLogout packet, of_nat sizeof_MSLogout)] s)"

definition sendMessage ::
  "engine \<Rightarrow> time \<Rightarrow> u32 \<Rightarrow> u32 \<Rightarrow> bytes \<Rightarrow> u16 \<Rightarrow> mobi \<Rightarrow> (bool \<times> mobi) option" where
  "sendMessage eng now sender_pid receiver_pid message code_page s =
     (if sender_pid = 0 \<or> receiver_pid = 0 \<or> message = [] then Some (False, s)
      else let packet = MSMessage_new
            \<lparr>MSMessage_header := HEADER_MS_MESSAGE,
             MSMessage_sender_pid := sender_pid,
             MSMessage_receiver_pid := receiver_pid,
             MSMessage_code_page := code_page,
             MSMessage_size := of_nat (length message) + 1\<rparr>
        in send_parts eng now (of_nat sizeof_MSMessage + MSMessage_size packet)
             [(ser_MSMessage packet, of_nat sizeof_MSMessage),
              (message @ [0], MSMessage_size packet)] s)"

definition sendShout ::
  "engine \<Rightarrow> time \<Rightarrow> u32 \<Rightarrow> bytes \<Rightarrow> u16 \<Rightarrow> mobi \<Rightarrow> (bool \<times> mobi) option" where
  "sendShout eng now pid message code_page s =
     (if pid = 0 \<or> message = [] then Some (False, s)
      else let packet = MSShout_new
            \<lparr>MSShout_header := HEADER_MS_SHOUT,
             MSShout_pid := pid,
             MSShout_size := of_nat (length message) + 1,
             MSShout_code_page := code_page\<rparr>
        in send_parts eng now (of_nat sizeof_MSShout + MSShout_size packet)
             [(ser_MSShout packet, of_nat sizeof_MSShout),
              (message @ [0], MSShout_size packet)] s)"

definition sendLevelPacket ::
  "engine \<Rightarrow> time \<Rightarrow> u32 \<Rightarrow> u32 \<Rightarrow> mobi \<Rightarrow> (bool \<times> mobi) option" where
  "sendLevelPacket eng now pid level s =
     (if pid = 0 then Some (False, s)
      else let packet = MSLevelUp_new
            \<lparr>MSLevelUp_header := HEADER_MS_LEVEL_UP,
             MSLevelUp_level := level,
             MSLevelUp_pid := pid\<rparr>
        in send_parts eng now (of_nat sizeof_MSLevelUp)
             [(ser_MSLevelUp packet, of_nat sizeof_MSLevelUp)] s)"

text \<open>The identifier is read before the message is stored under it.\<close>

definition sendUserCheck ::
  "engine \<Rightarrow> time \<Rightarrow> bytes \<Rightarrow> bytes \<Rightarrow> u32 \<Rightarrow> u16 \<Rightarrow> mobi \<Rightarrow> (bool \<times> mobi) option" where
  "sendUserCheck eng now nameTo message sender_pid code_page s =
     (if nameTo = [] \<or> message = [] \<or> sender_pid = 0 then Some (False, s)
      else let packet = MSUserCheck_new
                 \<lparr>MSUserCheck_header := HEADER_MS_USER_CHECK,
                  MSUserCheck_name := str_copy (MSUserCheck_name MSUserCheck_new) 25 nameTo,
                  MSUserCheck_sender_pid := sender_pid,
                  MSUserCheck_container_id := message_get_container_id s\<rparr>
        in do {
          s \<leftarrow> message_add now sender_pid nameTo message code_page s;
          send_parts eng now (of_nat sizeof_MSUserCheck)
            [(ser_MSUserCheck packet, of_nat sizeof_MSUserCheck)] s })"

definition sendGuildJoin ::
  "engine \<Rightarrow> time \<Rightarrow> u32 \<Rightarrow> u32 \<Rightarrow> mobi \<Rightarrow> (bool \<times> mobi) option" where
  "sendGuildJoin eng now guild_id pid s =
     (if \<not> IsCoreP2PManager s then Some (True, s)
      else if guild_id = 0 \<or> pid = 0 then Some (False, s)
      else let packet = MSGuildJoin_new
            \<lparr>MSGuildJoin_header := HEADER_MS_GUILD_JOIN,
             MSGuildJoin_guild_id := guild_id,
             MSGuildJoin_pid := pid\<rparr>
        in send_parts eng now (of_nat sizeof_MSGuildJoin)
             [(ser_MSGuildJoin packet, of_nat sizeof_MSGuildJoin)] s)"

definition sendGuildLeave ::
  "engine \<Rightarrow> time \<Rightarrow> u32 \<Rightarrow> mobi \<Rightarrow> (bool \<times> mobi) option" where
  "sendGuildLeave eng now pid s =
     (if \<not> IsCoreP2PManager s then Some (True, s)
      else if pid = 0 then Some (False, s)
      else let packet = MSGuildLeave_new
            \<lparr>MSGuildLeave_header := HEADER_MS_GUILD_LEAVE,
             MSGuildLeave_pid := pid\<rparr>
        in send_parts eng now (of_nat sizeof_MSGuildLeave)
             [(ser_MSGuildLeave packet, of_nat sizeof_MSGuildLeave)] s)"

definition sendMessengerAdd ::
  "engine \<Rightarrow> time \<Rightarrow> bytes \<Rightarrow> bytes \<Rightarrow> mobi \<Rightarrow> (bool \<times> mobi) option" where
  "sendMessengerAdd eng now name target s =
     (if name = [] \<or> target = [] then Some (False, s)
      else let packet = MSMessengerAdd_new
            \<lparr>MSMessengerAdd_header := HEADER_MS_MESSENGER_ADD,
             MSMessengerAdd_name := str_copy (MSMessengerAdd_name MSMessengerAdd_new) 25 name,
             MSMessengerAdd_target := str_copy (MSMessengerAdd_target MSMessengerAdd_new) 25 target\<rparr>
        in send_parts eng now (of_nat sizeof_MSMessengerAdd)
             [(ser_MSMessengerAdd packet, of_nat sizeof_MSMessengerAdd)] s)"

definition sendMessengerRemove ::
  "engine \<Rightarrow> time \<Rightarrow> bytes \<Rightarrow> bytes \<Rightarrow> mobi \<Rightarrow> (bool \<times> mobi) option" where
  "sendMessengerRemove eng now name target s =
     (if name = [] \<or> target = [] then Some (False, s)
      else let packet = MSMessengerRemove_new
            \<lparr>MSMessengerRemove_header := HEADER_MS_MESSENGER_REMOVE,
             MSMessengerRemove_name := str_copy (MSMessengerRemove_name MSMessengerRemove_new) 25 name,
             MSMessengerRemove_target := str_copy (MSMessengerRemove_target MSMessengerRemove_new) 25 target\<rparr>
        in send_parts eng now (of_nat sizeof_MSMessengerRemove)
             [(ser_MSMessengerRemove packet, of_nat sizeof_MSMessengerRemove)] s)"

text \<open>
  \<open>empires\<close> is the array of the three empires' counts, whose element 0 is not sent. The time of the
  last sending is compared and never updated.
\<close>

definition sendOnlineCount ::
  "engine \<Rightarrow> time \<Rightarrow> u32 \<Rightarrow> u32 \<Rightarrow> u32 \<Rightarrow> mobi \<Rightarrow> (bool \<times> mobi) option" where
  "sendOnlineCount eng now empires1 empires2 empires3 s =
     (if \<not> IsCoreP2PManager s then Some (True, s)
      else if in_seconds (now - last_sent s) < refresh_interval s then Some (False, s)
      else let packet = MSOnline_new
            \<lparr>MSOnline_header := HEADER_MS_ONLINE,
             MSOnline_empires0 := empires1,
             MSOnline_empires1 := empires2,
             MSOnline_empires2 := empires3\<rparr>
        in send_parts eng now (of_nat sizeof_MSOnline)
             [(ser_MSOnline packet, of_nat sizeof_MSOnline)] s)"

subsection \<open>Guild wars\<close>

definition sendGuildWarStart ::
  "engine \<Rightarrow> time \<Rightarrow> u32 \<Rightarrow> u32 \<Rightarrow> u32 \<Rightarrow> mobi \<Rightarrow> (bool \<times> mobi) option" where
  "sendGuildWarStart eng now guild_id1 guild_id2 scoreLimit s =
     (if guild_id1 = 0 \<or> guild_id2 = 0 then Some (False, s)
      else let packet = MSGuildWar_new
            \<lparr>MSGuildWar_header := HEADER_MS_GUILD_WAR,
             MSGuildWar_subheader := ESubGuildWar_code WAR_START,
             MSGuildWar_size := of_nat sizeof_SGuildWarStart\<rparr>;
          sPacket = SGuildWarStart_new
            \<lparr>SGuildWarStart_guild_id0 := guild_id1,
             SGuildWarStart_guild_id1 := guild_id2,
             SGuildWarStart_scoreLimit := scoreLimit\<rparr>
        in send_parts eng now (of_nat sizeof_MSGuildWar + MSGuildWar_size packet)
             [(ser_MSGuildWar packet, of_nat sizeof_MSGuildWar),
              (ser_SGuildWarStart sPacket, of_nat sizeof_SGuildWarStart)] s)"

definition sendGuildWarEnd ::
  "engine \<Rightarrow> time \<Rightarrow> u32 \<Rightarrow> u32 \<Rightarrow> mobi \<Rightarrow> (bool \<times> mobi) option" where
  "sendGuildWarEnd eng now guild_id1 guild_id2 s =
     (if guild_id1 = 0 \<or> guild_id2 = 0 then Some (False, s)
      else let packet = MSGuildWar_new
            \<lparr>MSGuildWar_header := HEADER_MS_GUILD_WAR,
             MSGuildWar_subheader := ESubGuildWar_code WAR_END,
             MSGuildWar_size := of_nat sizeof_SGuildWarEnd\<rparr>;
          sPacket = SGuildWarEnd_new
            \<lparr>SGuildWarEnd_guild_id0 := guild_id1,
             SGuildWarEnd_guild_id1 := guild_id2\<rparr>
        in send_parts eng now (of_nat sizeof_MSGuildWar + MSGuildWar_size packet)
             [(ser_MSGuildWar packet, of_nat sizeof_MSGuildWar),
              (ser_SGuildWarEnd sPacket, of_nat sizeof_SGuildWarEnd)] s)"

definition sendGuildWarPlayerKill ::
  "engine \<Rightarrow> time \<Rightarrow> u32 \<Rightarrow> u32 \<Rightarrow> u32 \<Rightarrow> u32 \<Rightarrow> mobi \<Rightarrow> (bool \<times> mobi) option" where
  "sendGuildWarPlayerKill eng now guild_id1 guild_id2 killer_pid victim_pid s =
     (if guild_id1 = 0 \<or> guild_id2 = 0 \<or> killer_pid = 0 \<or> victim_pid = 0 then Some (False, s)
      else let packet = MSGuildWar_new
            \<lparr>MSGuildWar_header := HEADER_MS_GUILD_WAR,
             MSGuildWar_subheader := ESubGuildWar_code PLAYER_KILL,
             MSGuildWar_size := of_nat sizeof_SGuildWarPlayerKill\<rparr>;
          sPacket = SGuildWarPlayerKill_new
            \<lparr>SGuildWarPlayerKill_guild_id0 := guild_id1,
             SGuildWarPlayerKill_guild_id1 := guild_id2,
             SGuildWarPlayerKill_killer_pid := killer_pid,
             SGuildWarPlayerKill_victim_pid := victim_pid\<rparr>
        in send_parts eng now (of_nat sizeof_MSGuildWar + MSGuildWar_size packet)
             [(ser_MSGuildWar packet, of_nat sizeof_MSGuildWar),
              (ser_SGuildWarPlayerKill sPacket, of_nat sizeof_SGuildWarPlayerKill)] s)"

definition sendGuildWarPlayerJoin ::
  "engine \<Rightarrow> time \<Rightarrow> u32 \<Rightarrow> u32 \<Rightarrow> mobi \<Rightarrow> (bool \<times> mobi) option" where
  "sendGuildWarPlayerJoin eng now guild_id pid s =
     (if guild_id = 0 \<or> pid = 0 then Some (False, s)
      else let packet = MSGuildWar_new
            \<lparr>MSGuildWar_header := HEADER_MS_GUILD_WAR,
             MSGuildWar_subheader := ESubGuildWar_code PLAYER_JOIN,
             MSGuildWar_size := of_nat sizeof_SGuildWarPlayerJoin\<rparr>;
          sPacket = SGuildWarPlayerJoin_new
            \<lparr>SGuildWarPlayerJoin_guild_id := guild_id,
             SGuildWarPlayerJoin_pid := pid\<rparr>
        in send_parts eng now (of_nat sizeof_MSGuildWar + MSGuildWar_size packet)
             [(ser_MSGuildWar packet, of_nat sizeof_MSGuildWar),
              (ser_SGuildWarPlayerJoin sPacket, of_nat sizeof_SGuildWarPlayerJoin)] s)"

definition sendGuildWarPlayerLeave ::
  "engine \<Rightarrow> time \<Rightarrow> u32 \<Rightarrow> u32 \<Rightarrow> mobi \<Rightarrow> (bool \<times> mobi) option" where
  "sendGuildWarPlayerLeave eng now guild_id pid s =
     (if guild_id = 0 \<or> pid = 0 then Some (False, s)
      else let packet = MSGuildWar_new
            \<lparr>MSGuildWar_header := HEADER_MS_GUILD_WAR,
             MSGuildWar_subheader := ESubGuildWar_code PLAYER_LEAVE,
             MSGuildWar_size := of_nat sizeof_SGuildWarPlayerLeave\<rparr>;
          sPacket = SGuildWarPlayerLeave_new
            \<lparr>SGuildWarPlayerLeave_guild_id := guild_id,
             SGuildWarPlayerLeave_pid := pid\<rparr>
        in send_parts eng now (of_nat sizeof_MSGuildWar + MSGuildWar_size packet)
             [(ser_MSGuildWar packet, of_nat sizeof_MSGuildWar),
              (ser_SGuildWarPlayerLeave sPacket, of_nat sizeof_SGuildWarPlayerLeave)] s)"

definition sendGuildWarPlayerPositionUpdate ::
  "engine \<Rightarrow> time \<Rightarrow> u32 \<Rightarrow> u32 \<Rightarrow> u32 \<Rightarrow> u32 \<Rightarrow> mobi \<Rightarrow> (bool \<times> mobi) option" where
  "sendGuildWarPlayerPositionUpdate eng now guild_id pid pos0 pos1 s =
     (if guild_id = 0 \<or> pid = 0 then Some (False, s)
      else let packet = MSGuildWar_new
            \<lparr>MSGuildWar_header := HEADER_MS_GUILD_WAR,
             MSGuildWar_subheader := ESubGuildWar_code PLAYER_POSITION_UPDATE,
             MSGuildWar_size := of_nat sizeof_SGuildWarPlayerPositionUpdate\<rparr>;
          sPacket = SGuildWarPlayerPositionUpdate_new
            \<lparr>SGuildWarPlayerPositionUpdate_guild_id := guild_id,
             SGuildWarPlayerPositionUpdate_pid := pid,
             SGuildWarPlayerPositionUpdate_pos0 := pos0,
             SGuildWarPlayerPositionUpdate_pos1 := pos1\<rparr>
        in send_parts eng now (of_nat sizeof_MSGuildWar + MSGuildWar_size packet)
             [(ser_MSGuildWar packet, of_nat sizeof_MSGuildWar),
              (ser_SGuildWarPlayerPositionUpdate sPacket, of_nat sizeof_SGuildWarPlayerPositionUpdate)] s)"

definition sendGuildWarMapNotification ::
  "engine \<Rightarrow> time \<Rightarrow> u32 \<Rightarrow> u32 \<Rightarrow> bytes \<Rightarrow> mobi \<Rightarrow> (bool \<times> mobi) option" where
  "sendGuildWarMapNotification eng now guild_id1 guild_id2 message s =
     (if guild_id1 = 0 \<or> guild_id2 = 0 \<or> message = [] then Some (False, s)
      else let msgSize = of_nat (length message) + 1;
          packet = MSGuildWar_new
            \<lparr>MSGuildWar_header := HEADER_MS_GUILD_WAR,
             MSGuildWar_subheader := ESubGuildWar_code WAR_NOTIFICATION,
             MSGuildWar_size := of_nat sizeof_SGuildWarNotification + msgSize\<rparr>;
          sPacket = SGuildWarNotification_new
            \<lparr>SGuildWarNotification_guild_id0 := guild_id1,
             SGuildWarNotification_guild_id1 := guild_id2\<rparr>
        in send_parts eng now (of_nat sizeof_MSGuildWar + MSGuildWar_size packet)
             [(ser_MSGuildWar packet, of_nat sizeof_MSGuildWar),
              (ser_SGuildWarNotification sPacket, of_nat sizeof_SGuildWarNotification),
              (message @ [0], msgSize)] s)"

subsection \<open>Data updates\<close>

definition sendCharacterCreate ::
  "engine \<Rightarrow> time \<Rightarrow> u32 \<Rightarrow> mobi \<Rightarrow> (bool \<times> mobi) option" where
  "sendCharacterCreate eng now pid s =
     (if \<not> IsCoreP2PManager s then Some (True, s)
      else if pid = 0 then Some (False, s)
      else let packet = MSDataUpdate_new
            \<lparr>MSDataUpdate_type := EDataUpdateTypes_code CREATE_PLAYER,
             MSDataUpdate_id := pid\<rparr>
        in send_parts eng now (of_nat sizeof_MSDataUpdate)
             [(ser_MSDataUpdate packet, of_nat sizeof_MSDataUpdate)] s)"

definition sendCharacterDelete ::
  "engine \<Rightarrow> time \<Rightarrow> u32 \<Rightarrow> mobi \<Rightarrow> (bool \<times> mobi) option" where
  "sendCharacterDelete eng now pid s =
     (if \<not> IsCoreP2PManager s then Some (True, s)
      else if pid = 0 then Some (False, s)
      else let packet = MSDataUpdate_new
            \<lparr>MSDataUpdate_header := HEADER_MS_DATA_UPDATE,
             MSDataUpdate_type := EDataUpdateTypes_code DELETE_PLAYER,
             MSDataUpdate_id := pid\<rparr>
        in send_parts eng now (of_nat sizeof_MSDataUpdate)
             [(ser_MSDataUpdate packet, of_nat sizeof_MSDataUpdate)] s)"

definition sendGuildCreate ::
  "engine \<Rightarrow> time \<Rightarrow> u32 \<Rightarrow> mobi \<Rightarrow> (bool \<times> mobi) option" where
  "sendGuildCreate eng now guild_id s =
     (if guild_id = 0 then Some (False, s)
      else let packet = MSDataUpdate_new
            \<lparr>MSDataUpdate_header := HEADER_MS_DATA_UPDATE,
             MSDataUpdate_type := EDataUpdateTypes_code CREATE_GUILD,
             MSDataUpdate_id := guild_id\<rparr>
        in send_parts eng now (of_nat sizeof_MSDataUpdate)
             [(ser_MSDataUpdate packet, of_nat sizeof_MSDataUpdate)] s)"

definition sendGuildDelete ::
  "engine \<Rightarrow> time \<Rightarrow> u32 \<Rightarrow> mobi \<Rightarrow> (bool \<times> mobi) option" where
  "sendGuildDelete eng now guild_id s =
     (if \<not> IsCoreP2PManager s then Some (True, s)
      else if guild_id = 0 then Some (False, s)
      else let packet = MSDataUpdate_new
            \<lparr>MSDataUpdate_header := HEADER_MS_DATA_UPDATE,
             MSDataUpdate_type := EDataUpdateTypes_code DELETE_GUILD,
             MSDataUpdate_id := guild_id\<rparr>
        in send_parts eng now (of_nat sizeof_MSDataUpdate)
             [(ser_MSDataUpdate packet, of_nat sizeof_MSDataUpdate)] s)"

definition sendLadderPoint ::
  "engine \<Rightarrow> time \<Rightarrow> u32 \<Rightarrow> u32 \<Rightarrow> mobi \<Rightarrow> (bool \<times> mobi) option" where
  "sendLadderPoint eng now guild_id point s =
     (if guild_id = 0 then Some (False, s)
      else let packet = MSLadderPoint_new
            \<lparr>MSLadderPoint_header := HEADER_MS_GUILD_POINT,
             MSLadderPoint_guild_id := guild_id,
             MSLadderPoint_point := point\<rparr>
        in send_parts eng now (of_nat sizeof_MSLadderPoint)
             [(ser_MSLadderPoint packet, of_nat sizeof_MSLadderPoint)] s)"

definition sendGuildStats ::
  "engine \<Rightarrow> time \<Rightarrow> u32 \<Rightarrow> u32 \<Rightarrow> u32 \<Rightarrow> u32 \<Rightarrow> mobi \<Rightarrow> (bool \<times> mobi) option" where
  "sendGuildStats eng now guild_id win draw loss s =
     (if guild_id = 0 then Some (False, s)
      else let packet = MSGuildStats_new
            \<lparr>MSGuildStats_header := HEADER_MS_GUILD_STATS,
             MSGuildStats_guild_id := guild_id,
             MSGuildStats_win := win,
             MSGuildStats_draw := draw,
             MSGuildStats_loss := loss\<rparr>
        in send_parts eng now (of_nat sizeof_MSGuildStats)
             [(ser_MSGuildStats packet, of_nat sizeof_MSGuildStats)] s)"

definition sendKill ::
  "engine \<Rightarrow> time \<Rightarrow> u32 \<Rightarrow> u32 \<Rightarrow> mobi \<Rightarrow> (bool \<times> mobi) option" where
  "sendKill eng now killerID victimID s =
     (if killerID = 0 \<or> victimID = 0 then Some (False, s)
      else if \<not> IsBoss victimID then Some (True, s)
      else let packet = MSKill_new
            \<lparr>MSKill_header := HEADER_MS_KILL,
             MSKill_killer_pid := killerID,
             MSKill_victim_pid := victimID\<rparr>
        in send_parts eng now (of_nat sizeof_MSKill)
             [(ser_MSKill packet, of_nat sizeof_MSKill)] s)"

subsection \<open>Changes of a character\<close>

definition sendChangeRace ::
  "engine \<Rightarrow> time \<Rightarrow> u32 \<Rightarrow> u8 \<Rightarrow> mobi \<Rightarrow> (bool \<times> mobi) option" where
  "sendChangeRace eng now pid race s =
     (if pid = 0 then Some (False, s)
      else let s_packet = MSChangeRace_new
            \<lparr>MSChangeRace_pid := pid,
             MSChangeRace_race := race\<rparr>;
          packet = MSCharacter_new
            \<lparr>MSCharacter_header := HEADER_MS_CHARACTER,
             MSCharacter_sub_header := ESubCharacter_code CHANGE_RACE,
             MSCharacter_size := of_nat sizeof_MSCharacter + of_nat sizeof_MSChangeRace\<rparr>
        in send_parts eng now (MSCharacter_size packet)
             [(ser_MSCharacter packet, of_nat sizeof_MSCharacter),
              (ser_MSChangeRace s_packet, of_nat sizeof_MSChangeRace)] s)"

definition sendChangeSex ::
  "engine \<Rightarrow> time \<Rightarrow> u32 \<Rightarrow> u8 \<Rightarrow> mobi \<Rightarrow> (bool \<times> mobi) option" where
  "sendChangeSex eng now pid sex s =
     (if pid = 0 then Some (False, s)
      else let s_packet = MSChangeSex_new
            \<lparr>MSChangeSex_pid := pid,
             MSChangeSex_sex := sex\<rparr>;
          packet = MSCharacter_new
            \<lparr>MSCharacter_header := HEADER_MS_CHARACTER,
             MSCharacter_sub_header := ESubCharacter_code CHANGE_SEX,
             MSCharacter_size := of_nat sizeof_MSCharacter + of_nat sizeof_MSChangeSex\<rparr>
        in send_parts eng now (MSCharacter_size packet)
             [(ser_MSCharacter packet, of_nat sizeof_MSCharacter),
              (ser_MSChangeSex s_packet, of_nat sizeof_MSChangeSex)] s)"

definition sendModifyResponse ::
  "engine \<Rightarrow> time \<Rightarrow> u32 \<Rightarrow> EResponseModify \<Rightarrow> mobi \<Rightarrow> (bool \<times> mobi) option" where
  "sendModifyResponse eng now pid code s = Some (True, s)"

definition sendChLoadStatus ::
  "engine \<Rightarrow> time \<Rightarrow> u32 \<Rightarrow> EMobiLoad \<Rightarrow> mobi \<Rightarrow> (bool \<times> mobi) option" where
  "sendChLoadStatus eng now pid code s =
     (if pid = 0 then Some (False, s)
      else let s_packet = MSLoadCharacter_new
            \<lparr>MSLoadCharacter_pid := pid,
             MSLoadCharacter_response_code := EMobiLoad_code code\<rparr>;
          packet = MSCharacter_new
            \<lparr>MSCharacter_header := HEADER_MS_CHARACTER,
             MSCharacter_sub_header := ESubCharacter_code LOAD_CH_STATE,
             MSCharacter_size := of_nat sizeof_MSCharacter + of_nat sizeof_MSLoadCharacter\<rparr>
        in send_parts eng now (MSCharacter_size packet)
             [(ser_MSCharacter packet, of_nat sizeof_MSCharacter),
              (ser_MSLoadCharacter s_packet, of_nat sizeof_MSLoadCharacter)] s)"

definition sendChangeEmpire ::
  "engine \<Rightarrow> time \<Rightarrow> u32 \<Rightarrow> u8 \<Rightarrow> mobi \<Rightarrow> (bool \<times> mobi) option" where
  "sendChangeEmpire eng now pid empire s =
     (if pid = 0 then Some (False, s)
      else let s_packet = MSChangeEmpire_new
            \<lparr>MSChangeEmpire_pid := pid,
             MSChangeEmpire_empire := empire\<rparr>;
          packet = MSCharacter_new
            \<lparr>MSCharacter_header := HEADER_MS_CHARACTER,
             MSCharacter_sub_header := ESubCharacter_code CHANGE_EMPIRE,
             MSCharacter_size := of_nat sizeof_MSCharacter + of_nat sizeof_MSChangeEmpire\<rparr>
        in send_parts eng now (MSCharacter_size packet)
             [(ser_MSCharacter packet, of_nat sizeof_MSCharacter),
              (ser_MSChangeEmpire s_packet, of_nat sizeof_MSChangeEmpire)] s)"

definition sendChangeName ::
  "engine \<Rightarrow> time \<Rightarrow> u32 \<Rightarrow> bytes \<Rightarrow> mobi \<Rightarrow> (bool \<times> mobi) option" where
  "sendChangeName eng now pid name s =
     (if pid = 0 \<or> name = [] then Some (False, s)
      else let s_packet = MSChangeName_new
            \<lparr>MSChangeName_pid := pid,
             MSChangeName_name := str_copy (MSChangeName_name MSChangeName_new) 25 name\<rparr>;
          packet = MSCharacter_new
            \<lparr>MSCharacter_header := HEADER_MS_CHARACTER,
             MSCharacter_sub_header := ESubCharacter_code CHANGE_NAME,
             MSCharacter_size := of_nat sizeof_MSCharacter + of_nat sizeof_MSChangeName\<rparr>
        in send_parts eng now (MSCharacter_size packet)
             [(ser_MSCharacter packet, of_nat sizeof_MSCharacter),
              (ser_MSChangeName s_packet, of_nat sizeof_MSChangeName)] s)"

definition sendMobileNotification ::
  "engine \<Rightarrow> time \<Rightarrow> u32 \<Rightarrow> bytes \<Rightarrow> ENotificationChannels \<Rightarrow> mobi \<Rightarrow> (bool \<times> mobi) option" where
  "sendMobileNotification eng now pid message channel s =
     (if pid = 0 \<or> message = [] then Some (False, s)
      else let packet = MSMobileNotification_new
            \<lparr>MSMobileNotification_header := HEADER_MS_MOBILE_NOTIFY,
             MSMobileNotification_size := of_nat (length message) + 1,
             MSMobileNotification_pid := pid,
             MSMobileNotification_type := ENotificationChannels_code channel\<rparr>
        in send_parts eng now (of_nat sizeof_MSMobileNotification + MSMobileNotification_size packet)
             [(ser_MSMobileNotification packet, of_nat sizeof_MSMobileNotification),
              (message @ [0], MSMobileNotification_size packet)] s)"

subsection \<open>Offline shops\<close>

text \<open>
  \<open>owner_pid\<close> and \<open>lock_index\<close> are \<open>info.ownerid\<close> and \<open>info.lock_index\<close>.
\<close>

definition sendShopCreate ::
  "engine \<Rightarrow> time \<Rightarrow> u32 \<Rightarrow> u32 \<Rightarrow> mobi \<Rightarrow> (bool \<times> mobi) option" where
  "sendShopCreate eng now owner_pid lock_index s =
     (if \<not> IsCoreP2PManager s then Some (True, s)
      else let pack_sec = TShopCreate_new
            \<lparr>TShopCreate_slot_count := lock_index\<rparr>;
          pack = MSOffshop_new
            \<lparr>MSOffshop_size := of_nat sizeof_MSOffshop + of_nat sizeof_TShopCreate,
             MSOffshop_sub_id := ESubOffshop_code SHOP_OPEN,
             MSOffshop_owner_pid := owner_pid\<rparr>
        in send_parts eng now (MSOffshop_size pack)
             [(ser_MSOffshop pack, of_nat sizeof_MSOffshop),
              (ser_TShopCreate pack_sec, of_nat sizeof_TShopCreate)] s)"

definition sendShopClose ::
  "engine \<Rightarrow> time \<Rightarrow> u32 \<Rightarrow> mobi \<Rightarrow> (bool \<times> mobi) option" where
  "sendShopClose eng now owner_pid s =
     (if \<not> IsCoreP2PManager s then Some (True, s)
      else let pack = MSOffshop_new
            \<lparr>MSOffshop_size := of_nat sizeof_MSOffshop,
             MSOffshop_sub_id := ESubOffshop_code SHOP_CLOSE,
             MSOffshop_owner_pid := owner_pid\<rparr>
        in send_parts eng now (MSOffshop_size pack)
             [(ser_MSOffshop pack, of_nat sizeof_MSOffshop)] s)"

definition sendShopUpdateSlotCount ::
  "engine \<Rightarrow> time \<Rightarrow> u32 \<Rightarrow> u32 \<Rightarrow> mobi \<Rightarrow> (bool \<times> mobi) option" where
  "sendShopUpdateSlotCount eng now owner_pid uptodate s =
     (if \<not> IsCoreP2PManager s then Some (True, s)
      else let pack = MSOffshop_new
            \<lparr>MSOffshop_size := of_nat sizeof_MSOffshop + 4,
             MSOffshop_sub_id := ESubOffshop_code SHOP_UPDATE_SLOT_COUNT,
             MSOffshop_owner_pid := owner_pid\<rparr>
        in send_parts eng now (MSOffshop_size pack)
             [(ser_MSOffshop pack, of_nat sizeof_MSOffshop),
              (le32 uptodate, 4)] s)"

text \<open>
  An item as the shop stores it: \<open>it_alSockets\<close> is the memory of its array of sockets. The
  copy is of \<open>MAX_SOCKETS_COUNT\<close> bytes, which fill half of the packet's sockets.
\<close>

record TShopItem =
  it_id :: u32
  it_vnum :: u32
  it_count :: u32
  it_pos :: u32
  it_yang :: int
  it_cheque :: int
  it_alSockets :: bytes
  it_aAttr :: "TAttr list"

fun words_of :: "bytes \<Rightarrow> u16 list" where
  "words_of (a # b # r) = of_le16 a b # words_of r"
| "words_of r = []"

definition sendShopItemAdd ::
  "engine \<Rightarrow> time \<Rightarrow> u32 \<Rightarrow> TShopItem \<Rightarrow> mobi \<Rightarrow> (bool \<times> mobi) option" where
  "sendShopItemAdd eng now owner_pid item s =
     (if \<not> IsCoreP2PManager s then Some (True, s)
      else if length (it_aAttr item) < MAX_ATTR_COUNT \<or> length (it_alSockets item) < MAX_SOCKETS_COUNT
      then None
      else let copied = words_of (take MAX_SOCKETS_COUNT (it_alSockets item));
          pack_sec = TItemAdd_new
            \<lparr>TItemAdd_attrs := take MAX_ATTR_COUNT (it_aAttr item),
             TItemAdd_sockets := copied @ drop (length copied) (TItemAdd_sockets TItemAdd_new),
             TItemAdd_vid := it_id item,
             TItemAdd_count := it_count item,
             TItemAdd_pos := it_pos item,
             TItemAdd_price := TPriceInfo (of_int (it_yang item)) (of_int (it_cheque item)),
             TItemAdd_vnum := it_vnum item\<rparr>;
          pack = MSOffshop_new
            \<lparr>MSOffshop_size := of_nat sizeof_MSOffshop + of_nat sizeof_TItemAdd,
             MSOffshop_sub_id := ESubOffshop_code ITEM_ADD,
             MSOffshop_owner_pid := owner_pid\<rparr>
        in send_parts eng now (MSOffshop_size pack)
             [(ser_MSOffshop pack, of_nat sizeof_MSOffshop),
              (ser_TItemAdd pack_sec, of_nat sizeof_TItemAdd)] s)"

definition sendShopItemRemove ::
  "engine \<Rightarrow> time \<Rightarrow> u32 \<Rightarrow> u32 \<Rightarrow> mobi \<Rightarrow> (bool \<times> mobi) option" where
  "sendShopItemRemove eng now owner_pid vid_item s =
     (if \<not> IsCoreP2PManager s then Some (True, s)
      else let pack_sec = TItemRemove_new
            \<lparr>TItemRemove_vid := vid_item\<rparr>;
          pack = MSOffshop_new
            \<lparr>MSOffshop_size := of_nat sizeof_MSOffshop + of_nat sizeof_TItemRemove,
             MSOffshop_sub_id := ESubOffshop_code ITEM_REMOVE,
             MSOffshop_owner_pid := owner_pid\<rparr>
        in send_parts eng now (MSOffshop_size pack)
             [(ser_MSOffshop pack, of_nat sizeof_MSOffshop),
              (ser_TItemRemove pack_sec, of_nat sizeof_TItemRemove)] s)"

definition sendShopItemUpdatePrice ::
  "engine \<Rightarrow> time \<Rightarrow> u32 \<Rightarrow> u32 \<Rightarrow> int \<Rightarrow> int \<Rightarrow> mobi \<Rightarrow> (bool \<times> mobi) option" where
  "sendShopItemUpdatePrice eng now owner_pid vid_item yang_val cheque_val s =
     (if \<not> IsCoreP2PManager s then Some (True, s)
      else let pack_sec = TItemUpdatePrice_new
            \<lparr>TItemUpdatePrice_vid := vid_item,
             TItemUpdatePrice_price := TPriceInfo (of_int yang_val) (of_int cheque_val)\<rparr>;
          pack = MSOffshop_new
            \<lparr>MSOffshop_size := of_nat sizeof_MSOffshop + of_nat sizeof_TItemUpdatePrice,
             MSOffshop_sub_id := ESubOffshop_code ITEM_UPDATE_PRICE,
             MSOffshop_owner_pid := owner_pid\<rparr>
        in send_parts eng now (MSOffshop_size pack)
             [(ser_MSOffshop pack, of_nat sizeof_MSOffshop),
              (ser_TItemUpdatePrice pack_sec, of_nat sizeof_TItemUpdatePrice)] s)"

definition sendShopItemUpdatePos ::
  "engine \<Rightarrow> time \<Rightarrow> u32 \<Rightarrow> u32 \<Rightarrow> u32 \<Rightarrow> mobi \<Rightarrow> (bool \<times> mobi) option" where
  "sendShopItemUpdatePos eng now owner_pid vid_item uptodate s =
     (if \<not> IsCoreP2PManager s then Some (True, s)
      else let pack_sec = TItemUpdatePos_new
            \<lparr>TItemUpdatePos_vid := vid_item,
             TItemUpdatePos_pos_uptodate := uptodate\<rparr>;
          pack = MSOffshop_new
            \<lparr>MSOffshop_size := of_nat sizeof_MSOffshop + of_nat sizeof_TItemUpdatePos,
             MSOffshop_sub_id := ESubOffshop_code ITEM_UPDATE_POS,
             MSOffshop_owner_pid := owner_pid\<rparr>
        in send_parts eng now (MSOffshop_size pack)
             [(ser_MSOffshop pack, of_nat sizeof_MSOffshop),
              (ser_TItemUpdatePos pack_sec, of_nat sizeof_TItemUpdatePos)] s)"

definition sendShopItemBuy ::
  "engine \<Rightarrow> time \<Rightarrow> u32 \<Rightarrow> u32 \<Rightarrow> u32 \<Rightarrow> mobi \<Rightarrow> (bool \<times> mobi) option" where
  "sendShopItemBuy eng now owner_pid buyer_id vid_item s =
     (if \<not> IsCoreP2PManager s then Some (True, s)
      else let pack_sec = TItemBuy_new
            \<lparr>TItemBuy_buyer_pid := buyer_id,
             TItemBuy_vid := vid_item\<rparr>;
          pack = MSOffshop_new
            \<lparr>MSOffshop_size := of_nat sizeof_MSOffshop + of_nat sizeof_TItemBuy,
             MSOffshop_sub_id := ESubOffshop_code ITEM_BUY,
             MSOffshop_owner_pid := owner_pid\<rparr>
        in send_parts eng now (MSOffshop_size pack)
             [(ser_MSOffshop pack, of_nat sizeof_MSOffshop),
              (ser_TItemBuy pack_sec, of_nat sizeof_TItemBuy)] s)"

definition sendShopDurationRestore ::
  "engine \<Rightarrow> time \<Rightarrow> u32 \<Rightarrow> mobi \<Rightarrow> (bool \<times> mobi) option" where
  "sendShopDurationRestore eng now owner_pid s =
     (if \<not> IsCoreP2PManager s then Some (True, s)
      else let pack = MSOffshop_new
            \<lparr>MSOffshop_size := of_nat sizeof_MSOffshop,
             MSOffshop_sub_id := ESubOffshop_code DURATION_RESTORE,
             MSOffshop_owner_pid := owner_pid\<rparr>
        in send_parts eng now (MSOffshop_size pack)
             [(ser_MSOffshop pack, of_nat sizeof_MSOffshop)] s)"

definition sendShopOpResponse ::
  "engine \<Rightarrow> time \<Rightarrow> u32 \<Rightarrow> EResponseShopOperation \<Rightarrow> mobi \<Rightarrow> (bool \<times> mobi) option" where
  "sendShopOpResponse eng now to_pid response s =
     (let packet = MSResponseOperation_new
            \<lparr>MSResponseOperation_to_pid := to_pid,
             MSResponseOperation_response := EResponseShopOperation_code response\<rparr>
        in send_parts eng now (of_nat sizeof_MSResponseOperation)
             [(ser_MSResponseOperation packet, of_nat sizeof_MSResponseOperation)] s)"

text \<open>
  The overload for a character: \<open>ch\<close> is the character's player id and its connection, as
  \<open>GetPlayerID\<close> and \<open>GetDesc\<close> return them.
\<close>

definition sendShopOpResponse_ch ::
  "engine \<Rightarrow> time \<Rightarrow> (u32 \<times> DESC option) option \<Rightarrow> EResponseShopOperation \<Rightarrow> mobi \<Rightarrow>
   (bool \<times> mobi) option" where
  "sendShopOpResponse_ch eng now ch response s =
     (case ch of
        None \<Rightarrow> Some (False, s)
      | Some (pid, None) \<Rightarrow> Some (False, s)
      | Some (pid, Some desc) \<Rightarrow>
          if \<not> d_is_mobile_request desc then Some (False, s)
          else sendShopOpResponse eng now pid response s)"

definition SendLoginResponse ::
  "engine \<Rightarrow> time \<Rightarrow> SMValidateMobileLogin \<Rightarrow> bool \<Rightarrow> mobi \<Rightarrow> (bool \<times> mobi) option" where
  "SendLoginResponse eng now pkt is_valid s =
     (let packet = MSValidateMobileLogin_new
            \<lparr>MSValidateMobileLogin_is_valid := is_valid,
             MSValidateMobileLogin_acc_id := SMValidateMobileLogin_acc_id pkt,
             MSValidateMobileLogin_request_id := SMValidateMobileLogin_request_id pkt\<rparr>
        in send_parts eng now (of_nat sizeof_MSValidateMobileLogin)
             [(ser_MSValidateMobileLogin packet, of_nat sizeof_MSValidateMobileLogin)] s)"

subsection \<open>Every request\<close>

text \<open>The public sending interface as one type, grouped as above.\<close>

datatype player_call =
  C_sendLogin u32 u32 bool
| C_sendLogout u32
| C_sendMessage u32 u32 bytes u16
| C_sendShout u32 bytes u16
| C_sendLevelPacket u32 u32
| C_sendUserCheck bytes bytes u32 u16
| C_sendGuildJoin u32 u32
| C_sendGuildLeave u32
| C_sendMessengerAdd bytes bytes
| C_sendMessengerRemove bytes bytes
| C_sendOnlineCount u32 u32 u32

datatype war_call =
  C_sendGuildWarStart u32 u32 u32
| C_sendGuildWarEnd u32 u32
| C_sendGuildWarPlayerKill u32 u32 u32 u32
| C_sendGuildWarPlayerJoin u32 u32
| C_sendGuildWarPlayerLeave u32 u32
| C_sendGuildWarPlayerPositionUpdate u32 u32 u32 u32
| C_sendGuildWarMapNotification u32 u32 bytes

datatype update_call =
  C_sendCharacterCreate u32
| C_sendCharacterDelete u32
| C_sendGuildCreate u32
| C_sendGuildDelete u32
| C_sendLadderPoint u32 u32
| C_sendGuildStats u32 u32 u32 u32
| C_sendKill u32 u32

datatype character_call =
  C_sendChangeRace u32 u8
| C_sendChangeSex u32 u8
| C_sendModifyResponse u32 EResponseModify
| C_sendChLoadStatus u32 EMobiLoad
| C_sendChangeEmpire u32 u8
| C_sendChangeName u32 bytes
| C_sendMobileNotification u32 bytes ENotificationChannels

datatype shop_call =
  C_sendShopCreate u32 u32
| C_sendShopClose u32
| C_sendShopUpdateSlotCount u32 u32
| C_sendShopItemAdd u32 TShopItem
| C_sendShopItemRemove u32 u32
| C_sendShopItemUpdatePrice u32 u32 int int
| C_sendShopItemUpdatePos u32 u32 u32
| C_sendShopItemBuy u32 u32 u32
| C_sendShopDurationRestore u32
| C_sendShopOpResponse u32 EResponseShopOperation
| C_SendLoginResponse SMValidateMobileLogin bool

datatype api_call =
  Player player_call
| War war_call
| Update update_call
| Character character_call
| Shop shop_call

primrec player_call_run :: "engine \<Rightarrow> time \<Rightarrow> player_call \<Rightarrow> mobi \<Rightarrow> (bool \<times> mobi) option" where
  "player_call_run eng now (C_sendLogin a b c) s = sendLogin eng now a b c s"
| "player_call_run eng now (C_sendLogout a) s = sendLogout eng now a s"
| "player_call_run eng now (C_sendMessage a b c d) s = sendMessage eng now a b c d s"
| "player_call_run eng now (C_sendShout a b c) s = sendShout eng now a b c s"
| "player_call_run eng now (C_sendLevelPacket a b) s = sendLevelPacket eng now a b s"
| "player_call_run eng now (C_sendUserCheck a b c d) s = sendUserCheck eng now a b c d s"
| "player_call_run eng now (C_sendGuildJoin a b) s = sendGuildJoin eng now a b s"
| "player_call_run eng now (C_sendGuildLeave a) s = sendGuildLeave eng now a s"
| "player_call_run eng now (C_sendMessengerAdd a b) s = sendMessengerAdd eng now a b s"
| "player_call_run eng now (C_sendMessengerRemove a b) s = sendMessengerRemove eng now a b s"
| "player_call_run eng now (C_sendOnlineCount a b c) s = sendOnlineCount eng now a b c s"

primrec war_call_run :: "engine \<Rightarrow> time \<Rightarrow> war_call \<Rightarrow> mobi \<Rightarrow> (bool \<times> mobi) option" where
  "war_call_run eng now (C_sendGuildWarStart a b c) s = sendGuildWarStart eng now a b c s"
| "war_call_run eng now (C_sendGuildWarEnd a b) s = sendGuildWarEnd eng now a b s"
| "war_call_run eng now (C_sendGuildWarPlayerKill a b c d) s = sendGuildWarPlayerKill eng now a b c d s"
| "war_call_run eng now (C_sendGuildWarPlayerJoin a b) s = sendGuildWarPlayerJoin eng now a b s"
| "war_call_run eng now (C_sendGuildWarPlayerLeave a b) s = sendGuildWarPlayerLeave eng now a b s"
| "war_call_run eng now (C_sendGuildWarPlayerPositionUpdate a b c d) s = sendGuildWarPlayerPositionUpdate eng now a b c d s"
| "war_call_run eng now (C_sendGuildWarMapNotification a b c) s = sendGuildWarMapNotification eng now a b c s"

primrec update_call_run :: "engine \<Rightarrow> time \<Rightarrow> update_call \<Rightarrow> mobi \<Rightarrow> (bool \<times> mobi) option" where
  "update_call_run eng now (C_sendCharacterCreate a) s = sendCharacterCreate eng now a s"
| "update_call_run eng now (C_sendCharacterDelete a) s = sendCharacterDelete eng now a s"
| "update_call_run eng now (C_sendGuildCreate a) s = sendGuildCreate eng now a s"
| "update_call_run eng now (C_sendGuildDelete a) s = sendGuildDelete eng now a s"
| "update_call_run eng now (C_sendLadderPoint a b) s = sendLadderPoint eng now a b s"
| "update_call_run eng now (C_sendGuildStats a b c d) s = sendGuildStats eng now a b c d s"
| "update_call_run eng now (C_sendKill a b) s = sendKill eng now a b s"

primrec character_call_run :: "engine \<Rightarrow> time \<Rightarrow> character_call \<Rightarrow> mobi \<Rightarrow> (bool \<times> mobi) option" where
  "character_call_run eng now (C_sendChangeRace a b) s = sendChangeRace eng now a b s"
| "character_call_run eng now (C_sendChangeSex a b) s = sendChangeSex eng now a b s"
| "character_call_run eng now (C_sendModifyResponse a b) s = sendModifyResponse eng now a b s"
| "character_call_run eng now (C_sendChLoadStatus a b) s = sendChLoadStatus eng now a b s"
| "character_call_run eng now (C_sendChangeEmpire a b) s = sendChangeEmpire eng now a b s"
| "character_call_run eng now (C_sendChangeName a b) s = sendChangeName eng now a b s"
| "character_call_run eng now (C_sendMobileNotification a b c) s = sendMobileNotification eng now a b c s"

primrec shop_call_run :: "engine \<Rightarrow> time \<Rightarrow> shop_call \<Rightarrow> mobi \<Rightarrow> (bool \<times> mobi) option" where
  "shop_call_run eng now (C_sendShopCreate a b) s = sendShopCreate eng now a b s"
| "shop_call_run eng now (C_sendShopClose a) s = sendShopClose eng now a s"
| "shop_call_run eng now (C_sendShopUpdateSlotCount a b) s = sendShopUpdateSlotCount eng now a b s"
| "shop_call_run eng now (C_sendShopItemAdd a b) s = sendShopItemAdd eng now a b s"
| "shop_call_run eng now (C_sendShopItemRemove a b) s = sendShopItemRemove eng now a b s"
| "shop_call_run eng now (C_sendShopItemUpdatePrice a b c d) s = sendShopItemUpdatePrice eng now a b c d s"
| "shop_call_run eng now (C_sendShopItemUpdatePos a b c) s = sendShopItemUpdatePos eng now a b c s"
| "shop_call_run eng now (C_sendShopItemBuy a b c) s = sendShopItemBuy eng now a b c s"
| "shop_call_run eng now (C_sendShopDurationRestore a) s = sendShopDurationRestore eng now a s"
| "shop_call_run eng now (C_sendShopOpResponse a b) s = sendShopOpResponse eng now a b s"
| "shop_call_run eng now (C_SendLoginResponse a b) s = SendLoginResponse eng now a b s"

primrec api :: "engine \<Rightarrow> time \<Rightarrow> api_call \<Rightarrow> mobi \<Rightarrow> (bool \<times> mobi) option" where
  "api eng now (Player c) s = player_call_run eng now c s"
| "api eng now (War c) s = war_call_run eng now c s"
| "api eng now (Update c) s = update_call_run eng now c s"
| "api eng now (Character c) s = character_call_run eng now c s"
| "api eng now (Shop c) s = shop_call_run eng now c s"

lemmas send_defs = sendLogin_def sendLogout_def sendMessage_def sendShout_def
  sendLevelPacket_def sendUserCheck_def sendGuildJoin_def sendGuildLeave_def
  sendMessengerAdd_def sendMessengerRemove_def sendOnlineCount_def sendGuildWarStart_def
  sendGuildWarEnd_def sendGuildWarPlayerKill_def sendGuildWarPlayerJoin_def sendGuildWarPlayerLeave_def
  sendGuildWarPlayerPositionUpdate_def sendGuildWarMapNotification_def sendCharacterCreate_def sendCharacterDelete_def
  sendGuildCreate_def sendGuildDelete_def sendLadderPoint_def sendGuildStats_def
  sendKill_def sendChangeRace_def sendChangeSex_def sendModifyResponse_def
  sendChLoadStatus_def sendChangeEmpire_def sendChangeName_def sendMobileNotification_def
  sendShopCreate_def sendShopClose_def sendShopUpdateSlotCount_def sendShopItemAdd_def
  sendShopItemRemove_def sendShopItemUpdatePrice_def sendShopItemUpdatePos_def sendShopItemBuy_def
  sendShopDurationRestore_def sendShopOpResponse_def SendLoginResponse_def


subsection \<open>Every request is refused or becomes one well-framed packet\<close>

text \<open>
  How long a packet with a given header is: fixed, a structure followed by as many bytes as its
  size field (at offset 1) says, or as many bytes in all as its size field says.
\<close>

datatype framing = FixedSize nat | PayloadSize nat | WholeSize nat

definition wire_framing :: "u8 \<Rightarrow> framing option" where
  "wire_framing h = map_of
     [(HEADER_MS_LOGIN, FixedSize sizeof_MSLogin), (HEADER_MS_LOGOUT, FixedSize sizeof_MSLogout),
      (HEADER_MS_MESSAGE, PayloadSize sizeof_MSMessage),
      (HEADER_MS_MESSAGE_NAME, PayloadSize sizeof_MSMessageName),
      (HEADER_MS_SHOUT, PayloadSize sizeof_MSShout), (HEADER_MS_ONLINE, FixedSize sizeof_MSOnline),
      (HEADER_MS_DATA_UPDATE, FixedSize sizeof_MSDataUpdate),
      (HEADER_MS_USER_CHECK, FixedSize sizeof_MSUserCheck),
      (HEADER_MS_GUILD_JOIN, FixedSize sizeof_MSGuildJoin),
      (HEADER_MS_GUILD_LEAVE, FixedSize sizeof_MSGuildLeave),
      (HEADER_MS_GUILD_POINT, FixedSize sizeof_MSLadderPoint),
      (HEADER_MS_GUILD_STATS, FixedSize sizeof_MSGuildStats),
      (HEADER_MS_MESSENGER_ADD, FixedSize sizeof_MSMessengerAdd),
      (HEADER_MS_MESSENGER_REMOVE, FixedSize sizeof_MSMessengerRemove),
      (HEADER_MS_LEVEL_UP, FixedSize sizeof_MSLevelUp),
      (HEADER_MS_GUILD_WAR, PayloadSize sizeof_MSGuildWar), (HEADER_MS_KILL, FixedSize sizeof_MSKill),
      (HEADER_MS_CHARACTER, WholeSize sizeof_MSCharacter),
      (HEADER_MS_MOBILE_NOTIFY, PayloadSize sizeof_MSMobileNotification),
      (HEADER_MS_VALIDATE_LOGIN, FixedSize sizeof_MSValidateMobileLogin),
      (HEADER_MS_OFFSHOP, WholeSize sizeof_MSOffshop),
      (HEADER_MS_SHOP_OP_RESPONSE, FixedSize sizeof_MSResponseOperation)] h"

definition well_framed :: "bytes \<Rightarrow> bool" where
  "well_framed d \<longleftrightarrow> d \<noteq> [] \<and>
     (case wire_framing (hd d) of
        None \<Rightarrow> False
      | Some (FixedSize n) \<Rightarrow> length d = n
      | Some (PayloadSize n) \<Rightarrow> map_option unat (get_u32 d 1) = Some (length d - n) \<and> n \<le> length d
      | Some (WholeSize n) \<Rightarrow> map_option unat (get_u32 d 1) = Some (length d) \<and> n \<le> length d)"

text \<open>The strings of a request fit the 32-bit sizes; an item has its arrays.\<close>

definition call_ok :: "api_call \<Rightarrow> bool" where
  "call_ok c =
     (case c of
        Player (C_sendMessage a b m c) \<Rightarrow> length m < 2 ^ 31
      | Player (C_sendShout a m b) \<Rightarrow> length m < 2 ^ 31
      | Player (C_sendUserCheck n m a b) \<Rightarrow> length m < 2 ^ 31
      | War (C_sendGuildWarMapNotification a b m) \<Rightarrow> length m < 2 ^ 31
      | Character (C_sendMobileNotification a m b) \<Rightarrow> length m < 2 ^ 31
      | Shop (C_sendShopItemAdd a i) \<Rightarrow>
          MAX_ATTR_COUNT \<le> length (it_aAttr i) \<and> MAX_SOCKETS_COUNT \<le> length (it_alSockets i)
      | _ \<Rightarrow> True)"

definition sends_ok :: "engine \<Rightarrow> time \<Rightarrow> mobi \<Rightarrow> (bool \<times> mobi) option \<Rightarrow> bool" where
  "sends_ok eng now s r \<longleftrightarrow>
     (\<exists>b. r = Some (b, s)) \<or> (\<exists>d. well_framed d \<and> r = Some (SendPacket eng now d True s))"

lemma sends_ok_ret [simp]: "sends_ok eng now s (Some (b, s))"
  by (simp add: sends_ok_def)

lemma sends_ok_if:
  "sends_ok eng now s (if P then x else y) \<longleftrightarrow>
   (if P then sends_ok eng now s x else sends_ok eng now s y)"
  by simp

lemma send_parts_full:
  "\<lbrakk>\<forall>p \<in> set ps. exact p; unat n = length (concat (map fst ps))\<rbrakk> \<Longrightarrow>
   send_parts eng now n ps s = Some (SendPacket eng now (concat (map fst ps)) True s)"
  by (simp add: send_parts_def pack_full)

lemma sends_parts:
  "\<lbrakk>\<forall>p \<in> set ps. exact p; unat n = length (concat (map fst ps)); well_framed (concat (map fst ps))\<rbrakk> \<Longrightarrow>
   sends_ok eng now s (send_parts eng now n ps s)"
  using send_parts_full by (auto simp: sends_ok_def)

lemma unat_of_len: "n < 2 ^ 32 \<Longrightarrow> unat (of_nat n :: u32) = n"
  by (rule unat_of_nat_u32)

lemma wire_framing_simps [simp]:
  "wire_framing 1 = Some (FixedSize sizeof_MSLogin)"
  "wire_framing 2 = Some (FixedSize sizeof_MSLogout)"
  "wire_framing 4 = Some (PayloadSize sizeof_MSMessage)"
  "wire_framing 5 = Some (PayloadSize sizeof_MSMessageName)"
  "wire_framing 6 = Some (PayloadSize sizeof_MSShout)"
  "wire_framing 9 = Some (FixedSize sizeof_MSOnline)"
  "wire_framing 10 = Some (FixedSize sizeof_MSDataUpdate)"
  "wire_framing 11 = Some (FixedSize sizeof_MSUserCheck)"
  "wire_framing 13 = Some (FixedSize sizeof_MSGuildJoin)"
  "wire_framing 14 = Some (FixedSize sizeof_MSGuildLeave)"
  "wire_framing 15 = Some (FixedSize sizeof_MSLadderPoint)"
  "wire_framing 16 = Some (FixedSize sizeof_MSGuildStats)"
  "wire_framing 17 = Some (FixedSize sizeof_MSMessengerAdd)"
  "wire_framing 18 = Some (FixedSize sizeof_MSMessengerRemove)"
  "wire_framing 19 = Some (FixedSize sizeof_MSLevelUp)"
  "wire_framing 24 = Some (PayloadSize sizeof_MSGuildWar)"
  "wire_framing 27 = Some (FixedSize sizeof_MSKill)"
  "wire_framing 29 = Some (WholeSize sizeof_MSCharacter)"
  "wire_framing 33 = Some (PayloadSize sizeof_MSMobileNotification)"
  "wire_framing 35 = Some (FixedSize sizeof_MSValidateMobileLogin)"
  "wire_framing 36 = Some (WholeSize sizeof_MSOffshop)"
  "wire_framing 39 = Some (FixedSize sizeof_MSResponseOperation)"
  by (simp_all add: wire_framing_def)


lemmas framed_simps = exact_def well_framed_def struct_defs sizeof_simps field_at

lemma player_fixed:
  "sends_ok eng now s (sendLogin eng now a b c s)"
  "sends_ok eng now s (sendLogout eng now a s)"
  "sends_ok eng now s (sendLevelPacket eng now a b s)"
  "sends_ok eng now s (sendGuildJoin eng now a b s)"
  "sends_ok eng now s (sendGuildLeave eng now a s)"
  "sends_ok eng now s (sendMessengerAdd eng now x y s)"
  "sends_ok eng now s (sendMessengerRemove eng now x y s)"
  "sends_ok eng now s (sendOnlineCount eng now a b d s)"
  by (auto simp: send_defs Let_def framed_simps length_str_copy intro!: sends_parts)

lemma war_fixed:
  "sends_ok eng now s (sendGuildWarStart eng now a b c s)"
  "sends_ok eng now s (sendGuildWarEnd eng now a b s)"
  "sends_ok eng now s (sendGuildWarPlayerKill eng now a b c d s)"
  "sends_ok eng now s (sendGuildWarPlayerJoin eng now a b s)"
  "sends_ok eng now s (sendGuildWarPlayerLeave eng now a b s)"
  "sends_ok eng now s (sendGuildWarPlayerPositionUpdate eng now a b c d s)"
  by (auto simp: send_defs Let_def framed_simps intro!: sends_parts)

lemma update_fixed:
  "sends_ok eng now s (update_call_run eng now c s)"
  by (cases c) (auto simp: send_defs Let_def framed_simps intro!: sends_parts)

lemma message_parts:
  assumes "length m < 2 ^ 31" and "length hdr \<le> 100"
    and "n = of_nat (length hdr + (length m + 1))" and "unat p = length hdr"
    and "q = of_nat (length m + 1)" and "well_framed (hdr @ m @ [0])"
  shows "sends_ok eng now s (send_parts eng now n [(hdr, p), (m @ [0], q)] s)"
proof -
  have u: "unat (of_nat (length hdr + (length m + 1)) :: u32) = length hdr + (length m + 1)"
    "unat (of_nat (length m + 1) :: u32) = length m + 1"
    using assms(1,2) by (intro unat_of_nat_u32; simp)+
  have "unat n = length hdr + (length m + 1)" "unat q = length m + 1"
    using u assms(3,5) by (simp_all only:)
  then show ?thesis by (intro sends_parts) (use assms(4,6) in \<open>simp_all add: exact_def\<close>)
qed

lemma unat_len_Suc: "length m < 2 ^ 31 \<Longrightarrow> unat (of_nat (length m) + 1 :: u32) = length m + 1"
proof -
  assume "length m < 2 ^ 31"
  then have "unat (of_nat (length m + 1) :: u32) = length m + 1"
    by (intro unat_of_nat_u32) simp
  then show ?thesis by (simp add: add.commute)
qed

lemma player_messages:
  assumes "length m < 2 ^ 31"
  shows "sends_ok eng now s (sendMessage eng now a b m cp s)"
    "sends_ok eng now s (sendShout eng now a m cp s)"
    "sends_ok eng now s (sendMobileNotification eng now a m ch s)"
  using assms unat_len_Suc [OF assms]
  by (auto simp: send_defs Let_def intro!: message_parts simp: framed_simps)

lemma war_notification:
  assumes "length m < 2 ^ 31"
  shows "sends_ok eng now s (sendGuildWarMapNotification eng now a b m s)"
proof -
  have "unat (of_nat (8 + length m + 1) :: u32) = 8 + length m + 1"
    using assms by (intro unat_of_nat_u32) simp
  moreover have "unat (of_nat (7 + (8 + length m + 1)) :: u32) = 7 + (8 + length m + 1)"
    using assms by (intro unat_of_nat_u32) simp
  ultimately have "unat (9 + of_nat (length m) :: u32) = 9 + length m"
    "unat (16 + of_nat (length m) :: u32) = 16 + length m" by (simp_all add: add.commute)
  then show ?thesis
    using unat_len_Suc [OF assms]
    by (auto simp: send_defs Let_def framed_simps intro!: sends_parts)
qed

lemma character_fixed:
  "\<forall>a m b. c \<noteq> C_sendMobileNotification a m b \<Longrightarrow>
   sends_ok eng now s (character_call_run eng now c s)"
  by (cases c) (auto simp: send_defs Let_def framed_simps length_str_copy intro!: sends_parts)

lemma shop_fixed:
  "\<forall>a b. c \<noteq> C_sendShopItemAdd a b \<Longrightarrow>
   sends_ok eng now s (shop_call_run eng now c s)"
  by (cases c) (auto simp: send_defs Let_def framed_simps intro!: sends_parts)

lemma sockets_exact:
  "sends_ok eng now s (if length (it_aAttr i) < MAX_ATTR_COUNT \<or> length (it_alSockets i) < MAX_SOCKETS_COUNT
      then Some (True, s) else sendShopItemAdd eng now a i s)"
  by (auto simp: send_defs Let_def framed_simps intro!: sends_parts)

lemma item_add:
  "MAX_ATTR_COUNT \<le> length (it_aAttr i) \<Longrightarrow> MAX_SOCKETS_COUNT \<le> length (it_alSockets i) \<Longrightarrow>
   sends_ok eng now s (sendShopItemAdd eng now a i s)"
  using sockets_exact [of eng now s i a] by simp

text \<open>A request is stored before its packet is sent when it waits for the bridge's answer.\<close>

lemma user_check:
  assumes "length m < 2 ^ 31" and n: "n \<noteq> []" "m \<noteq> []" "a \<noteq> 0"
  shows "\<exists>t. message_add now a n m cp s = Some t \<and>
     sends_ok eng now t (sendUserCheck eng now n m a cp s)"
proof -
  have "length m < 2 ^ 32 - 64" using assms(1) by simp
  from container_exists [OF this, of now a n "s_message_container_id s" cp] obtain t where
    t: "message_add now a n m cp s = Some t" by (auto simp: message_add_def)
  then show ?thesis
    using n by (auto simp: send_defs Let_def framed_simps length_str_copy intro!: sends_parts)
qed

text \<open>
  C8. Every request of the game is either answered without sending, with the state as it was, or
  becomes exactly one packet that is given to \<open>SendPacket\<close>: its header is one of the protocol's
  and its length is what the header, and for a dynamic packet its size field, says. Assembling it
  never leaves a buffer. (\<open>sendUserCheck\<close> stores its message first.)
\<close>

theorem api_packets:
  assumes "call_ok c"
  shows "\<exists>t. sends_ok eng now t (api eng now c s) \<and>
     (t = s \<or> (\<exists>n m a cp. c = Player (C_sendUserCheck n m a cp) \<and> message_add now a n m cp s = Some t))"
proof (cases c)
  case (Player p)
  show ?thesis
  proof (cases p)
    case (C_sendUserCheck n m a cp)
    show ?thesis
    proof (cases "n = [] \<or> m = [] \<or> a = 0")
      case True
      then show ?thesis using Player C_sendUserCheck
        by (auto simp: sendUserCheck_def intro!: exI [of _ s])
    next
      case False
      then show ?thesis
        using user_check [of m n a now cp s eng] assms Player C_sendUserCheck
        by (auto simp: call_ok_def)
    qed
  qed (use assms Player player_fixed player_messages in \<open>auto simp: call_ok_def\<close>)
next
  case (War p)
  then show ?thesis
    by (cases p) (use assms War war_fixed war_notification in \<open>auto simp: call_ok_def\<close>)
next
  case (Update p)
  then show ?thesis using update_fixed by auto
next
  case (Character p)
  show ?thesis
  proof (cases "\<exists>a m b. p = C_sendMobileNotification a m b")
    case True
    then show ?thesis using assms Character player_messages by (auto simp: call_ok_def)
  next
    case False
    then show ?thesis using Character character_fixed [of p eng now s] by auto
  qed
next
  case (Shop p)
  show ?thesis
  proof (cases "\<exists>a b. p = C_sendShopItemAdd a b")
    case True
    then show ?thesis using assms Shop item_add by (auto simp: call_ok_def)
  next
    case False
    then show ?thesis using Shop shop_fixed [of p eng now s] by auto
  qed
qed

text \<open>The example of a request that is sent.\<close>

lemma api_packets_witness:
  "\<exists>t d b. api demo_eng 0 (Player (C_sendShout 7 (bytes_of ''hi'') 1254)) demo_online = Some (b, t) \<and>
     ((b, t) = SendPacket demo_eng 0 d True demo_online \<or> t = demo_online)"
proof -
  have "call_ok (Player (C_sendShout 7 (bytes_of ''hi'') 1254))" by (simp add: call_ok_def)
  from api_packets [OF this, of demo_eng 0 demo_online] show ?thesis
    by (auto simp: sends_ok_def) (metis surj_pair)+
qed

subsection \<open>What becomes of a packet\<close>

definition keep :: "time \<Rightarrow> bytes \<Rightarrow> bool \<Rightarrow> mobi \<Rightarrow> mobi" where
  "keep now data encr s =
     push_unprocessed (TUnprocessedContainer_new now data (s_unprocessed_container_id s) encr)
       (s\<lparr>s_unprocessed_container_id := s_unprocessed_container_id s + 1\<rparr>)"

text \<open>
  \<open>SendPacket\<close> on every branch: it reports true exactly when the packet is in the write queue with
  a write posted for it; without a connection a packet that changes guilds or wars is kept for
  the next one and every other packet is dropped; a failed encryption keeps nothing.
\<close>

theorem SendPacket_cases:
  "SendPacket eng now data encr s =
     (if data = [] \<or> hd data = 0 then (False, s)
      else if \<not> IsConnected s then (False, if IsSyncPacket (hd data) then keep now data encr s else s)
      else (case wire_form (ssl eng) data encr s of
              (False, d, r) \<Rightarrow> (False, s\<lparr>rng := r\<rparr>)
            | (True, d, r) \<Rightarrow>
                (True, PostTask TWrite (s\<lparr>rng := r, write_queue := push_packet d (write_queue s)\<rparr>))))"
  by (auto simp: SendPacket_def Send_eq unprocessed_add_def keep_def
      split: prod.splits bool.splits if_splits)

lemma SendPacket_offline:
  "data \<noteq> [] \<Longrightarrow> \<not> IsConnected s \<Longrightarrow> IsSyncPacket (hd data) \<Longrightarrow>
   SendPacket eng now data encr s = (False, keep now data encr s)"
  using IsSyncPacket_nonzero [of "hd data"]
  by (auto simp: SendPacket_def Send_eq unprocessed_add_def keep_def)

lemma keep_inv:
  assumes "unp_inv s" and "data \<noteq> []" and "IsSyncPacket (hd data)"
  shows "unp_inv (keep now data encr s)"
    and "TUnprocessedContainer_new now data (s_unprocessed_container_id s) encr
           \<in> set (unp_packets (keep now data encr s))"
proof -
  have "snd (unprocessed_add now data encr s) = keep now data encr s"
    using assms(2,3) by (simp add: unprocessed_add_def keep_def)
  then show "unp_inv (keep now data encr s)" using unp_inv_add [OF assms(1)] by metis
  show "TUnprocessedContainer_new now data (s_unprocessed_container_id s) encr
           \<in> set (unp_packets (keep now data encr s))"
    unfolding keep_def by (rule unpq.newest_kept)
qed

lemma list_all2_right: "list_all2 P xs ys \<Longrightarrow> y \<in> set ys \<Longrightarrow> \<exists>x \<in> set xs. P x y"
  by (induction xs ys rule: list_all2_induct) auto

definition guild_leave_packet :: "u32 \<Rightarrow> bytes" where
  "guild_leave_packet pid = ser_MSGuildLeave (MSGuildLeave_new
     \<lparr>MSGuildLeave_header := HEADER_MS_GUILD_LEAVE, MSGuildLeave_pid := pid\<rparr>)"

lemma guild_leave_offline:
  assumes "\<not> IsConnected s" and "IsCoreP2PManager s" and "pid \<noteq> 0"
  shows "sendGuildLeave eng now pid s = Some (False, keep now (guild_leave_packet pid) True s)"
proof -
  have "sendGuildLeave eng now pid s = Some (SendPacket eng now (guild_leave_packet pid) True s)"
    using assms(2,3) send_parts_full [of "[(guild_leave_packet pid, 5)]" 5 eng now s]
    by (simp add: sendGuildLeave_def guild_leave_packet_def exact_def sizeof_simps Let_def)
  then show ?thesis
    using assms(1) by (subst (asm) SendPacket_offline)
      (simp_all add: guild_leave_packet_def struct_defs IsSyncPacket_def)
qed

text \<open>
  C11. A player who leaves a guild while the bridge is away is not forgotten: the packet is kept, and
  once a connection is there again, whatever happened in between to the rest of the client,
  processing the waiting packets queues an entry the bridge reads as exactly that packet.
\<close>

theorem guild_leave_survives:
  assumes ssl: "openssl_ok (ssl eng)" "never_fails (ssl eng)"
    and off: "\<not> IsConnected s" "IsCoreP2PManager s" "pid \<noteq> 0" "unp_inv s"
    and sent: "sendGuildLeave eng now pid s = Some (b, s')"
    and on: "net_inv t" "IsConnected t" "unp_packets t = unp_packets s'"
    and len: "\<forall>u \<in> set (unp_packets t). length (uc_data u) < 2 ^ 31 - 32"
    and room: "length (write_queue t) + length (unp_packets t) \<le> MAX_WRITE_QUEUE_SIZE"
  shows "\<exists>d \<in> set (write_queue (unprocessed_process eng later t)).
           carries (ssl eng) (crypto t) True d (guild_leave_packet pid)"
proof -
  let ?p = "guild_leave_packet pid"
  let ?c = "TUnprocessedContainer_new now ?p (s_unprocessed_container_id s) True"
  have s': "s' = keep now ?p True s" using sent guild_leave_offline [OF off(1-3)] by simp
  have p: "?p \<noteq> []" "IsSyncPacket (hd ?p)"
    by (simp_all add: guild_leave_packet_def struct_defs IsSyncPacket_def)
  have "unp_inv t" and c: "?c \<in> set (unp_packets t)"
    using keep_inv [OF off(4) p] on(3) s' by (simp_all add: unp_inv_def)
  from replay [OF ssl on(1,2) this(1) len room, of later] obtain ds where
    ds: "write_queue (unprocessed_process eng later t) = write_queue t @ ds"
    "list_all2 (\<lambda>d u. carries (ssl eng) (crypto t) (uc_need_encrypt u) d (uc_data u))
             ds (filter (\<lambda>u. \<not> uc_bUsed u) (unp_packets t))"
    by (auto simp: Let_def)
  have "?c \<in> set (filter (\<lambda>u. \<not> uc_bUsed u) (unp_packets t))"
    using c by (simp add: TUnprocessedContainer_new_def)
  then obtain d where "d \<in> set ds" "carries (ssl eng) (crypto t) (uc_need_encrypt ?c) d (uc_data ?c)"
    using list_all2_right [OF ds(2)] by blast
  then show ?thesis using ds(1) by (auto simp: TUnprocessedContainer_new_def)
qed

lemma guild_leave_survives_witness:
  "let s = mobi_init\<lparr>authority := CFlagWrapper_new 8\<rparr>;
       s' = snd (the (sendGuildLeave demo_eng 0 7 s));
       t = s'\<lparr>connect_state := CONNECTED\<rparr>
   in \<exists>d \<in> set (write_queue (unprocessed_process demo_eng 5 t)).
        carries demo_ssl None True d (guild_leave_packet 7)"
proof -
  let ?s = "mobi_init\<lparr>authority := CFlagWrapper_new 8\<rparr> :: mobi"
  let ?s' = "keep 0 (guild_leave_packet 7) True ?s"
  let ?t = "?s'\<lparr>connect_state := CONNECTED\<rparr>"
  have ssl: "openssl_ok (ssl demo_eng)" "never_fails (ssl demo_eng)"
    by (simp_all add: demo_ssl_ok never_fails_demo)
  have off: "\<not> IsConnected ?s" "IsCoreP2PManager ?s" "(7 :: u32) \<noteq> 0" "unp_inv ?s"
    by (simp_all add: IsConnected_def IsCoreP2PManager_def HasAuthority_def HasFlag_def
        CFlagWrapper_new_def P2P_MANAGER_def unp_inv_def)
  have k: "unp_packets ?s' = [TUnprocessedContainer_new 0 (guild_leave_packet 7) 0 True]"
    "write_queue ?s' = []" "tasks ?s' = []" "pending_tasks_count ?s' = 0" "crypto ?s' = None"
    "is_encrypted ?s' = False"
    by (simp_all add: keep_def push_unprocessed_def push_drop_oldest_def MAX_UNPROCESSED_COUNT_def)
  have sent: "sendGuildLeave demo_eng 0 7 ?s = Some (False, ?s')"
    by (rule guild_leave_offline [OF off(1-3)])
  have on: "net_inv ?t" "IsConnected ?t" "unp_packets ?t = unp_packets ?s'"
    using k by (simp_all add: net_inv_def IsConnected_def)
  have len: "\<forall>u \<in> set (unp_packets ?t). length (uc_data u) < 2 ^ 31 - 32"
    "length (write_queue ?t) + length (unp_packets ?t) \<le> MAX_WRITE_QUEUE_SIZE"
    using k by (simp_all add: TUnprocessedContainer_new_def guild_leave_packet_def sizeof_simps
        MAX_WRITE_QUEUE_SIZE_def)
  show ?thesis
    using guild_leave_survives [OF ssl off sent on len, of 5] sent k(5) by (simp add: Let_def)
qed

end
