(* ===== verification/Sync.thy ===== *)
theory Sync
  imports Mobi_Client
begin

text \<open>
  Telling a bridge that has just started who is in the game (\<open>mobigame/mobi/sync.cpp\<close>). The
  clients, in the order their set is walked, and the wars are the engine's.
\<close>

subsection \<open>The operations\<close>

definition WritePids :: "engine \<Rightarrow> TMP_BUFFER \<Rightarrow> ((u32 \<times> u32) \<times> TMP_BUFFER) option" where
  "WritePids eng buf =
     (let pids = map fst (client_pids eng);
          pid_count = length pids;
          total_size = 4 * pid_count
      in map_option (Pair (of_nat total_size, of_nat pid_count))
           (buf_write (concat (map le32 pids)) (of_nat total_size) buf))"

definition WriteMobiCh :: "engine \<Rightarrow> TMP_BUFFER \<Rightarrow> ((u32 \<times> u32) \<times> TMP_BUFFER) option" where
  "WriteMobiCh eng buf =
     (let pids = map fst (filter snd (client_pids eng));
          pid_count = length pids;
          total_size = 4 * pid_count
      in map_option (Pair (of_nat total_size, of_nat pid_count))
           (buf_write (concat (map le32 pids)) (of_nat total_size) buf))"

fun write_fighters ::
  "u32 \<Rightarrow> (u32 \<times> TMemberStats) list \<Rightarrow> nat \<times> TMP_BUFFER \<Rightarrow> (nat \<times> TMP_BUFFER) option" where
  "write_fighters gid [] acc = Some acc"
| "write_fighters gid ((pid, stats) # ps) (total_size, buf) =
     (if dwGuildId stats \<noteq> gid then write_fighters gid ps (total_size, buf)
      else let fighter_pack = TWarFighter_new
            \<lparr>TWarFighter_pid := pid, TWarFighter_kills := dwKills stats,
             TWarFighter_deaths := dwDeaths stats\<rparr>
        in Option.bind (buf_write (ser_TWarFighter fighter_pack) (of_nat sizeof_TWarFighter) buf)
             (\<lambda>buf. write_fighters gid ps (total_size + sizeof_TWarFighter, buf)))"

definition war_elem :: "CWarMap \<Rightarrow> TWarElem" where
  "war_elem war = TWarElem_new
     \<lparr>TWarElem_gids0 := dwID (m_TeamData0 war), TWarElem_gids1 := dwID (m_TeamData1 war),
      TWarElem_scores0 := iScore (m_TeamData0 war), TWarElem_scores1 := iScore (m_TeamData1 war),
      TWarElem_team_size0 := iMemberCount (m_TeamData0 war) * of_nat sizeof_TWarFighter,
      TWarElem_team_size1 := iMemberCount (m_TeamData1 war) * of_nat sizeof_TWarFighter\<rparr>"

definition get_list :: "CWarMap \<Rightarrow> nat \<times> u32 \<times> TMP_BUFFER \<Rightarrow> (nat \<times> u32 \<times> TMP_BUFFER) option" where
  "get_list war = (\<lambda>(total_size, war_count, buf).
     if \<not> has_guilds war then Some (total_size, war_count, buf)
     else do {
       buf \<leftarrow> buf_write (ser_TWarElem (war_elem war)) (of_nat sizeof_TWarElem) buf;
       acc \<leftarrow> write_fighters (dwID (m_TeamData0 war)) (map_MemberStats war)
                (total_size + sizeof_TWarElem, buf);
       (total_size, buf) \<leftarrow> write_fighters (dwID (m_TeamData1 war)) (map_MemberStats war) acc;
       Some (total_size, war_count + 1, buf) })"

fun for_each_war ::
  "CWarMap list \<Rightarrow> nat \<times> u32 \<times> TMP_BUFFER \<Rightarrow> (nat \<times> u32 \<times> TMP_BUFFER) option" where
  "for_each_war [] acc = Some acc"
| "for_each_war (w # ws) acc = Option.bind (get_list w acc) (for_each_war ws)"

definition WriteWars :: "engine \<Rightarrow> TMP_BUFFER \<Rightarrow> ((u32 \<times> u32) \<times> TMP_BUFFER) option" where
  "WriteWars eng buf =
     map_option (\<lambda>(total_size, war_count, buf). ((of_nat total_size, war_count), buf))
       (for_each_war (war_maps eng) (0, 0, buf))"

definition GetSyncData :: "engine \<Rightarrow> bytes option" where
  "GetSyncData eng = do {
     (pid_data, buf_data) \<leftarrow> WritePids eng (TMP_BUFFER_new 0);
     (war_data, buf_data) \<leftarrow> WriteWars eng buf_data;
     (mobich_data, buf_data) \<leftarrow> WriteMobiCh eng buf_data;
     (if buf_get buf_data = [] then Some []
      else let packet = MSReSync_new
            \<lparr>MSReSync_header := HEADER_MS_SYNC,
             MSReSync_size := fst pid_data + fst war_data,
             MSReSync_count_sync := snd pid_data,
             MSReSync_count_war := snd war_data,
             MSReSync_count_mobi_ch := snd mobich_data\<rparr>
        in pack (MSReSync_size packet)
             [(ser_MSReSync packet, of_nat sizeof_MSReSync),
              (buf_get buf_data, MSReSync_size packet)]) }"

definition kMaxRetryCount :: u8 where "kMaxRetryCount = 3"

definition SendSync :: "engine \<Rightarrow> mobi \<Rightarrow> mobi option" where
  "SendSync eng s =
     (if sync_packet_sent s then Some s
      else if \<not> bridge_cache_ready s then Some s
      else if \<not> HasAuthority P2P_MANAGER s then Some s
      else do {
        data \<leftarrow> GetSyncData eng;
        (if data = [] then Some (s\<lparr>sync_packet_sent := True\<rparr>)
         else if sync_retry_count s \<ge> kMaxRetryCount
         then Some (s\<lparr>sync_retry_count := 0, sync_packet_sent := True\<rparr>)
         else let (res, data, s) = mSend eng data True s
           in if res \<noteq> SUCCESS then Some (s\<lparr>sync_retry_count := sync_retry_count s + 1\<rparr>)
              else Some (s\<lparr>sync_retry_count := 0, sync_packet_sent := True\<rparr>)) })"

subsection \<open>What the sync packet holds\<close>

definition pid_bytes :: "engine \<Rightarrow> bytes" where
  "pid_bytes eng = concat (map (\<lambda>c. le32 (fst c)) (client_pids eng))"

definition mobile_bytes :: "engine \<Rightarrow> bytes" where
  "mobile_bytes eng = concat (map (\<lambda>c. le32 (fst c)) (filter snd (client_pids eng)))"

definition fighter_bytes :: "u32 \<Rightarrow> (u32 \<times> TMemberStats) list \<Rightarrow> bytes" where
  "fighter_bytes gid ps = concat (map (\<lambda>(pid, st). le32 pid @ le32 (dwKills st) @ le32 (dwDeaths st))
     (filter (\<lambda>(pid, st). dwGuildId st = gid) ps))"

definition war_bytes :: "CWarMap \<Rightarrow> bytes" where
  "war_bytes w = (if \<not> has_guilds w then [] else ser_TWarElem (war_elem w)
     @ fighter_bytes (dwID (m_TeamData0 w)) (map_MemberStats w)
     @ fighter_bytes (dwID (m_TeamData1 w)) (map_MemberStats w))"

definition wars_bytes :: "engine \<Rightarrow> bytes" where
  "wars_bytes eng = concat (map war_bytes (war_maps eng))"

lemma length_le32s: "length (concat (map (\<lambda>c. le32 (f c)) cs)) = 4 * length cs"
  by (induction cs) simp_all

text \<open>A buffer that holds exactly what was written to it.\<close>

definition holds :: "TMP_BUFFER \<Rightarrow> bytes \<Rightarrow> bool" where
  "holds b d \<longleftrightarrow> v_data b = d \<and> unat (m_pos b) = length d"

lemma holds_write:
  assumes "holds b d" and "length d + length src < 2 ^ 32" and "unat n = length src"
  shows "\<exists>b'. buf_write src n b = Some b' \<and> holds b' (d @ src)"
proof -
  have inv: "buf_invar b" using assms(1) by (simp add: holds_def buf_invar_def)
  have fits: "unat (m_pos b) + unat n < 2 ^ 32" using assms by (simp add: holds_def)
  have "unat (m_pos b + n) = length d + length src"
    using unat_add_u32 [OF fits] assms by (simp add: holds_def)
  then show ?thesis
    using buf_write_ok [OF inv _ fits, of src] assms
    by (simp add: holds_def buf_contents_def)
qed

lemma write_pids_holds:
  assumes "holds b d" and "length d + 4 * length ps < 2 ^ 32"
  shows "\<exists>b'. buf_write (concat (map (\<lambda>c. le32 (fst c)) ps)) (of_nat (4 * length ps)) b = Some b' \<and>
     holds b' (d @ concat (map (\<lambda>c. le32 (fst c)) ps))"
proof (rule holds_write [OF assms(1)])
  show "length d + length (concat (map (\<lambda>c. le32 (fst c)) ps)) < 2 ^ 32"
    using assms(2) by (simp only: length_le32s)
  have "unat (of_nat (4 * length ps) :: u32) = 4 * length ps"
    using assms(2) by (intro unat_of_nat_u32) linarith
  then show "unat (of_nat (4 * length ps) :: u32) = length (concat (map (\<lambda>c. le32 (fst c)) ps))"
    by (simp only: length_le32s)
qed

lemma write_fighters_holds:
  "holds b d \<Longrightarrow> length d + length (fighter_bytes gid ps) < 2 ^ 32 \<Longrightarrow>
   \<exists>b'. write_fighters gid ps (n, b) = Some (n + length (fighter_bytes gid ps), b') \<and>
     holds b' (d @ fighter_bytes gid ps)"
proof (induction ps arbitrary: b d n)
  case Nil
  then show ?case by (simp add: fighter_bytes_def)
next
  case (Cons p ps)
  obtain pid st where p: "p = (pid, st)" by (cases p)
  show ?case
  proof (cases "dwGuildId st = gid")
    case True
    let ?src = "le32 pid @ le32 (dwKills st) @ le32 (dwDeaths st)"
    have fb: "fighter_bytes gid (p # ps) = ?src @ fighter_bytes gid ps"
      using True p by (simp add: fighter_bytes_def)
    have "length d + length ?src < 2 ^ 32" using Cons.prems(2) fb by simp
    from holds_write [OF Cons.prems(1) this, of 12] obtain b1 where
      b1: "buf_write ?src 12 b = Some b1" "holds b1 (d @ ?src)" by auto
    have "length (d @ ?src) + length (fighter_bytes gid ps) < 2 ^ 32" using Cons.prems(2) fb by simp
    from Cons.IH [OF b1(2) this, of "n + 12"] show ?thesis
      using True p b1 fb by (simp add: sizeof_simps struct_defs add.assoc)
  next
    case False
    then have "fighter_bytes gid (p # ps) = fighter_bytes gid ps" using p by (simp add: fighter_bytes_def)
    then show ?thesis using Cons.IH [OF Cons.prems(1)] Cons.prems(2) False p by simp
  qed
qed

lemma get_list_holds:
  assumes "holds b d" and "length d + length (war_bytes w) < 2 ^ 32"
  shows "\<exists>b'. get_list w (n, k, b) =
     Some (n + length (war_bytes w), k + (if has_guilds w then 1 else 0), b') \<and>
     holds b' (d @ war_bytes w)"
proof (cases "has_guilds w")
  case True
  let ?e = "ser_TWarElem (war_elem w)"
  let ?f0 = "fighter_bytes (dwID (m_TeamData0 w)) (map_MemberStats w)"
  let ?f1 = "fighter_bytes (dwID (m_TeamData1 w)) (map_MemberStats w)"
  have wb: "war_bytes w = ?e @ ?f0 @ ?f1" using True by (simp add: war_bytes_def)
  have "length d + length ?e < 2 ^ 32" using assms(2) wb by simp
  from holds_write [OF assms(1) this, of 24] obtain b1 where
    b1: "buf_write ?e 24 b = Some b1" "holds b1 (d @ ?e)" by (auto simp: sizeof_simps)
  have "length (d @ ?e) + length ?f0 < 2 ^ 32" using assms(2) wb by simp
  from write_fighters_holds [OF b1(2) this, of "n + 24"] obtain b2 where
    b2: "write_fighters (dwID (m_TeamData0 w)) (map_MemberStats w) (n + 24, b1) =
      Some (n + 24 + length ?f0, b2)" "holds b2 ((d @ ?e) @ ?f0)" by auto
  have "length ((d @ ?e) @ ?f0) + length ?f1 < 2 ^ 32" using assms(2) wb by simp
  from write_fighters_holds [OF b2(2) this, of "n + 24 + length ?f0"] obtain b3 where
    b3: "write_fighters (dwID (m_TeamData1 w)) (map_MemberStats w) (n + 24 + length ?f0, b2) =
      Some (n + 24 + length ?f0 + length ?f1, b3)" "holds b3 (((d @ ?e) @ ?f0) @ ?f1)" by auto
  show ?thesis
    using True b1 b2 b3 wb by (simp add: get_list_def sizeof_simps add.assoc)
next
  case False
  then show ?thesis using assms by (simp add: get_list_def war_bytes_def)
qed

lemma for_each_war_holds:
  "holds b d \<Longrightarrow> length d + length (concat (map war_bytes ws)) < 2 ^ 32 \<Longrightarrow>
   \<exists>b'. for_each_war ws (n, k, b) =
     Some (n + length (concat (map war_bytes ws)), k + of_nat (length (filter has_guilds ws)), b') \<and>
     holds b' (d @ concat (map war_bytes ws))"
proof (induction ws arbitrary: b d n k)
  case (Cons w ws)
  have "length d + length (war_bytes w) < 2 ^ 32" using Cons.prems(2) by simp
  from get_list_holds [OF Cons.prems(1) this, of n k] obtain b1 where
    b1: "get_list w (n, k, b) = Some (n + length (war_bytes w), k + (if has_guilds w then 1 else 0), b1)"
    "holds b1 (d @ war_bytes w)" by auto
  have "length (d @ war_bytes w) + length (concat (map war_bytes ws)) < 2 ^ 32"
    using Cons.prems(2) by simp
  from Cons.IH [OF b1(2) this, of "n + length (war_bytes w)" "k + (if has_guilds w then 1 else 0)"]
  show ?case using b1(1) by (auto simp: add.assoc)
qed simp

definition sync_header :: "engine \<Rightarrow> MSReSync" where
  "sync_header eng = MSReSync_new
     \<lparr>MSReSync_header := HEADER_MS_SYNC,
      MSReSync_size := of_nat (length (pid_bytes eng) + length (wars_bytes eng)),
      MSReSync_count_sync := of_nat (length (client_pids eng)),
      MSReSync_count_war := of_nat (length (filter has_guilds (war_maps eng))),
      MSReSync_count_mobi_ch := of_nat (length (filter snd (client_pids eng)))\<rparr>"

lemma buf_write_take:
  "unat n \<le> length src \<Longrightarrow> buf_write src n b = buf_write (take (unat n) src) n b"
  by (simp add: buf_write_def Let_def)

lemma holds_new: "holds (TMP_BUFFER_new 0) []"
  by (simp add: holds_def TMP_BUFFER_new_def)

lemma holds_get: "holds b d \<Longrightarrow> buf_get b = d"
  by (simp add: holds_def buf_get_def)

lemma concat_map_fst: "concat (map le32 (map fst ps)) = concat (map (\<lambda>c. le32 (fst c)) ps)"
  by (simp add: comp_def)

lemma length_pid_bytes: "length (pid_bytes eng) = 4 * length (client_pids eng)"
  by (simp add: pid_bytes_def length_le32s)

lemma war_bytes_Nil: "war_bytes w = [] \<longleftrightarrow> \<not> has_guilds w"
proof -
  have "length (ser_TWarElem e) \<noteq> 0" for e by (simp add: sizeof_simps)
  then have "ser_TWarElem e \<noteq> []" for e by fastforce
  then show ?thesis by (simp add: war_bytes_def)
qed

lemma wars_bytes_Nil: "wars_bytes eng = [] \<longleftrightarrow> (\<forall>w \<in> set (war_maps eng). \<not> has_guilds w)"
  by (simp add: wars_bytes_def war_bytes_Nil)

lemma pack_sync:
  assumes "unat n = length d" and "length d + length x < 2 ^ 32 - 64"
  shows "pack n [(ser_MSReSync p, of_nat sizeof_MSReSync), (d @ x, n)] = Some (ser_MSReSync p @ d)"
proof -
  have "pack n [(ser_MSReSync p, of_nat sizeof_MSReSync), (d @ x, n)] =
      pack n [(ser_MSReSync p, of_nat sizeof_MSReSync), (d, n)]"
  proof -
    have "write_all [(d @ x, n)] = write_all [(d, n)]"
      by (rule ext) (simp add: buf_write_take [of n "d @ x"] assms(1))
    then show ?thesis by (simp add: pack_def)
  qed
  also have "\<dots> = Some (ser_MSReSync p @ d)"
    by (subst pack_exact) (use assms in \<open>simp_all add: exact_def sizeof_simps\<close>)
  finally show ?thesis .
qed

lemma sync_data:
  assumes small: "length (pid_bytes eng) + length (wars_bytes eng) + length (mobile_bytes eng) < 2 ^ 32 - 64"
  shows "GetSyncData eng = Some
     (if client_pids eng = [] \<and> (\<forall>w \<in> set (war_maps eng). \<not> has_guilds w) then []
      else ser_MSReSync (sync_header eng) @ pid_bytes eng @ wars_bytes eng)"
proof -
  let ?p = "pid_bytes eng" and ?w = "wars_bytes eng" and ?m = "mobile_bytes eng"
  have lp: "4 * length (client_pids eng) < 2 ^ 32" and lw: "length ?p + length ?w < 2 ^ 32"
    using small length_pid_bytes [of eng] by linarith+
  from write_pids_holds [OF holds_new, of "client_pids eng"] lp obtain b1 where
    b1: "buf_write (concat (map le32 (map fst (client_pids eng)))) (of_nat (4 * length (client_pids eng)))
       (TMP_BUFFER_new 0) = Some b1" "holds b1 ?p"
    unfolding concat_map_fst by (auto simp: pid_bytes_def)
  from for_each_war_holds [OF b1(2), of "war_maps eng" 0 0] lw obtain b2 where
    b2: "for_each_war (war_maps eng) (0, 0, b1) =
       Some (length ?w, of_nat (length (filter has_guilds (war_maps eng))), b2)" "holds b2 (?p @ ?w)"
    by (auto simp: wars_bytes_def)
  have "length (?p @ ?w) + 4 * length (filter snd (client_pids eng)) < 2 ^ 32"
    using small by (simp add: mobile_bytes_def length_le32s)
  from write_pids_holds [OF b2(2) this] obtain b3 where
    b3: "buf_write (concat (map le32 (map fst (filter snd (client_pids eng)))))
       (of_nat (4 * length (filter snd (client_pids eng)))) b2 = Some b3" "holds b3 ((?p @ ?w) @ ?m)"
    unfolding concat_map_fst by (auto simp: mobile_bytes_def)
  have empty: "(?p @ ?w) @ ?m = [] \<longleftrightarrow>
      client_pids eng = [] \<and> (\<forall>w \<in> set (war_maps eng). \<not> has_guilds w)"
    using wars_bytes_Nil [of eng] length_pid_bytes [of eng] by (auto simp: mobile_bytes_def)
  have sz: "of_nat (4 * length (client_pids eng)) + of_nat (length ?w) =
      (of_nat (length (?p @ ?w)) :: u32)"
    by (simp add: length_pid_bytes)
  have "unat (of_nat (length (?p @ ?w)) :: u32) = length (?p @ ?w)"
    using lw by (intro unat_of_nat_u32) simp
  from pack_sync [OF this, of ?m "sync_header eng"] small
  have pk: "pack (of_nat (length (?p @ ?w)))
       [(ser_MSReSync (sync_header eng), of_nat sizeof_MSReSync), ((?p @ ?w) @ ?m, of_nat (length (?p @ ?w)))] =
     Some (ser_MSReSync (sync_header eng) @ ?p @ ?w)" by simp
  have hdr: "MSReSync_size (sync_header eng) = of_nat (length (?p @ ?w))"
    by (simp add: sync_header_def)
  have wp: "WritePids eng (TMP_BUFFER_new 0) =
      Some ((of_nat (4 * length (client_pids eng)), of_nat (length (client_pids eng))), b1)"
    using b1(1) by (simp only: WritePids_def Let_def length_map option.map)
  have ww: "WriteWars eng b1 =
      Some ((of_nat (length ?w), of_nat (length (filter has_guilds (war_maps eng)))), b2)"
    by (simp add: WriteWars_def b2(1))
  have wm: "WriteMobiCh eng b2 =
      Some ((of_nat (4 * length (filter snd (client_pids eng))),
             of_nat (length (filter snd (client_pids eng)))), b3)"
    using b3(1) by (simp only: WriteMobiCh_def Let_def length_map option.map)
  have hd: "MSReSync_new
       \<lparr>MSReSync_header := HEADER_MS_SYNC,
        MSReSync_size := of_nat (4 * length (client_pids eng)) + of_nat (length ?w),
        MSReSync_count_sync := of_nat (length (client_pids eng)),
        MSReSync_count_war := of_nat (length (filter has_guilds (war_maps eng))),
        MSReSync_count_mobi_ch := of_nat (length (filter snd (client_pids eng)))\<rparr> = sync_header eng"
    by (simp only: sync_header_def sz length_append)
  have "GetSyncData eng = (if (?p @ ?w) @ ?m = [] then Some []
      else Some (ser_MSReSync (sync_header eng) @ ?p @ ?w))"
    by (simp only: GetSyncData_def wp ww wm Option.bind.simps prod.case fst_conv snd_conv Let_def hd
        hdr pk holds_get [OF b3(2)])
  then show ?thesis unfolding empty by simp
qed

text \<open>
  C25. The sync packet: with nobody in the game and no war there is none; otherwise it is the header,
  every player in the game, and every war with its fighters team by team. The players in the
  game from mobile are counted in the header but, since its size leaves them out, are not sent.
\<close>

theorem sync_packet:
  assumes small: "length (pid_bytes eng) + length (wars_bytes eng) + length (mobile_bytes eng) < 2 ^ 32 - 64"
  shows "GetSyncData eng = Some
     (if client_pids eng = [] \<and> (\<forall>w \<in> set (war_maps eng). \<not> has_guilds w) then []
      else ser_MSReSync (sync_header eng) @ pid_bytes eng @ wars_bytes eng)"
  by (rule sync_data [OF small])

subsection \<open>When it is sent\<close>

primrec sync_calls :: "nat \<Rightarrow> engine \<Rightarrow> mobi \<Rightarrow> mobi option" where
  "sync_calls 0 eng s = Some s"
| "sync_calls (Suc n) eng s = Option.bind (SendSync eng s) (sync_calls n eng)"

lemma sync_calls_sent: "sync_packet_sent s \<Longrightarrow> sync_calls n eng s = Some s"
  by (induction n) (simp_all add: SendSync_def)

text \<open>
  C26. The sync packet is sent once: the first call of \<open>SendSync\<close> that can send it (there is something
  to tell, the bridge's cache is ready, the core is the peer-to-peer manager, and it is
  connected) puts exactly one packet into the queue, and no later call does anything until the
  bridge announces a new cache.
\<close>

theorem sync_once:
  assumes "\<not> sync_packet_sent s" and "bridge_cache_ready s" and "HasAuthority P2P_MANAGER s"
    and "sync_retry_count s < kMaxRetryCount" and "GetSyncData eng = Some (x # data)" and "x \<noteq> 0"
    and "IsConnected s" and w: "wire_form (ssl eng) (x # data) True s = (True, d, r)"
  shows "sync_calls (Suc n) eng s = Some
     ((PostTask TWrite (s\<lparr>rng := r, write_queue := push_packet d (write_queue s)\<rparr>))
        \<lparr>sync_retry_count := 0, sync_packet_sent := True\<rparr>)"
proof -
  let ?t = "PostTask TWrite (s\<lparr>rng := r, write_queue := push_packet d (write_queue s)\<rparr>)"
  have "mSend eng (x # data) True s = (SUCCESS, [], ?t)" using assms by (simp add: Send_eq)
  then have "SendSync eng s = Some (?t\<lparr>sync_retry_count := 0, sync_packet_sent := True\<rparr>)"
    using assms(1-5) by (simp add: SendSync_def)
  then show ?thesis by (simp add: sync_calls_sent)
qed

text \<open>
  C27. It is not tried for ever: while the client is not connected, three calls fail and are counted,
  the fourth gives up, and nothing is ever queued.
\<close>

theorem sync_gives_up:
  assumes "\<not> sync_packet_sent s" and "bridge_cache_ready s" and "HasAuthority P2P_MANAGER s"
    and "sync_retry_count s = 0" and data: "GetSyncData eng = Some (x # data)" "x \<noteq> 0"
    and off: "\<not> IsConnected s"
  shows "sync_calls 3 eng s = Some (s\<lparr>sync_retry_count := 3\<rparr>) \<and>
     sync_calls (4 + n) eng s = Some (s\<lparr>sync_retry_count := 0, sync_packet_sent := True\<rparr>)"
proof -
  have auth: "HasAuthority P2P_MANAGER (s\<lparr>sync_retry_count := k\<rparr>)" for k
    using assms(3) by (simp add: HasAuthority_def)
  have conn: "\<not> IsConnected (s\<lparr>sync_retry_count := k\<rparr>)" for k
    using off by (simp add: IsConnected_def)
  have one: "SendSync eng (s\<lparr>sync_retry_count := k\<rparr>) = Some (s\<lparr>sync_retry_count := k + 1\<rparr>)"
    if "k < kMaxRetryCount" for k
    using that assms(1,2) auth [of k] conn [of k] data by (simp add: SendSync_def Send_eq)
  have s: "s = s\<lparr>sync_retry_count := 0\<rparr>" using assms(4) by simp
  have step: "SendSync eng s = Some (s\<lparr>sync_retry_count := 1\<rparr>)"
    "SendSync eng (s\<lparr>sync_retry_count := 1\<rparr>) = Some (s\<lparr>sync_retry_count := 2\<rparr>)"
    "SendSync eng (s\<lparr>sync_retry_count := 2\<rparr>) = Some (s\<lparr>sync_retry_count := 3\<rparr>)"
    using one [of 0] one [of 1] one [of 2] s by (simp_all add: kMaxRetryCount_def)
  have last: "SendSync eng (s\<lparr>sync_retry_count := 3\<rparr>) =
      Some (s\<lparr>sync_retry_count := 0, sync_packet_sent := True\<rparr>)"
    using assms(1,2) auth [of 3] data by (simp add: SendSync_def kMaxRetryCount_def)
  show ?thesis
    using step last by (simp add: numeral_3_eq_3 sync_calls_sent numeral_eq_Suc)
qed

subsection \<open>The theorems on an example\<close>

definition sync_eng :: engine where
  "sync_eng = demo_eng\<lparr>client_pids := [(5, True), (6, False)]\<rparr>"

definition sync_state :: mobi where
  "sync_state = mobi_init\<lparr>connect_state := CONNECTED, bridge_cache_ready := True,
     authority := CFlagWrapper_new 8\<rparr>"

lemma sync_eng_small:
  "length (pid_bytes sync_eng) + length (wars_bytes sync_eng) + length (mobile_bytes sync_eng) < 2 ^ 32 - 64"
  by (simp add: sync_eng_def pid_bytes_def wars_bytes_def mobile_bytes_def demo_eng_def)

lemma sync_packet_witness:
  "\<exists>h. GetSyncData sync_eng = Some (ser_MSReSync h @ le32 5 @ le32 6) \<and>
     MSReSync_size h = 8 \<and> MSReSync_count_sync h = 2 \<and> MSReSync_count_mobi_ch h = 1"
  using sync_packet [OF sync_eng_small]
  by (auto simp: sync_eng_def demo_eng_def pid_bytes_def wars_bytes_def sync_header_def)

lemma sync_data_demo:
  "\<exists>data. GetSyncData sync_eng = Some (HEADER_MS_SYNC # data)"
  using sync_data [OF sync_eng_small]
  by (simp add: sync_eng_def demo_eng_def struct_defs sync_header_def)

lemma sync_state_ready:
  "\<not> sync_packet_sent sync_state" "bridge_cache_ready sync_state"
  "HasAuthority P2P_MANAGER sync_state" "sync_retry_count sync_state = 0"
  by (simp_all add: sync_state_def HasAuthority_def HasFlag_def CFlagWrapper_new_def P2P_MANAGER_def)

lemma sync_once_witness:
  "\<exists>t d. sync_calls 5 sync_eng sync_state = Some t \<and> write_queue t = [d] \<and> hd d = HEADER_MS_SYNC"
proof -
  obtain data where data: "GetSyncData sync_eng = Some (HEADER_MS_SYNC # data)"
    using sync_data_demo by blast
  have conn: "IsConnected sync_state" by (simp add: sync_state_def IsConnected_def)
  have w: "wire_form (ssl sync_eng) (HEADER_MS_SYNC # data) True sync_state =
      (True, HEADER_MS_SYNC # data, 0)"
    by (simp add: wire_form_def sync_state_def)
  have "sync_retry_count sync_state < kMaxRetryCount"
    using sync_state_ready(4) by (simp add: kMaxRetryCount_def)
  from sync_once [OF sync_state_ready(1-3) this data _ conn w, of 4]
  have r: "sync_calls 5 sync_eng sync_state = Some
      ((PostTask TWrite (sync_state\<lparr>rng := 0,
          write_queue := push_packet (HEADER_MS_SYNC # data) (write_queue sync_state)\<rparr>))
        \<lparr>sync_retry_count := 0, sync_packet_sent := True\<rparr>)"
    by simp
  show ?thesis unfolding r
    by (simp add: sync_state_def push_packet_def push_drop_oldest_def MAX_WRITE_QUEUE_SIZE_def)
qed

lemma sync_gives_up_witness:
  "\<exists>t. sync_calls 7 sync_eng (sync_state\<lparr>connect_state := DISCONNECTED\<rparr>) = Some t \<and>
     sync_packet_sent t \<and> write_queue t = []"
proof -
  let ?s = "sync_state\<lparr>connect_state := DISCONNECTED\<rparr>"
  have s: "\<not> sync_packet_sent ?s" "bridge_cache_ready ?s" "HasAuthority P2P_MANAGER ?s"
    "sync_retry_count ?s = 0" "\<not> IsConnected ?s"
    using sync_state_ready by (simp_all add: HasAuthority_def IsConnected_def)
  obtain data where data: "GetSyncData sync_eng = Some (HEADER_MS_SYNC # data)"
    using sync_data_demo by blast
  from sync_gives_up [OF s(1-4) data _ s(5), of 3] show ?thesis
    by (simp add: sync_state_def)
qed

end
