(* ===== verification/Utf8.thy ===== *)
theory Utf8
  imports Prelude
begin

text \<open>
  \<open>JsonManager::isValidUtf8\<close> and \<open>toUtf8\<close> (\<open>Source/Core/Singletons/json_manager.cpp\<close>): the check that
  text from game clients is UTF-8, and its conversion from a Windows code page. The index into
  the string is the remaining suffix. \<open>iconv\<close> is a parameter.
\<close>

subsection \<open>The check\<close>

fun isValidUtf8 :: "bytes \<Rightarrow> bool" where
  "isValidUtf8 [] = True"
| "isValidUtf8 (c # r) =
     (if c < 0x80 then isValidUtf8 r
      else if c AND 0xE0 = 0xC0 then
        (case r of
           c1 # r1 \<Rightarrow>
             let codepoint = push_bit 6 (ucast c AND 0x1F) OR (ucast c1 AND 0x3F) :: u32
             in if c1 AND 0xC0 \<noteq> 0x80 \<or> codepoint < 0x80 then False else isValidUtf8 r1
         | _ \<Rightarrow> False)
      else if c AND 0xF0 = 0xE0 then
        (case r of
           c1 # c2 # r2 \<Rightarrow>
             let codepoint = push_bit 12 (ucast c AND 0x0F) OR push_bit 6 (ucast c1 AND 0x3F)
                   OR (ucast c2 AND 0x3F) :: u32
             in if c1 AND 0xC0 \<noteq> 0x80 \<or> c2 AND 0xC0 \<noteq> 0x80 then False
                else if codepoint < 0x800 then False
                else if codepoint \<ge> 0xD800 \<and> codepoint \<le> 0xDFFF then False
                else isValidUtf8 r2
         | _ \<Rightarrow> False)
      else if c AND 0xF8 = 0xF0 then
        (case r of
           c1 # c2 # c3 # r3 \<Rightarrow>
             let codepoint = push_bit 18 (ucast c AND 0x07) OR push_bit 12 (ucast c1 AND 0x3F)
                   OR push_bit 6 (ucast c2 AND 0x3F) OR (ucast c3 AND 0x3F) :: u32
             in if c1 AND 0xC0 \<noteq> 0x80 \<or> c2 AND 0xC0 \<noteq> 0x80 \<or> c3 AND 0xC0 \<noteq> 0x80 then False
                else if codepoint < 0x10000 \<or> codepoint > 0x10FFFF then False
                else isValidUtf8 r3
         | _ \<Rightarrow> False)
      else False)"

definition CharsetFromCodePage :: "u16 \<Rightarrow> bytes option" where
  "CharsetFromCodePage code_page = map_option bytes_of (map_of
     [(65001, ''UTF-8''), (1254, ''WINDOWS-1254''), (1252, ''WINDOWS-1252''),
      (1251, ''WINDOWS-1251''), (949, ''CP949''), (936, ''GB2312''), (932, ''Shift_JIS''),
      (28599, ''ISO-8859-9''), (28591, ''ISO-8859-1'')] code_page)"

text \<open>
  \<open>iconv charset n input\<close>: \<open>None\<close> when \<open>iconv_open\<close> fails; otherwise the conversion into a buffer
  of \<open>n\<close> bytes, \<open>None\<close> when it fails.
\<close>

definition toUtf8 :: "(bytes \<Rightarrow> (nat \<Rightarrow> bytes \<Rightarrow> bytes option) option) \<Rightarrow> bytes \<Rightarrow> u16 \<Rightarrow> bytes" where
  "toUtf8 iconv input code_page =
     (if input = [] then []
      else if isValidUtf8 input then []
      else (case CharsetFromCodePage code_page of
              None \<Rightarrow> []
            | Some charset \<Rightarrow>
                (case iconv charset of
                   None \<Rightarrow> []
                 | Some conv \<Rightarrow>
                     (case conv (length input * 4) input of
                        Some fixed_str \<Rightarrow>
                          if fixed_str \<noteq> [] \<and> isValidUtf8 fixed_str then fixed_str else []
                      | None \<Rightarrow> []))))"

subsection \<open>What UTF-8 is\<close>

definition scalar :: "nat \<Rightarrow> bool" where
  "scalar cp \<longleftrightarrow> cp < 0xD800 \<or> (0xDFFF < cp \<and> cp < 0x110000)"

definition encode_nat :: "nat \<Rightarrow> nat list" where
  "encode_nat cp =
     (if cp < 0x80 then [cp]
      else if cp < 0x800 then [192 + cp div 64, 128 + cp mod 64]
      else if cp < 0x10000 then [224 + cp div 4096, 128 + cp div 64 mod 64, 128 + cp mod 64]
      else [240 + cp div 262144, 128 + cp div 4096 mod 64, 128 + cp div 64 mod 64, 128 + cp mod 64])"

definition utf8_encode :: "nat \<Rightarrow> bytes" where
  "utf8_encode cp = map of_nat (encode_nat cp)"

subsection \<open>The bit tests as numbers\<close>

lemma byte_all: "(\<forall>n \<in> set [0..<256]. P (of_nat n :: u8) n) \<Longrightarrow> P c (unat c)"
proof -
  assume all: "\<forall>n \<in> set [0..<256]. P (of_nat n :: u8) n"
  have "unat c < 256" using unsigned_less [of c] by simp
  then have "unat c \<in> set [0..<256]" by simp
  from bspec [OF all this] show ?thesis by simp
qed

lemma lead2: "(c :: u8) AND 0xE0 = 0xC0 \<longleftrightarrow> 192 \<le> unat c \<and> unat c < 224"
  by (rule byte_all) code_simp

lemma lead3: "(c :: u8) AND 0xF0 = 0xE0 \<longleftrightarrow> 224 \<le> unat c \<and> unat c < 240"
  by (rule byte_all) code_simp

lemma lead4: "(c :: u8) AND 0xF8 = 0xF0 \<longleftrightarrow> 240 \<le> unat c \<and> unat c < 248"
  by (rule byte_all) code_simp

lemma cont: "(c :: u8) AND 0xC0 = 0x80 \<longleftrightarrow> 128 \<le> unat c \<and> unat c < 192"
  by (rule byte_all) code_simp

lemma lead1: "(c :: u8) < 0x80 \<longleftrightarrow> unat c < 128"
  by (simp add: word_less_nat_alt)

lemma low_bits:
  "unat (ucast (c :: u8) AND 0x3F :: u32) = unat c mod 64"
  "unat (ucast c AND 0x1F :: u32) = unat c mod 32"
  "unat (ucast c AND 0x0F :: u32) = unat c mod 16"
  "unat (ucast c AND 0x07 :: u32) = unat c mod 8"
  by (rule byte_all, code_simp)+

lemma unat_shift_or:
  assumes "unat (a :: u32) * 2 ^ k + unat b < 2 ^ 32" and "unat b < 2 ^ k"
  shows "unat (push_bit k a OR b) = unat a * 2 ^ k + unat b"
proof -
  have "\<not> bit (push_bit k a) n \<or> \<not> bit b n" for n
  proof (cases "n < k")
    case True
    then show ?thesis by (simp add: bit_push_bit_iff)
  next
    case False
    then have "unat b < 2 ^ n" using assms(2) by (meson le_less_trans not_less power_increasing
      one_le_numeral order_less_le_trans)
    then have "\<not> bit b n"
      by (metis bit_take_bit_iff less_irrefl take_bit_nat_eq_self unsigned_take_bit_eq
          word_unat_eq_iff)
    then show ?thesis by simp
  qed
  then have "push_bit k a AND b = 0" by (auto intro!: bit_eqI simp: bit_and_iff)
  then have "push_bit k a OR b = push_bit k a + b" by (simp add: disjunctive_add_eq_or)
  moreover have "unat (push_bit k a) = unat a * 2 ^ k"
    using assms(1) by (simp add: unsigned_push_bit_eq push_bit_nat_def take_bit_nat_eq_self)
  ultimately show ?thesis using assms(1) by (simp add: unat_word_ariths)
qed

lemma codepoint2:
  "unat (push_bit 6 (ucast (c :: u8) AND 0x1F) OR (ucast (c1 :: u8) AND 0x3F) :: u32) =
   unat c mod 32 * 64 + unat c1 mod 64"
proof -
  have "unat c mod 32 < 32" "unat c1 mod 64 < 64" by simp_all
  then show ?thesis by (subst unat_shift_or; simp add: low_bits del: push_bit_and)
qed

lemma low_pair:
  "unat (push_bit 6 (ucast (c :: u8) AND 0x3F) OR (ucast (c1 :: u8) AND 0x3F) :: u32) =
   unat c mod 64 * 64 + unat c1 mod 64"
proof -
  have "unat c mod 64 < 64" "unat c1 mod 64 < 64" by simp_all
  then show ?thesis by (subst unat_shift_or; simp add: low_bits del: push_bit_and)
qed

lemma low_triple:
  "unat (push_bit 12 (ucast (c :: u8) AND 0x3F) OR push_bit 6 (ucast (c1 :: u8) AND 0x3F)
      OR (ucast (c2 :: u8) AND 0x3F) :: u32) =
   unat c mod 64 * 4096 + (unat c1 mod 64 * 64 + unat c2 mod 64)"
proof -
  have "unat c mod 64 < 64" "unat c1 mod 64 < 64" "unat c2 mod 64 < 64" by simp_all
  then show ?thesis by (subst unat_shift_or; simp add: low_bits low_pair del: push_bit_and)
qed

lemma codepoint3:
  "unat (push_bit 12 (ucast (c :: u8) AND 0x0F) OR push_bit 6 (ucast (c1 :: u8) AND 0x3F)
      OR (ucast (c2 :: u8) AND 0x3F) :: u32) =
   unat c mod 16 * 4096 + (unat c1 mod 64 * 64 + unat c2 mod 64)"
proof -
  have "unat c mod 16 < 16" "unat c1 mod 64 < 64" "unat c2 mod 64 < 64" by simp_all
  then show ?thesis by (subst unat_shift_or; simp add: low_bits low_pair del: push_bit_and)
qed

lemma codepoint4:
  "unat (push_bit 18 (ucast (c :: u8) AND 0x07) OR push_bit 12 (ucast (c1 :: u8) AND 0x3F)
      OR push_bit 6 (ucast (c2 :: u8) AND 0x3F) OR (ucast (c3 :: u8) AND 0x3F) :: u32) =
   unat c mod 8 * 262144 + (unat c1 mod 64 * 4096 + (unat c2 mod 64 * 64 + unat c3 mod 64))"
proof -
  have "unat c mod 8 < 8" "unat c1 mod 64 < 64" "unat c2 mod 64 < 64" "unat c3 mod 64 < 64"
    by simp_all
  then show ?thesis by (subst unat_shift_or; simp add: low_bits low_triple del: push_bit_and)
qed

subsection \<open>The check on numbers\<close>

definition cont_nat :: "nat \<Rightarrow> bool" where
  "cont_nat n \<longleftrightarrow> 128 \<le> n \<and> n < 192"

fun valid_nat :: "nat list \<Rightarrow> bool" where
  "valid_nat [] = True"
| "valid_nat (c # r) =
     (if c < 128 then valid_nat r
      else if 192 \<le> c \<and> c < 224 then
        (case r of c1 # r1 \<Rightarrow> cont_nat c1 \<and> 128 \<le> c mod 32 * 64 + c1 mod 64 \<and> valid_nat r1
         | _ \<Rightarrow> False)
      else if 224 \<le> c \<and> c < 240 then
        (case r of c1 # c2 # r2 \<Rightarrow> cont_nat c1 \<and> cont_nat c2 \<and>
             (let p = c mod 16 * 4096 + (c1 mod 64 * 64 + c2 mod 64) in
              2048 \<le> p \<and> \<not> (55296 \<le> p \<and> p \<le> 57343)) \<and> valid_nat r2
         | _ \<Rightarrow> False)
      else if 240 \<le> c \<and> c < 248 then
        (case r of c1 # c2 # c3 # r3 \<Rightarrow> cont_nat c1 \<and> cont_nat c2 \<and> cont_nat c3 \<and>
             (let p = c mod 8 * 262144 + (c1 mod 64 * 4096 + (c2 mod 64 * 64 + c3 mod 64)) in
              65536 \<le> p \<and> p \<le> 1114111) \<and> valid_nat r3
         | _ \<Rightarrow> False)
      else False)"

lemma isValidUtf8_nat: "isValidUtf8 s = valid_nat (map unat s)"
proof (induction s rule: length_induct)
  case (1 s)
  note num = lead1 lead2 lead3 lead4 cont word_less_nat_alt word_le_nat_alt
  show ?case
  proof (cases s)
    case (Cons c r)
    have IH: "length t < length s \<Longrightarrow> isValidUtf8 t = valid_nat (map unat t)" for t
      using "1.IH" by blast
    consider "unat c < 128" | "192 \<le> unat c" "unat c < 224" | "224 \<le> unat c" "unat c < 240"
      | "240 \<le> unat c" "unat c < 248"
      | "128 \<le> unat c" "unat c < 192" | "248 \<le> unat c" by linarith
    then show ?thesis
    proof cases
      case 1
      then show ?thesis using Cons IH [of r] by (simp add: num)
    next
      case 2
      show ?thesis
      proof (cases r)
        case r: (Cons c1 r1)
        show ?thesis
          using 2 Cons r IH [of r1] codepoint2 [of c c1]
          by (simp add: num cont_nat_def del: push_bit_and) linarith
      qed (use 2 Cons in \<open>simp add: num\<close>)
    next
      case 3
      show ?thesis
      proof (cases "\<exists>c1 c2 r2. r = c1 # c2 # r2")
        case True
        then obtain c1 c2 r2 where r: "r = c1 # c2 # r2" by blast
        show ?thesis
          using 3 Cons r IH [of r2] codepoint3 [of c c1 c2]
          by (simp add: num cont_nat_def del: push_bit_and) linarith
      next
        case False
        then show ?thesis using 3 Cons by (auto simp: num split: list.split)
      qed
    next
      case 4
      show ?thesis
      proof (cases "\<exists>c1 c2 c3 r3. r = c1 # c2 # c3 # r3")
        case True
        then obtain c1 c2 c3 r3 where r: "r = c1 # c2 # c3 # r3" by blast
        show ?thesis
          using 4 Cons r IH [of r3] codepoint4 [of c c1 c2 c3]
          by (simp add: num cont_nat_def del: push_bit_and) linarith
      next
        case False
        then show ?thesis using 4 Cons by (auto simp: num split: list.split)
      qed
    qed (use Cons in \<open>simp_all add: num\<close>)
  qed simp
qed

subsection \<open>The check accepts exactly the encodings\<close>

lemma mod_off: "a < k \<Longrightarrow> (a + k * m) mod k = (a :: nat)"
  by simp

lemma lead_mods:
  "a < 32 \<Longrightarrow> (192 + a) mod 32 = (a :: nat)" "a < 16 \<Longrightarrow> (224 + a) mod 16 = (a :: nat)"
  "a < 8 \<Longrightarrow> (240 + a) mod 8 = (a :: nat)" "a < 64 \<Longrightarrow> (128 + a) mod 64 = (a :: nat)"
  using mod_off [of a 32 6] mod_off [of a 16 14] mod_off [of a 8 30] mod_off [of a 64 2]
  by (simp_all add: add.commute)

lemma cont_ex: "cont_nat n \<Longrightarrow> \<exists>b < 64. n = 128 + b"
  by (intro exI [of _ "n - 128"]) (auto simp: cont_nat_def)

lemma lead_ex: "l \<le> c \<Longrightarrow> c < l + k \<Longrightarrow> \<exists>a < k. c = l + (a :: nat)"
  by (intro exI [of _ "c - l"]) auto

text \<open>Base-64 digits.\<close>

lemma digits2: "b < 64 \<Longrightarrow> (a * 64 + b) div 64 = a \<and> (a * 64 + b) mod 64 = (b :: nat)"
  by simp

lemma digits3:
  assumes "b < 64" and "d < (64 :: nat)"
  shows "(a * 4096 + (b * 64 + d)) div 4096 = a \<and> (a * 4096 + (b * 64 + d)) div 64 mod 64 = b \<and>
    (a * 4096 + (b * 64 + d)) mod 64 = d"
proof -
  have p: "a * 4096 + (b * 64 + d) = (a * 64 + b) * 64 + d" by simp
  have "(a * 4096 + (b * 64 + d)) div 4096 = (a * 4096 + (b * 64 + d)) div 64 div 64"
    using div_mult2_eq [of "a * 4096 + (b * 64 + d)" 64 64] by simp
  then show ?thesis
    using digits2 [OF assms(2), of "a * 64 + b"] digits2 [OF assms(1), of a] unfolding p by simp
qed

lemma digits4:
  assumes "b < 64" and "d < 64" and "e < (64 :: nat)"
  shows "(a * 262144 + (b * 4096 + (d * 64 + e))) div 262144 = a \<and>
    (a * 262144 + (b * 4096 + (d * 64 + e))) div 4096 mod 64 = b \<and>
    (a * 262144 + (b * 4096 + (d * 64 + e))) div 64 mod 64 = d \<and>
    (a * 262144 + (b * 4096 + (d * 64 + e))) mod 64 = e"
proof -
  let ?p = "a * 262144 + (b * 4096 + (d * 64 + e))"
  have p: "?p = (a * 4096 + (b * 64 + d)) * 64 + e" by simp
  have "?p div 262144 = ?p div 64 div 4096" "?p div 4096 = ?p div 64 div 64"
    using div_mult2_eq [of ?p 64 4096] div_mult2_eq [of ?p 64 64] by simp_all
  then show ?thesis
    using digits2 [OF assms(3), of "a * 4096 + (b * 64 + d)"] digits3 [OF assms(1,2), of a]
    unfolding p by simp
qed

lemma undigits3: "cp div 4096 * 4096 + (cp div 64 mod 64 * 64 + cp mod 64) = (cp :: nat)"
proof -
  define q where "q = cp div 64"
  have "cp div 4096 = q div 64" using div_mult2_eq [of cp 64 64] by (simp add: q_def)
  moreover have "q div 64 * 64 + q mod 64 = q" "q * 64 + cp mod 64 = cp"
    by (simp_all add: q_def)
  ultimately show ?thesis unfolding q_def [symmetric] by linarith
qed

lemma undigits4:
  "cp div 262144 * 262144 + (cp div 4096 mod 64 * 4096 + (cp div 64 mod 64 * 64 + cp mod 64)) = (cp :: nat)"
proof -
  define q where "q = cp div 64"
  have "cp div 262144 = q div 4096" "cp div 4096 mod 64 = q div 64 mod 64"
    using div_mult2_eq [of cp 64 4096] div_mult2_eq [of cp 64 64] by (simp_all add: q_def)
  moreover have "q * 64 + cp mod 64 = cp" by (simp add: q_def)
  moreover note undigits3 [of q]
  ultimately show ?thesis unfolding q_def [symmetric] by linarith
qed

lemma valid_nat2:
  "a < 32 \<Longrightarrow> b < 64 \<Longrightarrow> 128 \<le> a * 64 + b \<Longrightarrow> valid_nat ((192 + a) # (128 + b) # r) = valid_nat r"
  by (simp add: lead_mods cont_nat_def)

lemma valid_nat3:
  "a < 16 \<Longrightarrow> b < 64 \<Longrightarrow> d < 64 \<Longrightarrow> scalar (a * 4096 + (b * 64 + d)) \<Longrightarrow>
   2048 \<le> a * 4096 + (b * 64 + d) \<Longrightarrow>
   valid_nat ((224 + a) # (128 + b) # (128 + d) # r) = valid_nat r"
  by (auto simp add: lead_mods cont_nat_def scalar_def)

lemma valid_nat4:
  "a < 8 \<Longrightarrow> b < 64 \<Longrightarrow> d < 64 \<Longrightarrow> e < 64 \<Longrightarrow>
   65536 \<le> a * 262144 + (b * 4096 + (d * 64 + e)) \<Longrightarrow>
   a * 262144 + (b * 4096 + (d * 64 + e)) < 1114112 \<Longrightarrow>
   valid_nat ((240 + a) # (128 + b) # (128 + d) # (128 + e) # r) = valid_nat r"
  by (simp add: lead_mods cont_nat_def)

lemma valid_encode:
  assumes "scalar cp"
  shows "valid_nat (encode_nat cp @ r) = valid_nat r"
proof -
  have m: "cp mod 64 < 64" "cp div 64 mod 64 < 64" "cp div 4096 mod 64 < 64" by simp_all
  consider "cp < 128" | "128 \<le> cp" "cp < 2048" | "2048 \<le> cp" "cp < 65536"
    | "65536 \<le> cp" "cp < 1114112" using assms by (fastforce simp: scalar_def)
  then show ?thesis
  proof cases
    case 2
    have "encode_nat cp = [192 + cp div 64, 128 + cp mod 64]" using 2 by (simp add: encode_nat_def)
    moreover have "cp div 64 < 32" using 2 by (intro div_less_iff_less_mult [THEN iffD2]) simp_all
    ultimately show ?thesis using valid_nat2 [OF _ m(1), of "cp div 64" r] 2 by simp
  next
    case 3
    have "encode_nat cp = [224 + cp div 4096, 128 + cp div 64 mod 64, 128 + cp mod 64]"
      using 3 by (simp add: encode_nat_def)
    moreover have "cp div 4096 < 16" using 3 by (intro div_less_iff_less_mult [THEN iffD2]) simp_all
    ultimately show ?thesis
      using valid_nat3 [OF _ m(2,1), of "cp div 4096" r] 3 assms unfolding undigits3 by simp
  next
    case 4
    have "encode_nat cp =
        [240 + cp div 262144, 128 + cp div 4096 mod 64, 128 + cp div 64 mod 64, 128 + cp mod 64]"
      using 4 by (simp add: encode_nat_def)
    moreover have "cp div 262144 < 8" using 4 by (intro div_less_iff_less_mult [THEN iffD2]) simp_all
    ultimately show ?thesis
      using valid_nat4 [OF _ m(3,2,1), of "cp div 262144" r] 4 unfolding undigits4 by simp
  qed (simp add: encode_nat_def)
qed

lemma valid_head:
  assumes "valid_nat (c # r)"
  shows "\<exists>cp r'. scalar cp \<and> c # r = encode_nat cp @ r' \<and> valid_nat r'"
proof -
  consider "c < 128" | "192 \<le> c" "c < 192 + 32" | "224 \<le> c" "c < 224 + 16" | "240 \<le> c" "c < 240 + 8"
    using assms by (auto split: if_splits)
  then show ?thesis
  proof cases
    case 1
    then show ?thesis
      using assms by (intro exI [of _ c] exI [of _ r]) (simp add: scalar_def encode_nat_def)
  next
    case 2
    from lead_ex [OF this] obtain a where a: "a < 32" "c = 192 + a" by blast
    with assms obtain c1 r1 where r: "r = c1 # r1" "cont_nat c1" "valid_nat r1"
      and ok: "128 \<le> a * 64 + c1 mod 64" by (auto simp: lead_mods split: list.splits)
    from cont_ex [OF r(2)] obtain b where b: "b < 64" "c1 = 128 + b" by blast
    let ?p = "a * 64 + b"
    have "128 \<le> ?p" using ok b by (simp add: lead_mods)
    moreover have "?p < 2048" using a(1) b(1) by simp
    ultimately have "encode_nat ?p = [c, c1]" "scalar ?p"
      using a b digits2 [OF b(1), of a] by (simp_all add: encode_nat_def scalar_def)
    then show ?thesis using r by (intro exI [of _ ?p] exI [of _ r1]) simp
  next
    case 3
    from lead_ex [OF this] obtain a where a: "a < 16" "c = 224 + a" by blast
    with assms obtain c1 c2 r2 where r: "r = c1 # c2 # r2" "cont_nat c1" "cont_nat c2" "valid_nat r2"
      and ok: "2048 \<le> a * 4096 + (c1 mod 64 * 64 + c2 mod 64)"
      "\<not> (55296 \<le> a * 4096 + (c1 mod 64 * 64 + c2 mod 64) \<and>
          a * 4096 + (c1 mod 64 * 64 + c2 mod 64) \<le> 57343)"
      by (auto simp: Let_def lead_mods split: list.splits)
    from cont_ex [OF r(2)] cont_ex [OF r(3)] obtain b d where
      b: "b < 64" "c1 = 128 + b" "d < 64" "c2 = 128 + d" by blast
    let ?p = "a * 4096 + (b * 64 + d)"
    have "2048 \<le> ?p" "?p < 55296 \<or> 57343 < ?p" using ok b by (auto simp add: lead_mods)
    moreover have "?p < 65536" using a(1) b(1,3) by simp
    ultimately have "encode_nat ?p = [c, c1, c2]" "scalar ?p"
      using a(2) b digits3 [OF b(1,3), of a] by (simp_all add: encode_nat_def scalar_def)
    then show ?thesis using r by (intro exI [of _ ?p] exI [of _ r2]) simp
  next
    case 4
    from lead_ex [OF this] obtain a where a: "a < 8" "c = 240 + a" by blast
    with assms obtain c1 c2 c3 r3 where r: "r = c1 # c2 # c3 # r3" "cont_nat c1" "cont_nat c2"
      "cont_nat c3" "valid_nat r3"
      and ok: "65536 \<le> a * 262144 + (c1 mod 64 * 4096 + (c2 mod 64 * 64 + c3 mod 64))"
      "a * 262144 + (c1 mod 64 * 4096 + (c2 mod 64 * 64 + c3 mod 64)) \<le> 1114111"
      by (auto simp: Let_def lead_mods split: list.splits)
    from cont_ex [OF r(2)] cont_ex [OF r(3)] cont_ex [OF r(4)] obtain b d e where
      b: "b < 64" "c1 = 128 + b" "d < 64" "c2 = 128 + d" "e < 64" "c3 = 128 + e" by blast
    let ?p = "a * 262144 + (b * 4096 + (d * 64 + e))"
    have "65536 \<le> ?p" "?p \<le> 1114111" using ok b by (simp_all add: lead_mods)
    then have "encode_nat ?p = [c, c1, c2, c3]" "scalar ?p"
      using a(2) b digits4 [OF b(1,3,5), of a] by (simp_all add: encode_nat_def scalar_def)
    then show ?thesis using r by (intro exI [of _ ?p] exI [of _ r3]) simp
  qed
qed

lemma valid_nat_iff:
  "valid_nat ns \<longleftrightarrow> (\<exists>cps. (\<forall>cp \<in> set cps. scalar cp) \<and> ns = concat (map encode_nat cps))"
proof
  show "valid_nat ns \<Longrightarrow> \<exists>cps. (\<forall>cp \<in> set cps. scalar cp) \<and> ns = concat (map encode_nat cps)"
  proof (induction ns rule: length_induct)
    case (1 ns)
    show ?case
    proof (cases ns)
      case Nil
      then show ?thesis by (intro exI [of _ "[]"]) simp
    next
      case (Cons c r)
      from valid_head 1(2) Cons obtain cp r' where
        h: "scalar cp" "ns = encode_nat cp @ r'" "valid_nat r'" by metis
      then have "length r' < length ns" by (simp add: encode_nat_def)
      with 1(1) h(3) obtain cps where
        "\<forall>cp \<in> set cps. scalar cp" "r' = concat (map encode_nat cps)" by blast
      then show ?thesis using h by (intro exI [of _ "cp # cps"]) simp
    qed
  qed
next
  assume "\<exists>cps. (\<forall>cp \<in> set cps. scalar cp) \<and> ns = concat (map encode_nat cps)"
  then obtain cps where cps: "\<forall>cp \<in> set cps. scalar cp" "ns = concat (map encode_nat cps)" by blast
  have "\<forall>cp \<in> set cps. scalar cp \<Longrightarrow> valid_nat (concat (map encode_nat cps))"
    by (induction cps) (simp_all add: valid_encode)
  then show "valid_nat ns" using cps by simp
qed

lemma encode_byte: "scalar cp \<Longrightarrow> n \<in> set (encode_nat cp) \<Longrightarrow> n < 256"
  by (auto simp: encode_nat_def scalar_def split: if_splits)

lemma unat_encode: "scalar cp \<Longrightarrow> map unat (utf8_encode cp) = encode_nat cp"
  by (auto simp: utf8_encode_def intro!: map_idI dest!: encode_byte simp: unat_of_nat)

text \<open>
  C23. The check accepts exactly UTF-8: a string passes if and only if it is the concatenation of the
  encodings of Unicode scalar values, so no overlong form, no surrogate, nothing above
  U+10FFFF and no truncated sequence passes, and nothing that is UTF-8 is refused.
\<close>

theorem isValidUtf8_iff:
  "isValidUtf8 s \<longleftrightarrow> (\<exists>cps. list_all scalar cps \<and> s = concat (map utf8_encode cps))"
proof -
  have "map unat s = concat (map encode_nat cps) \<longleftrightarrow> s = concat (map utf8_encode cps)"
    if cps: "\<forall>cp \<in> set cps. scalar cp" for cps
  proof -
    have "map unat (concat (map utf8_encode cps)) = concat (map encode_nat cps)"
      using cps by (induction cps) (simp_all add: unat_encode)
    moreover have "inj (unat :: u8 \<Rightarrow> nat)" by (simp add: inj_def word_unat_eq_iff)
    ultimately show ?thesis by (metis inj_map_eq_map)
  qed
  then show ?thesis unfolding isValidUtf8_nat valid_nat_iff list_all_iff by blast
qed

text \<open>What the conversion returns is empty or non-empty UTF-8, and empty for text that is UTF-8 already.\<close>

lemma toUtf8_result:
  "isValidUtf8 (toUtf8 iconv input cp) \<and> (isValidUtf8 input \<longrightarrow> toUtf8 iconv input cp = [])"
  by (auto simp: toUtf8_def split: option.split)

end
