(* ===== verification/Openssl_Compat.thy ===== *)
theory Openssl_Compat
  imports Crypto
begin

text \<open>
  The key derivation of \<open>Source/Core/openssl_compat.h\<close> on OpenSSL 1.1.1, which has no HKDF in the
  interface the code uses: \<open>hkdf_extract\<close>, \<open>hkdf_expand\<close> and \<open>hkdf_derive\<close>, over the parameter
  \<open>hmac\<close>, HMAC with SHA-256 (\<open>None\<close>: it failed). The reference is the expansion of RFC 5869.

  The loop of \<open>hkdf_expand\<close> ends when enough bytes are there. An outer \<open>None\<close> is a loop that does
  not end, the inner one the result false.
\<close>

type_synonym hmac_fn = "bytes \<Rightarrow> bytes \<Rightarrow> bytes option"

definition hkdf_extract :: "hmac_fn \<Rightarrow> bytes \<Rightarrow> bytes \<Rightarrow> bytes option" where
  "hkdf_extract hmac salt ikm = hmac salt ikm"

partial_function (option) expand_loop ::
  "hmac_fn \<Rightarrow> bytes \<Rightarrow> bytes \<Rightarrow> nat \<Rightarrow> bytes \<Rightarrow> u8 \<Rightarrow> bytes option option" where
  "expand_loop hmac prk info okm_len okm counter =
     (if length okm < okm_len
      then (case hmac prk (info @ [counter]) of
              None \<Rightarrow> Some None
            | Some t \<Rightarrow> expand_loop hmac prk info okm_len
                (okm @ take (okm_len - length okm) t) (counter + 1))
      else Some (Some okm))"

definition hkdf_expand :: "hmac_fn \<Rightarrow> bytes \<Rightarrow> bytes \<Rightarrow> nat \<Rightarrow> bytes option option" where
  "hkdf_expand hmac prk info okm_len =
     (if okm_len > 255 * 32 then Some None
      else expand_loop hmac prk info okm_len [] 1)"

definition compat_hkdf_derive ::
  "hmac_fn \<Rightarrow> bytes \<Rightarrow> bytes \<Rightarrow> bytes \<Rightarrow> nat \<Rightarrow> bytes option option" where
  "compat_hkdf_derive hmac salt key info output_len =
     (case hkdf_extract hmac salt key of
        None \<Rightarrow> Some None
      | Some prk \<Rightarrow> hkdf_expand hmac prk info output_len)"

subsection \<open>The reference\<close>

text \<open>What HMAC with SHA-256 documents: it yields 32 bytes.\<close>

definition hmac_ok :: "hmac_fn \<Rightarrow> bool" where
  "hmac_ok hmac \<longleftrightarrow> (\<forall>k d. \<exists>t. hmac k d = Some t \<and> length t = 32)"

definition hmac_val :: "hmac_fn \<Rightarrow> bytes \<Rightarrow> bytes \<Rightarrow> bytes" where
  "hmac_val hmac k d = the (hmac k d)"

text \<open>RFC 5869, section 2.3: each block is computed from the one before it.\<close>

primrec rfc_block :: "hmac_fn \<Rightarrow> bytes \<Rightarrow> bytes \<Rightarrow> nat \<Rightarrow> bytes" where
  "rfc_block hmac prk info 0 = []"
| "rfc_block hmac prk info (Suc n) =
     hmac_val hmac prk (rfc_block hmac prk info n @ info @ [of_nat (Suc n)])"

definition rfc_expand :: "hmac_fn \<Rightarrow> bytes \<Rightarrow> bytes \<Rightarrow> nat \<Rightarrow> bytes" where
  "rfc_expand hmac prk info okm_len =
     take okm_len (concat (map (rfc_block hmac prk info) [1..<Suc ((okm_len + 31) div 32)]))"

text \<open>What the loop computes: the blocks without the chaining.\<close>

definition unchained_block :: "hmac_fn \<Rightarrow> bytes \<Rightarrow> bytes \<Rightarrow> nat \<Rightarrow> bytes" where
  "unchained_block hmac prk info n = hmac_val hmac prk (info @ [of_nat n])"

definition unchained :: "hmac_fn \<Rightarrow> bytes \<Rightarrow> bytes \<Rightarrow> nat \<Rightarrow> bytes" where
  "unchained hmac prk info n = concat (map (unchained_block hmac prk info) [1..<Suc n])"

lemma hmac_okD: "hmac_ok hmac \<Longrightarrow> hmac k d = Some (hmac_val hmac k d)"
  and hmac_ok_length: "hmac_ok hmac \<Longrightarrow> length (hmac_val hmac k d) = 32"
  unfolding hmac_ok_def hmac_val_def by (metis option.sel)+

lemma length_unchained: "hmac_ok hmac \<Longrightarrow> length (unchained hmac prk info n) = 32 * n"
  by (induction n) (simp_all add: unchained_def unchained_block_def hmac_ok_length)

lemma unchained_Suc:
  "unchained hmac prk info (Suc n) = unchained hmac prk info n @ unchained_block hmac prk info (Suc n)"
  by (simp add: unchained_def)

lemma take_more: "m \<le> length xs \<Longrightarrow> take m xs = take m (xs @ ys)"
  by simp

text \<open>The loop from the state after \<open>n\<close> whole blocks.\<close>

lemma expand_loop_returns:
  assumes "hmac_ok hmac"
  shows "expand_loop hmac prk info len (take len (unchained hmac prk info n)) (of_nat n + 1) =
     Some (Some (take len (unchained hmac prk info (max n ((len + 31) div 32)))))"
proof (induction "(len + 31) div 32 - n" arbitrary: n)
  case 0
  then have "len \<le> 32 * n" by linarith
  moreover from this have "max n ((len + 31) div 32) = n" by linarith
  ultimately show ?case
    by (subst expand_loop.simps) (simp add: length_unchained [OF assms])
next
  case (Suc d)
  then have len: "32 * n < len" and mx: "max n ((len + 31) div 32) = max (Suc n) ((len + 31) div 32)"
    by linarith+
  have step: "take len (unchained hmac prk info (Suc n)) =
      take len (unchained hmac prk info n) @
      take (len - length (take len (unchained hmac prk info n)))
        (hmac_val hmac prk (info @ [of_nat n + 1]))"
    using len by (simp add: unchained_Suc length_unchained [OF assms] unchained_block_def add.commute)
  have "expand_loop hmac prk info len (take len (unchained hmac prk info (Suc n))) (of_nat (Suc n) + 1)
     = Some (Some (take len (unchained hmac prk info (max (Suc n) ((len + 31) div 32)))))"
    by (rule Suc.hyps(1)) (use Suc.hyps(2) in simp)
  then show ?case
    using len by (subst expand_loop.simps)
      (simp add: hmac_okD [OF assms] length_unchained [OF assms] step mx [symmetric] add.commute add.left_commute)
qed

lemma hkdf_expand_eq:
  assumes "hmac_ok hmac" and "len \<le> 255 * 32"
  shows "hkdf_expand hmac prk info len =
     Some (Some (take len (unchained hmac prk info ((len + 31) div 32))))"
  using expand_loop_returns [OF assms(1), of prk info len 0] assms(2)
  by (simp add: hkdf_expand_def unchained_def)

text \<open>The first block of the two is the same.\<close>

lemma first_block: "rfc_block hmac prk info 1 = unchained_block hmac prk info 1"
  by (simp add: unchained_block_def)

lemma expand_one:
  assumes "hmac_ok hmac" and "len \<le> 32"
  shows "take len (unchained hmac prk info ((len + 31) div 32)) = rfc_expand hmac prk info len"
proof (cases len)
  case 0
  then show ?thesis by (simp add: rfc_expand_def)
next
  case (Suc k)
  then have "(len + 31) div 32 = 1" using assms(2) by simp
  then show ?thesis using first_block by (simp add: rfc_expand_def unchained_def)
qed

text \<open>
  The hand-written key derivation for OpenSSL 1.1.1 always returns, with as many bytes as were
  asked for, and up to 32 of them (the key the client derives) it is the extraction and expansion
  of RFC 5869.
\<close>

theorem hkdf_compat:
  assumes "hmac_ok hmac" and "len \<le> 255 * 32"
  shows "\<exists>prk okm. hkdf_extract hmac salt key = Some prk \<and>
     compat_hkdf_derive hmac salt key info len = Some (Some okm) \<and> length okm = len \<and>
     (len > 32 \<or> okm = rfc_expand hmac prk info len)"
proof -
  let ?prk = "hmac_val hmac salt key"
  let ?okm = "take len (unchained hmac ?prk info ((len + 31) div 32))"
  have ex: "hkdf_extract hmac salt key = Some ?prk"
    by (simp add: hkdf_extract_def hmac_okD [OF assms(1)])
  have "len \<le> 32 * ((len + 31) div 32)" by linarith
  then have "length ?okm = len" by (simp add: length_unchained [OF assms(1)])
  moreover have "compat_hkdf_derive hmac salt key info len = Some (Some ?okm)"
    using ex hkdf_expand_eq [OF assms] by (simp add: compat_hkdf_derive_def)
  moreover have "len > 32 \<or> ?okm = rfc_expand hmac ?prk info len"
    using expand_one [OF assms(1)] by (cases "len \<le> 32") auto
  ultimately show ?thesis using ex by blast
qed

text \<open>A function of 32 bytes in the place of HMAC, for the examples.\<close>

definition demo_hmac :: hmac_fn where
  "demo_hmac k d = Some (replicate 31 0 @ [of_nat (length d)])"

lemma demo_hmac_ok: "hmac_ok demo_hmac"
  by (simp add: hmac_ok_def demo_hmac_def)

lemma hkdf_compat_witness:
  "\<exists>prk okm. hkdf_extract demo_hmac [1] [2] = Some prk \<and>
     compat_hkdf_derive demo_hmac [1] [2] [3] 32 = Some (Some okm) \<and> length okm = 32 \<and>
     okm = rfc_expand demo_hmac prk [3] 32"
  using hkdf_compat [OF demo_hmac_ok, of 32 "[1]" "[2]" "[3]"] by simp

text \<open>
  Beyond 32 bytes the loop leaves RFC 5869, because it does not put the previous block before the
  information: here the second block is computed from two bytes instead of 34.
\<close>

lemma hkdf_not_chained:
  "hkdf_expand demo_hmac [] [3] 64 \<noteq> Some (Some (rfc_expand demo_hmac [] [3] 64))"
proof -
  have "hkdf_expand demo_hmac [] [3] 64 = Some (Some (take 64 (unchained demo_hmac [] [3] 2)))"
    using hkdf_expand_eq [OF demo_hmac_ok, of 64 "[]" "[3]"] by simp
  moreover have "[1..<Suc 2] = [1, 2]" "[Suc 0..<3] = [1, 2]" by (simp_all add: upt_rec)
  moreover have "rfc_block demo_hmac [] [3] 2 = replicate 31 0 @ [34]"
    by (simp add: numeral_2_eq_2 hmac_val_def demo_hmac_def)
  moreover have "rfc_block demo_hmac [] [3] 1 = replicate 31 0 @ [2]"
    by (simp add: hmac_val_def demo_hmac_def)
  ultimately show ?thesis
    by (simp add: rfc_expand_def unchained_def unchained_block_def hmac_val_def demo_hmac_def)
qed

text \<open>The interface \<open>openssl_ok\<close> asks of the key derivation is kept by this one.\<close>

definition with_compat_hkdf :: "hmac_fn \<Rightarrow> openssl \<Rightarrow> openssl" where
  "with_compat_hkdf hmac ssl =
     ssl\<lparr>hkdf_derive := (\<lambda>salt key info n. Option.bind (compat_hkdf_derive hmac salt key info n) id)\<rparr>"

lemma compat_derive_length:
  assumes "hmac_ok hmac"
  shows "compat_hkdf_derive hmac salt key info n = Some (Some k) \<Longrightarrow> length k = n"
proof -
  assume k: "compat_hkdf_derive hmac salt key info n = Some (Some k)"
  then have n: "n \<le> 255 * 32"
    by (simp add: compat_hkdf_derive_def hkdf_expand_def split: option.splits if_splits)
  have "n \<le> 32 * ((n + 31) div 32)" by linarith
  then show ?thesis
    using k hkdf_expand_eq [OF assms n]
    by (auto simp: compat_hkdf_derive_def length_unchained [OF assms] split: option.splits)
qed

lemma compat_openssl_ok: "openssl_ok ssl \<Longrightarrow> hmac_ok hmac \<Longrightarrow> openssl_ok (with_compat_hkdf hmac ssl)"
  unfolding openssl_ok_def with_compat_hkdf_def
  by (auto simp: bind_Some_iff dest: compat_derive_length)

end
