(* ===== verification/Char_Manager.thy ===== *)
theory Char_Manager
  imports Mobi_Client
begin

text \<open>
  \<open>CMobiCharManager\<close> (\<open>mobigame/character/ch_manager.cpp\<close>): the characters that are in the game on
  behalf of a mobile device. The auth core logs such a character in, the core the data base chose
  takes it over, and both forget it when it fails, logs out or is idle.

  An entry \<open>TMobiCharacter\<close> owns its connection: its destructor destroys it. A pointer to a connection
  is its handle, \<open>None\<close> the null pointer; the functions of the game that take over (logging in,
  selecting, entering) are appended to \<open>engine_out\<close>, and what they call back is a later step.
  An outer \<open>None\<close> is undefined behaviour.
\<close>

subsection \<open>Connections\<close>

definition FindByHandle :: "mobi \<Rightarrow> u32 \<Rightarrow> DESC option" where
  "FindByHandle s h = m_map_handle (desc_manager s) h"

definition upd_desc :: "u32 \<Rightarrow> (DESC \<Rightarrow> DESC) \<Rightarrow> mobi \<Rightarrow> mobi" where
  "upd_desc h f s =
     (let m = desc_manager s in
      s\<lparr>desc_manager := m\<lparr>m_map_handle := (m_map_handle m)(h := map_option f (m_map_handle m h))\<rparr>\<rparr>)"

definition destroy_desc :: "engine \<Rightarrow> u32 \<Rightarrow> mobi \<Rightarrow> mobi" where
  "destroy_desc eng h s =
     call_engine (DestroyDescOf h) (s\<lparr>desc_manager := DestroyDesc eng h (desc_manager s)\<rparr>)"

text \<open>
  \<open>CreateDesc\<close>. \<open>emplace\<close> keeps an entry that is already there; after the counter has gone round
  all handles the new connection would not be the one of its handle: \<open>None\<close>.
\<close>

definition CreateDesc :: "engine \<Rightarrow> time \<Rightarrow> mobi \<Rightarrow> (u32 option \<times> mobi) option" where
  "CreateDesc eng now s =
     (if g_bShutdown eng then Some (None, s)
      else
        let m = desc_manager s;
            handle_id = m_iHandleCount m + 1;
            newd = (DESC_new eng)
              \<lparr>d_handshaking := False, d_pong := True, d_host := bytes_of ''1'',
               d_is_mobile_request := True, d_last_activity := now\<rparr>
        in if m_map_handle m handle_id \<noteq> None then None
           else Some (Some handle_id,
             s\<lparr>desc_manager := m
                \<lparr>m_iHandleCount := handle_id,
                 m_map_handle := (m_map_handle m)(handle_id \<mapsto> newd),
                 m_set_pkDesc := m_set_pkDesc m @ [handle_id],
                 m_iSocketsConnected := m_iSocketsConnected m + 1\<rparr>\<rparr>))"

text \<open>\<open>DESC::Packet\<close> sends nothing to a connection that stands for a mobile device.\<close>

definition DESC_Packet :: "u32 \<Rightarrow> bytes \<Rightarrow> mobi \<Rightarrow> mobi option" where
  "DESC_Packet h data s =
     do { d \<leftarrow> FindByHandle s h;
          Some (if d_is_mobile_request d then s else call_engine (ClientPacket h data) s) }"

text \<open>\<open>DESC_MANAGER::FindByAccountID\<close>, over the set of connections in some order.\<close>

definition FindByAccountID :: "mobi \<Rightarrow> u32 \<Rightarrow> u32 option" where
  "FindByAccountID s acc =
     find (\<lambda>h. (case FindByHandle s h of None \<Rightarrow> False | Some d \<Rightarrow> d_account_id d = acc))
       (m_set_pkDesc (desc_manager s))"

text \<open>\<open>LoginFailure\<close> tells a device nothing either.\<close>

definition LoginFailure :: "u32 option \<Rightarrow> mobi \<Rightarrow> mobi option" where
  "LoginFailure d s =
     (case d of
        None \<Rightarrow> Some s
      | Some h \<Rightarrow> do { dd \<leftarrow> FindByHandle s h;
          Some (if d_is_mobile_request dd then s else call_engine (GameCall ''LoginFailure'' [h]) s) })"

text \<open>\<open>SAccountTable::GetIndexByPID\<close>: the place of the player in the account, or \<open>-1\<close>.\<close>

definition GetIndexByPID :: "u32 list \<Rightarrow> u32 \<Rightarrow> int" where
  "GetIndexByPID players pid =
     (case find (\<lambda>i. players ! i = pid) [0..<length players] of Some i \<Rightarrow> int i | None \<Rightarrow> -1)"

subsection \<open>The entries\<close>

text \<open>The destructor of \<open>TMobiCharacter\<close>.\<close>

definition destroy_character :: "engine \<Rightarrow> TMobiCharacter \<Rightarrow> mobi \<Rightarrow> mobi" where
  "destroy_character eng m s =
     (if g_bShutdown eng then s
      else (case FindByHandle s (mch_handle_id m) of
              None \<Rightarrow> s
            | Some d \<Rightarrow> destroy_desc eng (mch_handle_id m) s))"

definition erase_ch :: "engine \<Rightarrow> u32 \<Rightarrow> mobi \<Rightarrow> bool \<times> mobi" where
  "erase_ch eng pid s =
     (let m = lookup (mobi_descs s) pid;
          (found, c) = EraseByKey pid (mobi_descs s);
          s = s\<lparr>mobi_descs := c\<rparr>
      in (found, case m of Some m \<Rightarrow> destroy_character eng m s | None \<Rightarrow> s))"

definition emplace_ch :: "u32 \<Rightarrow> TMobiCharacter \<Rightarrow> mobi \<Rightarrow> mobi" where
  "emplace_ch pid m s = s\<lparr>mobi_descs := snd (Emplace pid m (mobi_descs s))\<rparr>"

definition MobiGetByHandleID :: "mobi \<Rightarrow> u32 \<Rightarrow> TMobiCharacter option" where
  "MobiGetByHandleID s hid = find (\<lambda>m. hid = mch_handle_id m) (owned_values (mobi_descs s))"

subsection \<open>Status\<close>

definition IsLoadFailed :: "EMobiLoad \<Rightarrow> bool" where
  "IsLoadFailed code = (case code of ML_SUCCESS \<Rightarrow> False | ML_LOADING \<Rightarrow> False | _ \<Rightarrow> True)"

definition NotifyStatus :: "engine \<Rightarrow> time \<Rightarrow> u32 option \<Rightarrow> EMobiLoad \<Rightarrow> mobi \<Rightarrow> mobi option" where
  "NotifyStatus eng now d code s =
     (case d of
        None \<Rightarrow> Some s
      | Some h \<Rightarrow> do {
          dd \<leftarrow> FindByHandle s h;
          if \<not> d_is_mobile_request dd then Some s
          else (case MobiGetByHandleID s h of
                  None \<Rightarrow> Some s
                | Some m \<Rightarrow> do {
                    let pid = li_pid (mch_info m);
                    (_, s) \<leftarrow> sendChLoadStatus eng now pid code s;
                    Some (if \<not> IsLoadFailed code then s else snd (erase_ch eng pid s)) }) })"

subsection \<open>The auth core\<close>

datatype ELoadChResult = LR_LOADING | LR_ALREADY_FOR_MOBILE | LR_IN_GAME | LR_SYSTEM_ERR

text \<open>
  A C string cut to the length the code passes, in an array of one more: what the game reads from
  the login packet.
\<close>

definition login_field :: "nat \<Rightarrow> bytes \<Rightarrow> bytes" where
  "login_field n t = cstr ((str_copy (replicate (n + 1) 0) n t)[n := 0])"

definition CharacterLoad ::
  "engine \<Rightarrow> time \<Rightarrow> TMobiLoginInfo \<Rightarrow> bytes \<Rightarrow> mobi \<Rightarrow> (ELoadChResult \<times> mobi) option" where
  "CharacterLoad eng now info pw s =
     (if g_bShutdown eng then Some (LR_SYSTEM_ERR, s)
      else let pid = li_pid info in
        if lookup (mobi_descs s) pid \<noteq> None then Some (LR_LOADING, s)
        else (case FindByLoginName eng (desc_manager s) (li_login info) of
           Some h \<Rightarrow> do { d \<leftarrow> FindByHandle s h;
             Some (if d_is_mobile_request d then LR_ALREADY_FOR_MOBILE else LR_IN_GAME, s) }
         | None \<Rightarrow>
             (case p2p_FindByPID eng pid of
                Some for_mobile \<Rightarrow> do {
                  (_, s) \<leftarrow> sendChLoadStatus eng now pid (if for_mobile then ML_SUCCESS else ML_INGAME_REAL)
                            (call_engine (P2PClearPid pid) s);
                  Some (if \<not> for_mobile then LR_IN_GAME else LR_ALREADY_FOR_MOBILE, s) }
              | None \<Rightarrow> do {
                  (newd, s) \<leftarrow> CreateDesc eng now s;
                  (case newd of
                     None \<Rightarrow> Some (LR_SYSTEM_ERR, s)
                   | Some h \<Rightarrow>
                       let login = login_field (LOGIN_MAX_LEN eng) (li_login info);
                           passwd = login_field (PASSWD_MAX_LEN eng) pw;
                           s = emplace_ch pid \<lparr>mch_info = info, mch_handle_id = h\<rparr> s;
                           s = upd_desc h (\<lambda>d. d\<lparr>d_phase := PHASE_AUTH\<rparr>) s
                       in Some (LR_LOADING, call_engine (AuthLogin h login passwd) s)) })))"

definition SendMobiLogin :: "engine \<Rightarrow> u32 option \<Rightarrow> mobi \<Rightarrow> mobi option" where
  "SendMobiLogin eng d s =
     (case d of
        None \<Rightarrow> Some s
      | Some h \<Rightarrow> do {
          dd \<leftarrow> FindByHandle s h;
          Some (if \<not> d_is_mobile_request dd then s
                else if \<not> g_bAuthServer eng then s
                else (case MobiGetByHandleID s h of
                        None \<Rightarrow> s
                      | Some m \<Rightarrow> call_engine (DBMobiLogin (li_pid (mch_info m)) (d_login_key dd)) s)) })"

definition SendMobiWarp :: "engine \<Rightarrow> time \<Rightarrow> u32 option \<Rightarrow> u32 \<Rightarrow> u16 \<Rightarrow> mobi \<Rightarrow> mobi option" where
  "SendMobiWarp eng now d addr port s =
     (case d of
        None \<Rightarrow> Some s
      | Some h \<Rightarrow> do {
          dd \<leftarrow> FindByHandle s h;
          if \<not> d_is_mobile_request dd then Some s
          else
            let s = upd_desc h (\<lambda>d. d\<lparr>d_last_activity := now\<rparr>) s in
            Some (if g_bAuthServer eng then s
                  else (case MobiGetByHandleID s h of
                          None \<Rightarrow> s
                        | Some m \<Rightarrow>
                            call_engine (DBMobiWarp (li_pid (mch_info m)) (d_login_key dd) addr port) s)) })"

definition HandleLoginResult :: "engine \<Rightarrow> time \<Rightarrow> u32 option \<Rightarrow> bool \<Rightarrow> mobi \<Rightarrow> mobi option" where
  "HandleLoginResult eng now d res s =
     (case d of
        None \<Rightarrow> Some s
      | Some h \<Rightarrow>
          if g_bShutdown eng then Some s
          else do {
            dd \<leftarrow> FindByHandle s h;
            if \<not> d_is_mobile_request dd then Some s
            else do {
              s \<leftarrow> NotifyStatus eng now d (if res then ML_LOADING else WRONG_PWD) s;
              if \<not> res then Some s
              else (case FindByHandle s h of None \<Rightarrow> Some s | Some _ \<Rightarrow> SendMobiLogin eng d s) } })"

subsection \<open>The game core\<close>

record TMobiDGLogin =
  dg_pid :: u32
  dg_login_key :: u32
  dg_login :: bytes

text \<open>The last part: the connection is made and the login started.\<close>

definition start_login :: "engine \<Rightarrow> time \<Rightarrow> TMobiDGLogin \<Rightarrow> mobi \<Rightarrow> mobi option" where
  "start_login eng now received s = do {
     (newd, s) \<leftarrow> CreateDesc eng now s;
     (case newd of
        None \<Rightarrow> Some s
      | Some h \<Rightarrow>
          let pid = dg_pid received;
              s = emplace_ch pid
                \<lparr>mch_info = \<lparr>li_pid = pid, li_login = cstr (dg_login received)\<rparr>, mch_handle_id = h\<rparr> s;
              s = upd_desc h (\<lambda>d. d\<lparr>d_phase := PHASE_LOGIN\<rparr>) s
          in Some (call_engine (LoginByKey h (dg_login_key received)
                (login_field (LOGIN_MAX_LEN eng) (dg_login received))) s)) }"

definition SendLoginRequest :: "engine \<Rightarrow> time \<Rightarrow> TMobiDGLogin \<Rightarrow> mobi \<Rightarrow> mobi option" where
  "SendLoginRequest eng now received s =
     (if g_bShutdown eng then Some s
      else
        let s = snd (erase_ch eng (dg_pid received) s)
        in (case FindByLoginKey eng (desc_manager s) (dg_login_key received) of
              None \<Rightarrow> start_login eng now received s
            | Some f \<Rightarrow> do {
                df \<leftarrow> FindByHandle s f;
                if \<not> d_is_mobile_request df then Some s
                else start_login eng now received (destroy_desc eng f s) }))"

definition CharacterSelect :: "engine \<Rightarrow> time \<Rightarrow> u32 option \<Rightarrow> mobi \<Rightarrow> mobi option" where
  "CharacterSelect eng now d s =
     (if g_bShutdown eng then Some s
      else (case d of
        None \<Rightarrow> Some s
      | Some h \<Rightarrow> do {
          dd \<leftarrow> FindByHandle s h;
          Some (if \<not> d_is_mobile_request dd then s
                else (case MobiGetByHandleID s h of
                        None \<Rightarrow> s
                      | Some m \<Rightarrow>
                          let ch_idx = GetIndexByPID (d_players dd) (li_pid (mch_info m)) in
                          if ch_idx = -1 then s
                          else call_engine (PlayerSelect h ch_idx)
                            (upd_desc h (\<lambda>d. d\<lparr>d_last_activity := now, d_phase := PHASE_SELECT\<rparr>) s))) }))"

text \<open>\<open>TScopeFlag\<close> turns the flag round while the scope lasts.\<close>

definition TScopeFlag :: "bool \<Rightarrow> bool" where
  "TScopeFlag flag = (\<not> flag)"

definition Entergame :: "engine \<Rightarrow> time \<Rightarrow> u32 option \<Rightarrow> mobi \<Rightarrow> mobi option" where
  "Entergame eng now d s =
     (case d of
        None \<Rightarrow> Some s
      | Some h \<Rightarrow>
          if g_bShutdown eng then Some s
          else do {
            dd \<leftarrow> FindByHandle s h;
            if \<not> d_is_mobile_request dd then Some s
            else if \<not> d_has_character dd then Some s
            else
              let s = upd_desc h (\<lambda>d. d\<lparr>d_last_activity := now, d_phase := PHASE_LOADING\<rparr>) s;
                  s = upd_desc h (\<lambda>d. d\<lparr>d_can_mobi_warp := TScopeFlag (d_can_mobi_warp d)\<rparr>) s;
                  s = call_engine (EnterGame h (TScopeFlag (d_can_mobi_warp dd))) s;
                  s = upd_desc h (\<lambda>d. d\<lparr>d_can_mobi_warp := TScopeFlag (d_can_mobi_warp d)\<rparr>) s
              in NotifyStatus eng now d ML_SUCCESS s })"

subsection \<open>The end of a character\<close>

definition HandleLogout :: "engine \<Rightarrow> time \<Rightarrow> u32 \<Rightarrow> mobi \<Rightarrow> (bool \<times> mobi) option" where
  "HandleLogout eng now pid s =
     (let (found, s) = erase_ch eng pid s in
      if \<not> found then Some (False, s)
      else do { (_, s) \<leftarrow> sendChLoadStatus eng now pid ML_LOGOUT s; Some (True, s) })"

definition ACTIVITY_TIMEOUT :: time where "ACTIVITY_TIMEOUT = 15 * 60 * sec"
definition CH_CLEANER_INTERVAL :: time where "CH_CLEANER_INTERVAL = 15 * 60 * sec"

definition need_remove :: "time \<Rightarrow> mobi \<Rightarrow> TMobiCharacter \<Rightarrow> bool" where
  "need_remove now s m =
     (case FindByHandle s (mch_handle_id m) of
        None \<Rightarrow> True
      | Some desc \<Rightarrow> now - d_last_activity desc > ACTIVITY_TIMEOUT)"

primrec remove_chs :: "engine \<Rightarrow> time \<Rightarrow> u32 list \<Rightarrow> mobi \<Rightarrow> mobi option" where
  "remove_chs eng now [] s = Some s"
| "remove_chs eng now (pid # pids) s =
     (let (found, s) = erase_ch eng pid s in
      if \<not> found then remove_chs eng now pids s
      else do { (_, s) \<leftarrow> sendChLoadStatus eng now pid NO_ACTIVITY s; remove_chs eng now pids s })"

definition ch_Process :: "engine \<Rightarrow> time \<Rightarrow> mobi \<Rightarrow> mobi option" where
  "ch_Process eng now s =
     (if now - ch_last_cleanup s < CH_CLEANER_INTERVAL then Some s
      else
        let s = s\<lparr>ch_last_cleanup := now\<rparr> in
        if g_bShutdown eng then Some s
        else remove_chs eng now
          (map (li_pid \<circ> mch_info) (filter (need_remove now s) (owned_values (mobi_descs s)))) s)"

subsection \<open>What sending leaves alone\<close>

text \<open>The part of the state the characters live in.\<close>

definition same_chars :: "mobi \<Rightarrow> mobi \<Rightarrow> bool" where
  "same_chars s t \<longleftrightarrow> mobi_descs t = mobi_descs s \<and> desc_manager t = desc_manager s \<and>
     engine_out t = engine_out s \<and> messenger_state t = messenger_state s \<and>
     message_queue t = message_queue s \<and> ch_last_cleanup t = ch_last_cleanup s"

lemma same_chars_refl [simp]: "same_chars s s"
  by (simp add: same_chars_def)

lemma same_chars_trans: "same_chars s t \<Longrightarrow> same_chars t u \<Longrightarrow> same_chars s u"
  by (simp add: same_chars_def)

lemma same_chars_add: "same_chars s (snd (unprocessed_add now data e s))"
  by (simp add: same_chars_def unprocessed_add_def push_unprocessed_def)

lemma same_chars_SendPacket: "SendPacket eng now data e s = (b, t) \<Longrightarrow> same_chars s t"
proof -
  assume a: "SendPacket eng now data e s = (b, t)"
  obtain res d u where u: "mSend eng data e s = (res, d, u)" by (cases "mSend eng data e s") auto
  have su: "same_chars s u" using mSend_more [OF u] by (simp add: same_chars_def)
  have "t = s \<or> t = u \<or> t = snd (unprocessed_add now d e u)"
    using a by (cases res) (simp_all add: SendPacket_def u split: if_splits)
  then show ?thesis using su same_chars_trans [OF su same_chars_add] by auto
qed

lemma sends_ok_same:
  assumes "sends_ok eng now s r"
  shows "\<exists>b t. r = Some (b, t) \<and> same_chars s t"
proof -
  consider b where "r = Some (b, s)" | d where "r = Some (SendPacket eng now d True s)"
    using assms by (auto simp: sends_ok_def)
  then show ?thesis
  proof cases
    case (2 d)
    then show ?thesis
      using same_chars_SendPacket by (cases "SendPacket eng now d True s") blast
  qed simp
qed

lemma ch_status:
  obtains b t where "sendChLoadStatus eng now pid code s = Some (b, t)" "same_chars s t"
proof -
  have "sends_ok eng now s (sendChLoadStatus eng now pid code s)"
    using character_fixed [of "C_sendChLoadStatus pid code" eng now s] by simp
  from sends_ok_same [OF this] that show thesis by blast
qed

subsection \<open>The invariant\<close>

text \<open>
  Every entry is filed under its player, and no two entries own the same connection. The handles
  given so far are below the counter.
\<close>

definition char_inv :: "mobi \<Rightarrow> bool" where
  "char_inv s \<longleftrightarrow> container_inv (mobi_descs s) \<and>
     (\<forall>k m. lookup (mobi_descs s) k = Some m \<longrightarrow>
        li_pid (mch_info m) = k \<and> mch_handle_id m \<le> m_iHandleCount (desc_manager s)) \<and>
     (\<forall>k k' m m'. lookup (mobi_descs s) k = Some m \<longrightarrow> lookup (mobi_descs s) k' = Some m' \<longrightarrow>
        mch_handle_id m = mch_handle_id m' \<longrightarrow> k = k')"

text \<open>What the game documents: destroying a connection takes it, and only it, out of the table.\<close>

definition desc_laws :: "engine \<Rightarrow> bool" where
  "desc_laws eng \<longleftrightarrow> (\<forall>h m. m_map_handle (DestroyDesc eng h m) = (m_map_handle m)(h := None) \<and>
     m_iHandleCount (DestroyDesc eng h m) = m_iHandleCount m)"

lemma char_inv_cong: "same_chars s t \<Longrightarrow> char_inv t = char_inv s"
  by (simp add: same_chars_def char_inv_def)

lemma destroy_character_sel [simp]: "mobi_descs (destroy_character eng m s) = mobi_descs s"
  by (simp add: destroy_character_def destroy_desc_def call_engine_def split: option.split)

lemma destroy_character_count:
  "desc_laws eng \<Longrightarrow>
   m_iHandleCount (desc_manager (destroy_character eng m s)) = m_iHandleCount (desc_manager s)"
  by (simp add: destroy_character_def destroy_desc_def call_engine_def desc_laws_def split: option.split)

lemma erase_ch_eq:
  "erase_ch eng pid s =
     (let (found, c) = EraseByKey pid (mobi_descs s) in
      (found, case lookup (mobi_descs s) pid of
                Some m \<Rightarrow> destroy_character eng m (s\<lparr>mobi_descs := c\<rparr>) | None \<Rightarrow> s\<lparr>mobi_descs := c\<rparr>))"
  by (simp add: erase_ch_def Let_def split: prod.split)

lemma erase_ch_lookup:
  assumes "char_inv s"
  shows "lookup (mobi_descs (snd (erase_ch eng pid s))) = (lookup (mobi_descs s))(pid := None)"
    and "fst (erase_ch eng pid s) \<longleftrightarrow> lookup (mobi_descs s) pid \<noteq> None"
    and "container_inv (mobi_descs (snd (erase_ch eng pid s)))"
proof -
  have c: "container_inv (mobi_descs s)" using assms by (simp add: char_inv_def)
  obtain found d where e: "EraseByKey pid (mobi_descs s) = (found, d)" by (cases "EraseByKey pid (mobi_descs s)")
  note r = EraseByKey_lookup [OF c, of pid] EraseByKey_inv [OF c, of pid] cont.del_fst [OF c, of pid]
  show "lookup (mobi_descs (snd (erase_ch eng pid s))) = (lookup (mobi_descs s))(pid := None)"
    "fst (erase_ch eng pid s) \<longleftrightarrow> lookup (mobi_descs s) pid \<noteq> None"
    "container_inv (mobi_descs (snd (erase_ch eng pid s)))"
    using r by (auto simp: erase_ch_eq e split: option.split)
qed

lemma erase_ch_count:
  assumes "desc_laws eng"
  shows "m_iHandleCount (desc_manager (snd (erase_ch eng pid s))) = m_iHandleCount (desc_manager s)"
proof -
  obtain found d where e: "EraseByKey pid (mobi_descs s) = (found, d)" by (cases "EraseByKey pid (mobi_descs s)")
  show ?thesis by (simp add: erase_ch_eq e destroy_character_count [OF assms] split: option.split)
qed

lemma char_inv_erase: "desc_laws eng \<Longrightarrow> char_inv s \<Longrightarrow> char_inv (snd (erase_ch eng pid s))"
  using erase_ch_lookup [of s eng pid] erase_ch_count [of eng pid s]
  by (auto simp: char_inv_def)

text \<open>The other operations on the connections.\<close>

lemma upd_desc_sel [simp]:
  "mobi_descs (upd_desc h f s) = mobi_descs s"
  "m_iHandleCount (desc_manager (upd_desc h f s)) = m_iHandleCount (desc_manager s)"
  "engine_out (upd_desc h f s) = engine_out s"
  "FindByHandle (upd_desc h f s) k = (if k = h then map_option f (FindByHandle s h) else FindByHandle s k)"
  by (simp_all add: upd_desc_def FindByHandle_def Let_def)

lemma call_engine_sel [simp]:
  "mobi_descs (call_engine c s) = mobi_descs s" "desc_manager (call_engine c s) = desc_manager s"
  "engine_out (call_engine c s) = engine_out s @ [c]" "FindByHandle (call_engine c s) = FindByHandle s"
  by (simp_all add: call_engine_def FindByHandle_def fun_eq_iff)

lemma char_inv_frame:
  "char_inv s \<Longrightarrow> mobi_descs t = mobi_descs s \<Longrightarrow>
   m_iHandleCount (desc_manager s) \<le> m_iHandleCount (desc_manager t) \<Longrightarrow> char_inv t"
  by (auto simp: char_inv_def intro: order_trans)

lemma char_inv_upd [simp]: "char_inv (upd_desc h f s) = char_inv s" "char_inv (call_engine c s) = char_inv s"
  by (simp_all add: char_inv_def)

lemma char_inv_destroy: "desc_laws eng \<Longrightarrow> char_inv s \<Longrightarrow> char_inv (destroy_desc eng h s)"
  by (simp add: destroy_desc_def) (simp add: char_inv_def desc_laws_def)

lemma CreateDesc_Some:
  assumes "CreateDesc eng now s = Some (Some h, t)" and "m_iHandleCount (desc_manager s) \<noteq> -1"
  shows "mobi_descs t = mobi_descs s" "m_iHandleCount (desc_manager t) = h"
    "m_iHandleCount (desc_manager s) < h" "FindByHandle t h \<noteq> None"
proof -
  have "h = m_iHandleCount (desc_manager s) + 1" and t: "mobi_descs t = mobi_descs s"
    "m_iHandleCount (desc_manager t) = h" "FindByHandle t h \<noteq> None"
    using assms(1) by (auto simp: CreateDesc_def Let_def FindByHandle_def split: if_splits)
  then show "mobi_descs t = mobi_descs s" "m_iHandleCount (desc_manager t) = h" "FindByHandle t h \<noteq> None"
    "m_iHandleCount (desc_manager s) < h"
    using less_succ_u32 [OF assms(2)] by simp_all
qed

lemma CreateDesc_None: "CreateDesc eng now s = Some (None, t) \<Longrightarrow> t = s"
  by (auto simp: CreateDesc_def Let_def split: if_splits)

lemma char_inv_new:
  assumes inv: "char_inv s" and new: "CreateDesc eng now s = Some (Some h, t)"
    and room: "m_iHandleCount (desc_manager s) \<noteq> -1"
  shows "char_inv (emplace_ch (li_pid info) \<lparr>mch_info = info, mch_handle_id = h\<rparr> t)"
    and "lookup (mobi_descs (emplace_ch (li_pid info) \<lparr>mch_info = info, mch_handle_id = h\<rparr> t)) =
      (if lookup (mobi_descs s) (li_pid info) = None
       then (lookup (mobi_descs s))(li_pid info \<mapsto> \<lparr>mch_info = info, mch_handle_id = h\<rparr>)
       else lookup (mobi_descs s))"
proof -
  let ?m = "\<lparr>mch_info = info, mch_handle_id = h\<rparr>"
  let ?t = "emplace_ch (li_pid info) ?m t"
  note c = CreateDesc_Some [OF new room]
  have ci: "container_inv (mobi_descs t)" using inv c(1) by (simp add: char_inv_def)
  have l: "lookup (mobi_descs ?t) = (if lookup (mobi_descs t) (li_pid info) = None
       then (lookup (mobi_descs t))(li_pid info \<mapsto> ?m) else lookup (mobi_descs t))"
    using Emplace_lookup [OF ci] by (simp add: emplace_ch_def)
  then show "lookup (mobi_descs ?t) =
      (if lookup (mobi_descs s) (li_pid info) = None
       then (lookup (mobi_descs s))(li_pid info \<mapsto> ?m) else lookup (mobi_descs s))"
    using c(1) by simp
  have old: "mch_handle_id m < h" if "lookup (mobi_descs s) k = Some m" for k m
    using inv that c(3) unfolding char_inv_def by (meson le_less_trans)
  have "container_inv (mobi_descs ?t)" using Emplace_inv [OF ci] by (simp add: emplace_ch_def)
  moreover have "m_iHandleCount (desc_manager ?t) = h" using c(2) by (simp add: emplace_ch_def)
  ultimately show "char_inv ?t"
    using inv l c(1) old unfolding char_inv_def
    by (auto split: if_splits intro: less_imp_le)
qed

lemma MobiGet_entry:
  assumes "char_inv s" and "lookup (mobi_descs s) pid = Some m"
  shows "MobiGetByHandleID s (mch_handle_id m) = Some m"
proof -
  have ran: "set (owned_values (mobi_descs s)) = ran (lookup (mobi_descs s))"
    using assms(1) owned_lookup [of "mobi_descs s"] unfolding char_inv_def by blast
  then have "m \<in> set (owned_values (mobi_descs s))" using assms(2) by (auto intro: ranI)
  then obtain m' where m': "MobiGetByHandleID s (mch_handle_id m) = Some m'"
    unfolding MobiGetByHandleID_def by (metis (mono_tags, lifting) find_None_iff not_None_eq)
  then have "m' \<in> ran (lookup (mobi_descs s))" and h: "mch_handle_id m = mch_handle_id m'"
    using ran by (auto simp: MobiGetByHandleID_def find_Some_iff)
  then obtain k where k: "lookup (mobi_descs s) k = Some m'" by (auto simp: ran_def)
  with assms h have "k = pid" unfolding char_inv_def by blast
  then show ?thesis using m' k assms(2) by simp
qed

lemma MobiGet_Some:
  assumes "char_inv s" and "MobiGetByHandleID s h = Some m"
  shows "lookup (mobi_descs s) (li_pid (mch_info m)) = Some m \<and> mch_handle_id m = h"
proof -
  have ran: "set (owned_values (mobi_descs s)) = ran (lookup (mobi_descs s))"
    using assms(1) owned_lookup [of "mobi_descs s"] unfolding char_inv_def by blast
  have "m \<in> ran (lookup (mobi_descs s))" "h = mch_handle_id m"
    using assms(2) ran by (auto simp: MobiGetByHandleID_def find_Some_iff)
  then show ?thesis using assms(1) unfolding char_inv_def ran_def by blast
qed

subsection \<open>Every operation keeps the invariant\<close>

lemma char_inv_NotifyStatus:
  assumes "desc_laws eng" and "char_inv s" and "NotifyStatus eng now d code s = Some t"
  shows "char_inv t"
proof -
  have "char_inv u" if "sendChLoadStatus eng now p c s = Some (b, u)" for p c b u
    using ch_status [of eng now p c s] that assms(2) char_inv_cong by (metis option.inject prod.inject)
  then show ?thesis
    using assms char_inv_erase [OF assms(1)]
    by (auto simp: NotifyStatus_def bind_Some_iff Let_def split: option.splits if_splits)
qed

lemma char_inv_CharacterLoad:
  assumes "char_inv s" and "CharacterLoad eng now info pw s = Some (r, t)"
    and "m_iHandleCount (desc_manager s) \<noteq> -1"
  shows "char_inv t"
proof -
  have status: "char_inv u" if "sendChLoadStatus eng now p c (call_engine e s) = Some (b, u)" for p c b u e
    using ch_status [of eng now p c "call_engine e s"] that assms(1) char_inv_cong char_inv_upd(2)
    by (metis option.inject prod.inject)
  show ?thesis
    using assms(1,2) status char_inv_new(1) [OF assms(1) _ assms(3)]
    by (auto simp: CharacterLoad_def bind_Some_iff Let_def dest!: CreateDesc_None
        split: option.splits if_splits)
qed

lemma SendLoginRequest_cases:
  assumes "SendLoginRequest eng now req s = Some t"
  shows "let u = snd (erase_ch eng (dg_pid req) s) in t = s \<or> t = u \<or> start_login eng now req u = Some t \<or>
     (\<exists>f. start_login eng now req (destroy_desc eng f u) = Some t)"
  using assms unfolding SendLoginRequest_def Let_def
  by (simp split: option.splits if_splits) (auto simp: bind_Some_iff split: if_splits)

lemma char_inv_start_login:
  assumes inv: "char_inv u" and room: "m_iHandleCount (desc_manager u) \<noteq> -1"
    and run: "start_login eng now req u = Some v"
  shows "char_inv v"
proof -
  obtain a w where c: "CreateDesc eng now u = Some (a, w)"
    using run by (auto simp: start_login_def bind_Some_iff)
  show ?thesis
  proof (cases a)
    case None
    then have "w = u" using c CreateDesc_None by blast
    then show ?thesis using inv run c None by (simp add: start_login_def)
  next
    case (Some h)
    then show ?thesis
      using run c char_inv_new(1) [OF inv _ room, of eng now h w
        "\<lparr>li_pid = dg_pid req, li_login = cstr (dg_login req)\<rparr>"] by (auto simp: start_login_def Let_def)
  qed
qed

lemma char_inv_SendLoginRequest:
  assumes laws: "desc_laws eng" and inv: "char_inv s" and run: "SendLoginRequest eng now req s = Some t"
    and room: "m_iHandleCount (desc_manager s) \<noteq> -1"
  shows "char_inv t"
proof -
  let ?s = "snd (erase_ch eng (dg_pid req) s)"
  have s: "char_inv ?s" "m_iHandleCount (desc_manager ?s) \<noteq> -1"
    using char_inv_erase [OF laws inv] erase_ch_count [OF laws] room by simp_all
  have d: "char_inv (destroy_desc eng f ?s)" "m_iHandleCount (desc_manager (destroy_desc eng f ?s)) \<noteq> -1" for f
    using char_inv_destroy [OF laws s(1)] s(2) laws by (simp_all add: destroy_desc_def desc_laws_def)
  show ?thesis
    using SendLoginRequest_cases [OF run] inv s d char_inv_start_login unfolding Let_def by blast
qed

lemma char_inv_SendMobiLogin: "SendMobiLogin eng d s = Some t \<Longrightarrow> char_inv t = char_inv s"
  by (auto simp: SendMobiLogin_def bind_Some_iff split: option.splits if_splits)

lemma char_inv_SendMobiWarp: "SendMobiWarp eng now d a p s = Some t \<Longrightarrow> char_inv t = char_inv s"
  by (auto simp: SendMobiWarp_def bind_Some_iff Let_def split: option.splits if_splits)

lemma CharacterSelect_cases:
  assumes "CharacterSelect eng now d s = Some t"
  shows "t = s \<or> (\<exists>h i. t = call_engine (PlayerSelect h i)
     (upd_desc h (\<lambda>d. d\<lparr>d_last_activity := now, d_phase := PHASE_SELECT\<rparr>) s))"
proof (cases "g_bShutdown eng \<or> d = None")
  case True
  then show ?thesis using assms by (auto simp: CharacterSelect_def split: if_splits)
next
  case False
  then obtain h where h: "\<not> g_bShutdown eng" "d = Some h" by blast
  obtain dd where dd: "FindByHandle s h = Some dd"
    using assms h by (auto simp: CharacterSelect_def bind_Some_iff)
  show ?thesis
  proof (cases "d_is_mobile_request dd \<and> MobiGetByHandleID s h \<noteq> None")
    case True
    then show ?thesis
      using assms h dd by (clarsimp simp: CharacterSelect_def Let_def split: if_splits) blast
  next
    case False
    then show ?thesis using assms h dd by (auto simp: CharacterSelect_def)
  qed
qed

lemma char_inv_CharacterSelect: "CharacterSelect eng now d s = Some t \<Longrightarrow> char_inv t = char_inv s"
  using CharacterSelect_cases char_inv_upd by metis

lemma HandleLoginResult_cases:
  assumes "HandleLoginResult eng now d res s = Some t"
  shows "t = s \<or> (\<exists>n c. NotifyStatus eng now d c s = Some n \<and> (t = n \<or> SendMobiLogin eng d n = Some t))"
proof (cases d)
  case None
  then show ?thesis using assms by (simp add: HandleLoginResult_def)
next
  case (Some h)
  show ?thesis
  proof (cases "g_bShutdown eng \<or> t = s")
    case True
    then show ?thesis using assms Some by (auto simp: HandleLoginResult_def)
  next
    case False
    with assms Some obtain n where "NotifyStatus eng now d (if res then ML_LOADING else WRONG_PWD) s = Some n"
      "(if \<not> res then Some n
        else (case FindByHandle n h of None \<Rightarrow> Some n | Some _ \<Rightarrow> SendMobiLogin eng d n)) = Some t"
      by (auto simp: HandleLoginResult_def bind_Some_iff split: if_splits)
    then show ?thesis by (auto split: if_splits option.splits)
  qed
qed

lemma char_inv_HandleLoginResult:
  assumes "desc_laws eng" and "char_inv s" and "HandleLoginResult eng now d res s = Some t"
  shows "char_inv t"
  using HandleLoginResult_cases [OF assms(3)] assms(2) char_inv_NotifyStatus [OF assms(1,2)]
    char_inv_SendMobiLogin by blast

lemma char_inv_Entergame:
  assumes "desc_laws eng" and "char_inv s" and "Entergame eng now d s = Some t"
  shows "char_inv t"
  using assms(2,3)
  by (auto simp: Entergame_def bind_Some_iff Let_def
      intro: char_inv_NotifyStatus [OF assms(1), rotated] split: option.splits if_splits)

lemma HandleLogout_eq:
  assumes "desc_laws eng" and "char_inv s"
  shows "\<exists>t. HandleLogout eng now pid s = Some (lookup (mobi_descs s) pid \<noteq> None, t) \<and> char_inv t \<and>
     lookup (mobi_descs t) = (lookup (mobi_descs s))(pid := None)"
proof -
  obtain found u where u: "erase_ch eng pid s = (found, u)" by (cases "erase_ch eng pid s")
  have e: "found = (lookup (mobi_descs s) pid \<noteq> None)" "char_inv u"
    "lookup (mobi_descs u) = (lookup (mobi_descs s))(pid := None)"
    using erase_ch_lookup [OF assms(2), of eng pid] char_inv_erase [OF assms, of pid] by (simp_all add: u)
  obtain b v where v: "sendChLoadStatus eng now pid ML_LOGOUT u = Some (b, v)" "same_chars u v"
    by (rule ch_status)
  then have "char_inv v" "mobi_descs v = mobi_descs u"
    using e char_inv_cong [OF v(2)] by (simp_all add: same_chars_def)
  then show ?thesis using e v(1) by (cases found) (simp_all add: HandleLogout_def u)
qed

lemma char_inv_remove_chs:
  assumes "desc_laws eng"
  shows "char_inv s \<Longrightarrow> \<exists>t. remove_chs eng now pids s = Some t \<and> char_inv t \<and>
     lookup (mobi_descs t) = (lookup (mobi_descs s)) |` (- set pids)"
proof (induction pids arbitrary: s)
  case Nil
  then show ?case by (simp add: restrict_map_def)
next
  case (Cons pid pids)
  obtain found u where u: "erase_ch eng pid s = (found, u)" by (cases "erase_ch eng pid s")
  have e: "char_inv u" "lookup (mobi_descs u) = (lookup (mobi_descs s))(pid := None)"
    using erase_ch_lookup [OF Cons.prems, of eng pid] char_inv_erase [OF assms Cons.prems, of pid]
    by (simp_all add: u)
  obtain b v where v: "sendChLoadStatus eng now pid NO_ACTIVITY u = Some (b, v)" "same_chars u v"
    by (rule ch_status)
  have iv: "char_inv v" "mobi_descs v = mobi_descs u"
    using e(1) v(2) char_inv_cong [OF v(2)] by (simp_all add: same_chars_def)
  have m: "(\<lambda>a. if a = pid then None else M a) |` (- set pids) = M |` (- insert pid (set pids))"
    for M :: "u32 \<rightharpoonup> TMobiCharacter"
    by (auto simp: restrict_map_def fun_eq_iff)
  show ?case
  proof (cases found)
    case True
    then show ?thesis using Cons.IH [OF iv(1)] v(1) by (simp add: u iv(2) e(2) m)
  next
    case False
    then show ?thesis using Cons.IH [OF e(1)] by (simp add: u e(2) m)
  qed
qed

subsection \<open>Runs\<close>

text \<open>
  The operations in any order, and between them steps of the game, which may change everything but
  the entries and never takes the handle counter back, and of the client, which leaves this part
  of the state alone. The handles have not run out where a connection is created.
\<close>

inductive ch_step :: "engine \<Rightarrow> mobi \<Rightarrow> mobi \<Rightarrow> bool" for eng where
  step_load: "\<lbrakk>CharacterLoad eng now info pw s = Some (r, t); m_iHandleCount (desc_manager s) \<noteq> -1\<rbrakk>
    \<Longrightarrow> ch_step eng s t"
| step_request: "\<lbrakk>SendLoginRequest eng now req s = Some t; m_iHandleCount (desc_manager s) \<noteq> -1\<rbrakk>
    \<Longrightarrow> ch_step eng s t"
| step_notify: "NotifyStatus eng now d code s = Some t \<Longrightarrow> ch_step eng s t"
| step_result: "HandleLoginResult eng now d res s = Some t \<Longrightarrow> ch_step eng s t"
| step_select: "CharacterSelect eng now d s = Some t \<Longrightarrow> ch_step eng s t"
| step_enter: "Entergame eng now d s = Some t \<Longrightarrow> ch_step eng s t"
| step_warp: "SendMobiWarp eng now d addr port s = Some t \<Longrightarrow> ch_step eng s t"
| step_logout: "HandleLogout eng now pid s = Some (b, t) \<Longrightarrow> ch_step eng s t"
| step_process: "ch_Process eng now s = Some t \<Longrightarrow> ch_step eng s t"
| step_client: "same_chars s t \<Longrightarrow> ch_step eng s t"
| step_game: "\<lbrakk>mobi_descs t = mobi_descs s;
    m_iHandleCount (desc_manager s) \<le> m_iHandleCount (desc_manager t)\<rbrakk> \<Longrightarrow> ch_step eng s t"

lemma char_inv_Process:
  assumes "desc_laws eng" and "char_inv s" and "ch_Process eng now s = Some t"
  shows "char_inv t"
proof -
  have s': "char_inv (s\<lparr>ch_last_cleanup := now\<rparr>)" using assms(2) by (simp add: char_inv_def)
  from char_inv_remove_chs [OF assms(1) s'] have "char_inv t"
    if "remove_chs eng now pids (s\<lparr>ch_last_cleanup := now\<rparr>) = Some t" for pids
    using that by (metis option.inject)
  then show ?thesis using assms(2,3) s' by (auto simp: ch_Process_def Let_def split: if_splits)
qed

lemma char_inv_step:
  assumes "ch_step eng s t" and "desc_laws eng" and "char_inv s"
  shows "char_inv t"
  using assms
proof (induction rule: ch_step.induct)
  case (step_load now info pw s r t)
  then show ?case using char_inv_CharacterLoad [of s] by blast
next
  case (step_request now req s t)
  then show ?case using char_inv_SendLoginRequest [of eng s] by blast
next
  case (step_notify now d code s t)
  then show ?case using char_inv_NotifyStatus [of eng s] by blast
next
  case (step_result now d res s t)
  then show ?case using char_inv_HandleLoginResult [of eng s] by blast
next
  case (step_select now d s t)
  then show ?case using char_inv_CharacterSelect [of eng now d s t] by blast
next
  case (step_enter now d s t)
  then show ?case using char_inv_Entergame [of eng s] by blast
next
  case (step_warp now d addr port s t)
  then show ?case using char_inv_SendMobiWarp [of eng now d addr port s t] by blast
next
  case (step_logout now pid s b t)
  then show ?case using HandleLogout_eq [of eng s now pid] by auto
next
  case (step_process now s t)
  then show ?case using char_inv_Process [of eng s] by blast
next
  case (step_client s t)
  then show ?case using char_inv_cong [of s t] by blast
next
  case (step_game t s)
  then show ?case using char_inv_frame [of s t] by blast
qed

lemma char_inv_init: "char_inv mobi_init"
  using container_inv_new by (simp add: char_inv_def lookup_unfold Container_new_def)

text \<open>
  C16. In every run the entries are filed under their own player and own different connections, so the
  look-up by connection finds the entry whose player the bridge is told about, and erasing by
  that player erases this entry.
\<close>

theorem characters_invariant:
  assumes "desc_laws eng" and "(ch_step eng)\<^sup>*\<^sup>* mobi_init s"
  shows "char_inv s \<and>
     (MobiGetByHandleID s h = Some m \<longleftrightarrow>
        lookup (mobi_descs s) (li_pid (mch_info m)) = Some m \<and> mch_handle_id m = h)"
proof -
  have "char_inv s"
    using assms(2) by (induction rule: rtranclp_induct) (auto intro: char_inv_init char_inv_step [OF _ assms(1)])
  then show ?thesis using MobiGet_entry MobiGet_Some by blast
qed

lemma demo_laws: "desc_laws demo_eng"
  by (simp add: desc_laws_def demo_eng_def)

definition demo_info :: TMobiLoginInfo where
  "demo_info = \<lparr>li_pid = 7, li_login = bytes_of ''anna''\<rparr>"

definition demo_loaded :: mobi where
  "demo_loaded = snd (the (CharacterLoad demo_eng 5 demo_info (bytes_of ''pw'') mobi_init))"

lemma demo_load: "CharacterLoad demo_eng 5 demo_info (bytes_of ''pw'') mobi_init = Some (LR_LOADING, demo_loaded)"
  and demo_loaded_entry: "lookup (mobi_descs demo_loaded) 7 = Some \<lparr>mch_info = demo_info, mch_handle_id = 1\<rparr>"
  and demo_loaded_desc: "\<exists>d. FindByHandle demo_loaded 1 = Some d \<and> d_is_mobile_request d \<and> d_last_activity d = 5"
  and demo_loaded_clean: "ch_last_cleanup demo_loaded = 0"
  by (simp_all add: demo_loaded_def CharacterLoad_def CreateDesc_def demo_eng_def demo_info_def Let_def
      DESC_MANAGER_new_def emplace_ch_def Emplace_def lookup_unfold Container_new_def upd_desc_def
      call_engine_def FindByHandle_def)

lemma demo_loaded_reach: "(ch_step demo_eng)\<^sup>*\<^sup>* mobi_init demo_loaded"
  using demo_load by (auto intro!: r_into_rtranclp step_load simp: DESC_MANAGER_new_def)

lemma characters_invariant_witness:
  "MobiGetByHandleID demo_loaded 1 = Some \<lparr>mch_info = demo_info, mch_handle_id = 1\<rparr>"
  using characters_invariant [OF demo_laws demo_loaded_reach, of 1 "\<lparr>mch_info = demo_info, mch_handle_id = 1\<rparr>"]
    demo_loaded_entry by (simp add: demo_info_def)

lemma demo_loaded_inv: "char_inv demo_loaded"
  using char_inv_step [OF step_load [OF demo_load] demo_laws char_inv_init] by (simp add: DESC_MANAGER_new_def)

subsection \<open>Loading a character\<close>



text \<open>The login packet's texts lose a character when they have the greatest length.\<close>

lemma login_field_cut: "0 < n \<Longrightarrow> 0 \<notin> set t \<Longrightarrow> login_field n t = take (n - 1) t"
proof -
  assume n: "0 < n" and t: "0 \<notin> set t"
  let ?w = "take (n - 1) t"
  have "login_field n t = cstr ((?w @ 0 # drop (length ?w + 1) (replicate (n + 1) 0))[n := 0])"
    using n by (simp add: login_field_def str_copy_def Let_def cstr_id [OF t])
  also have "\<dots> = cstr (?w @ (0 # drop (length ?w + 1) (replicate (n + 1) 0))[n - length ?w := 0])"
    using n by (auto simp: list_update_append)
  also have "(0 # drop (length ?w + 1) (replicate (n + 1) 0))[n - length ?w := 0] =
      0 # (drop (length ?w + 1) (replicate (n + 1) 0))[n - length ?w - 1 := 0]"
    using n by (cases "n - length ?w") auto
  finally show ?thesis using cstr_append_nul [of ?w] t by (auto dest: in_set_takeD)
qed

subsection \<open>Characters that go\<close>

lemma destroy_character_live:
  assumes "desc_laws eng" and "\<not> g_bShutdown eng"
  shows "FindByHandle (destroy_character eng m s) h =
     (if h = mch_handle_id m then None else FindByHandle s h)"
  using assms
  by (auto simp: destroy_character_def destroy_desc_def desc_laws_def FindByHandle_def call_engine_def
      split: option.split)

lemma erase_ch_live:
  assumes "desc_laws eng" and "\<not> g_bShutdown eng"
  shows "FindByHandle (snd (erase_ch eng pid s)) h =
     (if \<exists>m. lookup (mobi_descs s) pid = Some m \<and> mch_handle_id m = h then None else FindByHandle s h)"
proof -
  obtain found d where e: "EraseByKey pid (mobi_descs s) = (found, d)" by (cases "EraseByKey pid (mobi_descs s)")
  have f: "FindByHandle (s\<lparr>mobi_descs := d\<rparr>) = FindByHandle s" by (simp add: FindByHandle_def fun_eq_iff)
  show ?thesis
    by (auto simp: erase_ch_eq e destroy_character_live [OF assms] f split: option.split)
qed

lemma same_chars_live: "same_chars s t \<Longrightarrow> FindByHandle t = FindByHandle s"
  by (simp add: same_chars_def FindByHandle_def fun_eq_iff)

lemma NotifyStatus_failed:
  assumes inv: "char_inv s" and entry: "lookup (mobi_descs s) pid = Some m"
    and live: "FindByHandle s (mch_handle_id m) = Some d" "d_is_mobile_request d"
    and failed: "IsLoadFailed code"
  obtains b u where "sendChLoadStatus eng now pid code s = Some (b, u)" "same_chars s u"
    "NotifyStatus eng now (Some (mch_handle_id m)) code s = Some (snd (erase_ch eng pid u))"
proof -
  have pid: "li_pid (mch_info m) = pid" using inv entry by (auto simp: char_inv_def)
  obtain b u where u: "sendChLoadStatus eng now pid code s = Some (b, u)" "same_chars s u"
    by (rule ch_status)
  then have "NotifyStatus eng now (Some (mch_handle_id m)) code s = Some (snd (erase_ch eng pid u))"
    using live failed MobiGet_entry [OF inv entry] pid by (simp add: NotifyStatus_def)
  with u that show thesis by blast
qed

text \<open>The entry is gone, its connection is destroyed, and no other is touched.\<close>

lemma erase_ch_forgets:
  assumes laws: "desc_laws eng" "\<not> g_bShutdown eng" and inv: "char_inv s"
    and entry: "lookup (mobi_descs s) pid = Some m" and u: "same_chars s u"
  shows "lookup (mobi_descs (snd (erase_ch eng pid u))) = (lookup (mobi_descs s))(pid := None)"
    and "FindByHandle (snd (erase_ch eng pid u)) = (FindByHandle s)(mch_handle_id m := None)"
proof -
  have iu: "char_inv u" "mobi_descs u = mobi_descs s"
    using char_inv_cong [OF u] inv u by (simp_all add: same_chars_def)
  show "lookup (mobi_descs (snd (erase_ch eng pid u))) = (lookup (mobi_descs s))(pid := None)"
    using erase_ch_lookup(1) [OF iu(1)] iu(2) by simp
  show "FindByHandle (snd (erase_ch eng pid u)) = (FindByHandle s)(mch_handle_id m := None)"
    using entry same_chars_live [OF u] by (auto simp: fun_eq_iff erase_ch_live [OF laws] iu(2))
qed

text \<open>
  A status that means failure takes the character out: the bridge is told, the entry is gone, its
  connection is destroyed, and no other entry or connection is touched.
\<close>

theorem failed_load_forgotten:
  assumes laws: "desc_laws eng" "\<not> g_bShutdown eng" and inv: "char_inv s"
    and entry: "lookup (mobi_descs s) pid = Some m"
    and live: "FindByHandle s (mch_handle_id m) = Some d" "d_is_mobile_request d"
    and failed: "IsLoadFailed code"
  shows "\<exists>b u t. sendChLoadStatus eng now pid code s = Some (b, u) \<and>
     NotifyStatus eng now (Some (mch_handle_id m)) code s = Some t \<and>
     lookup (mobi_descs t) = (lookup (mobi_descs s))(pid := None) \<and>
     FindByHandle t = (FindByHandle s)(mch_handle_id m := None)"
  by (rule NotifyStatus_failed [OF inv entry live failed])
    (use erase_ch_forgets [OF laws inv entry] in blast)

lemma failed_load_forgotten_witness:
  "\<exists>t. NotifyStatus demo_eng 6 (Some 1) WRONG_PWD demo_loaded = Some t \<and>
     lookup (mobi_descs t) 7 = None \<and> FindByHandle t 1 = None"
proof -
  obtain d where d: "FindByHandle demo_loaded 1 = Some d" "d_is_mobile_request d"
    using demo_loaded_desc by blast
  have "\<not> g_bShutdown demo_eng" "IsLoadFailed WRONG_PWD" by (simp_all add: demo_eng_def IsLoadFailed_def)
  from failed_load_forgotten [OF demo_laws this(1) demo_loaded_inv demo_loaded_entry _ d(2) this(2), of 6] d(1)
  show ?thesis by (auto simp: fun_eq_iff)
qed

text \<open>
  A logout takes effect once: it reports whether the character was there, and a second one finds
  nothing and changes nothing.
\<close>

theorem logout_once:
  assumes "desc_laws eng" and "char_inv s"
  shows "\<exists>t. HandleLogout eng now pid s = Some (lookup (mobi_descs s) pid \<noteq> None, t) \<and>
     lookup (mobi_descs t) = (lookup (mobi_descs s))(pid := None) \<and>
     HandleLogout eng later pid t = Some (False, t)"
proof -
  from HandleLogout_eq [OF assms, of now pid] obtain t where
    t: "HandleLogout eng now pid s = Some (lookup (mobi_descs s) pid \<noteq> None, t)" "char_inv t"
      "lookup (mobi_descs t) = (lookup (mobi_descs s))(pid := None)" by blast
  have "lookup (mobi_descs t) pid = None" using t(3) by simp
  moreover have "container_inv (mobi_descs t)" using t(2) by (simp add: char_inv_def)
  ultimately have "EraseByKey pid (mobi_descs t) = (False, mobi_descs t)"
    by (simp add: EraseByKey_eq lookup_None_iff)
  then have "erase_ch eng pid t = (False, t)"
    using t(3) by (simp add: erase_ch_eq)
  then show ?thesis using t by (simp add: HandleLogout_def)
qed

lemma logout_once_witness:
  "\<exists>t. HandleLogout demo_eng 6 7 demo_loaded = Some (True, t) \<and> HandleLogout demo_eng 7 7 t = Some (False, t)"
  using logout_once [OF demo_laws demo_loaded_inv, of 6 7 7] demo_loaded_entry by auto

subsection \<open>Idle characters\<close>

lemma remove_chs_live:
  assumes "desc_laws eng" and "\<not> g_bShutdown eng"
  shows "char_inv s \<Longrightarrow> remove_chs eng now pids s = Some t \<Longrightarrow>
     FindByHandle t h =
       (if \<exists>pid m. pid \<in> set pids \<and> lookup (mobi_descs s) pid = Some m \<and> mch_handle_id m = h
        then None else FindByHandle s h)"
proof (induction pids arbitrary: s)
  case (Cons pid pids)
  obtain found u where u: "erase_ch eng pid s = (found, u)" by (cases "erase_ch eng pid s")
  obtain b v where v: "sendChLoadStatus eng now pid NO_ACTIVITY u = Some (b, v)" "same_chars u v"
    by (rule ch_status)
  have e: "char_inv u" "lookup (mobi_descs u) = (lookup (mobi_descs s))(pid := None)"
    using erase_ch_lookup [OF Cons.prems(1), of eng pid] char_inv_erase [OF assms(1) Cons.prems(1), of pid]
    by (simp_all add: u)
  have live: "FindByHandle u h =
     (if \<exists>m. lookup (mobi_descs s) pid = Some m \<and> mch_handle_id m = h then None else FindByHandle s h)"
    using erase_ch_live [OF assms, of pid s h] by (simp add: u)
  define w where "w = (if found then v else u)"
  have w: "char_inv w" "mobi_descs w = mobi_descs u" "FindByHandle w = FindByHandle u"
    "remove_chs eng now pids w = Some t"
    using Cons.prems(2) e(1) char_inv_cong [OF v(2)] v same_chars_live [OF v(2)]
    by (auto simp: w_def u same_chars_def)
  show ?case
    using Cons.IH [OF w(1,4)] live by (auto simp: w(2,3) e(2) split: if_splits)
qed simp

definition idle :: "time \<Rightarrow> mobi \<Rightarrow> TMobiCharacter \<Rightarrow> bool" where
  "idle now s m \<longleftrightarrow>
     \<not> (\<exists>d. FindByHandle s (mch_handle_id m) = Some d \<and> now - d_last_activity d \<le> ACTIVITY_TIMEOUT)"

lemma need_remove_idle: "need_remove now s m = idle now s m"
  by (cases "FindByHandle s (mch_handle_id m)") (auto simp: need_remove_def idle_def)

lemma idle_upd: "idle now (s\<lparr>ch_last_cleanup := c\<rparr>) m = idle now s m"
  by (simp add: idle_def FindByHandle_def)

text \<open>
  C20. The clean-up, when it is due, removes exactly the characters that have no connection or whose
  connection was not active in the last fifteen minutes, and destroys exactly their connections.
\<close>

theorem idle_removed:
  assumes laws: "desc_laws eng" "\<not> g_bShutdown eng" and inv: "char_inv s"
    and due: "CH_CLEANER_INTERVAL \<le> now - ch_last_cleanup s"
  shows "\<exists>t. ch_Process eng now s = Some t \<and>
     lookup (mobi_descs t) =
       (\<lambda>pid. case lookup (mobi_descs s) pid of
                None \<Rightarrow> None | Some m \<Rightarrow> if idle now s m then None else Some m) \<and>
     FindByHandle t =
       (\<lambda>h. if \<exists>pid m. lookup (mobi_descs s) pid = Some m \<and> idle now s m \<and> mch_handle_id m = h
            then None else FindByHandle s h)"
proof -
  let ?s = "s\<lparr>ch_last_cleanup := now\<rparr>"
  let ?pids = "map (li_pid \<circ> mch_info) (filter (need_remove now ?s) (owned_values (mobi_descs ?s)))"
  have inv': "char_inv ?s" using inv by (simp add: char_inv_def)
  obtain t where t: "remove_chs eng now ?pids ?s = Some t"
    "lookup (mobi_descs t) = (lookup (mobi_descs s)) |` (- set ?pids)"
    using char_inv_remove_chs [OF laws(1) inv', of now ?pids] by auto
  have "set (owned_values (mobi_descs s)) = ran (lookup (mobi_descs s))"
    using inv owned_lookup [of "mobi_descs s"] unfolding char_inv_def by blast
  then have pids: "pid \<in> set ?pids \<longleftrightarrow> (\<exists>m. lookup (mobi_descs s) pid = Some m \<and> idle now s m)" for pid
    using inv unfolding char_inv_def by (auto simp: need_remove_idle idle_upd ran_def image_iff)
  have "FindByHandle t h =
       (if \<exists>pid m. lookup (mobi_descs s) pid = Some m \<and> idle now s m \<and> mch_handle_id m = h
        then None else FindByHandle s h)" for h
  proof -
    have "(\<exists>pid m. pid \<in> set ?pids \<and> lookup (mobi_descs ?s) pid = Some m \<and> mch_handle_id m = h) \<longleftrightarrow>
        (\<exists>pid m. lookup (mobi_descs s) pid = Some m \<and> idle now s m \<and> mch_handle_id m = h)"
      unfolding pids by simp (metis option.inject)
    moreover have "FindByHandle ?s h = FindByHandle s h" by (simp add: FindByHandle_def)
    ultimately show ?thesis using remove_chs_live [OF laws inv' t(1), of h] by (simp only:)
  qed
  moreover have "lookup (mobi_descs t) pid = (case lookup (mobi_descs s) pid of
      None \<Rightarrow> None | Some m \<Rightarrow> if idle now s m then None else Some m)" for pid
    using pids [of pid] unfolding t(2) restrict_map_def
    by (cases "lookup (mobi_descs s) pid") (simp_all del: set_map set_filter)
  moreover have "ch_Process eng now s = Some t" using due laws(2) t(1) by (simp add: ch_Process_def Let_def)
  ultimately show ?thesis by (auto simp: fun_eq_iff)
qed

lemma idle_removed_witness:
  "\<exists>t u. ch_Process demo_eng (5 + 15 * 60 * sec) demo_loaded = Some t \<and> lookup (mobi_descs t) 7 \<noteq> None \<and>
     ch_Process demo_eng (6 + 15 * 60 * sec) demo_loaded = Some u \<and> lookup (mobi_descs u) 7 = None \<and>
     FindByHandle u 1 = None"
proof -
  obtain d where d: "FindByHandle demo_loaded 1 = Some d" "d_last_activity d = 5"
    using demo_loaded_desc by blast
  have sd: "\<not> g_bShutdown demo_eng" by (simp add: demo_eng_def)
  let ?m = "\<lparr>mch_info = demo_info, mch_handle_id = 1\<rparr>"
  have due: "CH_CLEANER_INTERVAL \<le> 5 + 15 * 60 * sec - ch_last_cleanup demo_loaded"
    "CH_CLEANER_INTERVAL \<le> 6 + 15 * 60 * sec - ch_last_cleanup demo_loaded"
    by (simp_all add: demo_loaded_clean CH_CLEANER_INTERVAL_def)
  have i: "\<not> idle (5 + 15 * 60 * sec) demo_loaded ?m" "idle (6 + 15 * 60 * sec) demo_loaded ?m"
    using d by (simp_all add: idle_def ACTIVITY_TIMEOUT_def)
  note r = idle_removed [OF demo_laws sd demo_loaded_inv]
  obtain t where t: "ch_Process demo_eng (5 + 15 * 60 * sec) demo_loaded = Some t"
    "lookup (mobi_descs t) 7 \<noteq> None"
    using r [OF due(1)] demo_loaded_entry i by auto
  obtain u where u: "ch_Process demo_eng (6 + 15 * 60 * sec) demo_loaded = Some u"
    "lookup (mobi_descs u) 7 = None" "FindByHandle u 1 = None"
  proof -
    have x: "(\<exists>pid m. lookup (mobi_descs demo_loaded) pid = Some m \<and> idle (6 + 15 * 60 * sec) demo_loaded m \<and>
        mch_handle_id m = 1) = True"
      by (rule eqTrueI, rule exI [of _ 7], rule exI [of _ ?m]) (use demo_loaded_entry i(2) in simp)
    obtain u where u: "ch_Process demo_eng (6 + 15 * 60 * sec) demo_loaded = Some u"
      "lookup (mobi_descs u) = (\<lambda>pid. case lookup (mobi_descs demo_loaded) pid of
         None \<Rightarrow> None | Some m \<Rightarrow> if idle (6 + 15 * 60 * sec) demo_loaded m then None else Some m)"
      "FindByHandle u = (\<lambda>h. if \<exists>pid m. lookup (mobi_descs demo_loaded) pid = Some m \<and>
         idle (6 + 15 * 60 * sec) demo_loaded m \<and> mch_handle_id m = h then None else FindByHandle demo_loaded h)"
      using r [OF due(2)] by blast
    have "FindByHandle u 1 = None" unfolding u(3) x by simp
    moreover have "lookup (mobi_descs u) 7 = None" using demo_loaded_entry i(2) by (simp add: u(2))
    ultimately show thesis using that u(1) by blast
  qed
  from t u show ?thesis by blast
qed

end
