(* ===== verification/Shop_Manager.thy ===== *)
theory Shop_Manager
  imports Char_Manager
begin

text \<open>
  The private shops: what the repository shows of \<open>CShopManager\<close> and \<open>CShop\<close>
  (\<open>offshop_ikarus/server/game.src\<close>), the checks before a request is carried out and the messages to
  the bridge. The passages the repository leaves out are \<open>dots\<close>: one of them is entered, which is
  recorded in \<open>engine_out\<close> under its number, and it returns or goes on as the engine says. A function
  whose last passage does not return has no value. A character is its player id, a shop its owner's.
\<close>

definition dots ::
  "engine \<Rightarrow> nat \<Rightarrow> (mobi \<Rightarrow> (bool \<times> mobi) option) \<Rightarrow> mobi \<Rightarrow> (bool \<times> mobi) option" where
  "dots eng n k s =
     (let s = call_engine (GameCall ''passage'' [of_nat n]) s in
      case ellipsis (shop eng) n of Some b \<Rightarrow> Some (b, s) | None \<Rightarrow> k s)"

definition no_value :: "mobi \<Rightarrow> (bool \<times> mobi) option" where
  "no_value s = None"

text \<open>In a function without a result the value a passage returns has no meaning.\<close>

definition return_void :: "mobi \<Rightarrow> (bool \<times> mobi) option" where
  "return_void s = Some (False, s)"

text \<open>\<open>mobileInstance.sendShopOpResponse(ch, response)\<close>, then \<open>return\<close>.\<close>

definition ch_desc :: "engine \<Rightarrow> u32 \<Rightarrow> mobi \<Rightarrow> DESC option option" where
  "ch_desc eng ch s =
     (case FindByPID eng ch of
        Some (Some h) \<Rightarrow> map_option Some (FindByHandle s h)
      | _ \<Rightarrow> Some None)"

definition reply ::
  "engine \<Rightarrow> time \<Rightarrow> u32 \<Rightarrow> EResponseShopOperation \<Rightarrow> bool \<Rightarrow> mobi \<Rightarrow> (bool \<times> mobi) option" where
  "reply eng now ch response ret s = do {
     desc \<leftarrow> ch_desc eng ch s;
     (_, s) \<leftarrow> sendShopOpResponse_ch eng now (Some (ch, desc)) response s;
     Some (ret, s) }"

subsection \<open>Requests of a client\<close>

definition RecvShopEditItemClientPacket ::
  "engine \<Rightarrow> time \<Rightarrow> u32 option \<Rightarrow> u32 \<Rightarrow> TPriceInfo \<Rightarrow> mobi \<Rightarrow> (bool \<times> mobi) option" where
  "RecvShopEditItemClientPacket eng now ch itemid price s =
     (let sh = shop eng in
      case ch of
        None \<Rightarrow> Some (False, s)
      | Some ch \<Rightarrow>
        (case GetIkarusShop sh ch of
          None \<Rightarrow> reply eng now ch NOT_EXISTS_SHOP False s
        | Some w \<Rightarrow>
            if \<not> CheckGMLevel sh ch then Some (False, s)
            else if \<not> IkarusShopFloodCheck sh ch then reply eng now ch SO_FLOOD False s
            else if \<not> IsGoodSalePrice sh price then reply eng now ch INVALID_SALE_PRICE False s
            else (case GetItem sh w itemid of
                    None \<Rightarrow> reply eng now ch NOT_EXISTS_ITEM False s
                  | Some shopItem \<Rightarrow> dots eng 1 no_value s)))"

definition RecvShopCreateNewClientPacket ::
  "engine \<Rightarrow> time \<Rightarrow> u32 \<Rightarrow> mobi \<Rightarrow> (bool \<times> mobi) option" where
  "RecvShopCreateNewClientPacket eng now ch s =
     (let sh = shop eng in
      dots eng 2 (\<lambda>s.
        if \<not> IkarusShopFloodCheck sh ch then reply eng now ch SO_FLOOD False s
        else if \<not> CheckCharacterActions sh ch
        then dots eng 3 (reply eng now ch CHARACTER_ACTIONS True) s
        else dots eng 4 (\<lambda>s.
          if \<not> enough_gold sh ch then reply eng now ch NOT_ENOUGH_MONEY True s
          else dots eng 5 (\<lambda>s.
            if ENABLE_IKASHOP_ENTITIES sh \<and> GetIkarusShop sh ch = None \<and> \<not> allowed_spawn_map sh ch
            then reply eng now ch SO_OTHERS False (call_engine (GameCall ''SendPopupMessage'' [ch]) s)
            else dots eng 6 no_value s) s) s) s)"

definition RecvShopBuyItemClientPacket ::
  "engine \<Rightarrow> time \<Rightarrow> u32 option \<Rightarrow> u32 \<Rightarrow> u32 \<Rightarrow> bool \<Rightarrow> int \<Rightarrow> mobi \<Rightarrow> (bool \<times> mobi) option" where
  "RecvShopBuyItemClientPacket eng now ch ownerid itemid searching seenprice s =
     (let sh = shop eng in
      case ch of
        None \<Rightarrow> Some (False, s)
      | Some ch \<Rightarrow>
        if \<not> IkarusShopFloodCheck sh ch then reply eng now ch SO_FLOOD False s
        else if \<not> CheckCharacterActions sh ch
        then dots eng 7 (reply eng now ch CHARACTER_ACTIONS False) s
        else if \<not> CheckGMLevel sh ch then Some (False, s)
        else (case GetShopByOwnerID sh ownerid of
          None \<Rightarrow> dots eng 8 (reply eng now ch NOT_EXISTS_SHOP False) s
        | Some w \<Rightarrow>
            if EXTEND_IKASHOP_PRO sh \<and> GetDuration sh w = 0
            then reply eng now ch NOT_EXISTS_SHOP False s
            else (case GetItem sh w itemid of
              None \<Rightarrow> dots eng 9 (reply eng now ch NOT_EXISTS_ITEM False) s
            | Some pitem \<Rightarrow>
                if \<not> CanBuy sh ch pitem
                then dots eng 10 (reply eng now ch NOT_ENOUGH_MONEY False) s
                else if si_total_yang pitem \<noteq> seenprice
                then dots eng 11 (reply eng now ch PRICE_MISMATCH False) s
                else dots eng 12 no_value s)))"

definition RecvShopRemoveItemClientPacket ::
  "engine \<Rightarrow> time \<Rightarrow> u32 option \<Rightarrow> u32 \<Rightarrow> mobi \<Rightarrow> (bool \<times> mobi) option" where
  "RecvShopRemoveItemClientPacket eng now ch itemid s =
     (let sh = shop eng in
      case ch of
        None \<Rightarrow> Some (False, s)
      | Some ch \<Rightarrow>
        if GetIkarusShop sh ch = None then Some (False, s)
        else if \<not> CheckGMLevel sh ch then Some (False, s)
        else if \<not> IkarusShopFloodCheck sh ch then reply eng now ch SO_FLOOD False s
        else if \<not> CheckSafeboxSize sh ch then reply eng now ch NOT_ENOUGH_SAFEBOX_SPACE False s
        else dots eng 13 (\<lambda>s.
          if GetItem sh (shop_of_passage sh ch) itemid = None
          then reply eng now ch NOT_EXISTS_ITEM False s
          else dots eng 14 no_value s) s)"

definition RecvShopMoveItemClientPacket ::
  "engine \<Rightarrow> time \<Rightarrow> u32 \<Rightarrow> u32 \<Rightarrow> u32 \<Rightarrow> mobi \<Rightarrow> (bool \<times> mobi) option" where
  "RecvShopMoveItemClientPacket eng now ch srcPos destPos s =
     (let sh = shop eng in
      case GetIkarusShop sh ch of
        None \<Rightarrow> reply eng now ch NOT_EXISTS_SHOP False s
      | Some w \<Rightarrow>
        if \<not> IkarusShopFloodCheck sh ch then reply eng now ch SO_FLOOD False s
        else dots eng 15 (\<lambda>s.
          if \<not> item_at_pos sh w srcPos then reply eng now ch NOT_EXISTS_ITEM False s
          else dots eng 16 (\<lambda>s.
            if \<not> item_table_exists sh w srcPos then reply eng now ch NOT_EXISTS_ITEM False s
            else if \<not> ReserveSpace sh w destPos
            then reply eng now ch NOT_ENOUGH_SAFEBOX_SPACE False s
            else dots eng 17 return_void s) s) s)"

subsection \<open>Answers of the data base\<close>

text \<open>
  \<open>online\<close>: the buyer's character is in the game; \<open>created\<close>: the item could be created, otherwise the
  passage after it decides.
\<close>

definition RecvShopBuyDBPacket ::
  "engine \<Rightarrow> time \<Rightarrow> bool \<Rightarrow> bool \<Rightarrow> u32 \<Rightarrow> u32 \<Rightarrow> shop_item \<Rightarrow> mobi \<Rightarrow> (bool \<times> mobi) option" where
  "RecvShopBuyDBPacket eng now online created buyerid ownerid shopItem s =
     (let tell = (\<lambda>s. sendShopItemBuy eng now ownerid buyerid (si_id shopItem) s) in
      dots eng 18 (\<lambda>s.
        if online
        then (if \<not> created
              then dots eng 19 (\<lambda>s. do { (_, s) \<leftarrow> tell s; Some (True, s) }) s
              else do { (_, s) \<leftarrow> tell s; Some (True, s) })
        else dots eng 20 (\<lambda>s. do {
          (_, s) \<leftarrow> tell s;
          Some (True, call_engine (GameCall ''BuyItem'' [ownerid, si_id shopItem]) s) }) s) s)"

definition RecvShopRemoveItemDBPacket ::
  "engine \<Rightarrow> time \<Rightarrow> u32 \<Rightarrow> u32 \<Rightarrow> mobi \<Rightarrow> (bool \<times> mobi) option" where
  "RecvShopRemoveItemDBPacket eng now ownerid itemid s =
     dots eng 21 (\<lambda>s. do {
       (_, s) \<leftarrow> sendShopItemRemove eng now ownerid itemid s;
       dots eng 22 no_value (call_engine (GameCall ''RemoveItem'' [ownerid, itemid]) s) }) s"

text \<open>\<open>shop->AddItem\<close>'s result is \<open>added\<close>.\<close>

definition RecvShopAddItemDBPacket ::
  "engine \<Rightarrow> time \<Rightarrow> bool \<Rightarrow> u32 \<Rightarrow> TShopItem \<Rightarrow> mobi \<Rightarrow> (bool \<times> mobi) option" where
  "RecvShopAddItemDBPacket eng now added ownerid iteminfo s =
     dots eng 23 (\<lambda>s. do {
       (_, s) \<leftarrow> sendShopItemAdd eng now ownerid iteminfo s;
       Some (added, call_engine (GameCall ''AddItem'' [ownerid]) s) }) s"

definition RecvShopForceCloseDBPacket :: "engine \<Rightarrow> time \<Rightarrow> u32 \<Rightarrow> mobi \<Rightarrow> (bool \<times> mobi) option" where
  "RecvShopForceCloseDBPacket eng now pid s =
     dots eng 24 (\<lambda>s. do { (_, s) \<leftarrow> sendShopClose eng now pid s; no_value s }) s"

definition RecvShopExpiredDBPacket ::
  "engine \<Rightarrow> time \<Rightarrow> u32 option \<Rightarrow> u32 \<Rightarrow> mobi \<Rightarrow> (bool \<times> mobi) option" where
  "RecvShopExpiredDBPacket eng now shop_found pid s =
     dots eng 25 (\<lambda>s.
       if shop_found = None then Some (False, s)
       else do { (_, s) \<leftarrow> sendShopClose eng now pid s; dots eng 26 no_value s }) s"

definition RecvShopCreateNewDBPacket ::
  "engine \<Rightarrow> time \<Rightarrow> u32 \<Rightarrow> u32 \<Rightarrow> mobi \<Rightarrow> (bool \<times> mobi) option" where
  "RecvShopCreateNewDBPacket eng now owner_pid lock_index s =
     dots eng 27 (\<lambda>s. do { (_, s) \<leftarrow> sendShopCreate eng now owner_pid lock_index s; Some (True, s) }) s"

text \<open>\<open>offer\<close>: its buyer and item; \<open>shop_found\<close>: its owner.\<close>

definition RecvShopOfferAcceptDBPacket ::
  "engine \<Rightarrow> time \<Rightarrow> (u32 \<times> u32) option \<Rightarrow> u32 option \<Rightarrow> mobi \<Rightarrow> (bool \<times> mobi) option" where
  "RecvShopOfferAcceptDBPacket eng now offer shop_found s =
     dots eng 28 (\<lambda>s.
       let s = call_engine (GameCall ''m_mapOffer.erase'' []) s in
       case (offer, shop_found) of
         (Some (buyerid, itemid), Some owner) \<Rightarrow> do {
           (_, s) \<leftarrow> sendShopItemBuy eng now owner buyerid itemid s; dots eng 29 no_value s }
       | _ \<Rightarrow> dots eng 29 no_value s) s"

definition RecvShopUnlockCellDBPacket ::
  "engine \<Rightarrow> time \<Rightarrow> u32 \<Rightarrow> u32 \<Rightarrow> mobi \<Rightarrow> (bool \<times> mobi) option" where
  "RecvShopUnlockCellDBPacket eng now owner lockIndex s =
     dots eng 30 (\<lambda>s. do {
       (_, s) \<leftarrow> sendShopUpdateSlotCount eng now owner lockIndex
                  (call_engine (GameCall ''ChangeLockIndex'' [lockIndex]) s);
       return_void s }) s"

subsection \<open>The shop\<close>

definition ModifyItemPrice ::
  "engine \<Rightarrow> time \<Rightarrow> u32 \<Rightarrow> shop_item option \<Rightarrow> u32 \<Rightarrow> int \<Rightarrow> int \<Rightarrow> mobi \<Rightarrow> (bool \<times> mobi) option" where
  "ModifyItemPrice eng now owner_pid shopItem itemid price_yang price_cheque s =
     dots eng 31 (\<lambda>s.
       if shopItem = None then Some (False, s)
       else do {
         (_, s) \<leftarrow> sendShopItemUpdatePrice eng now owner_pid itemid price_yang price_cheque s;
         dots eng 32 no_value s }) s"

definition MoveItem :: "engine \<Rightarrow> time \<Rightarrow> u32 \<Rightarrow> u32 \<Rightarrow> u32 \<Rightarrow> mobi \<Rightarrow> (bool \<times> mobi) option" where
  "MoveItem eng now owner_pid itemid destCell s =
     dots eng 33 (\<lambda>s. do {
       (_, s) \<leftarrow> sendShopItemUpdatePos eng now owner_pid itemid destCell s;
       dots eng 34 return_void (call_engine (GameCall ''SetCell'' [destCell]) s) }) s"

end
