(* ===== verification/Crypter.thy ===== *)
theory Crypter
  imports Crypto
begin

text \<open>
  \<open>NSingletons::CCrypter\<close> (\<open>Source/Core/Singletons/crypter.cpp\<close>), the encryption of files under a
  password, in the format \<open>[iv][ciphertext]\<close>. \<open>b2k\<close> is \<open>EVP_BytesToKey\<close> with AES-256 and SHA-256
  over the password (\<open>None\<close>: it failed). The logging of previews is left out, as are the mutexes.
\<close>

definition AES_BLOCK_SIZE :: nat where "AES_BLOCK_SIZE = 16"

text \<open>A key that could not be derived is left zero, and used.\<close>

definition GenerateKey :: "(bytes \<Rightarrow> bytes option) \<Rightarrow> bytes \<Rightarrow> bytes" where
  "GenerateKey b2k password = (case b2k password of None \<Rightarrow> replicate 32 0 | Some key \<Rightarrow> key)"

text \<open>The result and the string passed by reference.\<close>

definition DecryptData ::
  "openssl \<Rightarrow> (bytes \<Rightarrow> bytes option) \<Rightarrow> bytes \<Rightarrow> bytes \<Rightarrow> bool \<times> bytes" where
  "DecryptData ssl b2k encrypted_data password =
     (if length encrypted_data < AES_BLOCK_SIZE then (False, encrypted_data)
      else
        let iv = take AES_BLOCK_SIZE encrypted_data;
            key = GenerateKey b2k password
        in (case Option.bind (evp_arg (drop AES_BLOCK_SIZE encrypted_data))
                   (aes_256_cbc_decrypt ssl key iv) of
              None \<Rightarrow> (False, encrypted_data)
            | Some decrypted \<Rightarrow> (True, decrypted)))"

text \<open>The password is a C string, which may be null.\<close>

definition EncryptData ::
  "openssl \<Rightarrow> (bytes \<Rightarrow> bytes option) \<Rightarrow> bytes \<Rightarrow> bytes option \<Rightarrow> nat \<Rightarrow> bytes \<times> nat" where
  "EncryptData ssl b2k data password rng =
     (case password of
        None \<Rightarrow> ([], rng)
      | Some pw \<Rightarrow>
          if data = [] then ([], rng)
          else
            let key = GenerateKey b2k (cstr pw) in
            (case RAND_bytes ssl rng AES_BLOCK_SIZE of
               None \<Rightarrow> ([], Suc rng)
             | Some iv \<Rightarrow>
                 (case Option.bind (evp_arg data) (aes_256_cbc_encrypt ssl key iv) of
                    None \<Rightarrow> ([], Suc rng)
                  | Some encrypted \<Rightarrow> (iv @ encrypted, Suc rng))))"

text \<open>
  C36. A file that \<open>EncryptData\<close> could encrypt is read back by \<open>DecryptData\<close> with the same password,
  and its length is a block for the initialisation vector and whole blocks for the data.
\<close>

theorem file_roundtrip:
  assumes ssl: "openssl_ok ssl" and pw: "0 \<notin> set pw" and len: "length data < 2 ^ 31 - 32"
    and enc: "EncryptData ssl b2k data (Some pw) rng = (out, rng')" "out \<noteq> []"
  shows "DecryptData ssl b2k out pw = (True, data) \<and> length out = 16 * (length data div 16 + 2)"
proof -
  from enc len obtain iv e where
    iv: "RAND_bytes ssl rng 16 = Some iv" and out: "out = iv @ e"
    and e: "aes_256_cbc_encrypt ssl (GenerateKey b2k pw) iv data = Some e"
    by (auto simp: EncryptData_def AES_BLOCK_SIZE_def cstr_id [OF pw] evp_arg_small bind_Some_iff Let_def
        split: if_splits option.splits)
  have liv: "length iv = 16" by (rule openssl_okD(1) [OF ssl iv])
  have le: "length e = 16 * (length data div 16 + 1)" by (rule openssl_okD(2) [OF ssl e])
  then have "length e < 2 ^ 31" using len by simp
  then have "evp_arg e = Some e" by (rule evp_arg_small)
  then have "DecryptData ssl b2k out pw = (True, data)"
    using out liv openssl_okD(3) [OF ssl e] by (simp add: DecryptData_def AES_BLOCK_SIZE_def)
  then show ?thesis using out liv le by simp
qed

lemma file_roundtrip_witness:
  "DecryptData demo_ssl (\<lambda>p. Some (resize 32 p))
     (fst (EncryptData demo_ssl (\<lambda>p. Some (resize 32 p)) [1, 2, 3] (Some [7, 8]) 5)) [7, 8] =
     (True, [1, 2, 3])"
proof -
  have e: "EncryptData demo_ssl (\<lambda>p. Some (resize 32 p)) [1, 2, 3] (Some [7, 8]) 5 =
      (replicate 16 5 @ pad16 [1, 2, 3], Suc 5)"
    by (simp add: EncryptData_def demo_ssl_def evp_arg_small AES_BLOCK_SIZE_def)
  have "replicate 16 5 @ pad16 [1, 2, 3] \<noteq> []" by simp
  from file_roundtrip [OF demo_ssl_ok _ _ e this] show ?thesis unfolding e by simp
qed

text \<open>Fewer bytes than an initialisation vector are refused and left alone.\<close>

lemma DecryptData_short:
  "length d < 16 \<Longrightarrow> DecryptData ssl b2k d pw = (False, d)"
  by (simp add: DecryptData_def AES_BLOCK_SIZE_def)

end
