(* ===== verification/Json.thy ===== *)
theory Json
  imports Mobi_State Crypter
begin

text \<open>
  \<open>JsonManager\<close> and \<open>CJsonLoader\<close> (\<open>Source/Core/Singletons/json_manager.{h,cpp}\<close>,
  \<open>json_loader.{h,cpp}\<close>) over the part of \<open>nlohmann::json\<close> they use. The values are the data type
  \<open>json\<close>; an object is a \<open>std::map\<close>, a list of pairs in the order of its keys, and a number is an
  integer (numbers with a fraction are not represented). The parser itself is a parameter.

  An exception or undefined behaviour is \<open>None\<close>: \<open>[]\<close> of a constant value that has no such field,
  \<open>get_ref\<close> or \<open>get\<close> at the wrong type.
\<close>

subsection \<open>\<open>nlohmann::json\<close>, as the code uses it\<close>

definition jcontains :: "json \<Rightarrow> bytes \<Rightarrow> bool" where
  "jcontains j f = (case j of JObj kvs \<Rightarrow> map_of kvs f \<noteq> None | _ \<Rightarrow> False)"

text \<open>\<open>operator[]\<close> of a constant value.\<close>

definition jat :: "json \<Rightarrow> bytes \<Rightarrow> json option" where
  "jat j f = (case j of JObj kvs \<Rightarrow> map_of kvs f | _ \<Rightarrow> None)"

definition get_ref_string :: "json \<Rightarrow> bytes option" where
  "get_ref_string j = (case j of JStr s \<Rightarrow> Some s | _ \<Rightarrow> None)"

text \<open>\<open>get<T>\<close> of an integer type accepts a number or a truth value; it is cut to the type later.\<close>

definition get_number :: "json \<Rightarrow> int option" where
  "get_number j = (case j of JNum n \<Rightarrow> Some n | JBool b \<Rightarrow> Some (of_bool b) | _ \<Rightarrow> None)"

definition get_truth :: "json \<Rightarrow> bool option" where
  "get_truth j = (case j of JBool b \<Rightarrow> Some b | _ \<Rightarrow> None)"

definition jsize :: "json \<Rightarrow> nat" where
  "jsize j = (case j of JNull \<Rightarrow> 0 | JArr xs \<Rightarrow> length xs | JObj kvs \<Rightarrow> length kvs | _ \<Rightarrow> 1)"

text \<open>What a range \<open>for\<close> visits: a plain value once.\<close>

definition jitems :: "json \<Rightarrow> json list" where
  "jitems j = (case j of JNull \<Rightarrow> [] | JArr xs \<Rightarrow> xs | JObj kvs \<Rightarrow> map snd kvs | _ \<Rightarrow> [j])"

text \<open>\<open>std::string\<close> compares characters as unsigned.\<close>

fun key_less :: "bytes \<Rightarrow> bytes \<Rightarrow> bool" where
  "key_less [] ys = (ys \<noteq> [])"
| "key_less (x # xs) [] = False"
| "key_less (x # xs) (y # ys) = (x < y \<or> x = y \<and> key_less xs ys)"

fun obj_put :: "bytes \<Rightarrow> json \<Rightarrow> (bytes \<times> json) list \<Rightarrow> (bytes \<times> json) list" where
  "obj_put k v [] = [(k, v)]"
| "obj_put k v ((k', v') # kvs) =
     (if k = k' then (k, v) # kvs
      else if key_less k k' then (k, v) # (k', v') # kvs
      else (k', v') # obj_put k v kvs)"

text \<open>\<open>j[f] = v\<close>: a null becomes an object, any other value throws.\<close>

definition jassign :: "json \<Rightarrow> bytes \<Rightarrow> json \<Rightarrow> json option" where
  "jassign j f v =
     (case j of JNull \<Rightarrow> Some (JObj [(f, v)]) | JObj kvs \<Rightarrow> Some (JObj (obj_put f v kvs)) | _ \<Rightarrow> None)"

subsection \<open>\<open>JsonManager\<close>\<close>

text \<open>
  The overloads of \<open>set\<close>: text, an integer, a truth value (also the atomic one), a JSON value, an
  enumerator, a vector of bytes. An exception is swallowed and the value stays.
\<close>

datatype set_value =
  SVText bytes | SVInt int | SVBool bool | SVJson json | SVEnum int | SVBytes bytes

definition set_value_json :: "set_value \<Rightarrow> json" where
  "set_value_json v =
     (case v of SVText s \<Rightarrow> JStr s | SVInt n \<Rightarrow> JNum n | SVBool b \<Rightarrow> JBool b | SVJson j \<Rightarrow> j
      | SVEnum n \<Rightarrow> JNum n | SVBytes bs \<Rightarrow> JStr bs)"

definition json_set :: "json \<Rightarrow> bytes \<Rightarrow> set_value \<Rightarrow> json" where
  "json_set j f v = (case jassign j f (set_value_json v) of Some j' \<Rightarrow> j' | None \<Rightarrow> j)"

text \<open>\<open>getFieldValue\<close> at text, at an integer or truth value, at JSON and at an enumerator.\<close>

definition getFieldValue_string :: "json \<Rightarrow> bytes \<Rightarrow> bytes \<Rightarrow> bytes" where
  "getFieldValue_string j f v =
     (case jat j f of Some (JStr s) \<Rightarrow> s | _ \<Rightarrow> v)"

definition getFieldValue_int :: "json \<Rightarrow> bytes \<Rightarrow> int \<Rightarrow> int" where
  "getFieldValue_int j f v =
     (case Option.bind (jat j f) get_number of Some n \<Rightarrow> n | None \<Rightarrow> v)"

definition getFieldValue_bool :: "json \<Rightarrow> bytes \<Rightarrow> bool \<Rightarrow> bool" where
  "getFieldValue_bool j f v =
     (case Option.bind (jat j f) get_truth of Some b \<Rightarrow> b | None \<Rightarrow> v)"

definition getFieldValue_json :: "json \<Rightarrow> bytes \<Rightarrow> json \<Rightarrow> json" where
  "getFieldValue_json j f v =
     (case jat j f of
        Some (JNum n) \<Rightarrow> JNum n | Some (JBool b) \<Rightarrow> JBool b
      | Some (JArr xs) \<Rightarrow> JArr xs | Some (JObj kvs) \<Rightarrow> JObj kvs | _ \<Rightarrow> v)"

definition getFieldValue_enum :: "json \<Rightarrow> bytes \<Rightarrow> int \<Rightarrow> int" where
  "getFieldValue_enum j f v = (case jat j f of Some (JNum n) \<Rightarrow> n | _ \<Rightarrow> v)"

definition checkField :: "json \<Rightarrow> bytes list \<Rightarrow> bool" where
  "checkField j args = (if j = JNull then False else list_all (jcontains j) args)"

text \<open>\<open>valcmp\<close> with text and with an integer or a truth value.\<close>

definition valcmp_string :: "json \<Rightarrow> bytes \<Rightarrow> bytes \<Rightarrow> bool" where
  "valcmp_string j f v =
     (if j = JNull then False else if \<not> jcontains j f then False
      else (case jat j f of Some (JStr s) \<Rightarrow> s = v | _ \<Rightarrow> False))"

definition valcmp_int :: "json \<Rightarrow> bytes \<Rightarrow> int \<Rightarrow> bool" where
  "valcmp_int j f v =
     (if j = JNull then False else if \<not> jcontains j f then False
      else (case Option.bind (jat j f) get_number of Some n \<Rightarrow> n = v | None \<Rightarrow> False))"

definition valcmp_bool :: "json \<Rightarrow> bytes \<Rightarrow> bool \<Rightarrow> bool" where
  "valcmp_bool j f v =
     (if j = JNull then False else if \<not> jcontains j f then False
      else (case Option.bind (jat j f) get_truth of Some b \<Rightarrow> b = v | None \<Rightarrow> False))"

definition fieldcmp :: "json \<Rightarrow> bytes \<Rightarrow> bytes \<Rightarrow> bool option" where
  "fieldcmp j f f2 =
     (if j = JNull then Some False
      else if \<not> jcontains j f then Some False
      else if \<not> jcontains j f2 then Some False
      else do { a \<leftarrow> jat j f; s1 \<leftarrow> get_ref_string a;
                b \<leftarrow> jat j f2; s2 \<leftarrow> get_ref_string b;
                Some (s1 = s2) })"

definition getStringField :: "json \<Rightarrow> bytes \<Rightarrow> bytes" where
  "getStringField j f = (case jat j f of Some (JStr s) \<Rightarrow> s | _ \<Rightarrow> [])"

definition getArrayField :: "json \<Rightarrow> bytes \<Rightarrow> json list" where
  "getArrayField j f = (case jat j f of Some (JArr xs) \<Rightarrow> xs | _ \<Rightarrow> [])"

text \<open>
  \<open>toJson\<close>: \<open>parse\<close> is \<open>json::parse\<close>, \<open>None\<close> when it throws. The value returned then is
  \<open>type_json{ nullptr }\<close>, which the braces make an array of one null.
\<close>

definition toJson :: "(bytes \<Rightarrow> json option) \<Rightarrow> bytes \<Rightarrow> json" where
  "toJson parse data = (case parse data of Some j \<Rightarrow> j | None \<Rightarrow> JArr [JNull])"

text \<open>\<open>JSONTables::TResponse\<close>.\<close>

record TResponse =
  r_code :: int
  json_data :: json

definition TResponse_new :: "bytes \<Rightarrow> int \<Rightarrow> TResponse" where
  "TResponse_new msg c =
     (let j = JObj [];
          j = (if c \<noteq> -1 then json_set j (bytes_of ''a'') (SVInt c) else j);
          j = (if msg \<noteq> [] then json_set j (bytes_of ''4'') (SVText msg) else j)
      in \<lparr>r_code = c, json_data = j\<rparr>)"

definition TResponse_id :: "u32 \<Rightarrow> TResponse" where
  "TResponse_id packetId =
     \<lparr>r_code = -1, json_data = json_set (JObj []) (bytes_of ''L'') (SVInt (uint packetId))\<rparr>"

definition HasDataExceptID :: "TResponse \<Rightarrow> bool" where
  "HasDataExceptID r =
     (if jcontains (json_data r) (bytes_of ''L'') \<and> jsize (json_data r) \<noteq> 1 then True
      else \<not> jcontains (json_data r) (bytes_of ''L'') \<and> jsize (json_data r) \<noteq> 0)"

subsection \<open>\<open>CJsonLoader\<close>\<close>

record TJsonFile =
  json_converted :: "json option"
  file_path :: bytes
  v_required_fields :: "bytes list"
  file_password :: bytes

definition TJsonFile_new :: "bytes \<Rightarrow> bytes list \<Rightarrow> bytes \<Rightarrow> TJsonFile" where
  "TJsonFile_new path required pw =
     \<lparr>json_converted = None, file_path = path, v_required_fields = required, file_password = pw\<rparr>"

text \<open>\<open>json::clear\<close> empties the value and keeps its type.\<close>

definition jclear :: "json \<Rightarrow> json" where
  "jclear j =
     (case j of JNull \<Rightarrow> JNull | JBool b \<Rightarrow> JBool False | JNum n \<Rightarrow> JNum 0 | JStr s \<Rightarrow> JStr []
      | JArr xs \<Rightarrow> JArr [] | JObj kvs \<Rightarrow> JObj [])"

definition TJsonFile_Clear :: "TJsonFile \<Rightarrow> TJsonFile" where
  "TJsonFile_Clear f = f\<lparr>json_converted := map_option jclear (json_converted f)\<rparr>"

definition CheckRequiredFiles :: "TJsonFile \<Rightarrow> bool" where
  "CheckRequiredFiles f =
     (case json_converted f of
        None \<Rightarrow> False
      | Some j \<Rightarrow>
          if v_required_fields f = [] then True
          else list_all (\<lambda>elem. checkField j [elem]) (v_required_fields f))"

text \<open>\<open>std::getline\<close> with \<open>'.'\<close> until the end: the last part is there when it is not empty.\<close>

fun split_dots :: "bytes \<Rightarrow> bytes \<Rightarrow> bytes list" where
  "split_dots part [] = (if part = [] then [] else [part])"
| "split_dots part (c # cs) =
     (if c = 46 then part # split_dots [] cs else split_dots (part @ [c]) cs)"

primrec walk :: "bytes list \<Rightarrow> json \<Rightarrow> json option" where
  "walk [] current = Some current"
| "walk (p # ps) current =
     (if \<not> jcontains current p then None else Option.bind (jat current p) (walk ps))"

definition GetJsonValue :: "TJsonFile \<Rightarrow> bytes \<Rightarrow> json option" where
  "GetJsonValue f path =
     (case json_converted f of
        None \<Rightarrow> None
      | Some j \<Rightarrow> if j = JNull then None else walk (split_dots [] path) j)"

text \<open>
  \<open>LoadFile\<close>: \<open>rd\<close> is the file system (\<open>None\<close>: the file cannot be opened), \<open>dec\<close> is
  \<open>CCrypter::DecryptData\<close>, used when the file has a password.
\<close>

definition LoadFile ::
  "(bytes \<Rightarrow> bytes option) \<Rightarrow> (bytes \<Rightarrow> bytes \<Rightarrow> bool \<times> bytes) \<Rightarrow> (bytes \<Rightarrow> json option) \<Rightarrow>
   TJsonFile \<Rightarrow> bool \<times> TJsonFile" where
  "LoadFile rd dec parse f =
     (case rd (file_path f) of
        None \<Rightarrow> (False, f)
      | Some data \<Rightarrow>
          let f = TJsonFile_Clear f in
          if data = [] then (False, f)
          else
            let (ok, data) = (if file_password f \<noteq> [] then dec data (file_password f) else (True, data))
            in if \<not> ok then (False, f)
               else
                 let f = f\<lparr>json_converted := Some (toJson parse data)\<rparr> in
                 if json_converted f = Some JNull then (False, f)
                 else if \<not> CheckRequiredFiles f then (False, f)
                 else (True, f))"

subsection \<open>Properties\<close>

lemma map_of_obj_put [simp]: "map_of (obj_put k v kvs) = (map_of kvs)(k \<mapsto> v)"
  by (induction k v kvs rule: obj_put.induct) auto

lemma jcontains_jat: "jcontains j f \<longleftrightarrow> jat j f \<noteq> None"
  by (simp add: jcontains_def jat_def split: json.splits)

definition settable :: "json \<Rightarrow> bool" where
  "settable j = (case j of JNull \<Rightarrow> True | JObj kvs \<Rightarrow> True | _ \<Rightarrow> False)"

lemma jat_set:
  "settable j \<Longrightarrow> jat (json_set j f v) g = (if g = f then Some (set_value_json v) else jat j g)"
  by (cases j) (auto simp: settable_def jat_def json_set_def jassign_def)

lemma set_not_settable: "\<not> settable j \<Longrightarrow> json_set j f v = j"
  by (cases j) (auto simp: settable_def json_set_def jassign_def)

text \<open>
  Reading a field back gives what \<open>set\<close> wrote, at every type the two templates share; the other
  fields keep their values.
\<close>

theorem set_get:
  assumes "settable j"
  shows "getFieldValue_string (json_set j f (SVText s)) f s0 = s \<and>
     getStringField (json_set j f (SVBytes s)) f = s \<and>
     getFieldValue_int (json_set j f (SVInt n)) f n0 = n \<and>
     getFieldValue_enum (json_set j f (SVEnum n)) f n0 = n \<and>
     getFieldValue_bool (json_set j f (SVBool b)) f b0 = b \<and>
     valcmp_string (json_set j f (SVText s)) f s \<and>
     checkField (json_set j f v) [f] \<and>
     (g = f \<or> jat (json_set j f v) g = jat j g)"
proof -
  have "json_set j f w \<noteq> JNull" for w
    using assms by (cases j) (auto simp: settable_def json_set_def jassign_def)
  then show ?thesis
    using assms
    by (auto simp: jat_set getFieldValue_string_def getStringField_def getFieldValue_int_def
        getFieldValue_enum_def getFieldValue_bool_def valcmp_string_def checkField_def jcontains_jat
        set_value_json_def get_number_def get_truth_def)
qed

lemma set_get_witness:
  "getFieldValue_string (json_set (JObj [(bytes_of ''b'', JNum 1)]) (bytes_of ''a'') (SVText [1])) (bytes_of ''a'') [] = [1]"
  using set_get [of "JObj [(bytes_of ''b'', JNum 1)]" "bytes_of ''a''" "[1]"] by (simp add: settable_def)

text \<open>The keys stay sorted, so objects built by \<open>set\<close> are what \<open>std::map\<close> holds.\<close>

lemma key_less_irrefl [simp]: "\<not> key_less x x"
  by (induction x) auto

lemma key_less_trans: "key_less x y \<Longrightarrow> key_less y z \<Longrightarrow> key_less x z"
proof (induction x y arbitrary: z rule: key_less.induct)
  case (1 ys)
  then show ?case by (cases ys; cases z) auto
next
  case (3 x xs y ys)
  then show ?case by (cases z) auto
qed simp

lemma key_less_linear: "\<not> key_less x y \<Longrightarrow> x \<noteq> y \<Longrightarrow> key_less y x"
  by (induction x y rule: key_less.induct) (auto simp: neq_Nil_conv)

lemma obj_put_keys: "set (map fst (obj_put k v kvs)) = insert k (set (map fst kvs))"
  by (induction k v kvs rule: obj_put.induct) auto

definition sorted_keys :: "(bytes \<times> json) list \<Rightarrow> bool" where
  "sorted_keys kvs = sorted_wrt key_less (map fst kvs)"

lemma obj_put_sorted: "sorted_keys kvs \<Longrightarrow> sorted_keys (obj_put k v kvs)"
  unfolding sorted_keys_def
proof (induction k v kvs rule: obj_put.induct)
  case (2 k v k' v' kvs)
  consider "k = k'" | "k \<noteq> k'" "key_less k k'" | "k \<noteq> k'" "\<not> key_less k k'" by blast
  then show ?case
  proof cases
    case 1
    then show ?thesis using 2 by simp
  next
    case c: 2
    then show ?thesis using 2(2) key_less_trans by fastforce
  next
    case c: 3
    then have "key_less k' k" using key_less_linear by blast
    moreover have "sorted_wrt key_less (map fst kvs)" "\<forall>x \<in> set (map fst kvs). key_less k' x"
      using 2(2) by auto
    ultimately show ?thesis
      using 2(1) c obj_put_keys [of k v kvs] by (simp del: set_map)
  qed
qed simp

text \<open>Only the identifier is no data.\<close>

lemma HasDataExceptID_cases:
  "\<not> HasDataExceptID (TResponse_id p)"
  "HasDataExceptID (TResponse_new m c) \<longleftrightarrow> m \<noteq> [] \<or> c \<noteq> -1"
  by (simp_all add: HasDataExceptID_def TResponse_id_def TResponse_new_def json_set_def jassign_def
      jcontains_def jsize_def set_value_json_def bytes_of_def Let_def)

text \<open>What \<open>LoadFile\<close> gives to the parser.\<close>

definition loaded ::
  "(bytes \<Rightarrow> bytes option) \<Rightarrow> (bytes \<Rightarrow> bytes \<Rightarrow> bool \<times> bytes) \<Rightarrow> TJsonFile \<Rightarrow> bytes \<Rightarrow> bool" where
  "loaded rd dec f text \<longleftrightarrow>
     (\<exists>data. rd (file_path f) = Some data \<and> data \<noteq> [] \<and>
        (if file_password f = [] then text = data else dec data (file_password f) = (True, text)))"

text \<open>
  \<open>LoadFile\<close> reports success exactly when the file is there, is not empty, is decrypted if it has
  a password, and what is parsed is not null and has every required field. The converted value is
  then that of the parser.
\<close>

theorem LoadFile_iff:
  "LoadFile rd dec parse f = (True, f') \<longleftrightarrow>
     (\<exists>text j. loaded rd dec f text \<and> toJson parse text = j \<and> j \<noteq> JNull \<and>
        list_all (jcontains j) (v_required_fields f) \<and> f' = f\<lparr>json_converted := Some j\<rparr>)"
  by (cases "dec (the (rd (file_path f))) (file_password f)")
    (auto simp: LoadFile_def loaded_def TJsonFile_Clear_def CheckRequiredFiles_def checkField_def Let_def
      list_all_iff split: option.splits if_splits)

text \<open>
  The check for null does not see a text that does not parse: what \<open>toJson\<close> returns then is an
  array. It is the required fields that refuse it, so a file without any is loaded.
\<close>

lemma LoadFile_garbage:
  assumes "rd (file_path f) = Some data" and "data \<noteq> []" and "file_password f = []"
    and "parse data = None"
  shows "fst (LoadFile rd dec parse f) \<longleftrightarrow> v_required_fields f = []"
proof -
  have "checkField (JArr [JNull]) [x] = False" for x
    by (simp add: checkField_def jcontains_def)
  moreover have "list_all (\<lambda>x. False) xs \<longleftrightarrow> xs = []" for xs :: "bytes list"
    by (cases xs) auto
  ultimately show ?thesis
    using assms by (simp add: LoadFile_def TJsonFile_Clear_def CheckRequiredFiles_def toJson_def Let_def)
qed

text \<open>A dotted path is the fields one after the other.\<close>

lemma split_dots_join:
  "46 \<notin> set p \<Longrightarrow> split_dots part (p @ 46 # q) = (part @ p) # split_dots [] q"
  by (induction p arbitrary: part) auto

lemma split_dots_last: "46 \<notin> set p \<Longrightarrow> part @ p \<noteq> [] \<Longrightarrow> split_dots part p = [part @ p]"
  by (induction p arbitrary: part) auto

lemma walk_append: "walk (ps @ qs) j = Option.bind (walk ps j) (walk qs)"
  by (induction ps arbitrary: j) (auto split: Option.bind_splits)

lemma GetJsonValue_path:
  assumes "46 \<notin> set p" and "46 \<notin> set q" and "q \<noteq> []" and "json_converted f = Some j"
  shows "GetJsonValue f (p @ 46 # q) = Option.bind (jat j p) (\<lambda>k. jat k q)"
  using assms by (cases j)
    (auto simp: GetJsonValue_def split_dots_join split_dots_last jcontains_jat jat_def split: Option.bind_splits)

end
