(* ===== verification/Admin.thy ===== *)
theory Admin
  imports Json Mobi_Client
begin

text \<open>
  The administration side of the client: \<open>CAdminDataManager\<close>, \<open>CConfigManager\<close> and
  \<open>CNotificationManager\<close> (\<open>mobigame/admin/\<close>). They keep three copies of the core's authority, read
  the files under \<open>/usr/mobile/\<close> and send what they hold to the bridge.

  The parsed files live as long as the manager and are only read right after they were loaded, so
  they are local here; the references kept into \<open>info.json\<close> are the values they refer to. An
  exception leaves these functions (\<open>SetAuthority\<close> is \<open>noexcept\<close>) and ends the process: \<open>None\<close>, like
  undefined behaviour.
\<close>

subsection \<open>Names\<close>

definition BASE_FOLDER :: bytes where "BASE_FOLDER = bytes_of ''/usr/mobile/''"
definition F_SETTINGS :: bytes where "F_SETTINGS = bytes_of ''settings.json''"
definition F_INFO :: bytes where "F_INFO = bytes_of ''info.json''"
definition F_NOTIFICATIONS :: bytes where "F_NOTIFICATIONS = bytes_of ''notifications.json''"

text \<open>\<open>JFields\<close>: the names of the fields.\<close>

abbreviation JF_SETTINGS :: string where "JF_SETTINGS \<equiv> ''settings''"
abbreviation JF_MOBILE :: string where "JF_MOBILE \<equiv> ''mobile''"
abbreviation JF_MT :: string where "JF_MT \<equiv> ''mt''"
abbreviation JF_SECURITY :: string where "JF_SECURITY \<equiv> ''security''"
abbreviation JF_MAX_ACTIVE_SESSIONS :: string where "JF_MAX_ACTIVE_SESSIONS \<equiv> ''max_active_sessions''"
abbreviation JF_IP_BLOCKLIST :: string where "JF_IP_BLOCKLIST \<equiv> ''ip_blocklist''"
abbreviation JF_HEARTBEAT :: string where "JF_HEARTBEAT \<equiv> ''heartbeat''"
abbreviation JF_MAX_MISSED_HEARTBEATS :: string where "JF_MAX_MISSED_HEARTBEATS \<equiv> ''max_missed_heartbeats''"
abbreviation JF_LOGIN_POLICY :: string where "JF_LOGIN_POLICY \<equiv> ''login_policy''"
abbreviation JF_MAX_ATTEMPTS :: string where "JF_MAX_ATTEMPTS \<equiv> ''max_attempts''"
abbreviation JF_BLOCK_DURATION_MINUTES :: string where "JF_BLOCK_DURATION_MINUTES \<equiv> ''block_duration_minutes''"
abbreviation JF_RATE_LIMIT :: string where "JF_RATE_LIMIT \<equiv> ''rate_limit''"
abbreviation JF_PER_SECOND :: string where "JF_PER_SECOND \<equiv> ''per_second''"
abbreviation JF_MAX_OVERFLOWS :: string where "JF_MAX_OVERFLOWS \<equiv> ''max_overflows''"
abbreviation JF_DISABLED_PACKETS :: string where "JF_DISABLED_PACKETS \<equiv> ''disabled_packets''"
abbreviation JF_TO_MT :: string where "JF_TO_MT \<equiv> ''to_mt''"
abbreviation JF_TO_MOBILE :: string where "JF_TO_MOBILE \<equiv> ''to_mobile''"
abbreviation JF_ONLINE_COUNTER :: string where "JF_ONLINE_COUNTER \<equiv> ''online_counter''"
abbreviation JF_ENABLED :: string where "JF_ENABLED \<equiv> ''enabled''"
abbreviation JF_DURATION :: string where "JF_DURATION \<equiv> ''duration''"
abbreviation JF_MAINTENANCE_MODE :: string where "JF_MAINTENANCE_MODE \<equiv> ''maintenance_mode''"
abbreviation JF_MESSAGE :: string where "JF_MESSAGE \<equiv> ''message''"
abbreviation JF_REFRESH_INTERVAL_SECONDS :: string where "JF_REFRESH_INTERVAL_SECONDS \<equiv> ''refresh_interval_seconds''"
abbreviation JF_HOST :: string where "JF_HOST \<equiv> ''host''"
abbreviation JF_PORT :: string where "JF_PORT \<equiv> ''port''"
abbreviation JF_USER :: string where "JF_USER \<equiv> ''user''"
abbreviation JF_PASSWORD :: string where "JF_PASSWORD \<equiv> ''password''"
abbreviation JF_DB :: string where "JF_DB \<equiv> ''db''"
abbreviation JF_SERVER_BRIDGE :: string where "JF_SERVER_BRIDGE \<equiv> ''server_bridge''"
abbreviation JF_PORT_TCP :: string where "JF_PORT_TCP \<equiv> ''port_tcp''"
abbreviation JF_NOTIFICATIONS :: string where "JF_NOTIFICATIONS \<equiv> ''notifications''"
abbreviation JF_TITLE :: string where "JF_TITLE \<equiv> ''title''"
abbreviation JF_SUBTITLE :: string where "JF_SUBTITLE \<equiv> ''subtitle''"
abbreviation JF_DETAILS :: string where "JF_DETAILS \<equiv> ''details''"
abbreviation JF_ADMIN_NAME :: string where "JF_ADMIN_NAME \<equiv> ''admin_name''"

abbreviation J :: "string \<Rightarrow> bytes" where "J \<equiv> bytes_of"

definition jget :: "json \<Rightarrow> string \<Rightarrow> json option" where
  "jget j f = jat j (J f)"

definition jhas :: "json \<Rightarrow> string \<Rightarrow> bool" where
  "jhas j f = jcontains j (J f)"

definition LoadFile_at :: "engine \<Rightarrow> bytes \<Rightarrow> string list \<Rightarrow> json option" where
  "LoadFile_at eng name required =
     (let (ok, f) = LoadFile (read_file eng) (DecryptData (ssl eng) (EVP_BytesToKey eng))
                      (json_parse eng) (TJsonFile_new (BASE_FOLDER @ name) (map J required) [])
      in if ok then json_converted f else None)"

subsection \<open>\<open>info.json\<close>\<close>

text \<open>
  The argument is the converted file; \<open>operator[]\<close> of a value that is not constant puts a null
  where there is no field.
\<close>

definition CheckInfoFields :: "json \<Rightarrow> bool option" where
  "CheckInfoFields info = do {
     db \<leftarrow> jget info JF_DB;
     if \<not> (jhas db JF_HOST \<or> jhas db JF_PASSWORD \<or> jhas db JF_USER) then Some False
     else
       let bridge = (case jget info JF_SERVER_BRIDGE of Some b \<Rightarrow> b | None \<Rightarrow> JNull) in
       if \<not> (jhas bridge JF_HOST \<or> jhas bridge JF_PORT_TCP) then Some False
       else Some True }"

definition get_text :: "json \<Rightarrow> string \<Rightarrow> bytes option" where
  "get_text j f = Option.bind (jget j f) get_ref_string"

definition get_num :: "json \<Rightarrow> string \<Rightarrow> int option" where
  "get_num j f = Option.bind (jget j f) get_number"

definition LoadInfoFile :: "engine \<Rightarrow> mobi \<Rightarrow> mobi option" where
  "LoadInfoFile eng s =
     (let s = s\<lparr>db_info := None, bridge_info := None\<rparr> in
      case LoadFile_at eng F_INFO [JF_DB] of
        None \<Rightarrow> Some s
      | Some info \<Rightarrow> do {
          ok \<leftarrow> CheckInfoFields info;
          if \<not> ok then Some s
          else do {
            dbInfo \<leftarrow> jget info JF_DB;
            host \<leftarrow> get_text dbInfo JF_HOST;
            user \<leftarrow> get_text dbInfo JF_USER;
            pw \<leftarrow> get_text dbInfo JF_PASSWORD;
            let s = s\<lparr>db_info := Some \<lparr>db_host = host, db_user = user, db_password = pw\<rparr>\<rparr>;
            bridgeInfo \<leftarrow> jget info JF_SERVER_BRIDGE;
            bhost \<leftarrow> get_text bridgeInfo JF_HOST;
            port \<leftarrow> get_num bridgeInfo JF_PORT_TCP;
            Some (s\<lparr>bridge_info := Some \<lparr>bridge_host = bhost, bridge_port = of_int port\<rparr>\<rparr>) } })"

definition GetBridgeHost :: "mobi \<Rightarrow> bytes" where
  "GetBridgeHost s = (case bridge_info s of None \<Rightarrow> [] | Some b \<Rightarrow> cstr (bridge_host b))"

definition GetBridgePort :: "mobi \<Rightarrow> u16" where
  "GetBridgePort s = (case bridge_info s of None \<Rightarrow> 0 | Some b \<Rightarrow> bridge_port b)"

text \<open>Without the data base's information a null pointer is followed.\<close>

definition GetDBCache :: "mobi \<Rightarrow> bytes option" where
  "GetDBCache s = do {
     db \<leftarrow> db_info s;
     let packet = MSDBInfo_new
           \<lparr>MSDBInfo_host := str_copy (MSDBInfo_host MSDBInfo_new) 22 (db_host db),
            MSDBInfo_user := str_copy (MSDBInfo_user MSDBInfo_new) 33 (db_user db),
            MSDBInfo_password := str_copy (MSDBInfo_password MSDBInfo_new) 33 (db_password db)\<rparr>;
     pack (of_nat sizeof_MSDBInfo) [(ser_MSDBInfo packet, of_nat sizeof_MSDBInfo)] }"

subsection \<open>Notifications\<close>

text \<open>\<open>client_->Send\<close> whose result nobody looks at.\<close>

definition send_ignored :: "engine \<Rightarrow> bytes \<Rightarrow> mobi \<Rightarrow> mobi" where
  "send_ignored eng data s = snd (snd (mSend eng data True s))"

record TNotification =
  n_title :: bytes
  n_subtitle :: bytes
  n_details :: bytes
  n_admin_name :: bytes

definition TNotification_new :: "json \<Rightarrow> TNotification" where
  "TNotification_new j =
     \<lparr>n_title = getStringField j (J JF_TITLE), n_subtitle = getStringField j (J JF_SUBTITLE),
      n_details = getStringField j (J JF_DETAILS), n_admin_name = getStringField j (J JF_ADMIN_NAME)\<rparr>"

definition str_size :: "bytes \<Rightarrow> u32" where
  "str_size t = of_nat (length t) + 1"

definition notification_packet :: "TNotification \<Rightarrow> bytes option" where
  "notification_packet n =
     (let sz = str_size (n_admin_name n) + str_size (n_title n) + str_size (n_subtitle n) + str_size (n_details n);
          packet = MSNotification_new
            \<lparr>MSNotification_header := HEADER_MS_ADMIN_NOTIFICATION,
             MSNotification_subheader := ENotificationSubHeader_code NSH_ADD,
             MSNotification_size := sz\<rparr>
      in pack (of_nat sizeof_MSNotification + sz)
           [(ser_MSNotification packet, of_nat sizeof_MSNotification),
            (n_admin_name n @ [0], str_size (n_admin_name n)),
            (n_title n @ [0], str_size (n_title n)),
            (n_subtitle n @ [0], str_size (n_subtitle n)),
            (n_details n @ [0], str_size (n_details n))])"

primrec send_notifications :: "engine \<Rightarrow> TNotification list \<Rightarrow> mobi \<Rightarrow> mobi option" where
  "send_notifications eng [] s = Some s"
| "send_notifications eng (n # ns) s =
     do { data \<leftarrow> notification_packet n; send_notifications eng ns (send_ignored eng data s) }"

definition LoadNotifications :: "engine \<Rightarrow> time \<Rightarrow> bool \<Rightarrow> mobi \<Rightarrow> mobi option" where
  "LoadNotifications eng now bNeedTimeCheck s =
     (if \<not> HasFlag (notif_authority s) (ucast NOTIFICATION_MANAGER) then Some s
      else if bNeedTimeCheck \<and> in_seconds (now - notif_last_checktime s) < READ_FILE_INTERVAL then Some s
      else
        let s = s\<lparr>notif_last_checktime := now\<rparr> in
        (case LoadFile_at eng F_NOTIFICATIONS [JF_NOTIFICATIONS] of
           None \<Rightarrow> Some s
         | Some file \<Rightarrow> do {
             notifications \<leftarrow> jget file JF_NOTIFICATIONS;
             send_notifications eng (map TNotification_new (jitems notifications)) s }))"

subsection \<open>Settings\<close>

definition CheckSettingsFields :: "json \<Rightarrow> bool option" where
  "CheckSettingsFields file = do {
     settings \<leftarrow> jget file JF_SETTINGS;
     if \<not> (jhas settings JF_MOBILE \<or> jhas settings JF_DISABLED_PACKETS) then Some False
     else do {
       mobile \<leftarrow> jget settings JF_MOBILE;
       dp_field \<leftarrow> jget settings JF_DISABLED_PACKETS;
       if \<not> (jhas mobile JF_SECURITY \<or> jhas mobile JF_ONLINE_COUNTER \<or> jhas mobile JF_MAINTENANCE_MODE)
       then Some False
       else if \<not> (jhas dp_field JF_TO_MOBILE \<or> jhas dp_field JF_TO_MT) then Some False
       else Some True } }"

text \<open>Every element through a conversion, in order; one that throws ends it.\<close>

primrec traverse :: "('a \<Rightarrow> 'b option) \<Rightarrow> 'a list \<Rightarrow> 'b list option" where
  "traverse f [] = Some []"
| "traverse f (x # xs) = do { y \<leftarrow> f x; ys \<leftarrow> traverse f xs; Some (y # ys) }"

text \<open>The static part of the packet, from the security, counter and maintenance fields.\<close>

definition config_static :: "json \<Rightarrow> json \<Rightarrow> json \<Rightarrow> (MSConfigStatic \<times> int) option" where
  "config_static security counter maintenance = do {
     max_sessions \<leftarrow> get_num security JF_MAX_ACTIVE_SESSIONS;
     max_missed \<leftarrow> get_num security JF_MAX_MISSED_HEARTBEATS;
     login_policy \<leftarrow> jget security JF_LOGIN_POLICY;
     attempts \<leftarrow> get_num login_policy JF_MAX_ATTEMPTS;
     login_block \<leftarrow> get_num login_policy JF_BLOCK_DURATION_MINUTES;
     rate_limit \<leftarrow> jget security JF_RATE_LIMIT;
     per_second \<leftarrow> get_num rate_limit JF_PER_SECOND;
     overflows \<leftarrow> get_num rate_limit JF_MAX_OVERFLOWS;
     rate_block \<leftarrow> get_num rate_limit JF_BLOCK_DURATION_MINUTES;
     counter_on \<leftarrow> Option.bind (jget counter JF_ENABLED) get_truth;
     interval \<leftarrow> get_num counter JF_REFRESH_INTERVAL_SECONDS;
     mode_on \<leftarrow> Option.bind (jget maintenance JF_ENABLED) get_truth;
     duration \<leftarrow> get_num maintenance JF_DURATION;
     Some (MSConfigStatic_new
       \<lparr>MSConfigStatic_max_active_sessions := of_int max_sessions,
        MSConfigStatic_max_missed_heartbeats := of_int max_missed,
        MSConfigStatic_max_login_attempts := of_int attempts,
        MSConfigStatic_login_block_duration_minutes := of_int login_block,
        MSConfigStatic_rate_limit_per_second := of_int per_second,
        MSConfigStatic_rate_limit_max_overflows := of_int overflows,
        MSConfigStatic_rate_limit_block_duration_minutes := of_int rate_block,
        MSConfigStatic_online_counter_enabled := counter_on,
        MSConfigStatic_maintenance_mode_enabled := mode_on,
        MSConfigStatic_maintenance_est_duration := of_int duration\<rparr>,
       uint (of_int interval :: u16)) }"

text \<open>
  The packet of the settings: \<open>ips\<close>, \<open>to_mt\<close> and \<open>to_mobile\<close> are the elements of the lists, \<open>msg\<close> the
  maintenance message and \<open>msg_elems\<close> the number of elements of that JSON value, which is what its
  size field is computed from.
\<close>

definition config_packet :: "MSConfigStatic \<Rightarrow> bytes list \<Rightarrow> int list \<Rightarrow> int list \<Rightarrow> nat \<Rightarrow> bytes \<Rightarrow> bytes option" where
  "config_packet static ips to_mt to_mobile msg_elems msg =
     (let security_size = of_nat (sum_list (map (\<lambda>ip. length ip + 1) ips));
          dp_mt = of_nat (length to_mt);
          dp_mobile = of_nat (length to_mobile);
          msg_size = of_nat (msg_elems + 1);
          sz = of_nat sizeof_MSConfig + of_nat sizeof_MSConfigStatic + security_size + dp_mt + dp_mobile + msg_size;
          packet = MSConfig_new
            \<lparr>MSConfig_header := HEADER_MS_CONFIG,
             MSConfig_security_size := security_size,
             MSConfig_dp_to_mt_size := dp_mt,
             MSConfig_dp_to_mobile_size := dp_mobile,
             MSConfig_maintenance_notification_size := msg_size,
             MSConfig_size := sz\<rparr>
      in pack sz
           ([(ser_MSConfig packet, of_nat sizeof_MSConfig),
             (ser_MSConfigStatic static, of_nat sizeof_MSConfigStatic)] @
            map (\<lambda>ip. (ip @ [0], str_size ip)) ips @
            map (\<lambda>n. ([of_int n], 1)) to_mt @
            map (\<lambda>n. ([of_int n], 1)) to_mobile @
            [(msg @ [0], str_size msg)]))"

definition LoadConfigFile :: "engine \<Rightarrow> time \<Rightarrow> bool \<Rightarrow> mobi \<Rightarrow> mobi option" where
  "LoadConfigFile eng now bNeedTimeCheck s =
     (if \<not> HasFlag (config_authority s) (ucast CONFIG_MANAGER) then Some s
      else if bNeedTimeCheck \<and> in_seconds (now - config_last_checktime s) < READ_FILE_INTERVAL then Some s
      else
        let s = s\<lparr>config_last_checktime := now\<rparr> in
        (case LoadFile_at eng F_SETTINGS [JF_SETTINGS] of
           None \<Rightarrow> Some s
         | Some file \<Rightarrow> do {
             ok \<leftarrow> CheckSettingsFields file;
             if \<not> ok then Some s
             else do {
               settings \<leftarrow> jget file JF_SETTINGS;
               disabled \<leftarrow> jget settings JF_DISABLED_PACKETS;
               dp_to_mt \<leftarrow> jget disabled JF_TO_MT;
               dp_to_mobile \<leftarrow> jget disabled JF_TO_MOBILE;
               mobile \<leftarrow> jget settings JF_MOBILE;
               security \<leftarrow> jget mobile JF_SECURITY;
               counter \<leftarrow> jget mobile JF_ONLINE_COUNTER;
               maintenance \<leftarrow> jget mobile JF_MAINTENANCE_MODE;
               blocklist \<leftarrow> jget security JF_IP_BLOCKLIST;
               ips \<leftarrow> traverse get_ref_string (jitems blocklist);
               message \<leftarrow> jget maintenance JF_MESSAGE;
               (static, interval) \<leftarrow> config_static security counter maintenance;
               let s = s\<lparr>refresh_interval := interval\<rparr>;
               to_mt \<leftarrow> traverse get_number (jitems dp_to_mt);
               to_mobile \<leftarrow> traverse get_number (jitems dp_to_mobile);
               msg \<leftarrow> get_ref_string message;
               data \<leftarrow> config_packet static ips to_mt to_mobile (jsize message) msg;
               Some (send_ignored eng data s) } }))"

subsection \<open>The manager\<close>

definition Refresh :: "engine \<Rightarrow> time \<Rightarrow> mobi \<Rightarrow> mobi option" where
  "Refresh eng now s = Option.bind (LoadConfigFile eng now False s) (LoadNotifications eng now False)"

definition SetAuthority :: "engine \<Rightarrow> time \<Rightarrow> u16 \<Rightarrow> mobi \<Rightarrow> mobi option" where
  "SetAuthority eng now authority_type s =
     (if HasFlag (authority s) (ucast authority_type) then Some s
      else Refresh eng now
        (s\<lparr>authority := CFlagWrapper_new (ucast authority_type),
           notif_authority := CFlagWrapper_new (ucast authority_type),
           config_authority := CFlagWrapper_new (ucast authority_type)\<rparr>))"

definition admin_Process :: "engine \<Rightarrow> time \<Rightarrow> mobi \<Rightarrow> mobi option" where
  "admin_Process eng now s =
     Option.bind (LoadNotifications eng now True s) (LoadConfigFile eng now True)"

subsection \<open>The three copies of the authority\<close>

definition admin_inv :: "mobi \<Rightarrow> bool" where
  "admin_inv s \<longleftrightarrow> notif_authority s = authority s \<and> config_authority s = authority s"

text \<open>What a file that is loaded and sent may change.\<close>

definition same_admin :: "mobi \<Rightarrow> mobi \<Rightarrow> bool" where
  "same_admin s t \<longleftrightarrow> authority t = authority s \<and> notif_authority t = notif_authority s \<and>
     config_authority t = config_authority s \<and> connect_state t = connect_state s \<and>
     crypto t = crypto s \<and> is_encrypted t = is_encrypted s \<and> packets t = packets s \<and> ops t = ops s \<and>
     unp_packets t = unp_packets s \<and> message_queue t = message_queue s \<and>
     engine_out t = engine_out s \<and> messenger_state t = messenger_state s \<and>
     mobi_descs t = mobi_descs s \<and> desc_manager t = desc_manager s \<and>
     bridge_cache_ready t = bridge_cache_ready s \<and> db_info t = db_info s \<and> bridge_info t = bridge_info s"

lemma same_admin_refl [simp]: "same_admin s s"
  by (simp add: same_admin_def)

lemma same_admin_trans: "same_admin s t \<Longrightarrow> same_admin t u \<Longrightarrow> same_admin s u"
  by (simp add: same_admin_def)

lemma same_admin_times [simp]:
  "same_admin s (s\<lparr>notif_last_checktime := n\<rparr>)" "same_admin s (s\<lparr>config_last_checktime := n\<rparr>)"
  "same_admin s (s\<lparr>refresh_interval := i\<rparr>)"
  by (simp_all add: same_admin_def)

lemma same_admin_send [simp]: "same_admin s (send_ignored eng data s)"
proof -
  obtain res d t where t: "mSend eng data True s = (res, d, t)" by (cases "mSend eng data True s") auto
  note f = Send_frame [OF t] mSend_more [OF t]
  show ?thesis by (simp add: send_ignored_def t same_admin_def f)
qed

lemma same_admin_notifications: "send_notifications eng ns s = Some t \<Longrightarrow> same_admin s t"
proof (induction ns arbitrary: s)
  case (Cons n ns)
  then show ?case by (auto simp: bind_Some_iff intro: same_admin_trans [OF same_admin_send])
qed simp

lemma same_admin_Load:
  "LoadNotifications eng now b s = Some t \<Longrightarrow> same_admin s t"
  "LoadConfigFile eng now b s = Some t \<Longrightarrow> same_admin s t"
  by (auto simp: LoadNotifications_def LoadConfigFile_def bind_Some_iff Let_def
      intro: same_admin_trans [OF same_admin_times(1) same_admin_notifications]
        same_admin_trans [OF same_admin_times(2) same_admin_trans [OF same_admin_times(3) same_admin_send]]
      split: if_splits option.splits)

lemma same_admin_Refresh: "Refresh eng now s = Some t \<Longrightarrow> same_admin s t"
  using same_admin_Load same_admin_trans by (fastforce simp: Refresh_def bind_Some_iff)

lemma same_admin_Process: "admin_Process eng now s = Some t \<Longrightarrow> same_admin s t"
  using same_admin_Load same_admin_trans by (fastforce simp: admin_Process_def bind_Some_iff)

text \<open>
  C38. The three copies of the core's authority agree at all times: at the start, after a new authority
  was set and after the files were read again. An authority that has a bit in common with the
  present one is ignored, any other replaces it in all three.
\<close>

theorem authority_agrees:
  assumes "admin_inv s" and "SetAuthority eng now a s = Some t"
  shows "admin_inv t \<and>
     authority t = (if flag_bits (authority s) \<inter> bits (ucast a) \<noteq> {} then authority s
                    else CFlagWrapper_new (ucast a)) \<and>
     unp_packets t = unp_packets s \<and> message_queue t = message_queue s"
  using assms same_admin_Refresh [of eng now _ t]
  by (auto simp: SetAuthority_def admin_inv_def HasFlag_iff same_admin_def split: if_splits)

lemma admin_inv_init: "admin_inv mobi_init"
  by (simp add: admin_inv_def)

lemma demo_files [simp]: "LoadFile_at demo_eng f r = None"
  by (simp add: LoadFile_at_def LoadFile_def TJsonFile_new_def demo_eng_def)

lemma authority_agrees_witness:
  "\<exists>t. SetAuthority demo_eng 5 2 mobi_init = Some t \<and> admin_inv t \<and>
     authority t = CFlagWrapper_new 2"
proof -
  have "\<exists>t. Refresh demo_eng 5 s = Some t" for s
    by (simp add: Refresh_def LoadConfigFile_def LoadNotifications_def Let_def)
  then have "\<exists>t. SetAuthority demo_eng 5 2 mobi_init = Some t"
    by (simp add: SetAuthority_def)
  then obtain t where t: "SetAuthority demo_eng 5 2 mobi_init = Some t" by blast
  have "flag_bits (authority mobi_init) = {}" by (simp add: CFlagWrapper_new_def)
  then show ?thesis using authority_agrees [OF admin_inv_init t] t by simp
qed

text \<open>So an authority cannot be extended: here the second one is lost.\<close>

lemma SetAuthority_overlap:
  "authority s = CFlagWrapper_new 2 \<Longrightarrow> SetAuthority eng now (2 OR 4) s = Some s"
  by (simp add: SetAuthority_def HasFlag_def CFlagWrapper_new_def)

subsection \<open>The settings\<close>

lemma config_parts_length:
  "length (concat (map (\<lambda>ip. ip @ [0]) ips)) = sum_list (map (\<lambda>ip. length ip + 1) ips)"
  by (induction ips) auto

lemma config_parts:
  "concat (map (fst \<circ> (\<lambda>ip. (ip @ [0], str_size ip))) ips) = concat (map (\<lambda>ip. ip @ [0]) ips)"
  "concat (map (fst \<circ> (\<lambda>n. ([of_int n], 1))) xs) = map of_int xs"
  by (induction ips; simp) (induction xs; simp)

lemma str_size_exact: "length t < 2 ^ 32 - 1 \<Longrightarrow> unat (str_size t) = length t + 1"
proof -
  assume "length t < 2 ^ 32 - 1"
  then have "unat (of_nat (length t + 1) :: u32) = length t + 1" by (intro unat_of_nat_u32) simp
  then show ?thesis by (simp add: str_size_def add.commute)
qed

definition config_payload :: "bytes list \<Rightarrow> int list \<Rightarrow> int list \<Rightarrow> bytes" where
  "config_payload ips to_mt to_mobile =
     concat (map (\<lambda>ip. ip @ [0]) ips) @ map of_int to_mt @ map of_int to_mobile"

lemma length_config_payload:
  "length (config_payload ips to_mt to_mobile) =
     sum_list (map (\<lambda>ip. length ip + 1) ips) + length to_mt + length to_mobile"
  by (simp add: config_payload_def config_parts_length)

lemma ip_small: "ip \<in> set ips \<Longrightarrow> length ip < length (config_payload ips to_mt to_mobile)"
  using member_le_sum_list [of "length ip + 1" "map (\<lambda>ip. length ip + 1) ips"]
  by (simp add: length_config_payload)

text \<open>
  The packet of the settings holds, after its two structures, every blocked address, the numbers of
  the disabled packets and the maintenance message. Its size field counts the message as two
  bytes whatever its text, because the code takes the number of elements of the JSON value: a
  message of more than one character makes the packet longer than it says.
\<close>

theorem config_contents:
  assumes "length (config_payload ips to_mt to_mobile) + length msg < 2 ^ 32 - 64"
  shows "\<exists>p d. config_packet static ips to_mt to_mobile 1 msg = Some d \<and>
     d = ser_MSConfig p @ ser_MSConfigStatic static @ config_payload ips to_mt to_mobile @ msg @
           0 # replicate (1 - length msg) 0 \<and>
     unat (MSConfig_maintenance_notification_size p) = 2 \<and>
     unat (MSConfig_size p) = 52 + length (config_payload ips to_mt to_mobile) \<and>
     (unat (MSConfig_size p) = length d \<longleftrightarrow> length msg \<le> 1)"
proof -
  let ?m = "length (config_payload ips to_mt to_mobile)"
  let ?sec = "sum_list (map (\<lambda>ip. length ip + 1) ips)"
  let ?p = "MSConfig_new
            \<lparr>MSConfig_header := HEADER_MS_CONFIG,
             MSConfig_security_size := of_nat ?sec,
             MSConfig_dp_to_mt_size := of_nat (length to_mt),
             MSConfig_dp_to_mobile_size := of_nat (length to_mobile),
             MSConfig_maintenance_notification_size := 2,
             MSConfig_size := of_nat (52 + ?m)\<rparr>"
  let ?ps = "[(ser_MSConfig ?p, of_nat sizeof_MSConfig),
             (ser_MSConfigStatic static, of_nat sizeof_MSConfigStatic)] @
            map (\<lambda>ip. (ip @ [0], str_size ip)) ips @
            map (\<lambda>n. ([of_int n], 1)) to_mt @
            map (\<lambda>n. ([of_int n], 1)) to_mobile @
            [(msg @ [0], str_size msg)]"
  have sz: "of_nat sizeof_MSConfig + of_nat sizeof_MSConfigStatic + of_nat ?sec + of_nat (length to_mt) +
      of_nat (length to_mobile) + of_nat (1 + 1) = (of_nat (52 + ?m) :: u32)"
    by (simp add: length_config_payload sizeof_simps)
  have small: "52 + ?m < 2 ^ 32" using assms by simp
  have u: "unat (of_nat (52 + ?m) :: u32) = 52 + ?m" by (rule unat_of_nat_u32 [OF small])
  have cat: "concat (map fst ?ps) =
      ser_MSConfig ?p @ ser_MSConfigStatic static @ config_payload ips to_mt to_mobile @ msg @ [0]"
    by (simp add: config_payload_def config_parts)
  have len: "length (concat (map fst ?ps)) = 51 + ?m + length msg"
    unfolding cat by (simp add: sizeof_simps)
  have "exact q" if "q \<in> set ?ps" for q
  proof -
    have "length msg < 2 ^ 32 - 1" using assms by simp
    moreover have "length ip < 2 ^ 32 - 1" if "ip \<in> set ips" for ip
      using ip_small [OF that, of to_mt to_mobile] assms by simp
    ultimately show ?thesis
      using that by (auto simp: exact_def str_size_exact sizeof_simps)
  qed
  then have "pack (of_nat (52 + ?m)) ?ps =
      Some (concat (map fst ?ps) @ replicate (52 + ?m - length (concat (map fst ?ps))) 0)"
    using pack_exact [of ?ps "of_nat (52 + ?m)"] assms len u by simp
  moreover have "config_packet static ips to_mt to_mobile 1 msg = pack (of_nat (52 + ?m)) ?ps"
    unfolding config_packet_def Let_def sz by simp
  moreover have "52 + ?m - length (concat (map fst ?ps)) = 1 - length msg" using len by simp
  ultimately have eq: "config_packet static ips to_mt to_mobile 1 msg =
      Some (ser_MSConfig ?p @ ser_MSConfigStatic static @ config_payload ips to_mt to_mobile @ msg @
           0 # replicate (1 - length msg) 0)"
    unfolding cat by simp
  have size: "unat (MSConfig_size ?p) = 52 + ?m" using u by simp
  show ?thesis
    by (rule exI [of _ ?p], rule exI, rule conjI [OF eq], rule conjI [OF refl], rule conjI [OF _ conjI [OF size]])
      (use size in \<open>auto simp: sizeof_simps\<close>)
qed

lemma config_contents_witness:
  "\<exists>p d. config_packet MSConfigStatic_new [[1, 2]] [7] [] 1 [66, 67, 68] = Some d \<and>
     unat (MSConfig_size (p :: MSConfig)) = 56 \<and> length d = 58"
proof -
  have l: "length (config_payload [[1, 2]] [7] []) = 4" by (simp add: config_payload_def)
  obtain p d where "config_packet MSConfigStatic_new [[1, 2]] [7] [] 1 [66, 67, 68] = Some d"
    "d = ser_MSConfig p @ ser_MSConfigStatic MSConfigStatic_new @ config_payload [[1, 2]] [7] [] @
       [66, 67, 68] @ 0 # replicate (1 - length [66, 67, 68 :: u8]) 0"
    "unat (MSConfig_size p) = 56"
    using config_contents [of "[[1, 2]]" "[7]" "[]" "[66, 67, 68]" MSConfigStatic_new] l by auto
  moreover from this(2) have "length d = 58" using l by (simp add: sizeof_simps)
  ultimately show ?thesis by blast
qed

subsection \<open>The notifications\<close>

definition notification_bytes :: "TNotification \<Rightarrow> bytes" where
  "notification_bytes n =
     (let body = n_admin_name n @ [0] @ n_title n @ [0] @ n_subtitle n @ [0] @ n_details n @ [0]
      in ser_MSNotification (MSNotification_new
           \<lparr>MSNotification_header := HEADER_MS_ADMIN_NOTIFICATION,
            MSNotification_subheader := ENotificationSubHeader_code NSH_ADD,
            MSNotification_size := of_nat (length body)\<rparr>) @ body)"

definition note_len :: "TNotification \<Rightarrow> nat" where
  "note_len n = length (n_admin_name n) + length (n_title n) + length (n_subtitle n) + length (n_details n)"

lemma notification_packet_eq:
  assumes "note_len n < 2 ^ 31 - 64"
  shows "notification_packet n = Some (notification_bytes n)"
proof -
  have l: "length (n_admin_name n) < 2 ^ 32 - 1" "length (n_title n) < 2 ^ 32 - 1"
    "length (n_subtitle n) < 2 ^ 32 - 1" "length (n_details n) < 2 ^ 32 - 1"
    using assms by (simp_all add: note_len_def)
  have sz: "str_size (n_admin_name n) + str_size (n_title n) + str_size (n_subtitle n) + str_size (n_details n) =
      of_nat (note_len n + 4)"
    by (simp add: str_size_def note_len_def)
  have tot: "of_nat sizeof_MSNotification + of_nat (note_len n + 4) = (of_nat (note_len n + 10) :: u32)"
    by (simp add: sizeof_simps)
  have u: "unat (of_nat (note_len n + 10) :: u32) = note_len n + 10"
    using assms by (intro unat_of_nat_u32) simp
  let ?p = "MSNotification_new
           \<lparr>MSNotification_header := HEADER_MS_ADMIN_NOTIFICATION,
            MSNotification_subheader := ENotificationSubHeader_code NSH_ADD,
            MSNotification_size := of_nat (note_len n + 4)\<rparr>"
  let ?ps = "[(ser_MSNotification ?p, of_nat sizeof_MSNotification),
            (n_admin_name n @ [0], str_size (n_admin_name n)), (n_title n @ [0], str_size (n_title n)),
            (n_subtitle n @ [0], str_size (n_subtitle n)), (n_details n @ [0], str_size (n_details n))]"
  have "\<forall>p \<in> set ?ps. exact p" using l by (simp add: exact_def str_size_exact sizeof_simps)
  moreover have "length (concat (map fst ?ps)) = note_len n + 10"
    by (simp add: note_len_def sizeof_simps)
  ultimately have "pack (of_nat (note_len n + 10)) ?ps = Some (concat (map fst ?ps))"
    using u by (intro pack_full) (simp_all only:)
  moreover have "length (n_admin_name n @ [0] @ n_title n @ [0] @ n_subtitle n @ [0] @ n_details n @ [0]) =
      note_len n + 4"
    by (simp add: note_len_def)
  ultimately show ?thesis
    unfolding notification_packet_def Let_def sz tot notification_bytes_def by (simp add: add.commute)
qed

lemma send_connected:
  assumes lib: "openssl_ok (ssl eng)" "never_fails (ssl eng)"
    and net: "net_inv s" "IsConnected s" and len: "length data < 2 ^ 31 - 32"
    and data: "data \<noteq> []" "hd data \<noteq> 0" and room: "length (write_queue s) < MAX_WRITE_QUEUE_SIZE"
  shows "\<exists>d. write_queue (send_ignored eng data s) = write_queue s @ [d] \<and>
     carries (ssl eng) (crypto s) True d data \<and> net_inv (send_ignored eng data s)"
proof -
  obtain d r where w: "wire_form (ssl eng) data True s = (True, d, r)"
    using wire_form_total [OF lib(2) len data(1), of True s] by (cases "wire_form (ssl eng) data True s") auto
  have push: "push_packet d (write_queue s) = write_queue s @ [d]"
    using wq.room [of s d] room by simp
  obtain t where send: "mSend eng data True s = (SUCCESS, [], t)"
    and q: "write_queue t = write_queue s @ [d]"
    using net(2) data w push by (simp add: Send_eq)
  then show ?thesis
    using wire_carries [OF lib(1) net(1) len w] net_inv_Send [OF net(1) send]
    by (simp add: send_ignored_def)
qed

lemma send_notifications_queue:
  assumes lib: "openssl_ok (ssl eng)" "never_fails (ssl eng)"
  shows "net_inv s \<Longrightarrow> IsConnected s \<Longrightarrow> \<forall>n \<in> set ns. note_len n < 2 ^ 31 - 64 \<Longrightarrow>
     length (write_queue s) + length ns \<le> MAX_WRITE_QUEUE_SIZE \<Longrightarrow>
     \<exists>t ds. send_notifications eng ns s = Some t \<and> write_queue t = write_queue s @ ds \<and>
       list_all2 (\<lambda>d n. carries (ssl eng) (crypto s) True d (notification_bytes n)) ds ns"
proof (induction ns arbitrary: s)
  case (Cons n ns)
  let ?s = "send_ignored eng (notification_bytes n) s"
  have b: "notification_bytes n \<noteq> []" "hd (notification_bytes n) \<noteq> 0"
    "length (notification_bytes n) < 2 ^ 31 - 32"
    using Cons.prems(3) by (simp_all add: notification_bytes_def Let_def ser_MSNotification_def struct_defs note_len_def)
  obtain d where d: "write_queue ?s = write_queue s @ [d]" "net_inv ?s"
    "carries (ssl eng) (crypto s) True d (notification_bytes n)"
    using send_connected [OF lib Cons.prems(1,2) b(3,1,2)] Cons.prems(4) by auto
  have same: "connect_state ?s = connect_state s" "crypto ?s = crypto s"
    using same_admin_send [of s eng "notification_bytes n"] by (simp_all add: same_admin_def)
  have "IsConnected ?s" using same Cons.prems(2) by (simp add: IsConnected_def)
  from Cons.IH [OF d(2) this] Cons.prems(3,4) d(1) same obtain t ds where
    "send_notifications eng ns ?s = Some t" "write_queue t = write_queue ?s @ ds"
    "list_all2 (\<lambda>d n. carries (ssl eng) (crypto s) True d (notification_bytes n)) ds ns" by auto
  then show ?case
    using d Cons.prems(3) notification_packet_eq [of n] by (intro exI [of _ t] exI [of _ "d # ds"]) simp
qed simp

text \<open>
  With the authority for notifications and a connection, reading the file queues one packet for
  each notification of it, in the order of the file, which the bridge reads as the notification's
  four texts; a field that is missing or no string is sent as an empty text.
\<close>

theorem notifications_sent:
  assumes lib: "openssl_ok (ssl eng)" "never_fails (ssl eng)"
    and net: "net_inv s" "IsConnected s"
    and auth: "HasFlag (notif_authority s) (ucast NOTIFICATION_MANAGER)"
    and due: "\<not> b \<or> READ_FILE_INTERVAL \<le> in_seconds (now - notif_last_checktime s)"
    and loaded: "LoadFile_at eng F_NOTIFICATIONS [JF_NOTIFICATIONS] = Some f" "jget f JF_NOTIFICATIONS = Some j"
    and len: "\<forall>n \<in> set (map TNotification_new (jitems j)). note_len n < 2 ^ 31 - 64"
    and room: "length (write_queue s) + length (jitems j) \<le> MAX_WRITE_QUEUE_SIZE"
  shows "\<exists>t ds. LoadNotifications eng now b s = Some t \<and> write_queue t = write_queue s @ ds \<and>
     list_all2 (\<lambda>d n. carries (ssl eng) (crypto s) True d (notification_bytes n)) ds
       (map TNotification_new (jitems j))"
proof -
  let ?s = "s\<lparr>notif_last_checktime := now\<rparr>"
  have "net.truncate ?s = net.truncate s" by (simp add: net.truncate_def)
  from net_ok_truncate [OF this] net have "net_inv ?s" "IsConnected ?s" by (simp_all add: IsConnected_def)
  from send_notifications_queue [OF lib this len] room
  show ?thesis using auth due loaded by (auto simp: LoadNotifications_def Let_def)
qed

definition notify_eng :: engine where
  "notify_eng = demo_eng
     \<lparr>read_file := (\<lambda>f. Some [1]),
      json_parse := (\<lambda>t. Some (JObj [(J JF_NOTIFICATIONS,
         JArr [JObj [(J JF_TITLE, JStr [65])], JObj [(J JF_DETAILS, JStr [66]), (J JF_TITLE, JNum 3)]])]))\<rparr>"

lemma notifications_sent_witness:
  "\<exists>t d1 d2. LoadNotifications notify_eng 5 False (demo_online\<lparr>notif_authority := CFlagWrapper_new 2\<rparr>) = Some t \<and>
     write_queue t = [d1, d2] \<and>
     carries demo_ssl None True d1 (notification_bytes
       \<lparr>n_title = [65], n_subtitle = [], n_details = [], n_admin_name = []\<rparr>) \<and>
     carries demo_ssl None True d2 (notification_bytes
       \<lparr>n_title = [], n_subtitle = [], n_details = [66], n_admin_name = []\<rparr>)"
proof -
  let ?s = "demo_online\<lparr>notif_authority := CFlagWrapper_new 2\<rparr> :: mobi"
  let ?j = "JArr [JObj [(J JF_TITLE, JStr [65])], JObj [(J JF_DETAILS, JStr [66]), (J JF_TITLE, JNum 3)]]"
  have lib: "openssl_ok (ssl notify_eng)" "never_fails (ssl notify_eng)"
    by (simp_all add: notify_eng_def demo_ssl_ok never_fails_demo)
  have same: "net.truncate ?s = net.truncate demo_online" by (simp add: net.truncate_def)
  have net: "net_inv ?s" "IsConnected ?s"
    using net_ok_truncate [OF same] net_truncate_eqD [OF same] demo_online_inv by simp_all
  have q: "write_queue ?s = []" "crypto ?s = None" by (simp_all add: demo_online_def)
  have loaded: "LoadFile_at notify_eng F_NOTIFICATIONS [JF_NOTIFICATIONS] = Some (JObj [(J JF_NOTIFICATIONS, ?j)])"
    by (simp add: LoadFile_at_def LoadFile_def TJsonFile_new_def TJsonFile_Clear_def notify_eng_def toJson_def
        CheckRequiredFiles_def checkField_def jcontains_def Let_def)
  have j: "jget (JObj [(J JF_NOTIFICATIONS, ?j)]) JF_NOTIFICATIONS = Some ?j"
    by (simp add: jget_def jat_def)
  have ne: "J JF_DETAILS \<noteq> J JF_TITLE" by (simp add: bytes_of_def)
  have ns: "map TNotification_new (jitems ?j) =
      [\<lparr>n_title = [65], n_subtitle = [], n_details = [], n_admin_name = []\<rparr>,
       \<lparr>n_title = [], n_subtitle = [], n_details = [66], n_admin_name = []\<rparr>]"
    by (simp add: jitems_def TNotification_new_def getStringField_def jat_def bytes_of_def)
  have "\<exists>t ds. LoadNotifications notify_eng 5 False ?s = Some t \<and> write_queue t = write_queue ?s @ ds \<and>
     list_all2 (\<lambda>d n. carries (ssl notify_eng) (crypto ?s) True d (notification_bytes n)) ds
       (map TNotification_new (jitems ?j))"
    by (rule notifications_sent [OF lib net _ _ loaded j])
      (use ns in \<open>auto simp: HasFlag_def CFlagWrapper_new_def NOTIFICATION_MANAGER_def note_len_def
          demo_online_def MAX_WRITE_QUEUE_SIZE_def jitems_def\<close>)
  then show ?thesis unfolding ns q by (auto simp: list_all2_Cons2 notify_eng_def)
qed

end
