(* ===== verification/Decimal.thy ===== *)
theory Decimal
  imports Prelude
begin

text \<open>
  Numbers in text: what a stream prints for a number, with \<open>setw\<close> and \<open>setfill('0')\<close> or without, and
  what it reads from digits.
\<close>

subsection \<open>Printing\<close>

fun decimal :: "nat \<Rightarrow> bytes" where
  "decimal n = (if n < 10 then [48 + of_nat n] else decimal (n div 10) @ [48 + of_nat (n mod 10)])"

declare decimal.simps [simp del]

definition signed_decimal :: "int \<Rightarrow> bytes" where
  "signed_decimal n = (if n < 0 then 45 # decimal (nat (- n)) else decimal (nat n))"

text \<open>\<open>std::setw(w) << std::setfill('0')\<close>: zeros in front, of a sign too.\<close>

definition setw0 :: "nat \<Rightarrow> int \<Rightarrow> bytes" where
  "setw0 w n = replicate (w - length (signed_decimal n)) 48 @ signed_decimal n"

lemma signed_decimal_nat [simp]: "signed_decimal (int n) = decimal n"
  by (simp add: signed_decimal_def)

subsection \<open>Reading\<close>

definition is_digit :: "u8 \<Rightarrow> bool" where
  "is_digit c \<longleftrightarrow> 48 \<le> c \<and> c \<le> 57"

definition of_decimal :: "bytes \<Rightarrow> nat" where
  "of_decimal = foldl (\<lambda>a d. a * 10 + (unat d - 48)) 0"

lemma of_decimal_snoc [simp]: "of_decimal (xs @ [d]) = of_decimal xs * 10 + (unat d - 48)"
  by (simp add: of_decimal_def)

lemma unat_digit: "d < 10 \<Longrightarrow> unat (48 + of_nat d :: u8) = 48 + d"
proof -
  assume "d < 10"
  moreover have "(48 + of_nat d :: u8) = of_nat (48 + d)" by simp
  ultimately show ?thesis by (simp only: unat_of_nat) simp
qed

lemma is_digit_of_nat: "d < 10 \<Longrightarrow> is_digit (48 + of_nat d)"
  using unat_digit [of d] by (simp add: is_digit_def word_le_nat_alt)

lemma of_decimal_pad: "of_decimal (replicate k 48 @ decimal n) = n"
proof (induction n rule: decimal.induct)
  case (1 n)
  have zeros: "of_decimal (replicate k 48) = 0"
    by (induction k) (simp_all add: of_decimal_def replicate_append_same [symmetric])
  show ?case
  proof (cases "n < 10")
    case True
    then show ?thesis
      using zeros of_decimal_snoc [of "replicate k 48" "48 + of_nat n"] by (simp add: decimal.simps [of n] unat_digit)
  next
    case False
    have "of_decimal ((replicate k 48 @ decimal (n div 10)) @ [48 + of_nat (n mod 10)]) = n"
      using 1 [OF False] unat_digit [of "n mod 10"] by (simp only: of_decimal_snoc) simp
    then show ?thesis using False by (simp add: decimal.simps [of n])
  qed
qed

lemma decimal_digits: "c \<in> set (decimal n) \<Longrightarrow> is_digit c"
proof (induction n rule: decimal.induct)
  case (1 n)
  then show ?case
    using is_digit_of_nat [of n] is_digit_of_nat [of "n mod 10"]
    by (cases "n < 10") (auto simp: decimal.simps [of n])
qed

lemma decimal_ne [simp]: "decimal n \<noteq> []"
  by (simp add: decimal.simps [of n])

lemma length_decimal_le: "0 < w \<Longrightarrow> n < 10 ^ w \<Longrightarrow> length (decimal n) \<le> w"
proof (induction w arbitrary: n)
  case (Suc w)
  show ?case
  proof (cases "n < 10")
    case False
    then have "0 < w" using Suc.prems(2) by (cases w) auto
    moreover have "n div 10 < 10 ^ w" using Suc.prems(2) by (simp add: div_less_iff_less_mult mult.commute)
    ultimately show ?thesis using Suc.IH False by (simp add: decimal.simps [of n])
  qed (simp add: decimal.simps [of n])
qed simp

text \<open>A number that fits the width is printed with as many digits as the width and read back.\<close>

lemma setw0_nat:
  assumes "0 < w" and "0 \<le> n" and "n < 10 ^ w"
  shows "length (setw0 w n) = w" and "of_decimal (setw0 w n) = nat n" and "\<forall>c \<in> set (setw0 w n). is_digit c"
proof -
  obtain m where m: "n = int m" "m < 10 ^ w"
    using assms(2,3) by (metis of_nat_less_iff of_nat_numeral of_nat_power zero_le_imp_eq_int)
  show "length (setw0 w n) = w" using length_decimal_le [OF assms(1) m(2)] by (simp add: setw0_def m(1))
  show "of_decimal (setw0 w n) = nat n" by (simp add: setw0_def m(1) of_decimal_pad)
  show "\<forall>c \<in> set (setw0 w n). is_digit c"
    using decimal_digits by (auto simp: setw0_def m(1) is_digit_def)
qed

lemma takeWhile_digits:
  "\<forall>c \<in> set ds. is_digit c \<Longrightarrow> s = [] \<or> \<not> is_digit (hd s) \<Longrightarrow> takeWhile is_digit (ds @ s) = ds"
  by (cases s) (simp_all add: takeWhile_tail)

text \<open>A number that needs the whole width is printed without zeros.\<close>

lemma length_decimal_gt: "10 ^ w \<le> n \<Longrightarrow> w < length (decimal n)"
proof (induction w arbitrary: n)
  case (Suc w)
  then have "10 ^ w \<le> n div 10" by (simp add: less_eq_div_iff_mult_less_eq mult.commute)
  moreover have "\<not> n < 10" using Suc.prems by (simp add: not_less order_trans [of 10 "10 ^ Suc w"])
  ultimately show ?case using Suc.IH [of "n div 10"] by (simp add: decimal.simps [of n])
qed simp

lemma signed_decimal_setw0: "10 ^ w \<le> n \<Longrightarrow> signed_decimal (int n) = setw0 (Suc w) (int n)"
  using length_decimal_gt [of w n] by (simp add: setw0_def)

end
