(* ===== verification/Log_Format.thy ===== *)
theory Log_Format
  imports Decimal
begin

text \<open>
  The text of a log line (\<open>Abstract/abstract_logger.h\<close>): \<open>WriteBuf\<close> puts its arguments in the place
  of question marks, and the macros of \<open>Singletons/log_manager.h\<close> put the function and the message
  into a pattern of their own. The message-handling code builds SQL with \<open>WriteBuf\<close>, too.
\<close>

subsection \<open>Arguments\<close>

text \<open>What the stream prints for a text and for a number of any type the code logs.\<close>

datatype log_arg = ArgText bytes | ArgNum int

fun render :: "log_arg \<Rightarrow> bytes" where
  "render (ArgText t) = t"
| "render (ArgNum n) = signed_decimal n"

subsection \<open>\<open>WriteBuf\<close>\<close>

definition MARK :: u8 where "MARK = 63"

text \<open>\<open>converted.replace(converted.find('?'), 1, text)\<close>, when there is one.\<close>

definition replace_mark :: "bytes \<Rightarrow> bytes \<Rightarrow> bytes" where
  "replace_mark converted t =
     (let pos = length (takeWhile (\<lambda>c. c \<noteq> MARK) converted) in
      if pos = length converted then converted
      else take pos converted @ t @ drop (pos + 1) converted)"

definition WriteBuf :: "bytes \<Rightarrow> log_arg list \<Rightarrow> bytes" where
  "WriteBuf message args =
     (if message = [] then [] else foldl (\<lambda>c a. replace_mark c (render a)) (cstr message) args)"

datatype LogLevel = TRACE | INFO | WARN | ERR | FATAL | REPORT

fun GetLogLevelStr :: "LogLevel \<Rightarrow> bytes" where
  "GetLogLevelStr TRACE = bytes_of ''TRACE''"
| "GetLogLevelStr INFO = bytes_of ''INFO''"
| "GetLogLevelStr WARN = bytes_of ''WARN''"
| "GetLogLevelStr ERR = bytes_of ''ERROR''"
| "GetLogLevelStr FATAL = bytes_of ''FATAL''"
| "GetLogLevelStr REPORT = bytes_of ''REPORT''"

text \<open>The line \<open>log\<close> hands to \<open>DoFileStuff\<close>, with the time stamp of the call.\<close>

definition log_line :: "bytes \<Rightarrow> LogLevel \<Rightarrow> bytes \<Rightarrow> log_arg list \<Rightarrow> bytes option" where
  "log_line timeStamp level message args =
     (if message = [] then None
      else Some (timeStamp @ bytes_of '' ['' @ GetLogLevelStr level @ bytes_of ''] '' @
        WriteBuf message args @ [10]))"

text \<open>\<open>LOG_TRACE\<close> and its siblings.\<close>

definition log_macro ::
  "bytes \<Rightarrow> LogLevel \<Rightarrow> bytes \<Rightarrow> bytes \<Rightarrow> log_arg list \<Rightarrow> bytes option" where
  "log_macro timeStamp level func message args =
     log_line timeStamp level (bytes_of ''? : ?'') (ArgText func # ArgText message # args)"

subsection \<open>Arguments go where they belong\<close>

text \<open>The intended reading: one pass over the message, each mark takes the next argument.\<close>

fun fill :: "bytes \<Rightarrow> bytes list \<Rightarrow> bytes" where
  "fill [] ts = []"
| "fill (c # cs) [] = c # cs"
| "fill (c # cs) (t # ts) = (if c = MARK then t @ fill cs ts else c # fill cs (t # ts))"

abbreviation clean :: "bytes \<Rightarrow> bool" where
  "clean t \<equiv> MARK \<notin> set t"

abbreviation subst_all :: "bytes \<Rightarrow> bytes list \<Rightarrow> bytes" where
  "subst_all \<equiv> foldl replace_mark"

lemma foldl_render: "foldl (\<lambda>c a. replace_mark c (render a)) s as = subst_all s (map render as)"
  by (induction "as" arbitrary: s) simp_all

lemma replace_mark_prefix: "clean p \<Longrightarrow> replace_mark (p @ s) t = p @ replace_mark s t"
  by (induction p) (auto simp: replace_mark_def Let_def)

lemma replace_mark_here: "replace_mark (MARK # s) t = t @ s"
  by (simp add: replace_mark_def)

lemma replace_mark_none: "clean s \<Longrightarrow> replace_mark s t = s"
  using replace_mark_prefix [of s "[]" t] by (simp add: replace_mark_def)

lemma subst_prefix: "clean p \<Longrightarrow> subst_all (p @ s) ts = p @ subst_all s ts"
  by (induction ts arbitrary: s) (simp_all add: replace_mark_prefix)

lemma subst_Nil: "subst_all [] ts = []"
  by (induction ts) (simp_all add: replace_mark_def)

lemma subst_fill: "\<forall>t \<in> set ts. clean t \<Longrightarrow> subst_all s ts = fill s ts"
proof (induction s ts rule: fill.induct)
  case (3 c cs t ts)
  show ?case
  proof (cases "c = MARK")
    case True
    then show ?thesis using 3 by (simp add: replace_mark_here subst_prefix)
  next
    case False
    then show ?thesis using 3 subst_prefix [of "[c]" cs "t # ts"] by simp
  qed
qed (simp_all add: subst_Nil)

text \<open>
  A log macro writes the function, a colon and the message in which the \<open>n\<close>-th question mark is
  the \<open>n\<close>-th argument, as long as no argument contains a question mark itself; the message is put in
  first, so its own marks take the arguments.
\<close>

theorem log_macro_text:
  assumes "clean func" and "\<forall>a \<in> set args. clean (render a)"
  shows "log_macro timeStamp level func message args =
     Some (timeStamp @ bytes_of '' ['' @ GetLogLevelStr level @ bytes_of ''] '' @
       func @ bytes_of '' : '' @ fill message (map render args) @ [10])"
proof -
  let ?ts = "map render args"
  have pat: "cstr (bytes_of ''? : ?'') = MARK # [32, 58, 32] @ [MARK]"
    by (simp add: bytes_of_def MARK_def cstr_def)
  have clean: "clean [32, 58, 32]" by (simp add: MARK_def)
  have "subst_all (cstr (bytes_of ''? : ?'')) (func # message # ?ts) =
      subst_all (func @ [32, 58, 32] @ [MARK]) (message # ?ts)"
    unfolding pat foldl_Cons replace_mark_here ..
  also have "\<dots> = func @ [32, 58, 32] @ subst_all [MARK] (message # ?ts)"
    unfolding subst_prefix [OF assms(1)] subst_prefix [OF clean] ..
  also have "subst_all [MARK] (message # ?ts) = fill message ?ts"
    using assms(2) subst_fill [of ?ts message] replace_mark_here [of "[]"] by simp
  finally show ?thesis
    by (simp add: log_macro_def log_line_def WriteBuf_def foldl_render bytes_of_def)
qed

lemma log_macro_text_witness:
  "log_macro [] INFO (bytes_of ''f'') (bytes_of ''a ? b'') [ArgNum 7] =
     Some (bytes_of '' [INFO] f : a 7 b'' @ [10])"
  using log_macro_text [of "bytes_of ''f''" "[ArgNum 7]" "[]" INFO "bytes_of ''a ? b''"]
  by (simp add: bytes_of_def MARK_def signed_decimal_def decimal.simps)

text \<open>A question mark in an argument takes the next argument.\<close>

lemma WriteBuf_nested:
  "WriteBuf (bytes_of ''? ?'') [ArgText (bytes_of ''a?''), ArgText (bytes_of ''b'')] = bytes_of ''ab ?''"
  by (simp add: WriteBuf_def replace_mark_def bytes_of_def cstr_def MARK_def Let_def)

end
