(* ===== verification/Handlers.thy ===== *)
theory Handlers
  imports Shop_Manager Admin Sync Log_Format
begin

text \<open>
  What the client does with the packets of the bridge (\<open>mobi/packet_handlers.cpp\<close>,
  \<open>mobi/packet_registry.cpp\<close>), and the loop that runs it all (\<open>mobi/base.cpp\<close>,
  \<open>client/client_base.cpp\<close>).

  A handler gets the packet as the raw client received it, header included, and casts it to a
  structure: a byte that is not there is undefined, \<open>None\<close>. So is a C string without its end.
  Log lines are left out, except where they read a string of the packet.
\<close>

subsection \<open>The session\<close>

definition HandleDbInfo :: "engine \<Rightarrow> time \<Rightarrow> bytes \<Rightarrow> mobi \<Rightarrow> (bool \<times> mobi) option" where
  "HandleDbInfo eng now data s =
     (if \<not> HasFlag (authority s) (ucast DB_MANAGER) then Some (True, s)
      else do {
        db_cache \<leftarrow> GetDBCache s;
        Some (SendPacket eng now db_cache True s) })"

definition OnEnabledEnc :: "engine \<Rightarrow> time \<Rightarrow> mobi \<Rightarrow> mobi option" where
  "OnEnabledEnc eng now s = Refresh eng now (unprocessed_process eng now s)"

definition key_exchange_packet :: "engine \<Rightarrow> bytes \<Rightarrow> bytes option" where
  "key_exchange_packet eng public_key =
     (let key_packet = TKeyExchange_new
            \<lparr>TKeyExchange_header := HEADER_MS_KEY_EXCHANGE,
             TKeyExchange_is_auth_core := g_bAuthServer eng,
             TKeyExchange_size := of_nat (length public_key)\<rparr>
      in pack (of_nat sizeof_TKeyExchange + TKeyExchange_size key_packet)
           [(ser_TKeyExchange key_packet, of_nat sizeof_TKeyExchange),
            (public_key, TKeyExchange_size key_packet)])"

definition HandleKeyExchange :: "engine \<Rightarrow> time \<Rightarrow> bytes \<Rightarrow> mobi \<Rightarrow> (bool \<times> mobi) option" where
  "HandleKeyExchange eng now data s = do {
     sm \<leftarrow> get_TKeyExchange data 0;
     key \<leftarrow> get_chars data sizeof_TKeyExchange (unat (TKeyExchange_size sm));
     let (public_key, s) = session_get_public_key (ssl eng) s;
     if public_key = [] then Some (False, s)
     else do {
       buffer \<leftarrow> key_exchange_packet eng public_key;
       let (sent, s) = SendPacket eng now buffer False s;
       if \<not> sent then Some (False, s)
       else session_enable_encryption (ssl eng) (OnEnabledEnc eng now) key s } }"

definition HandleCacheStatus :: "bytes \<Rightarrow> mobi \<Rightarrow> (bool \<times> mobi) option" where
  "HandleCacheStatus data s = do {
     packet \<leftarrow> get_SMCacheStatus data 0;
     Some (True, SetBridgeCacheStatus (SMCacheStatus_is_ready packet) s) }"

subsection \<open>Messages and friends\<close>

definition WHISPER_TYPE_MOBILE :: u8 where "WHISPER_TYPE_MOBILE = 6"

text \<open>\<open>strlcpy\<close> into the packet's array of names.\<close>

definition szNameFrom :: "engine \<Rightarrow> bytes \<Rightarrow> bytes" where
  "szNameFrom eng name = take (sizeof_szNameFrom eng - 1) name"

definition HandleMobilePm :: "engine \<Rightarrow> bytes \<Rightarrow> mobi \<Rightarrow> (bool \<times> mobi) option" where
  "HandleMobilePm eng data s = do {
     sm \<leftarrow> get_SMMessage data 0;
     name \<leftarrow> get_cstr data 5;
     logged \<leftarrow> get_cstr data sizeof_SMMessage;
     (case FindByAccountID s (SMMessage_receiver_acc_id sm) of
        None \<Rightarrow> Some (False, s)
      | Some desc \<Rightarrow> do {
          let msg_len = SMMessage_size sm - of_nat sizeof_SMMessage;
          message \<leftarrow> get_chars data sizeof_SMMessage (unat msg_len);
          s \<leftarrow> DESC_Packet desc
                 (GCWhisper eng (of_nat (sizeof_GCWhisper eng + unat msg_len)) WHISPER_TYPE_MOBILE
                    (szNameFrom eng name) @ message) s;
          Some (True, s) }) }"

definition not_exist_whisper :: "engine \<Rightarrow> bytes \<Rightarrow> bytes" where
  "not_exist_whisper eng name =
     GCWhisper eng (of_nat (sizeof_GCWhisper eng)) (WHISPER_TYPE_NOT_EXIST eng) (szNameFrom eng name)"

definition HandleUserCheck :: "engine \<Rightarrow> bytes \<Rightarrow> mobi \<Rightarrow> (bool \<times> mobi) option" where
  "HandleUserCheck eng data s = do {
     ms \<leftarrow> get_SMUserCheck data 0;
     let cid = SMUserCheck_container_id ms;
     let response = SMUserCheck_response ms;
     if response = EUserCheckResponse_code UC_VALID then Some (message_process eng cid s)
     else if response \<in> {EUserCheckResponse_code UC_OFFLINE, EUserCheckResponse_code UC_BLOCKED,
                         EUserCheckResponse_code UC_NOT_EXIST}
     then (case message_get_container cid s of
             None \<Rightarrow> Some (False, s)
           | Some container \<Rightarrow> do {
               s \<leftarrow> (case FindByPID eng (get_sender_pid container) of
                        Some (Some desc) \<Rightarrow>
                          DESC_Packet desc (not_exist_whisper eng (get_receiver_name container)) s
                      | _ \<Rightarrow> Some s);
               Some (True, message_remove cid s) })
     else Some (True, message_remove cid s) }"

definition HandleMobileLogin :: "engine \<Rightarrow> bytes \<Rightarrow> mobi \<Rightarrow> (bool \<times> mobi) option" where
  "HandleMobileLogin eng data s = do {
     name \<leftarrow> get_cstr data 1;
     Some (True, with_messenger (MobileLogin (FindPC eng) name) s) }"

definition HandleMobileLogout :: "engine \<Rightarrow> bytes \<Rightarrow> mobi \<Rightarrow> (bool \<times> mobi) option" where
  "HandleMobileLogout eng data s = do {
     name \<leftarrow> get_cstr data 1;
     Some (True, with_messenger (MobileLogout (FindPC eng) name) s) }"

subsection \<open>Custom packets\<close>

definition EXAMPLE_EVENT :: u16 where "EXAMPLE_EVENT = 0"
definition EXAMPLE_NOTIFICATION :: u16 where "EXAMPLE_NOTIFICATION = 1"
definition EXAMPLE_COMPLEX :: u16 where "EXAMPLE_COMPLEX = 2"

text \<open>\<open>ESubTour\<close>: \<open>STATUS\<close>, \<open>ADD_REWARD\<close>, \<open>MANAGE_PLAYER\<close>. The value \<open>None\<close> of the cursor is a refused advance.\<close>

definition forward_tour :: "bytes \<Rightarrow> nat \<Rightarrow> nat \<Rightarrow> u32 \<Rightarrow> bool option" where
  "forward_tour data cursor data_end extra_sub_id =
     (if extra_sub_id = 0
      then do { status \<leftarrow> get_bool data cursor;
                case advance_cursor cursor 1 data_end of None \<Rightarrow> Some False | Some _ \<Rightarrow> Some False }
      else if extra_sub_id = 1
      then do {
        item_id \<leftarrow> get_u32 data cursor;
        case advance_cursor cursor 4 data_end of
          None \<Rightarrow> Some False
        | Some cursor \<Rightarrow> do {
            count \<leftarrow> get_u32 data cursor;
            case advance_cursor cursor 4 data_end of None \<Rightarrow> Some False | Some _ \<Rightarrow> Some False } }
      else if extra_sub_id = 2
      then do {
        pid \<leftarrow> get_u32 data cursor;
        case advance_cursor cursor 4 data_end of
          None \<Rightarrow> Some False
        | Some cursor \<Rightarrow> do { cmd \<leftarrow> get_cstr data cursor; Some False } }
      else Some False)"

text \<open>\<open>dynamic_data\<close> and \<open>data_end\<close> are offsets into the packet.\<close>

definition HandleForwardPacket :: "bytes \<Rightarrow> bool option" where
  "HandleForwardPacket data = do {
     packet \<leftarrow> get_SMForward data 0;
     let sub_id = SMForward_sub_header packet;
     let dynamic_data = sizeof_SMForward;
     let data_end = unat (SMForward_size packet);
     if sub_id = EXAMPLE_EVENT
     then do {
       event_id \<leftarrow> get_u16 data dynamic_data;
       case advance_cursor dynamic_data 2 data_end of
         None \<Rightarrow> Some False
       | Some dynamic_data \<Rightarrow> do { status \<leftarrow> get_bool data (dynamic_data + 2); Some True } }
     else if sub_id = EXAMPLE_NOTIFICATION
     then do {
       pid \<leftarrow> get_u32 data dynamic_data;
       case advance_cursor dynamic_data 4 data_end of
         None \<Rightarrow> Some False
       | Some dynamic_data \<Rightarrow> do {
           title \<leftarrow> get_chars data dynamic_data 33;
           case advance_cursor dynamic_data 33 data_end of None \<Rightarrow> Some False | Some _ \<Rightarrow> Some False } }
     else if sub_id = EXAMPLE_COMPLEX
     then do {
       ex_sub_id \<leftarrow> get_u32 data dynamic_data;
       case advance_cursor dynamic_data 4 data_end of
         None \<Rightarrow> Some False
       | Some dynamic_data \<Rightarrow> forward_tour data dynamic_data data_end ex_sub_id }
     else Some False }"

subsection \<open>Logging in\<close>

definition login_query :: "bytes \<Rightarrow> bytes \<Rightarrow> bytes" where
  "login_query login pw =
     WriteBuf (bytes_of ''SELECT id FROM ?.account WHERE login='' @ [39, MARK, 39] @
               bytes_of '' AND password = PASSWORD(?) LIMIT 1'')
       [ArgText (bytes_of ''account''), ArgText login, ArgText pw]"

text \<open>
  Whether the answer to the query names an account. A row is its columns; one column was asked for.
\<close>

definition account_found :: "engine \<Rightarrow> bytes \<Rightarrow> bytes \<Rightarrow> bool option" where
  "account_found eng login pw =
     (case DirectQuery eng (login_query login pw) of
        None \<Rightarrow> Some False
      | Some None \<Rightarrow> Some False
      | Some (Some []) \<Rightarrow> Some False
      | Some (Some ([] # _)) \<Rightarrow> None
      | Some (Some ((column # _) # _)) \<Rightarrow> Some (str_to_number eng column \<noteq> 0))"

definition HandleValidateLogin :: "engine \<Rightarrow> time \<Rightarrow> bytes \<Rightarrow> mobi \<Rightarrow> (bool \<times> mobi) option" where
  "HandleValidateLogin eng now data s = do {
     pkt \<leftarrow> get_SMValidateMobileLogin data 0;
     login \<leftarrow> get_cstr data sizeof_SMValidateMobileLogin;
     if test_server eng then SendLoginResponse eng now pkt True s
     else do {
       pw \<leftarrow> get_cstr data (sizeof_SMValidateMobileLogin + length login + 1);
       is_valid \<leftarrow> account_found eng login pw;
       SendLoginResponse eng now pkt is_valid s } }"

definition HandleModifyCharacter :: "engine \<Rightarrow> time \<Rightarrow> bytes \<Rightarrow> mobi \<Rightarrow> (bool \<times> mobi) option" where
  "HandleModifyCharacter eng now data s = do {
     pkt \<leftarrow> get_SMModifyCharacter data 0;
     let pid = SMModifyCharacter_pid pkt;
     if SMModifyCharacter_sub_id pkt = ESubModifyCharacter_code MC_DISCONNECT
     then (case FindByPID eng pid of
             Some (Some desc) \<Rightarrow> do {
               (_, s) \<leftarrow> sendModifyResponse eng now pid RM_SUCCESS
                          (destroy_desc eng desc (call_engine (DestroyLoginKey desc) s));
               Some (True, s) }
           | _ \<Rightarrow> do {
               (_, s) \<leftarrow> sendModifyResponse eng now pid RM_NOT_EXISTS_CH s;
               Some (False, s) })
     else if SMModifyCharacter_sub_id pkt = ESubModifyCharacter_code LOAD_CH
     then do {
       login \<leftarrow> get_cstr data sizeof_SMModifyCharacter;
       pw \<leftarrow> get_cstr data (sizeof_SMModifyCharacter + 33);
       (r, s) \<leftarrow> CharacterLoad eng now \<lparr>li_pid = pid, li_login = login\<rparr> pw s;
       Some (r = LR_LOADING, s) }
     else Some (False, s) }"

subsection \<open>Shops\<close>

text \<open>\<open>sendShopOpResponse(pid, response); return false;\<close>\<close>

definition refuse ::
  "engine \<Rightarrow> time \<Rightarrow> u32 \<Rightarrow> EResponseShopOperation \<Rightarrow> mobi \<Rightarrow> (bool \<times> mobi) option" where
  "refuse eng now pid response s =
     do { (_, s) \<leftarrow> sendShopOpResponse eng now pid response s; Some (False, s) }"

text \<open>The case \<open>ITEM_UPDATE_POS\<close>.\<close>

definition offshop_move ::
  "engine \<Rightarrow> time \<Rightarrow> SMOffshop \<Rightarrow> TItemUpdatePos \<Rightarrow> mobi \<Rightarrow> (bool \<times> mobi) option" where
  "offshop_move eng now pkt pkt_sec s =
     (let sender = SMOffshop_sender_pid pkt in
      case GetShopByOwnerID (shop eng) (SMOffshop_shop_pid pkt) of
        None \<Rightarrow> refuse eng now sender NOT_EXISTS_SHOP s
      | Some w \<Rightarrow>
          if EXTEND_IKASHOP_PRO (shop eng) \<and> GetDuration (shop eng) w = 0
          then refuse eng now sender NOT_EXISTS_SHOP s
          else (case GetItem (shop eng) w (TItemUpdatePos_vid pkt_sec) of
                  None \<Rightarrow> refuse eng now sender NOT_EXISTS_ITEM s
                | Some shopItem \<Rightarrow> do {
                    (_, s) \<leftarrow> RecvShopMoveItemClientPacket eng now sender (si_pos shopItem)
                               (TItemUpdatePos_pos_uptodate pkt_sec) s;
                    Some (True, s) }))"

text \<open>The switch of \<open>HandleOffshop\<close>, for the character \<open>sender\<close>.\<close>

definition offshop_request ::
  "engine \<Rightarrow> time \<Rightarrow> SMOffshop \<Rightarrow> bytes \<Rightarrow> mobi \<Rightarrow> (bool \<times> mobi) option" where
  "offshop_request eng now pkt data s =
     (let sub_header = SMOffshop_sub_id pkt; sender = SMOffshop_sender_pid pkt;
          shop_pid = SMOffshop_shop_pid pkt in
      if sub_header = ESubOffshop_code ITEM_REMOVE
      then do {
        pkt_sec \<leftarrow> get_TItemRemove data sizeof_SMOffshop;
        RecvShopRemoveItemClientPacket eng now (Some sender) (TItemRemove_vid pkt_sec) s }
      else if sub_header = ESubOffshop_code ITEM_BUY
      then do {
        pkt_sec \<leftarrow> get_SMItemBuy data sizeof_SMOffshop;
        let seenprice = GetTotalAsYang (YANG_PER_CHEQUE eng) (SMItemBuy_seen_price pkt_sec);
        RecvShopBuyItemClientPacket eng now (Some sender) shop_pid (SMItemBuy_vid pkt_sec) False
          seenprice s }
      else if sub_header = ESubOffshop_code ITEM_UPDATE_POS
      then do {
        pkt_sec \<leftarrow> get_TItemUpdatePos data sizeof_SMOffshop;
        offshop_move eng now pkt pkt_sec s }
      else if sub_header = ESubOffshop_code ITEM_UPDATE_PRICE
      then do {
        pkt_sec \<leftarrow> get_TItemUpdatePrice data sizeof_SMOffshop;
        RecvShopEditItemClientPacket eng now (Some sender) (TItemUpdatePrice_vid pkt_sec)
          (TItemUpdatePrice_price pkt_sec) s }
      else if sub_header = ESubOffshop_code DURATION_RESTORE
      then RecvShopCreateNewClientPacket eng now sender s
      else Some (False, s))"

definition HandleOffshop :: "engine \<Rightarrow> time \<Rightarrow> bytes \<Rightarrow> mobi \<Rightarrow> (bool \<times> mobi) option" where
  "HandleOffshop eng now data s = do {
     pkt \<leftarrow> get_SMOffshop data 0;
     let sender = SMOffshop_sender_pid pkt;
     if SMOffshop_sub_id pkt \<noteq> ESubOffshop_code ITEM_BUY \<and> SMOffshop_shop_pid pkt \<noteq> sender
     then Some (False, s)
     else (case FindByPID eng sender of
             None \<Rightarrow> refuse eng now sender SO_NOT_EXISTS_CH s
           | Some None \<Rightarrow> refuse eng now sender SO_INGAME_REAL s
           | Some (Some h) \<Rightarrow> do {
               sender_desc \<leftarrow> FindByHandle s h;
               if \<not> d_is_mobile_request sender_desc
               then refuse eng now sender SO_INGAME_REAL s
               else offshop_request eng now pkt data
                      (upd_desc h (\<lambda>d. d\<lparr>d_last_activity := now\<rparr>) s) }) }"

subsection \<open>Every packet\<close>

definition RegisterPackets :: "mobi \<Rightarrow> mobi" where
  "RegisterPackets s =
     (let dynamic = (\<lambda>h n o' s. snd (packet_register_dynamic h n o' s));
          fixed = (\<lambda>h n s. snd (packet_register_fixed h n s));
          s = dynamic HEADER_SM_KEY_EXCHANGE sizeof_TKeyExchange 1 s;
          s = dynamic HEADER_SM_MESSAGE sizeof_SMMessage 1 s;
          s = dynamic HEADER_SM_FORWARD sizeof_SMForward 1 s;
          s = dynamic HEADER_SM_VALIDATE_LOGIN sizeof_SMValidateMobileLogin 1 s;
          s = dynamic HEADER_SM_OFFSHOP sizeof_SMOffshop 1 s;
          s = dynamic HEADER_SM_CHARACTER sizeof_SMModifyCharacter 1 s;
          s = fixed HEADER_SM_CORE_AUTHORITY sizeof_SMCoreAuthority s;
          s = fixed HEADER_SM_DB_INFO 1 s;
          s = fixed HEADER_SM_USER_CHECK sizeof_SMUserCheck s;
          s = fixed HEADER_SM_LOGIN sizeof_SMLogin s;
          s = fixed HEADER_SM_LOGOUT sizeof_SMLogout s
      in fixed HEADER_SM_CACHE_STATUS sizeof_SMCacheStatus s)"

definition HandlePacket ::
  "engine \<Rightarrow> time \<Rightarrow> u8 \<Rightarrow> bytes \<Rightarrow> mobi \<Rightarrow> (bool \<times> mobi) option" where
  "HandlePacket eng now header data s =
     (if header = HEADER_SM_KEY_EXCHANGE then HandleKeyExchange eng now data s
      else if header = HEADER_SM_CORE_AUTHORITY
      then do {
        sm \<leftarrow> get_SMCoreAuthority data 0;
        s \<leftarrow> SetAuthority eng now (SMCoreAuthority_authority_type sm) s;
        Some (True, s) }
      else if header = HEADER_SM_MESSAGE then HandleMobilePm eng data s
      else if header = HEADER_SM_DB_INFO then HandleDbInfo eng now data s
      else if header = HEADER_SM_USER_CHECK then HandleUserCheck eng data s
      else if header = HEADER_SM_LOGIN then HandleMobileLogin eng data s
      else if header = HEADER_SM_LOGOUT then HandleMobileLogout eng data s
      else if header = HEADER_SM_CACHE_STATUS then HandleCacheStatus data s
      else if header = HEADER_SM_FORWARD
      then map_option (\<lambda>b. (b, s)) (HandleForwardPacket data)
      else if header = HEADER_SM_VALIDATE_LOGIN then HandleValidateLogin eng now data s
      else if header = HEADER_SM_CHARACTER then HandleModifyCharacter eng now data s
      else if header = HEADER_SM_OFFSHOP then HandleOffshop eng now data s
      else Some (False, s))"

definition OnDataReceived ::
  "engine \<Rightarrow> time \<Rightarrow> u8 \<Rightarrow> bytes \<Rightarrow> mobi \<Rightarrow> (bool \<times> mobi) option" where
  "OnDataReceived eng now header data s = HandlePacket eng now header data s"

subsection \<open>The client\<close>

text \<open>The constructor. The files of the administrator are read first.\<close>

definition MobiClient_new :: "engine \<Rightarrow> mobi option" where
  "MobiClient_new eng = map_option RegisterPackets (LoadInfoFile eng mobi_init)"

text \<open>
  One turn of the game's main loop; \<open>es\<close> are the handlers the io context runs in it.
\<close>

definition MobiClient_Process :: "engine \<Rightarrow> time \<Rightarrow> event list \<Rightarrow> mobi \<Rightarrow> mobi option" where
  "MobiClient_Process eng now es s = do {
     s \<leftarrow> SendSync eng s;
     s \<leftarrow> ch_Process eng now s;
     s \<leftarrow> DoWork (ssl eng) (OnDisconnect eng) (OnDataReceived eng now) IsValidHeader es s;
     let s = message_cleanup_expired now s;
     let s = unprocessed_cleanup_expired now s;
     admin_Process eng now s }"

definition MobiClient_Disconnect :: "engine \<Rightarrow> bool \<Rightarrow> mobi \<Rightarrow> mobi" where
  "MobiClient_Disconnect eng need_reconnect s = Disconnect (OnDisconnect eng) need_reconnect s"

definition ConnectToBridge :: "mobi \<Rightarrow> mobi" where
  "ConnectToBridge s =
     (if IsConnected s then s else Connect (GetBridgeHost s) (GetBridgePort s) s)"

subsection \<open>Who may use a shop\<close>

lemma op_response: "\<exists>b t. sendShopOpResponse eng now pid r s = Some (b, t) \<and> same_chars s t"
proof -
  have "sends_ok eng now s (sendShopOpResponse eng now pid r s)"
    using shop_fixed [of "C_sendShopOpResponse pid r" eng now s] by simp
  from sends_ok_same [OF this] show ?thesis by blast
qed

lemma op_response_same: "sendShopOpResponse eng now pid r s = Some (b, t) \<Longrightarrow> same_chars s t"
  using op_response [of eng now pid r s] by auto

lemma refuse_same: "refuse eng now pid r s = Some (b, t) \<Longrightarrow> same_chars s t"
  using op_response_same by (auto simp: refuse_def bind_Some_iff)

lemma reply_same: "reply eng now ch r v s = Some (b, t) \<Longrightarrow> same_chars s t"
  using op_response_same
  by (auto simp: reply_def sendShopOpResponse_ch_def bind_Some_iff split: option.splits if_splits)

lemma HandleOffshop_cases:
  assumes "HandleOffshop eng now data s = Some (b, t)"
  obtains "same_chars s t"
  | pkt h d where "get_SMOffshop data 0 = Some pkt"
      "FindByPID eng (SMOffshop_sender_pid pkt) = Some (Some h)" "FindByHandle s h = Some d"
      "d_is_mobile_request d"
      "SMOffshop_sub_id pkt = ESubOffshop_code ITEM_BUY \<or>
       SMOffshop_shop_pid pkt = SMOffshop_sender_pid pkt"
      "offshop_request eng now pkt data (upd_desc h (\<lambda>d. d\<lparr>d_last_activity := now\<rparr>) s) = Some (b, t)"
proof -
  obtain pkt where pkt: "get_SMOffshop data 0 = Some pkt"
    using assms by (auto simp: HandleOffshop_def bind_Some_iff)
  show thesis
    using assms pkt that refuse_same
    by (auto simp: HandleOffshop_def Let_def bind_Some_iff split: if_splits option.splits)
qed

text \<open>
  C12. Only the owner of a shop, or a buyer, who is in the game on behalf of a device reaches the shops:
  a packet after which the engine was told anything, or a connection changed, names a sender whose
  connection stands for a device, and its shop is the sender's own unless an item is bought.
\<close>

theorem offshop_guarded:
  assumes "HandleOffshop eng now data s = Some (b, t)"
    and "engine_out t \<noteq> engine_out s \<or> desc_manager t \<noteq> desc_manager s"
  shows "\<exists>pkt h d. get_SMOffshop data 0 = Some pkt \<and>
     FindByPID eng (SMOffshop_sender_pid pkt) = Some (Some h) \<and> FindByHandle s h = Some d \<and>
     d_is_mobile_request d \<and>
     (SMOffshop_sub_id pkt = ESubOffshop_code ITEM_BUY \<or>
      SMOffshop_shop_pid pkt = SMOffshop_sender_pid pkt)"
  using assms(1)
proof (cases rule: HandleOffshop_cases)
  case 1
  then show ?thesis using assms(2) by (simp add: same_chars_def)
qed blast

subsection \<open>What a request enters\<close>

definition passages :: "u32 set \<Rightarrow> engine_call set" where
  "passages N = (\<lambda>n. GameCall ''passage'' [n]) ` N"

lemma passages_iff [simp]:
  "GameCall f xs \<in> passages N \<longleftrightarrow> f = ''passage'' \<and> (\<exists>n \<in> N. xs = [n])"
  by (auto simp: passages_def)

definition tells :: "engine_call set \<Rightarrow> mobi \<Rightarrow> mobi \<Rightarrow> bool" where
  "tells P s t \<longleftrightarrow> set (engine_out t) \<subseteq> set (engine_out s) \<union> P"

lemma tells_refl [simp]: "tells P s s"
  by (simp add: tells_def)

lemma tells_same: "same_chars s t \<Longrightarrow> tells P s t"
  by (simp add: tells_def same_chars_def)

lemma tells_upd [simp]: "tells P (upd_desc h f s) t = tells P s t"
  by (simp add: tells_def)

lemma tells_call: "tells P (call_engine c s) t \<Longrightarrow> c \<in> P \<Longrightarrow> tells P s t"
  by (auto simp: tells_def call_engine_def)

lemma tells_reply: "reply eng now ch r v s = Some (b, t) \<Longrightarrow> tells P s t"
  using reply_same tells_same by blast

lemma tells_reply_call:
  "reply eng now ch r v (call_engine c s) = Some (b, t) \<Longrightarrow> c \<in> P \<Longrightarrow> tells P s t"
  using tells_reply tells_call by blast

lemma dots_tells:
  assumes "dots eng n k s = Some (b, t)" and "\<And>u. k u = Some (b, t) \<Longrightarrow> tells P u t"
    and "GameCall ''passage'' [of_nat n] \<in> P"
  shows "tells P s t"
proof -
  have "tells P (call_engine (GameCall ''passage'' [of_nat n]) s) t"
    using assms(1,2) by (auto simp: dots_def Let_def split: option.splits)
  then show ?thesis using tells_call assms(3) by blast
qed

lemma no_value_tells: "no_value s = Some (b, t) \<Longrightarrow> tells P s t"
  and void_tells: "return_void s = Some (b, t) \<Longrightarrow> tells P s t"
  by (simp_all add: no_value_def return_void_def)

lemmas request_tells = tells_reply tells_reply_call no_value_tells void_tells

lemma remove_tells:
  "RecvShopRemoveItemClientPacket eng now ch i s = Some (b, t) \<Longrightarrow> tells (passages {13, 14}) s t"
  by (auto simp: RecvShopRemoveItemClientPacket_def Let_def
      elim!: dots_tells request_tells split: option.splits if_splits)

lemma edit_tells:
  "RecvShopEditItemClientPacket eng now ch i p s = Some (b, t) \<Longrightarrow> tells (passages {1}) s t"
  by (auto simp: RecvShopEditItemClientPacket_def Let_def
      elim!: dots_tells request_tells split: option.splits if_splits)

lemma move_tells:
  "RecvShopMoveItemClientPacket eng now ch i j s = Some (b, t) \<Longrightarrow> tells (passages {15, 16, 17}) s t"
  by (auto simp: RecvShopMoveItemClientPacket_def Let_def
      elim!: dots_tells request_tells split: option.splits if_splits)

lemma create_tells:
  assumes "RecvShopCreateNewClientPacket eng now ch s = Some (b, t)"
  shows "tells (insert (GameCall ''SendPopupMessage'' [ch]) (passages {2, 3, 4, 5, 6})) s t"
    (is "tells ?Q s t")
proof -
  let ?sh = "shop eng"
  let ?last = "\<lambda>s. if ENABLE_IKASHOP_ENTITIES ?sh \<and> GetIkarusShop ?sh ch = None \<and> \<not> allowed_spawn_map ?sh ch
      then reply eng now ch SO_OTHERS False (call_engine (GameCall ''SendPopupMessage'' [ch]) s)
      else dots eng 6 no_value s"
  have last: "tells ?Q u t" if "?last u = Some (b, t)" for u
    using that by (auto elim!: dots_tells request_tells split: if_splits)
  have gold: "tells ?Q u t"
    if "(if \<not> enough_gold ?sh ch then reply eng now ch NOT_ENOUGH_MONEY True u
         else dots eng 5 ?last u) = Some (b, t)" for u
    using that last by (auto elim!: dots_tells request_tells split: if_split_asm)
  show ?thesis
    using assms gold unfolding RecvShopCreateNewClientPacket_def Let_def
    by (auto elim!: dots_tells request_tells split: if_split_asm)
qed

text \<open>What holds when the purchase itself is entered.\<close>

definition purchase_ok :: "shop_engine \<Rightarrow> u32 \<Rightarrow> u32 \<Rightarrow> u32 \<Rightarrow> int \<Rightarrow> bool" where
  "purchase_ok sh buyer ownerid itemid seenprice \<longleftrightarrow>
     IkarusShopFloodCheck sh buyer \<and> CheckCharacterActions sh buyer \<and> CheckGMLevel sh buyer \<and>
     (case GetShopByOwnerID sh ownerid of
        None \<Rightarrow> False
      | Some w \<Rightarrow> \<not> (EXTEND_IKASHOP_PRO sh \<and> GetDuration sh w = 0) \<and>
          (case GetItem sh w itemid of
             None \<Rightarrow> False
           | Some it \<Rightarrow> CanBuy sh buyer it \<and> si_total_yang it = seenprice))"

lemma buy_tells:
  assumes "RecvShopBuyItemClientPacket eng now (Some ch) w i f p s = Some (b, t)"
    and "\<not> purchase_ok (shop eng) ch w i p"
  shows "tells (passages {7, 8, 9, 10, 11}) s t"
  using assms
  by (auto simp: RecvShopBuyItemClientPacket_def purchase_ok_def Let_def
      elim!: dots_tells request_tells split: option.splits if_splits)

lemma tells_mono: "tells P s t \<Longrightarrow> P \<subseteq> Q \<Longrightarrow> tells Q s t"
  by (auto simp: tells_def)

lemma passages_mono: "passages M \<subseteq> passages N \<longleftrightarrow> M \<subseteq> N"
  by (auto simp: passages_def)

lemma move_request_tells:
  "offshop_move eng now pkt mv s = Some (b, t) \<Longrightarrow> tells (passages {15, 16, 17}) s t"
  using refuse_same [THEN tells_same] move_tells
  by (auto simp: offshop_move_def Let_def bind_Some_iff split: option.splits if_splits)

lemma offshop_request_tells:
  assumes run: "offshop_request eng now pkt data s = Some (b, t)"
    and other: "SMOffshop_sub_id pkt \<noteq> ESubOffshop_code ITEM_BUY"
  shows "tells (insert (GameCall ''SendPopupMessage'' [SMOffshop_sender_pid pkt])
    (passages {1, 2, 3, 4, 5, 6, 13, 14, 15, 16, 17})) s t" (is "tells ?Q s t")
proof -
  have Q: "passages N \<subseteq> ?Q" "insert (GameCall ''SendPopupMessage'' [SMOffshop_sender_pid pkt]) (passages N) \<subseteq> ?Q"
    if "N \<subseteq> {1, 2, 3, 4, 5, 6, 13, 14, 15, 16, 17}" for N
    using that passages_mono [of N] by auto
  note def = offshop_request_def Let_def bind_Some_iff
  let ?id = "SMOffshop_sub_id pkt"
  consider "?id = ESubOffshop_code ITEM_REMOVE" | "?id = ESubOffshop_code ITEM_UPDATE_POS"
    | "?id = ESubOffshop_code ITEM_UPDATE_PRICE" | "?id = ESubOffshop_code DURATION_RESTORE"
    | "t = s"
    using run other by (auto simp: offshop_request_def Let_def split: if_splits)
  then show ?thesis
  proof cases
    case 1
    then obtain i where "RecvShopRemoveItemClientPacket eng now (Some (SMOffshop_sender_pid pkt)) i s = Some (b, t)"
      using run by (auto simp: def)
    from remove_tells [OF this] show ?thesis by (rule tells_mono) (rule Q, simp)
  next
    case 2
    then obtain mv where "offshop_move eng now pkt mv s = Some (b, t)" using run by (auto simp: def)
    from move_request_tells [OF this] show ?thesis by (rule tells_mono) (rule Q, simp)
  next
    case 3
    then obtain i p where "RecvShopEditItemClientPacket eng now (Some (SMOffshop_sender_pid pkt)) i p s = Some (b, t)"
      using run by (auto simp: def)
    from edit_tells [OF this] show ?thesis by (rule tells_mono) (rule Q, simp)
  next
    case 4
    then have "RecvShopCreateNewClientPacket eng now (SMOffshop_sender_pid pkt) s = Some (b, t)"
      using run by (simp add: def)
    from create_tells [OF this] show ?thesis by (rule tells_mono) (rule Q, simp)
  qed simp
qed

text \<open>
  C13. An item is bought only at the price its buyer saw: a packet enters the purchase itself, the
  passage behind all checks, only when it asks for one, the buyer passed the flood, action and
  authority checks, the owner's shop exists (with time left, where shops expire) and holds the item,
  the buyer can pay for it, and its present price is the one in the packet.
\<close>

theorem purchase_checked:
  assumes "HandleOffshop eng now data s = Some (b, t)"
    and "GameCall ''passage'' [12] \<in> set (engine_out t) - set (engine_out s)"
  shows "\<exists>pkt buy. get_SMOffshop data 0 = Some pkt \<and>
     get_SMItemBuy data sizeof_SMOffshop = Some buy \<and>
     SMOffshop_sub_id pkt = ESubOffshop_code ITEM_BUY \<and>
     purchase_ok (shop eng) (SMOffshop_sender_pid pkt) (SMOffshop_shop_pid pkt) (SMItemBuy_vid buy)
       (GetTotalAsYang (YANG_PER_CHEQUE eng) (SMItemBuy_seen_price buy))"
  using assms(1)
proof (cases rule: HandleOffshop_cases)
  case 1
  then show ?thesis using assms(2) by (simp add: same_chars_def)
next
  case (2 pkt h d)
  obtain u where u: "engine_out u = engine_out s" and run: "offshop_request eng now pkt data u = Some (b, t)"
    using 2(6) by (metis upd_desc_sel(3))
  have new: "\<not> tells P u t" if "GameCall ''passage'' [12] \<notin> P" for P
    using assms(2) that u by (auto simp: tells_def)
  have sub: "SMOffshop_sub_id pkt = ESubOffshop_code ITEM_BUY"
  proof (rule ccontr)
    assume "SMOffshop_sub_id pkt \<noteq> ESubOffshop_code ITEM_BUY"
    note offshop_request_tells [OF run this]
    moreover have "\<not> tells (insert (GameCall ''SendPopupMessage'' [SMOffshop_sender_pid pkt])
        (passages {1, 2, 3, 4, 5, 6, 13, 14, 15, 16, 17})) u t" by (rule new) simp
    ultimately show False by contradiction
  qed
  then obtain buy where buy: "get_SMItemBuy data sizeof_SMOffshop = Some buy"
    and req: "RecvShopBuyItemClientPacket eng now (Some (SMOffshop_sender_pid pkt))
      (SMOffshop_shop_pid pkt) (SMItemBuy_vid buy) False
      (GetTotalAsYang (YANG_PER_CHEQUE eng) (SMItemBuy_seen_price buy)) u = Some (b, t)"
    using run by (auto simp: offshop_request_def Let_def bind_Some_iff)
  have "\<not> tells (passages {7, 8, 9, 10, 11}) u t" by (rule new) simp
  then show ?thesis using 2(1) sub buy buy_tells [OF req] by blast
qed

subsection \<open>The theorems on an example\<close>

text \<open>A device's connection, and an item on sale for 5.\<close>

definition shop_eng :: engine where
  "shop_eng = demo_eng\<lparr>FindByPID := (\<lambda>p. Some (Some 9)),
     shop := demo_shop\<lparr>GetShopByOwnerID := (\<lambda>w. Some w),
       GetItem := (\<lambda>w i. Some \<lparr>si_id = i, si_pos = 0, si_total_yang = 5\<rparr>),
       ellipsis := (\<lambda>n. Some True)\<rparr>\<rparr>"

definition shop_state :: mobi where
  "shop_state = mobi_init\<lparr>desc_manager := DESC_MANAGER_new
     \<lparr>m_map_handle := [9 \<mapsto> (DESC_new demo_eng)\<lparr>d_is_mobile_request := True\<rparr>]\<rparr>\<rparr>"

definition buy_packet :: bytes where
  "buy_packet = ser_SMOffshop (SMOffshop_new
       \<lparr>SMOffshop_sub_id := 6, SMOffshop_sender_pid := 1, SMOffshop_shop_pid := 2\<rparr>) @
     ser_SMItemBuy \<lparr>SMItemBuy_vid = 4, SMItemBuy_seen_price = TPriceInfo 5 0\<rparr>"

lemma buy_run:
  "\<exists>t. HandleOffshop shop_eng 0 buy_packet shop_state = Some (True, t) \<and>
     engine_out t = [GameCall ''passage'' [12]]"
proof -
  have pkt: "get_SMOffshop buy_packet 0 = Some (SMOffshop_new
       \<lparr>SMOffshop_sub_id := 6, SMOffshop_sender_pid := 1, SMOffshop_shop_pid := 2\<rparr>)"
    using get_SMOffshop_ser [of "[]"] by (simp add: buy_packet_def)
  have buy: "get_SMItemBuy buy_packet sizeof_SMOffshop =
      Some \<lparr>SMItemBuy_vid = 4, SMItemBuy_seen_price = TPriceInfo 5 0\<rparr>"
    using get_SMItemBuy_ser [of "ser_SMOffshop p" _ "[]" for p] by (simp add: buy_packet_def)
  show ?thesis
    by (simp add: HandleOffshop_def pkt offshop_request_def buy RecvShopBuyItemClientPacket_def Let_def
        SMOffshop_new_def shop_eng_def shop_state_def FindByHandle_def demo_shop_def demo_eng_def
        GetTotalAsYang_def dots_def call_engine_def)
qed

lemma purchase_checked_witness:
  "\<exists>pkt buy. get_SMOffshop buy_packet 0 = Some pkt \<and>
     get_SMItemBuy buy_packet sizeof_SMOffshop = Some buy \<and>
     SMOffshop_sub_id pkt = ESubOffshop_code ITEM_BUY \<and>
     purchase_ok (shop shop_eng) (SMOffshop_sender_pid pkt) (SMOffshop_shop_pid pkt) (SMItemBuy_vid buy)
       (GetTotalAsYang (YANG_PER_CHEQUE shop_eng) (SMItemBuy_seen_price buy))"
proof -
  obtain t where t: "HandleOffshop shop_eng 0 buy_packet shop_state = Some (True, t)"
    "engine_out t = [GameCall ''passage'' [12]]" using buy_run by blast
  have "GameCall ''passage'' [12] \<in> set (engine_out t) - set (engine_out shop_state)"
    using t(2) by (simp add: shop_state_def)
  from purchase_checked [OF t(1) this] show ?thesis .
qed

lemma offshop_guarded_witness:
  "\<exists>pkt h d. get_SMOffshop buy_packet 0 = Some pkt \<and>
     FindByPID shop_eng (SMOffshop_sender_pid pkt) = Some (Some h) \<and>
     FindByHandle shop_state h = Some d \<and> d_is_mobile_request d \<and>
     (SMOffshop_sub_id pkt = ESubOffshop_code ITEM_BUY \<or>
      SMOffshop_shop_pid pkt = SMOffshop_sender_pid pkt)"
proof -
  obtain t where t: "HandleOffshop shop_eng 0 buy_packet shop_state = Some (True, t)"
    "engine_out t = [GameCall ''passage'' [12]]" using buy_run by blast
  have "engine_out t \<noteq> engine_out shop_state" using t(2) by (simp add: shop_state_def)
  from offshop_guarded [OF t(1) disjI1 [OF this]] show ?thesis .
qed

text \<open>The price a packet shows may wrap: 43 cheques of 100000000 are worth less than one.\<close>

lemma GetTotalAsYang_wraps: "GetTotalAsYang 100000000 (TPriceInfo 0 43) < 100000000"
  by (simp add: GetTotalAsYang_def)

text \<open>
  A message of fewer characters than its structure has bytes is read past its end: the size field
  of a packet counts the bytes behind the structure, and the handler subtracts the structure again.
\<close>

lemma HandleMobilePm_short:
  assumes "get_SMMessage data 0 = Some sm" and "unat (SMMessage_size sm) < sizeof_SMMessage"
    and "length data = sizeof_SMMessage + unat (SMMessage_size sm)"
    and "FindByAccountID s (SMMessage_receiver_acc_id sm) = Some h"
  shows "HandleMobilePm eng data s = None"
proof -
  let ?n = "unat (SMMessage_size sm - of_nat sizeof_SMMessage)"
  have "?n = unat (SMMessage_size sm) + 2 ^ 32 - sizeof_SMMessage"
    using assms(2) by (simp add: unat_sub_if' sizeof_SMMessage_def word_le_nat_alt)
  then have "get_chars data sizeof_SMMessage ?n = None"
    using assms(2,3) by (simp add: sizeof_SMMessage_def)
  then show ?thesis
    using assms(1,4) by (auto simp: HandleMobilePm_def bind_None_iff Let_def bind_Some_iff)
qed

text \<open>
  The example event packet is refused when it is complete: the handler takes the size field for the
  size of the whole packet, the receiving loop for that of the bytes behind the structure.
\<close>

lemma forward_event_refused:
  "HandleForwardPacket (ser_SMForward \<lparr>SMForward_header = HEADER_SM_FORWARD, SMForward_size = 3,
     SMForward_sub_header = EXAMPLE_EVENT\<rparr> @ [1, 0, 1]) = Some False"
proof -
  let ?p = "\<lparr>SMForward_header = HEADER_SM_FORWARD, SMForward_size = 3, SMForward_sub_header = EXAMPLE_EVENT\<rparr>"
  have "get_SMForward (ser_SMForward ?p @ [1, 0, 1]) 0 = Some ?p"
    using get_SMForward_ser [of "[]" ?p "[1, 0, 1]"] by simp
  then show ?thesis
    by (simp add: HandleForwardPacket_def Let_def advance_cursor_def sizeof_SMForward_def
        ser_SMForward_def get_u16_def nth_append)
qed

text \<open>The login and the password are part of the query as they are.\<close>

lemma login_query_text:
  assumes "clean login" and "clean pw"
  shows "login_query login pw = bytes_of ''SELECT id FROM account.account WHERE login='' @ [39] @ login @ [39] @
     bytes_of '' AND password = PASSWORD('' @ pw @ bytes_of '') LIMIT 1''"
proof -
  let ?m = "bytes_of ''SELECT id FROM ?.account WHERE login='' @ [39, MARK, 39] @
      bytes_of '' AND password = PASSWORD(?) LIMIT 1''"
  have "cstr ?m = ?m" by (rule cstr_id) (simp add: bytes_of_def MARK_def)
  moreover have "?m \<noteq> []" by simp
  ultimately have "login_query login pw = subst_all ?m [bytes_of ''account'', login, pw]"
    unfolding login_query_def WriteBuf_def foldl_render by simp
  also have "\<dots> = fill ?m [bytes_of ''account'', login, pw]"
    by (rule subst_fill) (use assms in \<open>simp add: bytes_of_def MARK_def\<close>)
  finally show ?thesis by (simp add: bytes_of_def MARK_def)
qed

end
