(* ===== verification/Client.thy ===== *)
theory Client
  imports Handlers
begin

text \<open>
  The client as a whole: the handlers of \<open>Handlers\<close> fulfil what the raw client asks of the class
  derived from it (the locales \<open>net_client\<close> and \<open>net_client_reads\<close> are interpreted on them), and an
  invariant over all parts of the state holds in every run of the game that creates the client, calls
  it and lets it process what the bridge sends.
\<close>

subsection \<open>The invariant of the client's own members\<close>

definition chars_filed :: "mobi \<Rightarrow> bool" where
  "chars_filed s \<longleftrightarrow> container_inv (mobi_descs s) \<and>
     (\<forall>k m. lookup (mobi_descs s) k = Some m \<longrightarrow> li_pid (mch_info m) = k)"

definition client_inv :: "mobi \<Rightarrow> bool" where
  "client_inv s \<longleftrightarrow> msg_inv s \<and> unp_inv s \<and> chars_filed s \<and>
     messenger_inv (messenger_state s) \<and> admin_inv s"

lemma client_inv_cong:
  assumes "message_queue t = message_queue s" "s_message_container_id t = s_message_container_id s"
    "unp_packets t = unp_packets s" "mobi_descs t = mobi_descs s" "messenger_state t = messenger_state s"
    "authority t = authority s" "notif_authority t = notif_authority s"
    "config_authority t = config_authority s"
  shows "client_inv t = client_inv s"
  using assms by (simp add: client_inv_def msg_inv_def unp_inv_def chars_filed_def admin_inv_def)

lemmas client_inv_parts = client_inv_def msg_inv_def unp_inv_def chars_filed_def admin_inv_def

lemma client_inv_more: "net.more t = net.more s \<Longrightarrow> client_inv t = client_inv s"
  by (rule client_inv_cong; erule net_more_eqD)

lemma client_inv_init: "client_inv mobi_init"
proof -
  have "messenger_inv messenger_new"
    by (simp add: messenger_inv_def messenger_new_def rel_finite_def rel_sub_def)
  then show ?thesis
    using char_inv_init admin_inv_init
    by (simp add: client_inv_def msg_inv_def unp_inv_def chars_filed_def char_inv_def)
qed

subsection \<open>What an operation of the client may do\<close>

text \<open>
  It keeps both invariants, the descriptors, the outstanding operations and the state of the
  connection, and starts no read.
\<close>

definition kept :: "mobi \<Rightarrow> mobi \<Rightarrow> bool" where
  "kept s t \<longleftrightarrow> (net_inv s \<longrightarrow> net_inv t) \<and> packets t = packets s \<and> ops t = ops s \<and>
     read_tokens t \<le> read_tokens s \<and> connect_state t = connect_state s \<and>
     (client_inv s \<longrightarrow> client_inv t)"

named_theorems keeps

lemma kept_refl [simp, intro]: "kept s s"
  by (simp add: kept_def)

lemma kept_trans: "kept s t \<Longrightarrow> kept t u \<Longrightarrow> kept s u"
  by (simp add: kept_def)

lemma kept_own:
  "net.truncate t = net.truncate s \<Longrightarrow> (client_inv s \<Longrightarrow> client_inv t) \<Longrightarrow> kept s t"
  using net_truncate_eqD [of t s] net_ok_truncate [of t s] by (simp add: kept_def)

lemma kept_upd [simp]:
  "kept s (s\<lparr>sync_packet_sent := b\<rparr>)" "kept s (s\<lparr>sync_retry_count := n\<rparr>)"
  "kept s (s\<lparr>notif_last_checktime := i\<rparr>)" "kept s (s\<lparr>config_last_checktime := i\<rparr>)"
  "kept s (s\<lparr>refresh_interval := i\<rparr>)" "kept s (s\<lparr>ch_last_cleanup := i\<rparr>)"
  "kept s (call_engine c s)" "kept s (upd_desc h f s)" "kept s (s\<lparr>desc_manager := m\<rparr>)"
  "kept s (destroy_desc eng h s)" "kept s (SetBridgeCacheStatus b s)"
  "kept s (s\<lparr>db_info := d, bridge_info := e\<rparr>)"
  by (rule kept_own;
      simp add: net.truncate_def call_engine_def upd_desc_def destroy_desc_def Let_def
        SetBridgeCacheStatus_def client_inv_parts)+

lemma kept_Send: "mSend eng data e s = (r, d, t) \<Longrightarrow> kept s t"
proof -
  assume r: "mSend eng data e s = (r, d, t)"
  note f = Send_frame [OF r]
  show "kept s t"
    using net_inv_Send [OF _ r] tokens_Send [OF r] client_inv_more [OF f(7)]
    by (simp add: kept_def f)
qed

lemma kept_add: "kept s (snd (unprocessed_add now data e s))"
proof (rule kept_own)
  show "net.truncate (snd (unprocessed_add now data e s)) = net.truncate s"
    by (simp add: unprocessed_add_def push_unprocessed_def net.truncate_def)
  show "client_inv s \<Longrightarrow> client_inv (snd (unprocessed_add now data e s))"
    using unp_inv_add [of s now data e]
    by (auto simp: client_inv_def msg_inv_def chars_filed_def admin_inv_def unprocessed_add_def
        push_unprocessed_def)
qed

lemma kept_SendPacket: "SendPacket eng now data e s = (b, t) \<Longrightarrow> kept s t"
proof -
  assume a: "SendPacket eng now data e s = (b, t)"
  obtain r d u where u: "mSend eng data e s = (r, d, u)" by (cases "mSend eng data e s")
  have "t = s \<or> t = u \<or> t = snd (unprocessed_add now d e u)"
    using a by (cases r) (simp_all add: SendPacket_def u split: if_splits)
  then show ?thesis using kept_Send [OF u] kept_trans [OF _ kept_add] by auto
qed

lemma kept_send_parts: "send_parts eng now n ps s = Some (b, t) \<Longrightarrow> kept s t"
  using kept_SendPacket by (cases "pack n ps") (auto simp: send_parts_def)

lemma kept_api_other:
  assumes "api eng now c s = Some (b, t)" and "\<nexists>n m a cp. c = Player (C_sendUserCheck n m a cp)"
  shows "kept s t"
proof (cases c)
  case (Player p)
  then show ?thesis using assms
    by (cases p) (auto simp: send_defs Let_def split: if_splits elim: kept_send_parts)
next
  case (War p)
  then show ?thesis using assms
    by (cases p) (auto simp: send_defs Let_def split: if_splits elim: kept_send_parts)
next
  case (Update p)
  then show ?thesis using assms
    by (cases p) (auto simp: send_defs Let_def split: if_splits elim: kept_send_parts)
next
  case (Character p)
  then show ?thesis using assms
    by (cases p) (auto simp: send_defs Let_def split: if_splits elim: kept_send_parts)
next
  case (Shop p)
  then show ?thesis using assms
    by (cases p) (auto simp: send_defs Let_def split: if_splits elim: kept_send_parts)
qed

lemma kept_message_add:
  assumes add: "message_add now a n m cp s = Some t" and room: "s_message_container_id s \<noteq> - 1"
  shows "kept s t"
proof -
  obtain c where new: "TMSMessageContainer_new now a n m (s_message_container_id s) cp = Some c"
    and t: "t = push_message c (s\<lparr>s_message_container_id := s_message_container_id s + 1\<rparr>)"
    using add by (auto simp: message_add_def)
  have "mc_container_id c = s_message_container_id s"
    using new by (auto simp: TMSMessageContainer_new_def Let_def bind_Some_iff)
  from msg_inv_push [OF _ room this] show ?thesis
    by (intro kept_own) (auto simp: t push_message_def net.truncate_def client_inv_parts)
qed

lemma kept_api:
  assumes run: "api eng now c s = Some (b, t)" and room: "s_message_container_id s \<noteq> - 1"
  shows "kept s t"
proof (cases "\<exists>n m a cp. c = Player (C_sendUserCheck n m a cp)")
  case True
  then obtain n m a cp where c: "sendUserCheck eng now n m a cp s = Some (b, t)"
    using run by auto
  show ?thesis
  proof (cases "t = s")
    case False
    then obtain u N ps where "message_add now a n m cp s = Some u" "send_parts eng now N ps u = Some (b, t)"
      using c by (auto simp: sendUserCheck_def Let_def bind_Some_iff split: if_splits)
    then show ?thesis using kept_message_add [OF _ room] kept_send_parts kept_trans by blast
  qed simp
qed (rule kept_api_other [OF run])

lemma kept_responses:
  "sendModifyResponse eng now pid r s = Some (b, t) \<Longrightarrow> kept s t"
  "sendChLoadStatus eng now pid l s = Some (b, t) \<Longrightarrow> kept s t"
  "sendShopOpResponse eng now pid o' s = Some (b, t) \<Longrightarrow> kept s t"
  "SendLoginResponse eng now v x s = Some (b, t) \<Longrightarrow> kept s t"
  using kept_api_other [of eng now "Character (C_sendModifyResponse pid r)" s b t]
    kept_api_other [of eng now "Character (C_sendChLoadStatus pid l)" s b t]
    kept_api_other [of eng now "Shop (C_sendShopOpResponse pid o')" s b t]
    kept_api_other [of eng now "Shop (C_SendLoginResponse v x)" s b t] by simp_all

subsection \<open>Waiting messages and packets\<close>

definition waits_ok :: "TUnprocessedContainer \<Rightarrow> bool" where
  "waits_ok u \<longleftrightarrow> (if uc_bUsed u then uc_data u = [] else uc_data u \<noteq> [] \<and> IsSyncPacket (hd (uc_data u)))"

lemma unp_inv_waits:
  "unp_inv s \<longleftrightarrow> length (unp_packets s) \<le> MAX_UNPROCESSED_COUNT \<and> (\<forall>u \<in> set (unp_packets s). waits_ok u)"
  by (simp add: unp_inv_def waits_ok_def)

lemma kept_process_containers:
  "process_containers eng us s = (us', t) \<Longrightarrow>
   kept s t \<and> net.more t = net.more s \<and> length us' = length us \<and>
   ((\<forall>u \<in> set us. waits_ok u) \<longrightarrow> (\<forall>u \<in> set us'. waits_ok u))"
proof (induction us arbitrary: us' s t)
  case (Cons u us)
  obtain r d s1 where send: "mSend eng (uc_data u) (uc_need_encrypt u) s = (r, d, s1)"
    by (cases "mSend eng (uc_data u) (uc_need_encrypt u) s")
  obtain vs s2 where rest: "process_containers eng us s1 = (vs, s2)"
    by (cases "process_containers eng us s1")
  have d: "d = (if r = SUCCESS then [] else uc_data u)" "r = SUCCESS \<Longrightarrow> uc_data u \<noteq> []"
    using send by (auto simp: Send_eq split: if_splits prod.splits bool.splits)
  let ?u = "if r = SUCCESS then u\<lparr>uc_data := d, uc_bUsed := True\<rparr> else u\<lparr>uc_data := d\<rparr>"
  have eq: "us' = ?u # vs" "t = s2"
    using Cons.prems by (auto simp: send rest Let_def)
  note ih = Cons.IH [OF rest]
  have "waits_ok u \<longrightarrow> waits_ok ?u" using d by (auto simp: waits_ok_def)
  moreover have "kept s t" using kept_trans [OF kept_Send [OF send]] ih eq(2) by blast
  ultimately show ?case using ih Send_frame(7) [OF send] by (simp add: eq)
qed simp

lemma kept_unprocessed_cleanup: "kept s (unprocessed_cleanup_expired now s)"
proof (rule kept_own)
  show "client_inv s \<Longrightarrow> client_inv (unprocessed_cleanup_expired now s)"
    using unp_inv_cleanup [of s now]
    by (simp add: client_inv_def unprocessed_cleanup_expired_def msg_inv_def chars_filed_def admin_inv_def)
qed (simp add: unprocessed_cleanup_expired_def net.truncate_def)

lemma kept_unprocessed_process: "kept s (unprocessed_process eng now s)"
proof -
  obtain us t where p: "process_containers eng (unp_packets s) s = (us, t)"
    by (cases "process_containers eng (unp_packets s) s")
  note k = kept_process_containers [OF p]
  have more: "net.more t = net.more s" using k by blast
  let ?t = "t\<lparr>unp_packets := us\<rparr>"
  have "client_inv ?t" if inv: "client_inv s"
  proof -
    have "unp_inv s" using inv by (simp add: client_inv_def)
    then have "unp_inv ?t" using k by (simp add: unp_inv_waits)
    moreover have "client_inv t" using inv client_inv_more [OF more] by simp
    moreover have "chars_filed ?t = chars_filed t" by (simp add: chars_filed_def)
    ultimately show ?thesis by (simp add: client_inv_def msg_inv_def admin_inv_def)
  qed
  moreover have tr: "net.truncate ?t = net.truncate t" by (simp add: net.truncate_def)
  ultimately have "kept s ?t"
    using k net_truncate_eqD [OF tr] net_ok_truncate [OF tr] by (simp add: kept_def)
  then show ?thesis using kept_trans [OF _ kept_unprocessed_cleanup]
    by (simp add: unprocessed_process_def p)
qed

lemma kept_remove_message:
  assumes "message_find i s = Some k"
  shows "kept s (s\<lparr>message_queue := swap_remove k (message_queue s)\<rparr>)"
proof (rule kept_own)
  have k: "k < length (message_queue s)"
    using assms find_index_Some by (fastforce simp: message_find_def)
  show "client_inv s \<Longrightarrow> client_inv (s\<lparr>message_queue := swap_remove k (message_queue s)\<rparr>)"
    using msg_inv_mset [of s "swap_remove k (message_queue s)"] mset_swap_remove [OF k]
    by (simp add: client_inv_def unp_inv_def chars_filed_def admin_inv_def)
qed (simp add: net.truncate_def)

lemma kept_message_remove: "kept s (message_remove i s)"
  using kept_remove_message [of i s] by (auto simp: message_remove_def split: option.split)

lemma kept_message_process: "message_process eng i s = (b, t) \<Longrightarrow> kept s t"
proof -
  assume r: "message_process eng i s = (b, t)"
  show ?thesis
  proof (cases "message_find i s")
    case (Some k)
    obtain x d u where u: "mSend eng (buf_get (mc_buf (message_queue s ! k))) True s = (x, d, u)"
      by (cases "mSend eng (buf_get (mc_buf (message_queue s ! k))) True s")
    have "message_find i u = Some k" using Some mSend_more(1) [OF u] by (simp add: message_find_def)
    moreover have "t = u\<lparr>message_queue := swap_remove k (message_queue u)\<rparr>"
      using r Some u by (simp add: message_process_def container_process_def)
    ultimately show ?thesis using kept_trans [OF kept_Send [OF u] kept_remove_message] by simp
  qed (use r in \<open>simp add: message_process_def\<close>)
qed

lemma kept_message_cleanup: "kept s (message_cleanup_expired now s)"
proof (rule kept_own)
  show "client_inv s \<Longrightarrow> client_inv (message_cleanup_expired now s)"
    using msg_inv_cleanup [of s now]
    by (simp add: client_inv_def message_cleanup_expired_def unp_inv_def chars_filed_def admin_inv_def)
qed (simp add: message_cleanup_expired_def net.truncate_def)

subsection \<open>The administrator's files\<close>

lemma kept_send_ignored: "kept s (send_ignored eng data s)"
  by (cases "mSend eng data True s") (simp add: send_ignored_def kept_Send)

lemma kept_send_notifications: "send_notifications eng ns s = Some t \<Longrightarrow> kept s t"
proof (induction ns arbitrary: s)
  case (Cons n ns)
  then obtain x where "send_notifications eng ns (send_ignored eng x s) = Some t"
    by (auto simp: bind_Some_iff)
  from kept_trans [OF kept_send_ignored Cons.IH [OF this]] show ?case .
qed simp

lemma kept_LoadNotifications: "LoadNotifications eng now x s = Some t \<Longrightarrow> kept s t"
  using kept_trans [OF kept_upd(3) kept_send_notifications]
  by (auto simp: LoadNotifications_def Let_def bind_Some_iff split: if_splits option.splits)

lemma kept_LoadConfigFile: "LoadConfigFile eng now x s = Some t \<Longrightarrow> kept s t"
  using kept_trans [OF kept_upd(4) kept_trans [OF kept_upd(5) kept_send_ignored]]
  by (auto simp: LoadConfigFile_def Let_def bind_Some_iff split: if_splits option.splits)

lemma kept_Refresh: "Refresh eng now s = Some t \<Longrightarrow> kept s t"
  by (auto simp: Refresh_def bind_Some_iff intro: kept_trans [OF kept_LoadConfigFile kept_LoadNotifications])

lemma kept_admin_Process: "admin_Process eng now s = Some t \<Longrightarrow> kept s t"
  by (auto simp: admin_Process_def bind_Some_iff intro: kept_trans [OF kept_LoadNotifications kept_LoadConfigFile])

lemma kept_SetAuthority: "SetAuthority eng now a s = Some t \<Longrightarrow> kept s t"
proof -
  let ?s = "s\<lparr>authority := CFlagWrapper_new (ucast a), notif_authority := CFlagWrapper_new (ucast a),
    config_authority := CFlagWrapper_new (ucast a)\<rparr>"
  have "kept s ?s" by (rule kept_own) (simp_all add: net.truncate_def client_inv_parts)
  then show "SetAuthority eng now a s = Some t \<Longrightarrow> kept s t"
    using kept_Refresh kept_trans by (auto simp: SetAuthority_def split: if_splits)
qed

subsection \<open>Characters and shops\<close>

lemma kept_SendSync: "SendSync eng s = Some t \<Longrightarrow> kept s t"
proof -
  have retry: "kept u (u\<lparr>sync_retry_count := n, sync_packet_sent := x\<rparr>)" for u n x
    using kept_trans [OF kept_upd(2) kept_upd(1)] by blast
  show "SendSync eng s = Some t \<Longrightarrow> kept s t"
    using retry kept_trans [OF kept_Send kept_upd(2)] kept_trans [OF kept_Send retry]
    by (auto simp: SendSync_def Let_def bind_Some_iff split: if_splits prod.splits)
qed

lemma kept_emplace: "kept s (emplace_ch (li_pid info) \<lparr>mch_info = info, mch_handle_id = h\<rparr> s)"
proof (rule kept_own)
  have "chars_filed s \<Longrightarrow> chars_filed (emplace_ch (li_pid info) \<lparr>mch_info = info, mch_handle_id = h\<rparr> s)"
    using Emplace_inv [of "mobi_descs s"] Emplace_lookup [of "mobi_descs s"]
    by (auto simp: chars_filed_def emplace_ch_def)
  then show "client_inv s \<Longrightarrow> client_inv (emplace_ch (li_pid info) \<lparr>mch_info = info, mch_handle_id = h\<rparr> s)"
    by (simp add: client_inv_def emplace_ch_def msg_inv_def unp_inv_def admin_inv_def)
qed (simp add: emplace_ch_def net.truncate_def)

lemma kept_destroy_character: "kept s (destroy_character eng m s)"
  by (simp add: destroy_character_def split: option.split)

lemma kept_erase: "kept s (snd (erase_ch eng pid s))"
proof -
  let ?s = "s\<lparr>mobi_descs := snd (EraseByKey pid (mobi_descs s))\<rparr>"
  have "kept s ?s"
  proof (rule kept_own)
    have "chars_filed s \<Longrightarrow> chars_filed ?s"
      using EraseByKey_inv [of "mobi_descs s"] EraseByKey_lookup [of "mobi_descs s"]
      by (auto simp: chars_filed_def)
    then show "client_inv s \<Longrightarrow> client_inv ?s"
      by (simp add: client_inv_def msg_inv_def unp_inv_def admin_inv_def)
  qed (simp add: net.truncate_def)
  then show ?thesis
    using kept_trans [OF _ kept_destroy_character]
    by (cases "EraseByKey pid (mobi_descs s)") (auto simp: erase_ch_def Let_def split: option.split)
qed

lemma kept_CreateDesc: "CreateDesc eng now s = Some (h, t) \<Longrightarrow> kept s t"
  by (auto simp: CreateDesc_def Let_def split: if_splits)

lemma kept_CharacterLoad: "CharacterLoad eng now info pw s = Some (r, t) \<Longrightarrow> kept s t"
proof -
  have start: "kept s (call_engine c (upd_desc h f
      (emplace_ch (li_pid info) \<lparr>mch_info = info, mch_handle_id = h\<rparr> u)))"
    if "CreateDesc eng now s = Some (Some h, u)" for h u f c
    using kept_trans [OF kept_CreateDesc [OF that] kept_trans [OF kept_emplace
      kept_trans [OF kept_upd(8) kept_upd(7)]]] .
  have other: "kept s u" if "sendChLoadStatus eng now p l (call_engine c s) = Some (b, u)" for p l c b u
    using kept_trans [OF kept_upd(7) kept_responses(2) [OF that]] .
  show "CharacterLoad eng now info pw s = Some (r, t) \<Longrightarrow> kept s t"
    using start other kept_CreateDesc
    by (auto simp: CharacterLoad_def Let_def bind_Some_iff split: if_splits option.splits)
qed

lemma kept_DESC_Packet: "DESC_Packet h data s = Some t \<Longrightarrow> kept s t"
  by (auto simp: DESC_Packet_def bind_Some_iff split: if_splits)

lemma kept_remove_chs: "remove_chs eng now pids s = Some t \<Longrightarrow> kept s t"
proof (induction pids arbitrary: s)
  case (Cons p pids)
  obtain found u where e: "erase_ch eng p s = (found, u)" by (cases "erase_ch eng p s")
  have u: "kept s u" using kept_erase [of s eng p] e by simp
  show ?case
  proof (cases found)
    case True
    then obtain b v where v: "sendChLoadStatus eng now p NO_ACTIVITY u = Some (b, v)"
      "remove_chs eng now pids v = Some t" using Cons.prems e by (auto simp: bind_Some_iff)
    then show ?thesis using kept_trans [OF u kept_trans [OF kept_responses(2) [OF v(1)] Cons.IH]] by blast
  next
    case False
    then show ?thesis using kept_trans [OF u Cons.IH] Cons.prems e by auto
  qed
qed simp

lemma kept_ch_Process: "ch_Process eng now s = Some t \<Longrightarrow> kept s t"
  using kept_trans [OF kept_upd(6) kept_remove_chs]
  by (auto simp: ch_Process_def Let_def split: if_splits)

lemma kept_dots:
  assumes "dots eng n k s = Some (b, t)" and "\<And>u. k u = Some (b, t) \<Longrightarrow> kept u t"
  shows "kept s t"
  using assms kept_trans [OF kept_upd(7)] by (auto simp: dots_def Let_def split: option.splits)

lemma kept_reply: "reply eng now ch r v s = Some (b, t) \<Longrightarrow> kept s t"
  using kept_responses(3)
  by (auto simp: reply_def sendShopOpResponse_ch_def bind_Some_iff split: option.splits if_splits)

lemma kept_refuse: "refuse eng now ch r s = Some (b, t) \<Longrightarrow> kept s t"
  using kept_responses(3) by (auto simp: refuse_def bind_Some_iff)

lemma kept_ends: "no_value s = Some (b, t) \<Longrightarrow> kept s t" "return_void s = Some (b, t) \<Longrightarrow> kept s t"
  by (simp_all add: no_value_def return_void_def)

lemma kept_remove_request: "RecvShopRemoveItemClientPacket eng now ch i s = Some (b, t) \<Longrightarrow> kept s t"
  by (auto simp: RecvShopRemoveItemClientPacket_def Let_def
      elim!: kept_dots kept_reply kept_ends split: option.splits if_splits)

lemma kept_edit_request: "RecvShopEditItemClientPacket eng now ch i p s = Some (b, t) \<Longrightarrow> kept s t"
  by (auto simp: RecvShopEditItemClientPacket_def Let_def
      elim!: kept_dots kept_reply kept_ends split: option.splits if_splits)

lemma kept_move_request: "RecvShopMoveItemClientPacket eng now ch i j s = Some (b, t) \<Longrightarrow> kept s t"
  by (auto simp: RecvShopMoveItemClientPacket_def Let_def
      elim!: kept_dots kept_reply kept_ends split: option.splits if_splits)

lemma kept_buy_request: "RecvShopBuyItemClientPacket eng now ch w i f p s = Some (b, t) \<Longrightarrow> kept s t"
  by (auto simp: RecvShopBuyItemClientPacket_def Let_def
      elim!: kept_dots kept_reply kept_ends split: option.splits if_splits)

lemma kept_create_request:
  assumes "RecvShopCreateNewClientPacket eng now ch s = Some (b, t)"
  shows "kept s t"
proof -
  let ?sh = "shop eng"
  let ?last = "\<lambda>s. if ENABLE_IKASHOP_ENTITIES ?sh \<and> GetIkarusShop ?sh ch = None \<and> \<not> allowed_spawn_map ?sh ch
      then reply eng now ch SO_OTHERS False (call_engine (GameCall ''SendPopupMessage'' [ch]) s)
      else dots eng 6 no_value s"
  have last: "kept u t" if "?last u = Some (b, t)" for u
    using that kept_trans [OF kept_upd(7) kept_reply]
    by (auto elim!: kept_dots kept_ends split: if_split_asm)
  have gold: "kept u t"
    if "(if \<not> enough_gold ?sh ch then reply eng now ch NOT_ENOUGH_MONEY True u
         else dots eng 5 ?last u) = Some (b, t)" for u
    using that last by (auto elim!: kept_dots kept_reply split: if_split_asm)
  show ?thesis
    using assms gold unfolding RecvShopCreateNewClientPacket_def Let_def
    by (auto elim!: kept_dots kept_reply split: if_split_asm)
qed

lemma kept_offshop_move: "offshop_move eng now pkt mv s = Some (b, t) \<Longrightarrow> kept s t"
  using kept_refuse kept_move_request
  by (auto simp: offshop_move_def Let_def bind_Some_iff split: option.splits if_splits)

lemma kept_offshop_request:
  assumes "offshop_request eng now pkt data s = Some (b, t)"
  shows "kept s t"
  using assms unfolding offshop_request_def Let_def
  by (auto simp: bind_Some_iff elim: kept_remove_request kept_buy_request kept_edit_request
      kept_create_request kept_offshop_move split: if_split_asm)

lemma kept_HandleOffshop:
  assumes "HandleOffshop eng now data s = Some (b, t)"
  shows "kept s t"
  using assms kept_refuse kept_trans [OF kept_upd(8) kept_offshop_request]
  by (auto simp: HandleOffshop_def Let_def bind_Some_iff split: if_splits option.splits)

subsection \<open>The other handlers\<close>

lemma enable_cases:
  assumes "session_enable_encryption lib oe key s = Some (b, t)"
  obtains u where "packets u = packets s" "ops u = ops s" "tasks u = tasks s"
    "connect_state u = connect_state s" "net.more u = net.more s" "t = u \<or> oe u = Some t"
proof -
  obtain kx r where kx: "(case key_exchange s of Some kx \<Rightarrow> (kx, rng s)
      | None \<Rightarrow> KeyExchange_new lib (rng s)) = (kx, r)" by fastforce
  let ?s = "s\<lparr>key_exchange := Some kx, rng := r\<rparr>"
  let ?c = "case crypto s of Some c \<Rightarrow> c | None \<Rightarrow> CryptoHelper_new"
  obtain ok1 k where k: "computeSharedKey lib kx key [] = (ok1, k)" by fastforce
  obtain ok2 c r2 where c: "initialize lib k (?c, r) = (ok2, c, r2)"
    by (cases "initialize lib k (?c, r)")
  consider "t = ?s" | "t = ?s\<lparr>rng := r2, crypto := None\<rparr>"
    | "oe (?s\<lparr>rng := r2, crypto := Some c, is_encrypted := True\<rparr>) = Some t"
    using assms kx k c
    by (auto simp: session_enable_encryption_def Let_def split: if_splits)
  then show thesis
  proof cases
    case 3
    then show ?thesis
      by (intro that [of "?s\<lparr>rng := r2, crypto := Some c, is_encrypted := True\<rparr>"]) simp_all
  qed (use that [of t] in simp_all)
qed

lemma reads_enable:
  assumes "session_enable_encryption lib oe key s = Some (b, t)"
    and oe: "\<And>u v. oe u = Some v \<Longrightarrow> kept u v"
  shows "packets t = packets s \<and> ops t = ops s \<and> read_tokens t \<le> read_tokens s \<and>
     connect_state t = connect_state s \<and> (client_inv s \<longrightarrow> client_inv t)"
proof -
  obtain u where u: "packets u = packets s" "ops u = ops s" "tasks u = tasks s"
    "connect_state u = connect_state s" "net.more u = net.more s" "t = u \<or> oe u = Some t"
    by (rule enable_cases [OF assms(1)])
  have "kept u t" using u(6) oe by blast
  moreover have "read_tokens u = read_tokens s" by (simp add: read_tokens_def u)
  ultimately show ?thesis using u client_inv_more [OF u(5)] by (simp add: kept_def)
qed

lemma kept_enable:
  assumes run: "session_enable_encryption lib oe key s = Some (b, t)" and conn: "IsConnected s"
    and oe: "\<And>u v. oe u = Some v \<Longrightarrow> kept u v"
  shows "kept s t"
proof -
  have "net_inv s \<Longrightarrow> net_inv t"
    by (rule net_inv_enable [OF _ conn _ run]) (use oe in \<open>auto simp: kept_def\<close>)
  then show ?thesis using reads_enable [OF run oe] by (simp add: kept_def)
qed

lemma kept_OnEnabledEnc: "OnEnabledEnc eng now s = Some t \<Longrightarrow> kept s t"
  using kept_trans [OF kept_unprocessed_process kept_Refresh] by (simp add: OnEnabledEnc_def)

lemma kept_public_key: "session_get_public_key lib s = (k, t) \<Longrightarrow> kept s t"
  by (auto simp: session_get_public_key_def kept_def read_tokens_def client_inv_parts Let_def
      split: option.splits prod.splits)

lemma kept_connected: "kept s t \<Longrightarrow> IsConnected t = IsConnected s"
  by (simp add: kept_def IsConnected_def)

lemma HandleKeyExchange_cases:
  assumes run: "HandleKeyExchange eng now data s = Some (b, t)"
  obtains v key where "kept s v"
    "t = v \<or> session_enable_encryption (ssl eng) (OnEnabledEnc eng now) key v = Some (b, t)"
proof -
  obtain pk u where u: "session_get_public_key (ssl eng) s = (pk, u)"
    by (cases "session_get_public_key (ssl eng) s")
  note su = kept_public_key [OF u]
  obtain key where run': "(if pk = [] then Some (False, u) else do {
       buffer \<leftarrow> key_exchange_packet eng pk;
       let (sent, s) = SendPacket eng now buffer False u;
       if \<not> sent then Some (False, s)
       else session_enable_encryption (ssl eng) (OnEnabledEnc eng now) key s }) = Some (b, t)"
    using run by (auto simp: HandleKeyExchange_def u bind_Some_iff)
  show thesis
  proof (cases "pk = []")
    case False
    then obtain buffer where buffer: "key_exchange_packet eng pk = Some buffer"
      using run' by (auto simp: bind_Some_iff)
    obtain sent v where v: "SendPacket eng now buffer False u = (sent, v)"
      by (cases "SendPacket eng now buffer False u")
    have "kept s v" by (rule kept_trans [OF su kept_SendPacket [OF v]])
    then show ?thesis using that run' False by (auto simp: buffer v split: if_splits)
  qed (use that su run' in auto)
qed

lemma kept_HandleKeyExchange:
  assumes run: "HandleKeyExchange eng now data s = Some (b, t)" and conn: "IsConnected s"
  shows "kept s t"
  using HandleKeyExchange_cases [OF run]
proof cases
  case (1 v key)
  have "kept v t"
    using 1(2) kept_enable [of "ssl eng" "OnEnabledEnc eng now" key v b t] kept_OnEnabledEnc
      kept_connected [OF 1(1)] conn by auto
  then show ?thesis by (rule kept_trans [OF 1(1)])
qed

lemma reads_HandleKeyExchange:
  assumes run: "HandleKeyExchange eng now data s = Some (b, t)"
  shows "read_tokens t \<le> read_tokens s"
  using HandleKeyExchange_cases [OF run]
proof cases
  case (1 v key)
  then have "read_tokens t \<le> read_tokens v"
    using reads_enable [of "ssl eng" "OnEnabledEnc eng now" key v b t] kept_OnEnabledEnc by auto
  then show ?thesis using 1(1) by (simp add: kept_def)
qed

lemma kept_with_messenger:
  "(messenger_inv (messenger_state s) \<Longrightarrow> messenger_inv (f (messenger_state s))) \<Longrightarrow>
   kept s (with_messenger f s)"
  by (rule kept_own) (simp_all add: with_messenger_def net.truncate_def client_inv_parts)

lemma kept_friends:
  "HandleMobileLogin eng data s = Some (b, t) \<Longrightarrow> kept s t"
  "HandleMobileLogout eng data s = Some (b, t) \<Longrightarrow> kept s t"
  using mcall_inv [of "messenger_state s" "FindPC eng" id "CMobileLogin _"]
    mcall_inv [of "messenger_state s" "FindPC eng" id "CMobileLogout _"]
  by (auto simp: HandleMobileLogin_def HandleMobileLogout_def bind_Some_iff
      intro!: kept_with_messenger)

lemma kept_HandleMobilePm: "HandleMobilePm eng data s = Some (b, t) \<Longrightarrow> kept s t"
  using kept_DESC_Packet
  by (auto simp: HandleMobilePm_def Let_def bind_Some_iff split: option.splits)

lemma kept_HandleUserCheck: "HandleUserCheck eng data s = Some (b, t) \<Longrightarrow> kept s t"
  using kept_message_process kept_message_remove kept_trans [OF kept_DESC_Packet kept_message_remove]
  by (auto simp: HandleUserCheck_def Let_def bind_Some_iff split: if_splits option.splits)

lemma kept_HandleModifyCharacter: "HandleModifyCharacter eng now data s = Some (b, t) \<Longrightarrow> kept s t"
  using kept_CharacterLoad kept_responses(1)
    kept_trans [OF kept_upd(7) kept_trans [OF kept_upd(10) kept_responses(1)]]
  by (auto simp: HandleModifyCharacter_def Let_def bind_Some_iff split: if_splits option.splits)

lemma kept_HandleValidateLogin: "HandleValidateLogin eng now data s = Some (b, t) \<Longrightarrow> kept s t"
  using kept_responses(4)
  by (auto simp: HandleValidateLogin_def bind_Some_iff split: if_splits)

lemma kept_HandleDbInfo: "HandleDbInfo eng now data s = Some (b, t) \<Longrightarrow> kept s t"
  using kept_SendPacket by (auto simp: HandleDbInfo_def bind_Some_iff split: if_splits)

lemma kept_HandleCacheStatus: "HandleCacheStatus data s = Some (b, t) \<Longrightarrow> kept s t"
  by (auto simp: HandleCacheStatus_def bind_Some_iff)

lemma kept_HandlePacket_other:
  assumes "HandlePacket eng now h data s = Some (b, t)" and "h \<noteq> HEADER_SM_KEY_EXCHANGE"
  shows "kept s t"
  using assms kept_SetAuthority
  unfolding HandlePacket_def
  by (auto simp: bind_Some_iff elim: kept_HandleMobilePm kept_HandleDbInfo kept_HandleUserCheck
      kept_friends kept_HandleCacheStatus kept_HandleValidateLogin kept_HandleModifyCharacter
      kept_HandleOffshop split: if_split_asm)

lemma kept_HandlePacket:
  assumes "HandlePacket eng now h data s = Some (b, t)" and "IsConnected s"
  shows "kept s t"
  using assms kept_HandleKeyExchange kept_HandlePacket_other
  by (cases "h = HEADER_SM_KEY_EXCHANGE") (simp_all add: HandlePacket_def)

lemma reads_HandlePacket:
  assumes "HandlePacket eng now h data s = Some (b, t)"
  shows "read_tokens t \<le> read_tokens s"
  using assms reads_HandleKeyExchange kept_HandlePacket_other [OF assms]
  by (cases "h = HEADER_SM_KEY_EXCHANGE") (simp_all add: HandlePacket_def kept_def)

subsection \<open>The raw client's contract\<close>

lemma OnDisconnect_kept:
  assumes "client_inv s"
  shows "client_inv (OnDisconnect eng s)"
proof -
  have "kept s (with_messenger (HandleConnectionLost (FindPC eng)) (SetBridgeCacheStatus False s))"
    by (rule kept_trans [OF kept_upd(11)], rule kept_with_messenger, rule inv_HandleConnectionLost)
  then show ?thesis using assms by (simp add: kept_def OnDisconnect_def)
qed

interpretation mobile: net_client_reads "ssl eng" "OnDisconnect eng" "OnDataReceived eng now"
  IsValidHeader client_inv for eng :: engine and now :: time
proof unfold_locales
  fix s t :: mobi
  show "client_inv s \<Longrightarrow> packets t = packets s \<Longrightarrow> net.more t = net.more s \<Longrightarrow> client_inv t"
    using client_inv_more by blast
  show "net_ok s \<Longrightarrow> client_inv s \<Longrightarrow> net_ok (OnDisconnect eng s) \<and> client_inv (OnDisconnect eng s)"
    using OnDisconnect_kept net_ok_truncate(1) [of "OnDisconnect eng s" s] net_frame_upds(4) by simp
  show "read_tokens (OnDisconnect eng s) \<le> read_tokens s"
    using net_ok_truncate(3) [of "OnDisconnect eng s" s] net_frame_upds(4) by simp
next
  fix s t :: mobi and h d b
  assume "net_ok s" "client_inv s" "IsConnected s" and run: "OnDataReceived eng now h d s = Some (b, t)"
  then have "kept s t" using kept_HandlePacket by (simp add: OnDataReceived_def)
  then show "net_ok t \<and> client_inv t"
    using \<open>net_ok s\<close> \<open>client_inv s\<close> net_ok_frame [of s t] by (auto simp: kept_def net_ok_def)
next
  fix s t :: mobi and h d b
  assume "OnDataReceived eng now h d s = Some (b, t)"
  then show "read_tokens t \<le> read_tokens s"
    using reads_HandlePacket by (simp add: OnDataReceived_def)
qed

subsection \<open>What the game calls\<close>

lemma kept_NotifyStatus: "NotifyStatus eng now d code s = Some t \<Longrightarrow> kept s t"
  using kept_responses(2) kept_trans [OF kept_responses(2) kept_erase]
  by (auto simp: NotifyStatus_def Let_def bind_Some_iff split: option.splits if_splits)

lemma kept_SendMobiLogin: "SendMobiLogin eng d s = Some t \<Longrightarrow> kept s t"
  by (auto simp: SendMobiLogin_def bind_Some_iff split: option.splits if_splits)

lemma kept_SendMobiWarp: "SendMobiWarp eng now d a p s = Some t \<Longrightarrow> kept s t"
  using kept_trans [OF kept_upd(8) kept_upd(7)]
  by (auto simp: SendMobiWarp_def bind_Some_iff Let_def split: option.splits if_splits)

lemma kept_HandleLoginResult: "HandleLoginResult eng now d res s = Some t \<Longrightarrow> kept s t"
  by (drule HandleLoginResult_cases) (auto elim: kept_NotifyStatus intro: kept_trans [OF kept_NotifyStatus kept_SendMobiLogin])

lemma kept_CharacterSelect: "CharacterSelect eng now d s = Some t \<Longrightarrow> kept s t"
  using CharacterSelect_cases kept_trans [OF kept_upd(8) kept_upd(7)] by blast

lemma kept_Entergame: "Entergame eng now d s = Some t \<Longrightarrow> kept s t"
proof -
  assume run: "Entergame eng now d s = Some t"
  have "kept s (upd_desc h f (call_engine c (upd_desc h g (upd_desc h k s))))" for h f c g k
    using kept_trans [OF kept_upd(8) kept_trans [OF kept_upd(8) kept_trans [OF kept_upd(7) kept_upd(8)]]] .
  from kept_trans [OF this kept_NotifyStatus] run show ?thesis
    by (auto simp: Entergame_def bind_Some_iff Let_def split: option.splits if_splits)
qed

lemma kept_HandleLogout: "HandleLogout eng now pid s = Some (b, t) \<Longrightarrow> kept s t"
proof -
  assume run: "HandleLogout eng now pid s = Some (b, t)"
  obtain found u where e: "erase_ch eng pid s = (found, u)" by (cases "erase_ch eng pid s")
  have "kept s u" using kept_erase [of s eng pid] e by simp
  then show ?thesis using run kept_trans [OF _ kept_responses(2)] e
    by (auto simp: HandleLogout_def bind_Some_iff split: if_splits)
qed

lemma kept_start_login: "start_login eng now req u = Some t \<Longrightarrow> kept u t"
proof -
  have "kept u (call_engine c (upd_desc h f (emplace_ch (dg_pid req)
      \<lparr>mch_info = \<lparr>li_pid = dg_pid req, li_login = l\<rparr>, mch_handle_id = h\<rparr> v)))"
    if "CreateDesc eng now u = Some (Some h, v)" for v h l f c
    using kept_trans [OF kept_CreateDesc [OF that] kept_trans
      [OF kept_emplace [of _ "\<lparr>li_pid = dg_pid req, li_login = l\<rparr>"] kept_trans [OF kept_upd(8) kept_upd(7)]]]
    by simp
  then show "start_login eng now req u = Some t \<Longrightarrow> kept u t"
    using kept_CreateDesc by (auto simp: start_login_def Let_def bind_Some_iff split: option.splits)
qed

lemma kept_SendLoginRequest:
  assumes "SendLoginRequest eng now req s = Some t"
  shows "kept s t"
  using SendLoginRequest_cases [OF assms] kept_erase [of s eng "dg_pid req"]
    kept_trans [OF kept_erase kept_start_login]
    kept_trans [OF kept_erase kept_trans [OF kept_upd(10) kept_start_login]]
  unfolding Let_def by blast

text \<open>The shops' answers from the data base, as one type.\<close>

datatype shop_event =
  E_BuyDB bool bool u32 u32 shop_item
| E_RemoveItemDB u32 u32
| E_AddItemDB bool u32 TShopItem
| E_ForceCloseDB u32
| E_ExpiredDB "u32 option" u32
| E_CreateNewDB u32 u32
| E_OfferAcceptDB "(u32 \<times> u32) option" "u32 option"
| E_UnlockCellDB u32 u32
| E_ModifyItemPrice u32 "shop_item option" u32 int int
| E_MoveItem u32 u32 u32

primrec shop_event_run :: "engine \<Rightarrow> time \<Rightarrow> shop_event \<Rightarrow> mobi \<Rightarrow> (bool \<times> mobi) option" where
  "shop_event_run eng now (E_BuyDB x y b w i) s = RecvShopBuyDBPacket eng now x y b w i s"
| "shop_event_run eng now (E_RemoveItemDB w i) s = RecvShopRemoveItemDBPacket eng now w i s"
| "shop_event_run eng now (E_AddItemDB x w i) s = RecvShopAddItemDBPacket eng now x w i s"
| "shop_event_run eng now (E_ForceCloseDB p) s = RecvShopForceCloseDBPacket eng now p s"
| "shop_event_run eng now (E_ExpiredDB w p) s = RecvShopExpiredDBPacket eng now w p s"
| "shop_event_run eng now (E_CreateNewDB p l) s = RecvShopCreateNewDBPacket eng now p l s"
| "shop_event_run eng now (E_OfferAcceptDB x w) s = RecvShopOfferAcceptDBPacket eng now x w s"
| "shop_event_run eng now (E_UnlockCellDB w l) s = RecvShopUnlockCellDBPacket eng now w l s"
| "shop_event_run eng now (E_ModifyItemPrice w x i y c) s = ModifyItemPrice eng now w x i y c s"
| "shop_event_run eng now (E_MoveItem w i c) s = MoveItem eng now w i c s"

lemma kept_shop_sends:
  "sendShopItemBuy eng now w b i s = Some (x, t) \<Longrightarrow> kept s t"
  "sendShopItemRemove eng now w i s = Some (x, t) \<Longrightarrow> kept s t"
  "sendShopItemAdd eng now w it s = Some (x, t) \<Longrightarrow> kept s t"
  "sendShopClose eng now w s = Some (x, t) \<Longrightarrow> kept s t"
  "sendShopCreate eng now w b s = Some (x, t) \<Longrightarrow> kept s t"
  "sendShopUpdateSlotCount eng now w b s = Some (x, t) \<Longrightarrow> kept s t"
  "sendShopItemUpdatePrice eng now w b y c s = Some (x, t) \<Longrightarrow> kept s t"
  "sendShopItemUpdatePos eng now w b i s = Some (x, t) \<Longrightarrow> kept s t"
  using kept_api_other [of eng now "Shop (C_sendShopItemBuy w b i)" s x t]
    kept_api_other [of eng now "Shop (C_sendShopItemRemove w i)" s x t]
    kept_api_other [of eng now "Shop (C_sendShopItemAdd w it)" s x t]
    kept_api_other [of eng now "Shop (C_sendShopClose w)" s x t]
    kept_api_other [of eng now "Shop (C_sendShopCreate w b)" s x t]
    kept_api_other [of eng now "Shop (C_sendShopUpdateSlotCount w b)" s x t]
    kept_api_other [of eng now "Shop (C_sendShopItemUpdatePrice w b y c)" s x t]
    kept_api_other [of eng now "Shop (C_sendShopItemUpdatePos w b i)" s x t] by simp_all

lemma kept_tell:
  assumes "do { (x, u) \<leftarrow> r; k u } = Some (b, t)"
    and "\<And>x u. r = Some (x, u) \<Longrightarrow> kept s u" and "\<And>u. k u = Some (b, t) \<Longrightarrow> kept u t"
  shows "kept s t"
  using assms kept_trans by (auto simp: bind_Some_iff)

lemma kept_dots_end: "dots eng n no_value s = Some (b, t) \<Longrightarrow> kept s t"
  "dots eng n return_void s = Some (b, t) \<Longrightarrow> kept s t"
  by (erule kept_dots, erule kept_ends)+

lemma kept_call: "kept (call_engine c s) t \<Longrightarrow> kept s t"
  using kept_trans [OF kept_upd(7)] .

lemma kept_return: "Some (x, u) = Some (b, t) \<Longrightarrow> kept u t" "Some (x, call_engine c u) = Some (b, t) \<Longrightarrow> kept u t"
  by auto

lemma kept_dots_call: "dots eng n no_value (call_engine c s) = Some (b, t) \<Longrightarrow> kept s t"
  "dots eng n return_void (call_engine c s) = Some (b, t) \<Longrightarrow> kept s t"
  by (rule kept_call, erule kept_dots_end)+

lemma kept_RemoveItemDB: "RecvShopRemoveItemDBPacket eng now w i s = Some (b, t) \<Longrightarrow> kept s t"
  unfolding RecvShopRemoveItemDBPacket_def
  by (erule kept_dots, erule kept_tell, erule kept_shop_sends, erule kept_dots_call)

lemma kept_AddItemDB: "RecvShopAddItemDBPacket eng now x w it s = Some (b, t) \<Longrightarrow> kept s t"
  unfolding RecvShopAddItemDBPacket_def
  by (erule kept_dots, erule kept_tell, erule kept_shop_sends, erule kept_return)

lemma kept_ForceCloseDB: "RecvShopForceCloseDBPacket eng now p s = Some (b, t) \<Longrightarrow> kept s t"
  unfolding RecvShopForceCloseDBPacket_def
  by (erule kept_dots, erule kept_tell, erule kept_shop_sends, erule kept_ends)

lemma kept_CreateNewDB: "RecvShopCreateNewDBPacket eng now p l s = Some (b, t) \<Longrightarrow> kept s t"
  unfolding RecvShopCreateNewDBPacket_def
  by (erule kept_dots, erule kept_tell, erule kept_shop_sends, erule kept_return)

lemma kept_MoveItem: "MoveItem eng now w i l s = Some (b, t) \<Longrightarrow> kept s t"
  unfolding MoveItem_def
  by (erule kept_dots, erule kept_tell, erule kept_shop_sends, erule kept_dots_call)

lemma kept_UnlockCellDB: "RecvShopUnlockCellDBPacket eng now p l s = Some (b, t) \<Longrightarrow> kept s t"
  unfolding RecvShopUnlockCellDBPacket_def
  by (erule kept_dots, erule kept_tell, rule kept_call, erule kept_shop_sends, erule kept_ends)

lemma kept_ExpiredDB: "RecvShopExpiredDBPacket eng now w p s = Some (b, t) \<Longrightarrow> kept s t"
  unfolding RecvShopExpiredDBPacket_def
  by (erule kept_dots, cases "w = None"; simp)
    (erule kept_tell, erule kept_shop_sends, erule kept_dots_end)

lemma kept_ModifyItemPrice: "ModifyItemPrice eng now w x i y c s = Some (b, t) \<Longrightarrow> kept s t"
  unfolding ModifyItemPrice_def
  by (erule kept_dots, cases "x = None"; simp)
    (erule kept_tell, erule kept_shop_sends, erule kept_dots_end)

lemma kept_OfferAccept: "RecvShopOfferAcceptDBPacket eng now x w s = Some (b, t) \<Longrightarrow> kept s t"
  unfolding RecvShopOfferAcceptDBPacket_def Let_def
proof (erule kept_dots)
  fix u
  assume run: "(case (x, w) of (Some (buyerid, itemid), Some owner) \<Rightarrow>
      do { (_, s) \<leftarrow> sendShopItemBuy eng now owner buyerid itemid (call_engine (GameCall ''m_mapOffer.erase'' []) u);
           dots eng 29 no_value s }
    | _ \<Rightarrow> dots eng 29 no_value (call_engine (GameCall ''m_mapOffer.erase'' []) u)) = Some (b, t)"
  show "kept u t"
  proof (cases "x = None \<or> w = None")
    case False
    then obtain c i o' where "x = Some (c, i)" "w = Some o'" by auto
    with run show ?thesis
      by simp (erule kept_tell, rule kept_call, erule kept_shop_sends, erule kept_dots_end)
  qed (cases x; cases w; use run kept_dots_call in auto)
qed

lemma kept_BuyDB: "RecvShopBuyDBPacket eng now x y c w i s = Some (b, t) \<Longrightarrow> kept s t"
  unfolding RecvShopBuyDBPacket_def Let_def
  by (erule kept_dots, cases x; cases y; simp)
    (((erule kept_dots)?, erule kept_tell, erule kept_shop_sends, erule kept_return)+)

lemma kept_shop_event: "shop_event_run eng now e s = Some (b, t) \<Longrightarrow> kept s t"
  by (cases e) (simp_all add: kept_RemoveItemDB kept_AddItemDB kept_ForceCloseDB
      kept_CreateNewDB kept_MoveItem kept_UnlockCellDB kept_ExpiredDB kept_ModifyItemPrice kept_OfferAccept kept_BuyDB)

subsection \<open>Every run\<close>

text \<open>
  What happens to the client: its own loop, the requests of the game (a message is stored under a
  32-bit number, which has not gone round), connecting and disconnecting, the functions of the game
  that deal with characters, shops and friends, and the game's own changes of its connections.
\<close>

inductive client_step :: "engine \<Rightarrow> mobi \<Rightarrow> mobi \<Rightarrow> bool" for eng where
  do_process: "\<lbrakk>MobiClient_Process eng now es s = Some t; \<forall>e \<in> set es. event_ok e\<rbrakk> \<Longrightarrow> client_step eng s t"
| do_request: "\<lbrakk>api eng now c s = Some (b, t); s_message_container_id s \<noteq> -1\<rbrakk> \<Longrightarrow> client_step eng s t"
| do_connect: "client_step eng s (ConnectToBridge s)"
| do_disconnect: "client_step eng s (MobiClient_Disconnect eng need s)"
| do_load: "CharacterLoad eng now info pw s = Some (r, t) \<Longrightarrow> client_step eng s t"
| do_login: "SendLoginRequest eng now req s = Some t \<Longrightarrow> client_step eng s t"
| do_notify: "NotifyStatus eng now d code s = Some t \<Longrightarrow> client_step eng s t"
| do_result: "HandleLoginResult eng now d res s = Some t \<Longrightarrow> client_step eng s t"
| do_select: "CharacterSelect eng now d s = Some t \<Longrightarrow> client_step eng s t"
| do_enter: "Entergame eng now d s = Some t \<Longrightarrow> client_step eng s t"
| do_warp: "SendMobiWarp eng now d addr port s = Some t \<Longrightarrow> client_step eng s t"
| do_logout: "HandleLogout eng now pid s = Some (b, t) \<Longrightarrow> client_step eng s t"
| do_shop: "shop_event_run eng now e s = Some (b, t) \<Longrightarrow> client_step eng s t"
| do_friends: "client_step eng s (with_messenger (mcall_run (FindPC eng) esc c) s)"
| do_game: "client_step eng s (s\<lparr>desc_manager := m, engine_out := []\<rparr>)"

definition client_ok :: "mobi \<Rightarrow> bool" where
  "client_ok s \<longleftrightarrow> net_ok s \<and> client_inv s"

lemma mobile_ok: "mobile.ok = client_ok"
  by (simp add: fun_eq_iff mobile.ok_def client_ok_def)

lemma ok_kept: "client_ok s \<Longrightarrow> kept s t \<Longrightarrow> client_ok t"
  using net_ok_frame [of s t] by (auto simp: client_ok_def kept_def net_ok_def)

lemma ok_Process:
  assumes ok: "client_ok s" and run: "MobiClient_Process eng now es s = Some t"
    and es: "\<forall>e \<in> set es. event_ok e"
  shows "client_ok t"
proof -
  obtain u v w where u: "SendSync eng s = Some u" and v: "ch_Process eng now u = Some v"
    and w: "DoWork (ssl eng) (OnDisconnect eng) (OnDataReceived eng now) IsValidHeader es v = Some w"
    and t: "admin_Process eng now (unprocessed_cleanup_expired now (message_cleanup_expired now w)) = Some t"
    using run by (auto simp: MobiClient_Process_def bind_Some_iff Let_def)
  have "client_ok v" using ok ok_kept kept_SendSync [OF u] kept_ch_Process [OF v] by blast
  then have "client_ok w" using mobile.ok_DoWork [OF _ es w] by (simp add: mobile_ok)
  then show ?thesis
    using ok_kept [OF _ kept_admin_Process [OF t]] ok_kept [OF _ kept_message_cleanup]
      ok_kept [OF _ kept_unprocessed_cleanup] by blast
qed

lemma ok_ConnectToBridge: "client_ok s \<Longrightarrow> client_ok (ConnectToBridge s)"
  using mobile.ok_Connect [of s] by (simp add: ConnectToBridge_def mobile_ok)

lemma ok_MobiClient_Disconnect: "client_ok s \<Longrightarrow> client_ok (MobiClient_Disconnect eng need s)"
  using mobile.ok_Disconnect [of s eng need] by (simp add: MobiClient_Disconnect_def mobile_ok)

lemma ok_step:
  assumes "client_step eng s t" and ok: "client_ok s"
  shows "client_ok t"
  using assms
proof (induction rule: client_step.induct)
  case (do_process now es s t)
  then show ?case using ok_Process by blast
next
  case (do_connect s)
  then show ?case by (rule ok_ConnectToBridge)
next
  case (do_disconnect s need)
  then show ?case by (rule ok_MobiClient_Disconnect)
next
  case (do_friends s esc c)
  have "kept s (with_messenger (mcall_run (FindPC eng) esc c) s)"
    by (rule kept_with_messenger) (rule mcall_inv)
  then show ?case using do_friends ok_kept by blast
next
  case (do_game s m)
  have "kept s (s\<lparr>desc_manager := m, engine_out := []\<rparr>)"
    by (rule kept_own) (simp_all add: net.truncate_def client_inv_parts)
  then show ?case using do_game ok_kept by blast
qed (metis ok_kept kept_api, metis ok_kept kept_CharacterLoad, metis ok_kept kept_SendLoginRequest,
    metis ok_kept kept_NotifyStatus, metis ok_kept kept_HandleLoginResult,
    metis ok_kept kept_CharacterSelect, metis ok_kept kept_Entergame, metis ok_kept kept_SendMobiWarp,
    metis ok_kept kept_HandleLogout, metis ok_kept kept_shop_event)

subsection \<open>The start\<close>

lemma op_wf_upd: "op_wf ps p \<Longrightarrow> ps h = None \<Longrightarrow> op_wf (ps(h \<mapsto> d)) p"
  by (cases p) auto

lemma ok_register:
  assumes "client_ok s" and "desc_wf d"
  shows "client_ok (if packets s h \<noteq> None then s else s\<lparr>packets := (packets s)(h \<mapsto> d)\<rparr>)"
proof (cases "packets s h = None")
  case True
  let ?s = "s\<lparr>packets := (packets s)(h \<mapsto> d)\<rparr>"
  have "net_inv ?s = net_inv s" by (simp add: net_inv_def)
  moreover have "client_inv ?s = client_inv s" by (rule client_inv_more) simp
  ultimately show ?thesis
    using assms True op_wf_upd by (auto simp: client_ok_def net_ok_def descs_wf_def)
qed (use assms in simp)

lemma ok_register_dynamic:
  "client_ok s \<Longrightarrow> n \<ge> 5 \<Longrightarrow> client_ok (snd (packet_register_dynamic h n 1 s))"
  using ok_register [of s "TPacketDescriptor_dynamic h n 1" h]
  by (simp add: packet_register_dynamic_def desc_wf_def TPacketDescriptor_dynamic_def HEADER_SIZE_def
      SIZE_SIZE_def split: if_splits)

lemma ok_register_fixed:
  "client_ok s \<Longrightarrow> n \<ge> 1 \<Longrightarrow> client_ok (snd (packet_register_fixed h n s))"
  using ok_register [of s "TPacketDescriptor_fixed h n" h]
  by (simp add: packet_register_fixed_def desc_wf_def TPacketDescriptor_fixed_def HEADER_SIZE_def
      split: if_splits)

lemma ok_RegisterPackets: "client_ok s \<Longrightarrow> client_ok (RegisterPackets s)"
  unfolding RegisterPackets_def Let_def
  by (intro ok_register_fixed ok_register_dynamic) (simp_all add: sizeof_simps)

lemma kept_LoadInfoFile: "LoadInfoFile eng s = Some t \<Longrightarrow> kept s t"
  by (auto simp: LoadInfoFile_def Let_def bind_Some_iff split: option.splits if_splits)

lemma ok_new: "MobiClient_new eng = Some s \<Longrightarrow> client_ok s"
proof -
  have "net_ok mobi_init" by (simp add: net_ok_def net_inv_def descs_wf_def)
  then have "client_ok mobi_init" using client_inv_init by (simp add: client_ok_def)
  then show "MobiClient_new eng = Some s \<Longrightarrow> client_ok s"
    using ok_RegisterPackets ok_kept kept_LoadInfoFile by (auto simp: MobiClient_new_def)
qed

text \<open>
  C1. The invariant of the whole client holds in every run from its construction, whatever the bridge
  sends and the game calls: of the connection (its counters, queues, keys and outstanding reads
  agree), of the messages and packets that wait (bounded, identified, complete), of the characters
  (filed under their player), of the friends, and of the three copies of the core's authority.
\<close>

theorem client_invariant:
  assumes "MobiClient_new eng = Some s0" and "(client_step eng)\<^sup>*\<^sup>* s0 s"
  shows "net_ok s \<and> msg_inv s \<and> unp_inv s \<and> chars_filed s \<and> messenger_inv (messenger_state s) \<and>
     admin_inv s"
proof -
  have "client_ok s"
    using assms(2) ok_new [OF assms(1)] by (induction rule: rtranclp_induct) (auto intro: ok_step)
  then show ?thesis by (simp add: client_ok_def client_inv_def)
qed

lemma client_invariant_witness:
  "\<exists>s0. MobiClient_new demo_eng = Some s0 \<and> net_ok (ConnectToBridge s0) \<and>
     chars_filed (ConnectToBridge s0) \<and> admin_inv (ConnectToBridge s0)"
proof -
  obtain s0 where new: "MobiClient_new demo_eng = Some s0"
    by (simp add: MobiClient_new_def LoadInfoFile_def Let_def)
  have "(client_step demo_eng)\<^sup>*\<^sup>* s0 (ConnectToBridge s0)"
    by (rule r_into_rtranclp) (rule do_connect)
  from client_invariant [OF new this] show ?thesis using new by blast
qed

end
