(* ===== verification/Key_Exchange.thy ===== *)
theory Key_Exchange
  imports Client
begin

text \<open>
  The key exchange from the bridge's packet to the first encrypted packet: what is in the write queue
  afterwards and which key both sides use.
\<close>

subsection \<open>What only adds to the write queue\<close>

lemma last_n_append: "last_n n (last_n n xs @ ys) = last_n n (xs @ ys)"
  by (cases "n \<le> length xs") (auto simp: last_n_def add.commute)

text \<open>The keys stay, and of the old packets and some new ones the newest are in the queue.\<close>

definition queued :: "mobi \<Rightarrow> mobi \<Rightarrow> bool" where
  "queued s t \<longleftrightarrow> crypto t = crypto s \<and> is_encrypted t = is_encrypted s \<and>
     key_exchange t = key_exchange s \<and>
     (length (write_queue s) \<le> MAX_WRITE_QUEUE_SIZE \<longrightarrow>
       (\<exists>ds. write_queue t = last_n MAX_WRITE_QUEUE_SIZE (write_queue s @ ds)))"

lemma queued_same:
  "crypto t = crypto s \<Longrightarrow> is_encrypted t = is_encrypted s \<Longrightarrow> key_exchange t = key_exchange s \<Longrightarrow>
   write_queue t = write_queue s \<Longrightarrow> queued s t"
  by (auto simp: queued_def last_n_def intro: exI [of _ "[]"])

lemma queued_refl [simp]: "queued s s"
  by (rule queued_same) simp_all

lemma queued_trans:
  assumes "queued s t" and "queued t u"
  shows "queued s u"
proof -
  have "\<exists>ds. write_queue u = last_n MAX_WRITE_QUEUE_SIZE (write_queue s @ ds)"
    if len: "length (write_queue s) \<le> MAX_WRITE_QUEUE_SIZE"
  proof -
    obtain ds where ds: "write_queue t = last_n MAX_WRITE_QUEUE_SIZE (write_queue s @ ds)"
      using assms(1) len by (auto simp: queued_def)
    then have "length (write_queue t) \<le> MAX_WRITE_QUEUE_SIZE" by simp
    then obtain es where "write_queue u = last_n MAX_WRITE_QUEUE_SIZE (write_queue t @ es)"
      using assms(2) by (auto simp: queued_def)
    then have "write_queue u = last_n MAX_WRITE_QUEUE_SIZE (write_queue s @ (ds @ es))"
      by (simp add: ds last_n_append)
    then show ?thesis by blast
  qed
  then show ?thesis using assms by (simp add: queued_def)
qed

lemma push_packet_last_n:
  assumes "length q \<le> MAX_WRITE_QUEUE_SIZE"
  shows "push_packet d q = last_n MAX_WRITE_QUEUE_SIZE (q @ [d])"
proof -
  have "last_n MAX_WRITE_QUEUE_SIZE q = q" using assms by (simp add: last_n_def)
  then show ?thesis
    using push_last_n [of MAX_WRITE_QUEUE_SIZE d q] by (simp add: push_packet_def MAX_WRITE_QUEUE_SIZE_def)
qed

lemma queued_Send: "mSend eng data e s = (r, d, t) \<Longrightarrow> queued s t"
proof -
  assume r: "mSend eng data e s = (r, d, t)"
  have "write_queue t = write_queue s \<or> (\<exists>x. write_queue t = push_packet x (write_queue s))"
    using r by (auto simp: Send_eq split: if_splits prod.splits bool.splits)
  then show ?thesis
  proof
    assume "write_queue t = write_queue s"
    then show ?thesis using Send_frame [OF r] by (intro queued_same)
  next
    assume "\<exists>x. write_queue t = push_packet x (write_queue s)"
    then show ?thesis using Send_frame [OF r] push_packet_last_n by (auto simp: queued_def)
  qed
qed

lemma queued_process_containers: "process_containers eng us s = (us', t) \<Longrightarrow> queued s t"
proof (induction us arbitrary: us' s t)
  case (Cons u us)
  obtain r d s1 where send: "mSend eng (uc_data u) (uc_need_encrypt u) s = (r, d, s1)"
    by (cases "mSend eng (uc_data u) (uc_need_encrypt u) s")
  obtain vs s2 where rest: "process_containers eng us s1 = (vs, s2)"
    by (cases "process_containers eng us s1")
  have "t = s2" using Cons.prems by (auto simp: send rest Let_def)
  then show ?case using queued_trans [OF queued_Send [OF send] Cons.IH [OF rest]] by simp
qed simp

lemma queued_unprocessed_process: "queued s (unprocessed_process eng now s)"
proof -
  obtain us t where p: "process_containers eng (unp_packets s) s = (us, t)"
    by (cases "process_containers eng (unp_packets s) s")
  have "queued t (unprocessed_process eng now s)"
    by (rule queued_same) (simp_all add: unprocessed_process_def p unprocessed_cleanup_expired_def)
  with queued_process_containers [OF p] show ?thesis by (rule queued_trans)
qed

lemma queued_send_ignored: "queued s (send_ignored eng data s)"
  by (cases "mSend eng data True s") (simp add: send_ignored_def queued_Send)

lemma queued_send_notifications: "send_notifications eng ns s = Some t \<Longrightarrow> queued s t"
proof (induction ns arbitrary: s)
  case (Cons n ns)
  then obtain x where "send_notifications eng ns (send_ignored eng x s) = Some t"
    by (auto simp: bind_Some_iff)
  from queued_trans [OF queued_send_ignored Cons.IH [OF this]] show ?case .
qed simp

lemma queued_times:
  "queued s (s\<lparr>notif_last_checktime := n\<rparr>)" "queued s (s\<lparr>config_last_checktime := n\<rparr>)"
  "queued s (s\<lparr>refresh_interval := i\<rparr>)"
  by (rule queued_same; simp)+

lemma queued_LoadNotifications: "LoadNotifications eng now x s = Some t \<Longrightarrow> queued s t"
  using queued_trans [OF queued_times(1) queued_send_notifications] queued_times(1)
  by (auto simp: LoadNotifications_def Let_def bind_Some_iff split: if_splits option.splits)

lemma queued_LoadConfigFile: "LoadConfigFile eng now x s = Some t \<Longrightarrow> queued s t"
  using queued_trans [OF queued_times(2) queued_trans [OF queued_times(3) queued_send_ignored]]
    queued_times(2)
  by (auto simp: LoadConfigFile_def Let_def bind_Some_iff split: if_splits option.splits)

lemma queued_OnEnabledEnc: "OnEnabledEnc eng now s = Some t \<Longrightarrow> queued s t"
  by (auto simp: OnEnabledEnc_def Refresh_def bind_Some_iff
      intro: queued_trans [OF queued_unprocessed_process
        queued_trans [OF queued_LoadConfigFile queued_LoadNotifications]])

subsection \<open>The exchange\<close>

lemma get_public_key_cases:
  assumes "session_get_public_key lib s = (pk, u)"
  obtains kx where "pk = getPublicKey kx" "key_exchange u = Some kx" "crypto u = crypto s"
    "is_encrypted u = is_encrypted s" "write_queue u = write_queue s"
  using assms
  by (cases "key_exchange s") (auto simp: session_get_public_key_def Let_def split: prod.splits)

lemma enable_success:
  assumes run: "session_enable_encryption lib oe key s = Some (True, t)"
    and kx: "key_exchange s = Some kx" and plain: "\<not> is_encrypted s" "crypto s = None"
  obtains u c K where "computeSharedKey lib kx key [] = (True, K)" "crypto u = Some c" "ch_key c = K"
    "is_encrypted u" "key_exchange u = Some kx" "write_queue u = write_queue s" "oe u = Some t"
proof -
  obtain ok K where k: "computeSharedKey lib kx key [] = (ok, K)" by fastforce
  obtain ok2 c r where c: "initialize lib K (CryptoHelper_new, rng s) = (ok2, c, r)"
    by (cases "initialize lib K (CryptoHelper_new, rng s)")
  let ?u = "s\<lparr>key_exchange := Some kx, rng := r, crypto := Some c, is_encrypted := True\<rparr>"
  have ok: ok ok2 and oe: "oe ?u = Some t"
    using run kx plain k c by (auto simp: session_enable_encryption_def Let_def split: if_splits)
  have "ch_key c = K" using initialize_key [of lib K CryptoHelper_new "rng s" c r] c ok by simp
  then show thesis using that [of K ?u c] k ok oe by simp
qed

text \<open>
  C4. A completed key exchange: the first packet it puts into the write queue is this core's public key,
  as it is, so that the bridge can read it before anything encrypted; whatever follows was sent after
  the session was switched to the key that both sides derive, this core from the public key in the
  bridge's packet and the private key that belongs to the public key it sent.
\<close>

theorem key_exchange_done:
  assumes inv: "net_inv s" and plain: "\<not> is_encrypted s"
    and run: "HandleKeyExchange eng now data s = Some (True, t)"
  shows "\<exists>sm key kx buffer K c ds.
     get_TKeyExchange data 0 = Some sm \<and>
     get_chars data sizeof_TKeyExchange (unat (TKeyExchange_size sm)) = Some key \<and>
     key_exchange t = Some kx \<and> key_exchange_packet eng (getPublicKey kx) = Some buffer \<and>
     computeSharedKey (ssl eng) kx key [] = (True, K) \<and>
     crypto t = Some c \<and> ch_key c = K \<and> is_encrypted t \<and>
     write_queue t = last_n MAX_WRITE_QUEUE_SIZE (write_queue s @ buffer # ds)"
proof -
  have no: "crypto s = None" and len: "length (write_queue s) \<le> MAX_WRITE_QUEUE_SIZE"
    using inv plain by (auto simp: net_inv_def)
  obtain pk u where u: "session_get_public_key (ssl eng) s = (pk, u)"
    by (cases "session_get_public_key (ssl eng) s")
  obtain kx where kx: "pk = getPublicKey kx" "key_exchange u = Some kx" "crypto u = crypto s"
    "is_encrypted u = is_encrypted s" "write_queue u = write_queue s"
    by (rule get_public_key_cases [OF u])
  obtain sm key where sm: "get_TKeyExchange data 0 = Some sm"
    and key: "get_chars data sizeof_TKeyExchange (unat (TKeyExchange_size sm)) = Some key"
    using run by (auto simp: HandleKeyExchange_def bind_Some_iff)
  have pk: "pk \<noteq> []" using run by (auto simp: HandleKeyExchange_def sm key u)
  then obtain buffer where buffer: "key_exchange_packet eng pk = Some buffer"
    using run by (auto simp: HandleKeyExchange_def sm key u bind_Some_iff)
  obtain sent v where v: "SendPacket eng now buffer False u = (sent, v)"
    by (cases "SendPacket eng now buffer False u")
  have sent: sent and en: "session_enable_encryption (ssl eng) (OnEnabledEnc eng now) key v = Some (True, t)"
    using run pk by (auto simp: HandleKeyExchange_def sm key u buffer v split: if_splits)
  obtain d where send: "mSend eng buffer False u = (SUCCESS, d, v)"
    using v sent by (auto simp: SendPacket_def split: if_splits prod.splits ESendResult.splits)
  have qv: "write_queue v = last_n MAX_WRITE_QUEUE_SIZE (write_queue s @ [buffer])"
    using send push_packet_last_n [OF len] kx
    by (auto simp: Send_eq wire_form_def split: if_splits prod.splits bool.splits option.splits)
  note f = Send_frame [OF send]
  obtain w c K where w: "computeSharedKey (ssl eng) kx key [] = (True, K)" "crypto w = Some c" "ch_key c = K"
    "is_encrypted w" "key_exchange w = Some kx" "write_queue w = write_queue v" "OnEnabledEnc eng now w = Some t"
    by (rule enable_success [OF en]) (use f kx no plain in simp_all)
  note q = queued_OnEnabledEnc [OF w(7)]
  have "length (write_queue w) \<le> MAX_WRITE_QUEUE_SIZE" by (simp add: w(6) qv)
  then obtain ds where "write_queue t = last_n MAX_WRITE_QUEUE_SIZE (write_queue w @ ds)"
    using q by (auto simp: queued_def)
  then have "write_queue t = last_n MAX_WRITE_QUEUE_SIZE (write_queue s @ buffer # ds)"
    by (simp add: w(6) qv last_n_append)
  then show ?thesis using sm key buffer kx(1) w q by (auto simp: queued_def)
qed

subsection \<open>The theorem on an example\<close>

definition demo_connected :: mobi where
  "demo_connected = mobi_init\<lparr>connect_state := CONNECTED\<rparr>"

definition bridge_key :: bytes where
  "bridge_key = ser_TKeyExchange (TKeyExchange_new
     \<lparr>TKeyExchange_header := HEADER_SM_KEY_EXCHANGE, TKeyExchange_size := 32\<rparr>) @ replicate 32 1"

definition demo_kx :: KeyExchange where
  "demo_kx = \<lparr>private_key = Some (replicate 32 0), m_public_key = replicate 32 0\<rparr>"

lemma demo_public_key:
  "session_get_public_key demo_ssl demo_connected =
     (replicate 32 0, demo_connected\<lparr>key_exchange := Some demo_kx, rng := 1\<rparr>)"
  by (simp add: session_get_public_key_def KeyExchange_new_def demo_ssl_def demo_connected_def
      getPublicKey_def demo_kx_def)

lemma demo_enable:
  assumes "key_exchange s = Some demo_kx" "\<not> is_encrypted s" "crypto s = None"
    and total: "\<And>u. oe u \<noteq> None"
  shows "\<exists>t. session_enable_encryption demo_ssl oe (replicate 32 1) s = Some (True, t)"
proof -
  have k: "computeSharedKey demo_ssl demo_kx (replicate 32 1) [] = (True, replicate 32 7)"
    by (simp add: computeSharedKey_def demo_kx_def deriveAESKey_def demo_ssl_def resize_def)
  have c: "initialize demo_ssl (replicate 32 7) (CryptoHelper_new, rng s) =
      (True, CryptoHelper_new\<lparr>ch_key := replicate 32 7, ch_iv := replicate 16 (of_nat (rng s))\<rparr>, Suc (rng s))"
    by (simp add: initialize_def KEY_SIZE_def IV_SIZE_def demo_ssl_def)
  show ?thesis using assms k c by (simp add: session_enable_encryption_def)
qed

lemma demo_total: "OnEnabledEnc demo_eng 0 s \<noteq> None"
  by (simp add: OnEnabledEnc_def Refresh_def LoadConfigFile_def LoadNotifications_def
      Let_def split: if_splits)

lemma key_exchange_run:
  "\<exists>t. HandleKeyExchange demo_eng 0 bridge_key demo_connected = Some (True, t)"
proof -
  have sm: "get_TKeyExchange bridge_key 0 = Some (TKeyExchange_new
     \<lparr>TKeyExchange_header := HEADER_SM_KEY_EXCHANGE, TKeyExchange_size := 32\<rparr>)"
    using get_TKeyExchange_ser [of "[]"] by (simp add: bridge_key_def)
  have key: "get_chars bridge_key sizeof_TKeyExchange 32 = Some (replicate 32 1)"
    by (simp add: bridge_key_def get_chars_def)
  obtain buffer where b: "key_exchange_packet demo_eng (replicate 32 0) = Some buffer"
    "buffer \<noteq> []" "hd buffer \<noteq> 0"
  proof -
    let ?p = "TKeyExchange_new\<lparr>TKeyExchange_header := HEADER_MS_KEY_EXCHANGE,
      TKeyExchange_is_auth_core := g_bAuthServer demo_eng, TKeyExchange_size := 32\<rparr>"
    have "pack (of_nat sizeof_TKeyExchange + 32)
        [(ser_TKeyExchange ?p, of_nat sizeof_TKeyExchange), (replicate 32 0, 32)] =
      Some (ser_TKeyExchange ?p @ replicate 32 0)"
      by (subst pack_exact) (simp_all add: exact_def sizeof_simps)
    then show thesis
      by (intro that [of "ser_TKeyExchange ?p @ replicate 32 0"])
        (simp_all add: key_exchange_packet_def TKeyExchange_new_def ser_TKeyExchange_def)
  qed
  let ?s = "demo_connected\<lparr>key_exchange := Some demo_kx, rng := 1\<rparr>"
  have "IsConnected ?s" "crypto ?s = None" by (simp_all add: demo_connected_def IsConnected_def)
  then obtain v d where v: "mSend demo_eng buffer False ?s = (SUCCESS, d, v)"
    using b(2,3) by (simp add: Send_eq wire_form_def)
  note f = Send_frame [OF v]
  obtain t where "session_enable_encryption demo_ssl (OnEnabledEnc demo_eng 0) (replicate 32 1) v = Some (True, t)"
    using demo_enable [of v "OnEnabledEnc demo_eng 0"] demo_total f by (auto simp: demo_connected_def)
  moreover have "SendPacket demo_eng 0 buffer False ?s = (True, v)" using v b(2) by (simp add: SendPacket_def)
  moreover have "ssl demo_eng = demo_ssl" by (simp add: demo_eng_def)
  ultimately show ?thesis
    by (simp add: HandleKeyExchange_def sm key demo_public_key b TKeyExchange_new_def)
qed

lemma key_exchange_done_witness:
  "\<exists>t c ds buffer. HandleKeyExchange demo_eng 0 bridge_key demo_connected = Some (True, t) \<and>
     crypto t = Some c \<and> is_encrypted t \<and> write_queue t = last_n MAX_WRITE_QUEUE_SIZE (buffer # ds)"
proof -
  have inv: "net_inv demo_connected" "\<not> is_encrypted demo_connected"
    by (simp_all add: demo_connected_def net_inv_def)
  obtain t where t: "HandleKeyExchange demo_eng 0 bridge_key demo_connected = Some (True, t)"
    using key_exchange_run by blast
  have "write_queue demo_connected = []" by (simp add: demo_connected_def)
  then show ?thesis using key_exchange_done [OF inv t] t by auto
qed

end
