(* ===== verification/Game_Characters.thy ===== *)
theory Game_Characters
  imports Shop_Manager
begin

text \<open>
  What the repository shows of the game's characters (\<open>game.src/char.cpp\<close>, \<open>char_battle.cpp\<close>,
  \<open>char_change_empire.cpp\<close>, \<open>sectree_manager.cpp\<close>): what a character that stands for a mobile device
  may do, how it is brought to safety when it is killed, and what the bridge is told. As in
  \<open>Shop_Manager\<close> the passages the files leave out are entered under a number and return or go on. The
  member \<open>can_mobi_warp\<close> of a character is the field \<open>d_can_mobi_warp\<close> of its connection; characters
  without a connection never read it.
\<close>

definition passage :: "engine \<Rightarrow> nat \<Rightarrow> (mobi \<Rightarrow> mobi option) \<Rightarrow> mobi \<Rightarrow> mobi option" where
  "passage eng n k s =
     (let s = call_engine (GameCall ''passage'' [of_nat n]) s in
      case ellipsis (shop eng) n of Some _ \<Rightarrow> Some s | None \<Rightarrow> k s)"

definition return' :: "mobi \<Rightarrow> mobi option" where
  "return' s = Some s"

definition game_call :: "string \<Rightarrow> u32 list \<Rightarrow> (mobi \<Rightarrow> mobi option) \<Rightarrow> mobi \<Rightarrow> mobi option" where
  "game_call f xs k s = k (call_engine (GameCall f xs) s)"

text \<open>A send function whose result nobody looks at.\<close>

definition tell :: "(mobi \<Rightarrow> (bool \<times> mobi) option) \<Rightarrow> (mobi \<Rightarrow> mobi option) \<Rightarrow> mobi \<Rightarrow> mobi option" where
  "tell send k s = do { (_, s) \<leftarrow> send s; k s }"

subsection \<open>Characters and the map\<close>

datatype char_position = POS_DEAD | POS_STANDING | POS_ANY

record CHARACTER =
  ch_pid :: u32
  ch_name :: bytes
  ch_handle :: "u32 option"
  ch_is_pc :: bool
  ch_is_monster :: bool
  ch_race :: u32
  m_destroyed :: bool
  ch_map :: int
  ch_x :: int
  ch_y :: int
  ch_hp :: int
  ch_max_hp :: int
  ch_pos :: char_position
  ch_empire :: u8
  ch_job :: u8
  ch_level :: int
  bBlockMode :: u8
  aff_mobile :: bool

text \<open>
  The map of sectors. \<open>around_x i x\<close> is the sum of \<open>x\<close> and the \<open>i\<close>-th entry of \<open>aArroundCoords\<close>, whose
  type is not part of the repository; \<open>core_at\<close> is the core a place belongs to.
\<close>

record sectrees =
  has_tree :: "int \<Rightarrow> int \<Rightarrow> int \<Rightarrow> bool"
  IsAttr :: "int \<Rightarrow> int \<Rightarrow> int \<Rightarrow> u32 \<Rightarrow> bool"
  ATTR_BLOCK :: u32
  ATTR_OBJECT :: u32
  ATTR_BANPK :: u32
  ARROUND_COORD_MAX_NUM :: nat
  around_x :: "nat \<Rightarrow> u32 \<Rightarrow> int"
  around_y :: "nat \<Rightarrow> u32 \<Rightarrow> int"
  core_at :: "int \<Rightarrow> int \<Rightarrow> u32 \<times> u16"

definition GetCoordsOfSafeArea :: "sectrees \<Rightarrow> int \<Rightarrow> u32 \<Rightarrow> u32 \<Rightarrow> (int \<times> int) option" where
  "GetCoordsOfSafeArea sm map_idx related_x related_y =
     map_option (\<lambda>i. (around_x sm i related_x, around_y sm i related_y))
       (find (\<lambda>i. let dx = around_x sm i related_x; dy = around_y sm i related_y in
                has_tree sm map_idx dx dy \<and> IsAttr sm map_idx dx dy (ATTR_BANPK sm))
          [0..<max 1 (ARROUND_COORD_MAX_NUM sm)])"

definition IsAttackablePosition :: "sectrees \<Rightarrow> int \<Rightarrow> int \<Rightarrow> int \<Rightarrow> bool" where
  "IsAttackablePosition sm map_idx x y =
     (if \<not> has_tree sm map_idx x y then False
      else \<not> IsAttr sm map_idx x y (ATTR_BLOCK sm OR ATTR_OBJECT sm OR ATTR_BANPK sm))"

text \<open>\<open>desc && desc->is_mobile_request\<close>.\<close>

definition ch_mobile :: "CHARACTER \<Rightarrow> mobi \<Rightarrow> bool option" where
  "ch_mobile ch s = (case ch_handle ch of None \<Rightarrow> Some False
     | Some h \<Rightarrow> map_option d_is_mobile_request (FindByHandle s h))"

subsection \<open>Moving\<close>

text \<open>The result of \<open>WarpSet\<close> is not used by the code of the repository and is left out.\<close>

definition WarpSet ::
  "engine \<Rightarrow> time \<Rightarrow> sectrees \<Rightarrow> CHARACTER \<Rightarrow> int \<Rightarrow> int \<Rightarrow> mobi \<Rightarrow> mobi option" where
  "WarpSet eng now sm ch x y s =
     (if \<not> ch_is_pc ch then Some s
      else do {
        mobile \<leftarrow> ch_mobile ch s;
        allowed \<leftarrow> (case ch_handle ch of None \<Rightarrow> Some True
                    | Some h \<Rightarrow> map_option d_can_mobi_warp (FindByHandle s h));
        if mobile \<and> \<not> allowed then Some s
        else passage eng 40 (\<lambda>s.
          if mobile
          then (let (lAddr, wPort) = core_at sm x y in SendMobiWarp eng now (ch_handle ch) lAddr wPort s)
          else passage eng 41 (\<lambda>s. do {
            h \<leftarrow> ch_handle ch;
            DESC_Packet h (bytes_of ''TPacketGCWarp'') s }) s) s })"

definition GoToSafePosition ::
  "engine \<Rightarrow> time \<Rightarrow> sectrees \<Rightarrow> CHARACTER \<Rightarrow> mobi \<Rightarrow> (CHARACTER \<times> mobi) option" where
  "GoToSafePosition eng now sm ch s =
     (case ch_handle ch of
        None \<Rightarrow> Some (ch, s)
      | Some h \<Rightarrow> do {
          d \<leftarrow> FindByHandle s h;
          if \<not> d_is_mobile_request d then Some (ch, s)
          else if \<not> d_can_mobi_warp d then Some (ch, s)
          else if \<not> IsAttackablePosition sm (ch_map ch) (ch_x ch) (ch_y ch) then Some (ch, s)
          else
            let ch = ch\<lparr>ch_hp := ch_max_hp ch, ch_pos := POS_STANDING\<rparr> in
            (case GetCoordsOfSafeArea sm (ch_map ch) (of_int (ch_x ch)) (of_int (ch_y ch)) of
               Some (x, y) \<Rightarrow> map_option (Pair ch) (WarpSet eng now sm ch x y s)
             | None \<Rightarrow> Some (ch, call_engine (GameCall ''GoHome'' [ch_pid ch]) s)) })"

text \<open>The block before the first passage of \<open>Dead\<close>.\<close>

definition revive_mobile ::
  "engine \<Rightarrow> time \<Rightarrow> sectrees \<Rightarrow> CHARACTER \<Rightarrow> mobi \<Rightarrow> (CHARACTER \<times> mobi) option" where
  "revive_mobile eng now sm ch s =
     (case ch_handle ch of
        None \<Rightarrow> Some (ch, s)
      | Some h \<Rightarrow> do {
          d \<leftarrow> FindByHandle s h;
          if \<not> d_is_mobile_request d then Some (ch, s)
          else do {
            (ch, s) \<leftarrow> GoToSafePosition eng now sm ch (upd_desc h (\<lambda>d. d\<lparr>d_can_mobi_warp := True\<rparr>) s);
            Some (ch, upd_desc h (\<lambda>d. d\<lparr>d_can_mobi_warp := False\<rparr>) s) } })"

definition Dead ::
  "engine \<Rightarrow> time \<Rightarrow> sectrees \<Rightarrow> CHARACTER option \<Rightarrow> CHARACTER \<Rightarrow> mobi \<Rightarrow> (CHARACTER \<times> mobi) option" where
  "Dead eng now sm pkKiller ch s = do {
     (ch, s) \<leftarrow> revive_mobile eng now sm ch s;
     let s = call_engine (GameCall ''passage'' [42]) s;
     (case ellipsis (shop eng) 42 of
        Some _ \<Rightarrow> Some (ch, s)
      | None \<Rightarrow> do {
          s \<leftarrow> (case pkKiller of
                  Some k \<Rightarrow> if ch_is_pc k \<and> ch_is_monster ch
                            then tell (sendKill eng now (ch_pid k) (ch_race ch)) return' s
                            else Some s
                | None \<Rightarrow> Some s);
          Some (ch\<lparr>ch_pos := POS_DEAD\<rparr>, s) }) }"

text \<open>\<open>killed\<close> is what the passage that is left out returns.\<close>

definition Damage ::
  "engine \<Rightarrow> bool \<Rightarrow> CHARACTER option \<Rightarrow> CHARACTER \<Rightarrow> mobi \<Rightarrow> (bool \<times> mobi) option" where
  "Damage eng killed pAttacker ch s = do {
     mobile \<leftarrow> ch_mobile ch s;
     if mobile
     then Some (False, case pAttacker of
            Some a \<Rightarrow> call_engine (GameCall ''SendDamagePacket'' [ch_pid a, 0]) s
          | None \<Rightarrow> s)
     else Some (killed, call_engine (GameCall ''passage'' [43]) s) }"

subsection \<open>Telling the bridge\<close>

definition Destroy :: "engine \<Rightarrow> time \<Rightarrow> CHARACTER \<Rightarrow> mobi \<Rightarrow> (CHARACTER \<times> mobi) option" where
  "Destroy eng now ch s =
     (if m_destroyed ch then Some (ch, s)
      else
        let ch = ch\<lparr>m_destroyed := True\<rparr>;
            rest = game_call ''CloseMyShop'' [ch_pid ch] (passage eng 44 return')
        in map_option (Pair ch)
             (if ch_is_pc ch then tell (sendLogout eng now (ch_pid ch)) rest s else rest s))"

text \<open>
  \<open>Disconnect\<close>: what is done for a player only is skipped for a character without a connection, too.
  \<open>real\<close> is \<open>ch_desc && !ch_desc->is_mobile_request\<close>; whether there is an arena, a party or a guild to
  leave is the game's business.
\<close>

definition real_player :: "CHARACTER \<Rightarrow> mobi \<Rightarrow> bool option" where
  "real_player ch s = (case ch_handle ch of None \<Rightarrow> Some False
     | Some h \<Rightarrow> map_option (\<lambda>d. \<not> d_is_mobile_request d) (FindByHandle s h))"

definition only_real :: "bool \<Rightarrow> string list \<Rightarrow> CHARACTER \<Rightarrow> (mobi \<Rightarrow> mobi option) \<Rightarrow> mobi \<Rightarrow> mobi option" where
  "only_real real fs ch k s =
     k (if real then fold (\<lambda>f. call_engine (GameCall f [ch_pid ch])) fs s else s)"

definition disconnect_rest :: "engine \<Rightarrow> bool \<Rightarrow> CHARACTER \<Rightarrow> mobi \<Rightarrow> mobi option" where
  "disconnect_rest eng real ch =
     only_real real [''Arena'', ''Party'', ''marriage Logout''] ch (passage eng 46 (
     only_real real [''LogoutMember''] ch (game_call ''LogoutPC'' [ch_pid ch] (
     only_real real [''Unlink''] ch (passage eng 47 (game_call ''CloseMall'' [ch_pid ch] (
     only_real real [''PVP Disconnect''] ch (game_call ''Target Logout'' [ch_pid ch] (\<lambda>s.
       passage eng 48 return' 
         (if real then with_messenger (Messenger.Logout (FindPC eng) (ch_name ch)) s else s))))))))))"

definition Disconnect_ch :: "engine \<Rightarrow> CHARACTER \<Rightarrow> mobi \<Rightarrow> mobi option" where
  "Disconnect_ch eng ch s =
     passage eng 45 (\<lambda>s. do {
       real \<leftarrow> real_player ch s;
       disconnect_rest eng real ch s }) s"

definition ChangeSex :: "engine \<Rightarrow> time \<Rightarrow> CHARACTER \<Rightarrow> mobi \<Rightarrow> mobi option" where
  "ChangeSex eng now ch s =
     passage eng 49 (\<lambda>s. if ch_is_pc ch then tell (sendChangeSex eng now (ch_pid ch) (ch_job ch)) return' s
                         else Some s) s"

definition SetRace :: "u8 \<Rightarrow> CHARACTER \<Rightarrow> CHARACTER" where
  "SetRace race ch = ch\<lparr>ch_job := race\<rparr>"

definition SetEmpire :: "engine \<Rightarrow> time \<Rightarrow> u8 \<Rightarrow> CHARACTER \<Rightarrow> mobi \<Rightarrow> (CHARACTER \<times> mobi) option" where
  "SetEmpire eng now bEmpire ch s =
     (let ch = ch\<lparr>ch_empire := bEmpire\<rparr> in
      map_option (Pair ch)
        (if ch_is_pc ch then tell (sendChangeEmpire eng now (ch_pid ch) bEmpire) return' s else Some s))"

definition ChangeEmpire :: "engine \<Rightarrow> time \<Rightarrow> u8 \<Rightarrow> CHARACTER \<Rightarrow> mobi \<Rightarrow> mobi option" where
  "ChangeEmpire eng now empire ch s =
     (if ch_empire ch = empire then Some s
      else tell (sendChangeEmpire eng now (ch_pid ch) empire) (passage eng 50 return') s)"

definition SetPlayerProto :: "CHARACTER \<Rightarrow> mobi \<Rightarrow> CHARACTER option" where
  "SetPlayerProto ch s = do {
     mobile \<leftarrow> ch_mobile ch s;
     Some (if mobile then ch\<lparr>aff_mobile := True\<rparr> else ch) }"

text \<open>The case \<open>POINT_LEVEL\<close>; the passage before it has set the level.\<close>

definition PointChange_level :: "engine \<Rightarrow> time \<Rightarrow> CHARACTER \<Rightarrow> mobi \<Rightarrow> mobi option" where
  "PointChange_level eng now ch s =
     passage eng 51 (tell (sendLevelPacket eng now (ch_pid ch) (of_int (ch_level ch))) (passage eng 52 return')) s"

text \<open>The connection is not checked before it is used.\<close>

definition SetBlockModeForce :: "u8 \<Rightarrow> CHARACTER \<Rightarrow> mobi \<Rightarrow> CHARACTER option" where
  "SetBlockModeForce bFlag ch s = do {
     h \<leftarrow> ch_handle ch;
     d \<leftarrow> FindByHandle s h;
     Some (if d_is_mobile_request d then ch else ch\<lparr>bBlockMode := bFlag\<rparr>) }"

subsection \<open>A killed character of a device\<close>

text \<open>The search takes the first place around that is safe.\<close>

definition safe_at :: "sectrees \<Rightarrow> int \<Rightarrow> u32 \<Rightarrow> u32 \<Rightarrow> nat \<Rightarrow> bool" where
  "safe_at sm map_idx x y i \<longleftrightarrow> has_tree sm map_idx (around_x sm i x) (around_y sm i y) \<and>
     IsAttr sm map_idx (around_x sm i x) (around_y sm i y) (ATTR_BANPK sm)"

lemma safe_area_Some:
  "GetCoordsOfSafeArea sm map_idx x y = Some p \<longleftrightarrow>
   (\<exists>i < max 1 (ARROUND_COORD_MAX_NUM sm). safe_at sm map_idx x y i \<and>
      (\<forall>j < i. \<not> safe_at sm map_idx x y j) \<and> p = (around_x sm i x, around_y sm i y))"
proof -
  have f: "find P [0..<n] = Some i \<longleftrightarrow> i < n \<and> P i \<and> (\<forall>j < i. \<not> P j)" for P and n i :: nat
    by (auto simp: find_Some_iff)
  have "GetCoordsOfSafeArea sm map_idx x y = Some p \<longleftrightarrow>
      (\<exists>i. find (safe_at sm map_idx x y) [0..<max 1 (ARROUND_COORD_MAX_NUM sm)] = Some i \<and>
         p = (around_x sm i x, around_y sm i y))"
    by (auto simp: GetCoordsOfSafeArea_def safe_at_def [abs_def] Let_def)
  then show ?thesis by (simp only: f) blast
qed

lemma SendMobiWarp_entry:
  assumes inv: "char_inv s" and m: "lookup (mobi_descs s) pid = Some m" "mch_handle_id m = h"
    and d: "FindByHandle s h = Some d" "d_is_mobile_request d" and core: "\<not> g_bAuthServer eng"
  shows "SendMobiWarp eng now (Some h) addr port s =
     Some (call_engine (DBMobiWarp pid (d_login_key d) addr port) (upd_desc h (\<lambda>d. d\<lparr>d_last_activity := now\<rparr>) s))"
proof -
  let ?u = "upd_desc h (\<lambda>d. d\<lparr>d_last_activity := now\<rparr>) s"
  have "MobiGetByHandleID ?u h = Some m"
    using MobiGet_entry [OF inv m(1)] m(2) by (simp add: MobiGetByHandleID_def)
  moreover have "li_pid (mch_info m) = pid" using inv m(1) by (simp add: char_inv_def)
  ultimately show ?thesis using d core by (simp add: SendMobiWarp_def Let_def)
qed


definition demo_map :: sectrees where
  "demo_map = \<lparr>has_tree = (\<lambda>m x y. True), IsAttr = (\<lambda>m x y a. x = 5 \<and> (a AND 4) \<noteq> 0), ATTR_BLOCK = 1,
     ATTR_OBJECT = 2, ATTR_BANPK = 4, ARROUND_COORD_MAX_NUM = 9, around_x = (\<lambda>i x. int i + uint x),
     around_y = (\<lambda>i y. uint y), core_at = (\<lambda>x y. (99, 13))\<rparr>"

definition demo_player :: CHARACTER where
  "demo_player = \<lparr>ch_pid = 7, ch_name = bytes_of ''anna'', ch_handle = Some 1, ch_is_pc = True,
     ch_is_monster = False, ch_race = 0, m_destroyed = False, ch_map = 1, ch_x = 2, ch_y = 2, ch_hp = 0,
     ch_max_hp = 100, ch_pos = POS_ANY, ch_empire = 1, ch_job = 0, ch_level = 10, bBlockMode = 0,
     aff_mobile = True\<rparr>"

lemma demo_safe: "GetCoordsOfSafeArea demo_map 1 2 2 = Some (5, 2)"
  by (subst safe_area_Some, rule exI [of _ 3])
    (auto simp: safe_at_def demo_map_def)


end
