(* ===== verification/Db_Manager.thy ===== *)
theory Db_Manager
  imports Char_Manager
begin

text \<open>
  The data base server's part in moving a character between cores
  (\<open>server/db.src/ClientManager.cpp\<close>, the structures in \<open>server/common/tables.h\<close>). A peer is a core's
  connection to the server; its number stands for the pointer. What is encoded into a peer's buffer
  is appended to \<open>peer_out\<close>. \<open>GetUserCount\<close>'s type is not part of the repository and is a parameter,
  with \<open>numeric_limits::max\<close> its \<open>top\<close>; so is \<open>trim_and_lower\<close>, which fills an array of the given
  length.
\<close>

subsection \<open>The structures on the wire\<close>

definition HEADER_GD_MOBI_LOGIN :: u8 where "HEADER_GD_MOBI_LOGIN = 249"
definition HEADER_GD_MOBI_WARP :: u8 where "HEADER_GD_MOBI_WARP = 250"
definition HEADER_DG_MOBI_LOGIN :: u8 where "HEADER_DG_MOBI_LOGIN = 249"
definition HEADER_DG_MOBI_LOGOUT :: u8 where "HEADER_DG_MOBI_LOGOUT = 250"

record TMobiGD =
  gd_pid :: u32
  gd_login_key :: u32

definition ser_TMobiGD :: "TMobiGD \<Rightarrow> bytes" where
  "ser_TMobiGD p = le32 (gd_pid p) @ le32 (gd_login_key p)"

definition get_TMobiGD :: "bytes \<Rightarrow> nat \<Rightarrow> TMobiGD option" where
  "get_TMobiGD d i = do {
     pid \<leftarrow> get_u32 d i;
     key \<leftarrow> get_u32 d (i + 4);
     Some \<lparr>gd_pid = pid, gd_login_key = key\<rparr> }"

record TMobiGDWarp =
  gw_info :: TMobiGD
  gw_addr :: u32
  gw_port :: u16

definition ser_TMobiGDWarp :: "TMobiGDWarp \<Rightarrow> bytes" where
  "ser_TMobiGDWarp p = ser_TMobiGD (gw_info p) @ le32 (gw_addr p) @ le16 (gw_port p)"

definition get_TMobiGDWarp :: "bytes \<Rightarrow> TMobiGDWarp option" where
  "get_TMobiGDWarp d = do {
     info \<leftarrow> get_TMobiGD d 0;
     addr \<leftarrow> get_u32 d 8;
     port \<leftarrow> get_u16 d 12;
     Some \<lparr>gw_info = info, gw_addr = addr, gw_port = port\<rparr> }"

text \<open>\<open>n\<close> is \<open>LOGIN_MAX_LEN\<close>; the array \<open>login\<close> has one element more.\<close>

definition ser_TMobiDGLogin :: "TMobiDGLogin \<Rightarrow> bytes" where
  "ser_TMobiDGLogin p = le32 (dg_pid p) @ le32 (dg_login_key p) @ dg_login p"

definition get_TMobiDGLogin :: "nat \<Rightarrow> bytes \<Rightarrow> TMobiDGLogin option" where
  "get_TMobiDGLogin n d = do {
     pid \<leftarrow> get_u32 d 0;
     key \<leftarrow> get_u32 d 4;
     login \<leftarrow> get_chars d 8 (n + 1);
     Some \<lparr>dg_pid = pid, dg_login_key = key, dg_login = login\<rparr> }"

definition ser_TMobiDGLogout :: "u32 \<Rightarrow> bytes" where
  "ser_TMobiDGLogout pid = le32 pid"

definition get_TMobiDGLogout :: "bytes \<Rightarrow> u32 option" where
  "get_TMobiDGLogout d = get_u32 d 0"

lemma get_TMobiGD_ser [simp]: "get_TMobiGD (ser_TMobiGD p @ ys) 0 = Some p"
proof -
  have "get_u32 (le32 (gd_pid p) @ le32 (gd_login_key p) @ ys) 4 = Some (gd_login_key p)"
    using get_u32_at [of "le32 (gd_pid p)" "gd_login_key p" ys] by simp
  then show ?thesis
    using get_u32_at [of "[]" "gd_pid p"] by (simp add: get_TMobiGD_def ser_TMobiGD_def)
qed

lemma length_ser_TMobiGD [simp]: "length (ser_TMobiGD p) = 8"
  by (simp add: ser_TMobiGD_def)

lemma get_TMobiGDWarp_ser [simp]: "get_TMobiGDWarp (ser_TMobiGDWarp p) = Some p"
proof -
  have "get_u32 (ser_TMobiGD (gw_info p) @ le32 (gw_addr p) @ le16 (gw_port p)) 8 = Some (gw_addr p)"
    using get_u32_at [of "ser_TMobiGD (gw_info p)" "gw_addr p"] by simp
  moreover have "get_u16 ((ser_TMobiGD (gw_info p) @ le32 (gw_addr p)) @ le16 (gw_port p) @ []) 12 =
      Some (gw_port p)"
    using get_u16_at [of "ser_TMobiGD (gw_info p) @ le32 (gw_addr p)" "gw_port p" "[]"] by simp
  ultimately show ?thesis by (simp add: get_TMobiGDWarp_def ser_TMobiGDWarp_def)
qed

lemma get_TMobiDGLogin_ser [simp]:
  "length (dg_login p) = n + 1 \<Longrightarrow> get_TMobiDGLogin n (ser_TMobiDGLogin p) = Some p"
proof -
  assume n: "length (dg_login p) = n + 1"
  have "get_u32 (le32 (dg_pid p) @ le32 (dg_login_key p) @ dg_login p) 4 = Some (dg_login_key p)"
    using get_u32_at [of "le32 (dg_pid p)" "dg_login_key p"] by simp
  then show ?thesis
    using n get_u32_at [of "[]" "dg_pid p"]
    by (simp add: get_TMobiDGLogin_def ser_TMobiDGLogin_def get_chars_def)
qed

lemma get_TMobiDGLogout_ser [simp]: "get_TMobiDGLogout (ser_TMobiDGLogout pid) = Some pid"
  using get_u32_at [of "[]" pid "[]"] by (simp add: get_TMobiDGLogout_def ser_TMobiDGLogout_def)

subsection \<open>The server\<close>

record 'n CPeer =
  peer_id :: nat
  GetChannel :: u8
  GetUserCount :: 'n
  GetInetAddr :: u32
  GetListenPort :: u16

text \<open>\<open>GetLoginData\<close>: the login of the account the key belongs to.\<close>

record 'n CClientManager =
  m_peerList :: "'n CPeer option list"
  m_pkAuthPeer :: "nat option"
  GetLoginData :: "u32 \<Rightarrow> bytes option"
  peer_out :: "(nat \<times> u8 \<times> u32 \<times> bytes) list"

text \<open>\<open>EncodeHeader\<close>, then \<open>Encode\<close>.\<close>

definition Encode :: "nat \<Rightarrow> u8 \<Rightarrow> bytes \<Rightarrow> 'n CClientManager \<Rightarrow> 'n CClientManager" where
  "Encode target header data m = m\<lparr>peer_out := peer_out m @ [(target, header, 0, data)]\<rparr>"

definition SendMobiDGLogin ::
  "(bytes \<Rightarrow> nat \<Rightarrow> bytes) \<Rightarrow> nat \<Rightarrow> nat \<Rightarrow> bytes \<Rightarrow> TMobiGD \<Rightarrow> 'n CClientManager \<Rightarrow> 'n CClientManager" where
  "SendMobiDGLogin trim_and_lower login_max target login info m =
     (let res = \<lparr>dg_pid = gd_pid info, dg_login_key = gd_login_key info,
                 dg_login = trim_and_lower login (login_max + 1)\<rparr>
      in Encode target HEADER_DG_MOBI_LOGIN (ser_TMobiDGLogin res) m)"

definition SendMobiDGLogout :: "nat \<Rightarrow> u32 \<Rightarrow> 'n CClientManager \<Rightarrow> 'n CClientManager" where
  "SendMobiDGLogout target pid m = Encode target HEADER_DG_MOBI_LOGOUT (ser_TMobiDGLogout pid) m"

text \<open>One round of the loop over the peers; the state is \<open>min_online\<close> and \<open>found\<close>.\<close>

definition avail_step ::
  "nat option \<Rightarrow> 'n::linorder \<times> 'n CPeer option \<Rightarrow> 'n CPeer option \<Rightarrow> 'n \<times> 'n CPeer option" where
  "avail_step auth = (\<lambda>(min_online, found) peer.
     (case peer of
        None \<Rightarrow> (min_online, found)
      | Some p \<Rightarrow>
          if auth = Some (peer_id p) then (min_online, found)
          else let channel = GetChannel p in
            if channel = 0 \<or> channel = 99 then (min_online, found)
            else let current = GetUserCount p in
              if current \<le> min_online then (current, Some p) else (min_online, found)))"

definition GetMostAvailCore :: "('n::{linorder,order_top}) CClientManager \<Rightarrow> 'n CPeer option" where
  "GetMostAvailCore m =
     (if m_peerList m = [] then None
      else snd (foldl (avail_step (m_pkAuthPeer m)) (top, None) (m_peerList m)))"

definition MobiLogin ::
  "(bytes \<Rightarrow> nat \<Rightarrow> bytes) \<Rightarrow> nat \<Rightarrow> nat option \<Rightarrow> bytes \<Rightarrow> ('n::{linorder,order_top}) CClientManager \<Rightarrow>
   'n CClientManager option" where
  "MobiLogin trim_and_lower login_max pr data m =
     (case pr of
        None \<Rightarrow> Some m
      | Some pr \<Rightarrow> do {
          pack \<leftarrow> get_TMobiGD data 0;
          (case GetLoginData m (gd_login_key pack) of
             None \<Rightarrow> Some m
           | Some login \<Rightarrow>
               (case GetMostAvailCore m of
                  None \<Rightarrow> Some m
                | Some found_peer \<Rightarrow>
                    let m = SendMobiDGLogout pr (gd_pid pack) m in
                    Some (SendMobiDGLogin trim_and_lower login_max (peer_id found_peer) login pack m))) })"

text \<open>
  When no peer has the address the error is logged with a number for \<open>%s\<close>, which is undefined.
\<close>

definition MobiWarp ::
  "(bytes \<Rightarrow> nat \<Rightarrow> bytes) \<Rightarrow> nat \<Rightarrow> nat option \<Rightarrow> bytes \<Rightarrow> 'n CClientManager \<Rightarrow> 'n CClientManager option" where
  "MobiWarp trim_and_lower login_max pr data m =
     (case pr of
        None \<Rightarrow> Some m
      | Some pr \<Rightarrow> do {
          pack \<leftarrow> get_TMobiGDWarp data;
          let info = gw_info pack;
          (case GetLoginData m (gd_login_key info) of
             None \<Rightarrow> Some m
           | Some login \<Rightarrow>
               (case find (\<lambda>p. GetInetAddr p = gw_addr pack \<and> GetListenPort p = gw_port pack)
                       (List.map_filter id (m_peerList m)) of
                  None \<Rightarrow> None
                | Some target \<Rightarrow>
                    let m = SendMobiDGLogout pr (gd_pid info) m in
                    Some (SendMobiDGLogin trim_and_lower login_max (peer_id target) login info m))) })"

text \<open>The two cases of the switch; the others are not part of the repository.\<close>

definition ProcessPackets ::
  "(bytes \<Rightarrow> nat \<Rightarrow> bytes) \<Rightarrow> nat \<Rightarrow> nat \<Rightarrow> u8 \<Rightarrow> bytes \<Rightarrow> ('n::{linorder,order_top}) CClientManager \<Rightarrow>
   'n CClientManager option" where
  "ProcessPackets trim_and_lower login_max peer header data m =
     (if header = HEADER_GD_MOBI_LOGIN then MobiLogin trim_and_lower login_max (Some peer) data m
      else if header = HEADER_GD_MOBI_WARP then MobiWarp trim_and_lower login_max (Some peer) data m
      else Some m)"

subsection \<open>The core that is chosen\<close>

definition eligible :: "nat option \<Rightarrow> 'n CPeer \<Rightarrow> bool" where
  "eligible auth p \<longleftrightarrow> auth \<noteq> Some (peer_id p) \<and> GetChannel p \<noteq> 0 \<and> GetChannel p \<noteq> 99"

lemma avail_step_eq:
  "avail_step auth (k, f) peer =
     (case peer of Some p \<Rightarrow> if eligible auth p \<and> GetUserCount p \<le> k then (GetUserCount p, Some p) else (k, f)
      | None \<Rightarrow> (k, f))"
  by (auto simp: avail_step_def eligible_def Let_def split: option.split)

text \<open>What the loop keeps: nothing eligible was seen, or the last one with the fewest users is found.\<close>

definition best :: "nat option \<Rightarrow> ('n::{linorder,order_top}) CPeer option list \<Rightarrow> 'n CPeer option \<Rightarrow> bool" where
  "best auth ps f = (case f of
     None \<Rightarrow> \<forall>q. Some q \<in> set ps \<longrightarrow> \<not> eligible auth q
   | Some p \<Rightarrow> \<exists>as bs. ps = as @ Some p # bs \<and> eligible auth p \<and>
       (\<forall>q. Some q \<in> set as \<longrightarrow> eligible auth q \<longrightarrow> GetUserCount p \<le> GetUserCount q) \<and>
       (\<forall>q. Some q \<in> set bs \<longrightarrow> eligible auth q \<longrightarrow> GetUserCount p < GetUserCount q))"

lemma bestI:
  "ps = as @ Some p # bs \<Longrightarrow> eligible auth p \<Longrightarrow>
   (\<And>q. Some q \<in> set as \<Longrightarrow> eligible auth q \<Longrightarrow> GetUserCount p \<le> GetUserCount q) \<Longrightarrow>
   (\<And>q. Some q \<in> set bs \<Longrightarrow> eligible auth q \<Longrightarrow> GetUserCount p < GetUserCount q) \<Longrightarrow>
   best auth ps (Some p)"
  by (auto simp: best_def)

lemma best_step:
  assumes "best auth ps f" and k: "k = (case f of Some p \<Rightarrow> GetUserCount p | None \<Rightarrow> top)"
    and step: "avail_step auth (k, f) x = (k', f')"
  shows "best auth (ps @ [x]) f' \<and> k' = (case f' of Some p \<Rightarrow> GetUserCount p | None \<Rightarrow> top)"
proof (cases "\<exists>p. x = Some p \<and> eligible auth p \<and> GetUserCount p \<le> k")
  case True
  then obtain p where p: "x = Some p" "eligible auth p" "GetUserCount p \<le> k" by blast
  then have new: "k' = GetUserCount p" "f' = Some p" using step by (simp_all add: avail_step_eq)
  have "GetUserCount p \<le> GetUserCount q" if "Some q \<in> set ps" "eligible auth q" for q
  proof (cases f)
    case None
    then show ?thesis using assms(1) that by (auto simp: best_def)
  next
    case (Some o')
    then have "GetUserCount o' \<le> GetUserCount q"
      using assms(1) that by (fastforce simp: best_def intro: less_imp_le)
    then show ?thesis using p(3) k Some by simp
  qed
  then have "best auth (ps @ [x]) (Some p)" using p by (intro bestI [of _ ps _ "[]"]) auto
  then show ?thesis using new by simp
next
  case False
  then have same: "k' = k" "f' = f" using step by (auto simp: avail_step_eq split: option.splits if_splits)
  show ?thesis
  proof (cases f)
    case None
    then have "\<not> eligible auth q" if "x = Some q" for q using False k that by auto
    then show ?thesis using assms(1) None same k by (auto simp: best_def)
  next
    case (Some p)
    then obtain as bs where ab: "ps = as @ Some p # bs" "eligible auth p"
      "\<forall>q. Some q \<in> set as \<longrightarrow> eligible auth q \<longrightarrow> GetUserCount p \<le> GetUserCount q"
      "\<forall>q. Some q \<in> set bs \<longrightarrow> eligible auth q \<longrightarrow> GetUserCount p < GetUserCount q"
      using assms(1) by (auto simp: best_def)
    have "GetUserCount p < GetUserCount q" if "x = Some q" "eligible auth q" for q
      using False k Some that by auto
    then have "best auth (ps @ [x]) f"
      unfolding Some using ab by (intro bestI [of _ as _ "bs @ [x]"]) auto
    then show ?thesis using same k by simp
  qed
qed

lemma best_fold:
  "foldl (avail_step auth) (top, None) ps = (k, f) \<Longrightarrow>
   best auth ps f \<and> k = (case f of Some p \<Rightarrow> GetUserCount p | None \<Rightarrow> top)"
proof (induction ps arbitrary: k f rule: rev_induct)
  case Nil
  then show ?case by (simp add: best_def)
next
  case (snoc x ps)
  obtain k0 f0 where "foldl (avail_step auth) (top, None) ps = (k0, f0)" by fastforce
  with snoc best_step [of auth ps f0 k0 x k f] show ?case by simp
qed

lemma best_found: "GetMostAvailCore m = f \<Longrightarrow> best (m_pkAuthPeer m) (m_peerList m) f"
  using best_fold [of "m_pkAuthPeer m" "m_peerList m"]
  by (cases "foldl (avail_step (m_pkAuthPeer m)) (top, None) (m_peerList m)")
    (auto simp: GetMostAvailCore_def best_def split: if_splits)

text \<open>
  C17. A core is found whenever there is one that is not the auth core and has a playing channel, also
  when all are full; it is one with the fewest users, and the last of those in the list.
\<close>

theorem most_available_core: "best (m_pkAuthPeer m) (m_peerList m) (GetMostAvailCore m)"
  by (rule best_found) (rule refl)

lemma most_available_Some:
  assumes "GetMostAvailCore m = Some p"
  shows "Some p \<in> set (m_peerList m)" and "m_pkAuthPeer m \<noteq> Some (peer_id p)"
  using best_found [OF assms] by (auto simp: best_def eligible_def)

subsection \<open>Requests\<close>

text \<open>
  A request is answered by the two packets of the handover, the logout to the core that asked first,
  or not at all.
\<close>

definition handover_packets ::
  "(bytes \<Rightarrow> nat \<Rightarrow> bytes) \<Rightarrow> nat \<Rightarrow> nat \<Rightarrow> nat \<Rightarrow> TMobiGD \<Rightarrow> bytes \<Rightarrow> (nat \<times> u8 \<times> u32 \<times> bytes) list" where
  "handover_packets trim login_max pr target info login =
     [(pr, HEADER_DG_MOBI_LOGOUT, 0, ser_TMobiDGLogout (gd_pid info)),
      (target, HEADER_DG_MOBI_LOGIN, 0, ser_TMobiDGLogin \<lparr>dg_pid = gd_pid info,
         dg_login_key = gd_login_key info, dg_login = trim login (login_max + 1)\<rparr>)]"

lemma Encode_sel [simp]:
  "m_peerList (Encode t h d m) = m_peerList m" "m_pkAuthPeer (Encode t h d m) = m_pkAuthPeer m"
  "GetLoginData (Encode t h d m) = GetLoginData m"
  "peer_out (Encode t h d m) = peer_out m @ [(t, h, 0, d)]"
  by (simp_all add: Encode_def)

lemma send_handover:
  "SendMobiDGLogin trim n target login info (SendMobiDGLogout pr (gd_pid info) m) =
     m\<lparr>peer_out := peer_out m @ handover_packets trim n pr target info login\<rparr>"
  by (simp add: SendMobiDGLogin_def SendMobiDGLogout_def handover_packets_def Encode_def Let_def)

lemma MobiLogin_packets:
  assumes "MobiLogin trim n (Some pr) data m = Some m'"
  shows "m' = m \<or> (\<exists>info login p. get_TMobiGD data 0 = Some info \<and>
     GetLoginData m (gd_login_key info) = Some login \<and> GetMostAvailCore m = Some p \<and>
     m' = m\<lparr>peer_out := peer_out m @ handover_packets trim n pr (peer_id p) info login\<rparr>)"
  using assms unfolding MobiLogin_def
  by (simp add: Let_def send_handover bind_Some_iff split: option.splits) blast+

text \<open>The peer a warp goes to.\<close>

definition warp_target :: "u32 \<Rightarrow> u16 \<Rightarrow> 'n CPeer option list \<Rightarrow> 'n CPeer option" where
  "warp_target addr port ps =
     find (\<lambda>p. GetInetAddr p = addr \<and> GetListenPort p = port) (List.map_filter id ps)"

lemma warp_target_Some:
  "warp_target addr port ps = Some p \<Longrightarrow> Some p \<in> set ps \<and> GetInetAddr p = addr \<and> GetListenPort p = port"
proof -
  assume "warp_target addr port ps = Some p"
  then have "p \<in> set (List.map_filter id ps)" "GetInetAddr p = addr \<and> GetListenPort p = port"
    unfolding warp_target_def find_Some_iff by (metis nth_mem)+
  then show ?thesis by (auto simp: List.map_filter_def)
qed

lemma MobiWarp_packets:
  assumes "MobiWarp trim n (Some pr) data m = Some m'"
  shows "m' = m \<or> (\<exists>pack login p. get_TMobiGDWarp data = Some pack \<and>
     GetLoginData m (gd_login_key (gw_info pack)) = Some login \<and>
     warp_target (gw_addr pack) (gw_port pack) (m_peerList m) = Some p \<and>
     m' = m\<lparr>peer_out := peer_out m @ handover_packets trim n pr (peer_id p) (gw_info pack) login\<rparr>)"
  using assms unfolding MobiWarp_def warp_target_def [symmetric]
  by (simp add: Let_def send_handover bind_Some_iff split: option.splits) blast+

text \<open>A request whose key is unknown, or that finds no core, is dropped: nobody is told.\<close>

lemma MobiLogin_silent:
  "get_TMobiGD data 0 = Some info \<Longrightarrow>
   GetLoginData m (gd_login_key info) = None \<or> GetMostAvailCore m = None \<Longrightarrow>
   MobiLogin trim n pr data m = Some m"
  by (auto simp: MobiLogin_def split: option.split)

end
