(* ===== verification/Game_Login.thy ===== *)
theory Game_Login
  imports Game_Characters Db_Manager
begin

text \<open>
  The way of a character of a mobile device through the game's input processors, as far as the
  repository shows them (\<open>input_auth.cpp\<close>, \<open>db.cpp\<close>, \<open>input_db.cpp\<close>, \<open>input_login.cpp\<close>): every check that
  refuses a login tells the device why. What is tested in a passage that is left out (a valid name, a
  full server, the row of the account) is an argument. A null connection is \<open>None\<close>.
\<close>

subsection \<open>Refusals\<close>

text \<open>\<open>d && d->is_mobile_request\<close>.\<close>

definition for_mobile :: "u32 option \<Rightarrow> mobi \<Rightarrow> bool option" where
  "for_mobile d s = (case d of None \<Rightarrow> Some False
     | Some h \<Rightarrow> map_option d_is_mobile_request (FindByHandle s h))"

text \<open>A connection that is used without a check.\<close>

definition is_mobile :: "u32 option \<Rightarrow> mobi \<Rightarrow> bool option" where
  "is_mobile d s = do { h \<leftarrow> d; map_option d_is_mobile_request (FindByHandle s h) }"

text \<open>\<open>if (d && d->is_mobile_request) NotifyStatus(d, code)\<close>.\<close>

definition notify_mobile :: "engine \<Rightarrow> time \<Rightarrow> u32 option \<Rightarrow> EMobiLoad \<Rightarrow> mobi \<Rightarrow> mobi option" where
  "notify_mobile eng now d code s = do {
     m \<leftarrow> for_mobile d s;
     if m then NotifyStatus eng now d code s else Some s }"

text \<open>\<open>CInputAuth::Login\<close>; \<open>g_bNoMoreClient\<close> is the third condition.\<close>

definition CInputAuth_Login ::
  "engine \<Rightarrow> time \<Rightarrow> bool \<Rightarrow> bool \<Rightarrow> bool \<Rightarrow> u32 option \<Rightarrow> mobi \<Rightarrow> mobi option" where
  "CInputAuth_Login eng now valid no_more already d s =
     passage eng 60 (\<lambda>s.
       if \<not> valid
       then passage eng 61 (\<lambda>s. do { s \<leftarrow> LoginFailure d s; notify_mobile eng now d ID_NOT_EXISTS s }) s
       else
         let rest = (\<lambda>s. if already
                         then do { s \<leftarrow> LoginFailure d s; notify_mobile eng now d ML_INGAME_REAL s }
                         else Some s)
         in if no_more
            then do {
              m \<leftarrow> for_mobile d s;
              if m then NotifyStatus eng now d ML_SHUTDOWN s else passage eng 62 rest s }
            else rest s) s"

text \<open>
  \<open>DBManager::AnalyzeReturnQuery\<close>, the case \<open>QID_AUTH_LOGIN\<close>. The row of the account is what the
  passages read from the answer.
\<close>

record auth_row =
  uiNumRows :: nat
  nPasswordDiff :: bool
  bNotAvail :: bool
  pinfo_login :: bytes
  CheckCorrectSocialID :: bool
  CheckShutdownAge :: bool
  CheckShutdownTime :: bool
  status_ok :: bool
  BLKLOGIN :: bool

definition auth_refusal :: "engine \<Rightarrow> DESC_MANAGER \<Rightarrow> auth_row \<Rightarrow> EMobiLoad option" where
  "auth_refusal eng m row =
     (if uiNumRows row = 0 then Some ID_NOT_EXISTS
      else if nPasswordDiff row then Some WRONG_PWD
      else if bNotAvail row then Some NOT_AVAIL
      else if FindByLoginName eng m (pinfo_login row) \<noteq> None then Some ML_INGAME_REAL
      else if \<not> CheckCorrectSocialID row \<and> \<not> test_server eng then Some BAD_SOCIAL_ID
      else if CheckShutdownAge row \<and> CheckShutdownTime row then Some AGE_LIMIT
      else if \<not> status_ok row then Some INVALID_STATUS
      else if BLKLOGIN row then Some ML_BLOCKED
      else None)"

definition AnalyzeReturnQuery_auth ::
  "engine \<Rightarrow> time \<Rightarrow> auth_row \<Rightarrow> u32 option \<Rightarrow> mobi \<Rightarrow> mobi option" where
  "AnalyzeReturnQuery_auth eng now row d s =
     passage eng 63 (\<lambda>s.
       (case auth_refusal eng (desc_manager s) row of
          Some code \<Rightarrow> do {
            s \<leftarrow> LoginFailure d s;
            s \<leftarrow> NotifyStatus eng now d code s;
            passage eng 64 return' s }
        | None \<Rightarrow> passage eng 65 return' s)) s"

subsection \<open>Answers of the data base server\<close>

text \<open>The account the answer binds to the connection.\<close>

definition BindAccountTable :: "u32 \<Rightarrow> u32 list \<Rightarrow> u32 \<Rightarrow> mobi \<Rightarrow> mobi" where
  "BindAccountTable acc players h s =
     upd_desc h (\<lambda>d. d\<lparr>d_account_id := acc, d_players := players\<rparr>) s"

definition LoginSuccess ::
  "engine \<Rightarrow> time \<Rightarrow> bool \<Rightarrow> u32 \<Rightarrow> u32 list \<Rightarrow> u32 option \<Rightarrow> mobi \<Rightarrow> mobi option" where
  "LoginSuccess eng now ok acc players d s =
     passage eng 66 (\<lambda>s.
       if \<not> ok
       then passage eng 67 (\<lambda>s. do { s \<leftarrow> LoginFailure d s; notify_mobile eng now d INVALID_STATUS s }) s
       else passage eng 68 (\<lambda>s. do {
         h \<leftarrow> d;
         let s = BindAccountTable acc players h s;
         mobile \<leftarrow> is_mobile d s;
         if \<not> mobile
         then passage eng 69 (game_call ''SendLoginSuccessPacket'' [h] (passage eng 70 return')) s
         else do { s \<leftarrow> CharacterSelect eng now d s; passage eng 70 return' s } }) s) s"

text \<open>\<open>created\<close>: the player the packet from the data base names, when there is one.\<close>

definition PlayerCreateSuccess ::
  "engine \<Rightarrow> time \<Rightarrow> u32 option \<Rightarrow> u32 \<Rightarrow> mobi \<Rightarrow> mobi option" where
  "PlayerCreateSuccess eng now created h s =
     passage eng 71 (\<lambda>s. do {
       s \<leftarrow> DESC_Packet h (bytes_of ''TPacketGCPlayerCreateSuccess'') s;
       (case created of
          Some pid \<Rightarrow> tell (sendCharacterCreate eng now pid) (passage eng 72 return') s
        | None \<Rightarrow> passage eng 72 return' s) }) s"

definition PlayerDeleteSuccess ::
  "engine \<Rightarrow> time \<Rightarrow> nat \<Rightarrow> u32 option \<Rightarrow> mobi \<Rightarrow> mobi option" where
  "PlayerDeleteSuccess eng now account_index d s =
     passage eng 73 (\<lambda>s.
       (case d of
          None \<Rightarrow> Some s
        | Some h \<Rightarrow> do {
            dd \<leftarrow> FindByHandle s h;
            if account_index \<ge> length (d_players dd) then None
            else tell (sendCharacterDelete eng now (d_players dd ! account_index))
              (\<lambda>s. Some (upd_desc h (\<lambda>d. d\<lparr>d_players := (d_players d)[account_index := 0]\<rparr>) s)) s })) s"

text \<open>The body of the loop for the player that is found.\<close>

definition ChangeName :: "engine \<Rightarrow> time \<Rightarrow> u32 \<Rightarrow> bytes \<Rightarrow> mobi \<Rightarrow> mobi option" where
  "ChangeName eng now pid name s =
     passage eng 74 (tell (sendChangeName eng now pid name) (passage eng 75 return')) s"

definition PlayerLoad :: "engine \<Rightarrow> time \<Rightarrow> bool \<Rightarrow> u32 \<Rightarrow> mobi \<Rightarrow> mobi option" where
  "PlayerLoad eng now valid_location h s =
     passage eng 76 (\<lambda>s. do {
       s \<leftarrow> (if \<not> valid_location
             then do {
               s \<leftarrow> notify_mobile eng now (Some h) INVALID_LOCATION
                      (upd_desc h (\<lambda>d. d\<lparr>d_phase := PHASE_OTHER\<rparr>) (call_engine (GameCall ''PHASE_CLOSE'' [h]) s));
               Some (call_engine (GameCall ''passage'' [77]) s) }
             else Some s);
       if \<not> valid_location \<and> ellipsis (shop eng) 77 \<noteq> None then Some s
       else do {
         mobile \<leftarrow> is_mobile (Some h) s;
         let s = call_engine (GameCall ''P2P TPacketGGLogin'' [if mobile then 1 else 0]) s;
         passage eng 78 (\<lambda>s. do {
           mobile \<leftarrow> is_mobile (Some h) s;
           if mobile then game_call ''QuerySafeboxSize'' [h] (Entergame eng now (Some h)) s
           else game_call ''MainCharacterPacket'' [h] return' s }) s } }) s"

definition LoginAlready :: "engine \<Rightarrow> time \<Rightarrow> u32 option \<Rightarrow> mobi \<Rightarrow> mobi option" where
  "LoginAlready eng now d s =
     (if d = None then Some s
      else do {
        mobile \<leftarrow> is_mobile d s;
        let s = (if \<not> mobile then call_engine (GameCall ''passage'' [79]) s else s);
        s \<leftarrow> LoginFailure d s;
        if mobile then NotifyStatus eng now d ML_INGAME_REAL s else Some s })"

definition CInputDB_AuthLogin :: "engine \<Rightarrow> time \<Rightarrow> bool \<Rightarrow> u32 option \<Rightarrow> mobi \<Rightarrow> mobi option" where
  "CInputDB_AuthLogin eng now bResult d s =
     (case d of
        None \<Rightarrow> Some s
      | Some h \<Rightarrow> passage eng 80 (\<lambda>s. do {
          mobile \<leftarrow> is_mobile d s;
          if \<not> mobile
          then passage eng 81 (\<lambda>s. do {
            s \<leftarrow> DESC_Packet h (bytes_of ''TPacketGCAuthSuccess'') s; passage eng 82 return' s }) s
          else do { s \<leftarrow> HandleLoginResult eng now d bResult s; passage eng 82 return' s } }) s)"

text \<open>
  The cases of \<open>CInputDB::Analyze\<close> the repository shows. The values of the game's own headers are not
  part of it.
\<close>

datatype dg_header =
  DG_LOGIN_NOT_EXIST | DG_LOGIN_WRONG_PASSWD | DG_PLAYER_LOAD_FAILED | DG_MOBI u8

definition CInputDB_Analyze ::
  "engine \<Rightarrow> time \<Rightarrow> dg_header \<Rightarrow> bytes \<Rightarrow> u32 option \<Rightarrow> mobi \<Rightarrow> mobi option" where
  "CInputDB_Analyze eng now h data d s =
     (case h of
        DG_LOGIN_NOT_EXIST \<Rightarrow> do { s \<leftarrow> LoginFailure d s; NotifyStatus eng now d ID_NOT_EXISTS s }
      | DG_LOGIN_WRONG_PASSWD \<Rightarrow> do { s \<leftarrow> LoginFailure d s; NotifyStatus eng now d WRONG_PWD s }
      | DG_PLAYER_LOAD_FAILED \<Rightarrow> do {
          s \<leftarrow> NotifyStatus eng now d PLAYER_LOAD_FAILED s; passage eng 83 return' s }
      | DG_MOBI h \<Rightarrow>
          if h = HEADER_DG_MOBI_LOGIN
          then do { received \<leftarrow> get_TMobiDGLogin (LOGIN_MAX_LEN eng) data; SendLoginRequest eng now received s }
          else if h = HEADER_DG_MOBI_LOGOUT
          then do { pid \<leftarrow> get_TMobiDGLogout data; map_option snd (HandleLogout eng now pid s) }
          else Some s)"

subsection \<open>Entering the game\<close>

text \<open>\<open>limit\<close> is \<open>g_iUserLimit\<close>, \<open>users\<close> the number of users the passage after its test counts.\<close>

definition CInputLogin_LoginByKey ::
  "engine \<Rightarrow> time \<Rightarrow> bool \<Rightarrow> int \<Rightarrow> int \<Rightarrow> u32 option \<Rightarrow> mobi \<Rightarrow> mobi option" where
  "CInputLogin_LoginByKey eng now no_more limit users d s =
     (let last = passage eng 88 return';
          full = (\<lambda>s.
            if limit > 0
            then passage eng 86 (\<lambda>s.
              if limit \<le> users
              then do {
                mobile \<leftarrow> is_mobile d s;
                if mobile then NotifyStatus eng now d USER_LIMIT s else passage eng 87 last s }
              else last s) s
            else last s)
      in passage eng 84 (\<lambda>s.
        if no_more
        then do {
          mobile \<leftarrow> is_mobile d s;
          if mobile then NotifyStatus eng now d ML_SHUTDOWN s else passage eng 85 full s }
        else full s) s)"

text \<open>\<open>index\<close> is \<open>pinfo->index\<close>; the table has \<open>PLAYER_PER_ACCOUNT\<close> players.\<close>

definition select_refusal :: "DESC \<Rightarrow> nat \<Rightarrow> bool \<Rightarrow> EMobiLoad option" where
  "select_refusal c_r index bChangeName =
     (if d_account_id c_r = 0 then Some NO_ACCOUNT_TABLE
      else if index \<ge> length (d_players c_r) then Some INDEX_OVERFLOW
      else if d_players c_r ! index = 0 then Some INVALID_PID
      else if bChangeName then Some NAME_CHANGED
      else None)"

definition CInputLogin_CharacterSelect ::
  "engine \<Rightarrow> time \<Rightarrow> nat \<Rightarrow> bool \<Rightarrow> u32 option \<Rightarrow> mobi \<Rightarrow> mobi option" where
  "CInputLogin_CharacterSelect eng now index bChangeName d s =
     passage eng 89 (\<lambda>s. do {
       h \<leftarrow> d;
       c_r \<leftarrow> FindByHandle s h;
       (case select_refusal c_r index bChangeName of
          Some code \<Rightarrow> passage eng 90 (\<lambda>s.
            let s = (if code = INVALID_PID
                     then upd_desc h (\<lambda>d. d\<lparr>d_phase := PHASE_OTHER\<rparr>) (call_engine (GameCall ''PHASE_CLOSE'' [h]) s)
                     else s)
            in NotifyStatus eng now d code s) s
        | None \<Rightarrow> passage eng 91 return' s) }) s"

text \<open>\<open>check_version\<close> is \<open>g_bCheckClientVersion\<close>. The character is the one of the connection.\<close>

definition CInputLogin_Entergame ::
  "engine \<Rightarrow> time \<Rightarrow> sectrees \<Rightarrow> bool \<Rightarrow> u32 \<Rightarrow> CHARACTER \<Rightarrow> mobi \<Rightarrow> (CHARACTER \<times> mobi) option" where
  "CInputLogin_Entergame eng now sm check_version h ch s = do {
     mobile \<leftarrow> is_mobile (Some h) s;
     let pid = ch_pid ch;
     let s = call_engine (GameCall ''passage'' [92]) s;
     let s = (if \<not> mobile then call_engine (GameCall ''LoginMember'' [pid]) s else s);
     let s = call_engine (GameCall ''passage'' [93]) s;
     (_, s) \<leftarrow> sendLogin eng now pid (of_int (ch_map ch)) mobile s;
     s \<leftarrow> (if \<not> mobile
           then DESC_Packet h (bytes_of ''p2'')
                  (call_engine (GameCall ''passage'' [94]) (call_engine (GameCall ''PVP Connect'' [pid]) s))
           else Some (call_engine (GameCall ''SetBlockMode'' [pid]) s));
     let s = call_engine (GameCall ''passage'' [95]) s;
     let s = (if check_version \<and> \<not> mobile then call_engine (GameCall ''passage'' [96]) s else s);
     let s = call_engine (GameCall ''passage'' [97]) s;
     if \<not> mobile then Some (ch, call_engine (GameCall ''passage'' [98]) s)
     else GoToSafePosition eng now sm ch s }"

subsection \<open>Every refusal tells the device\<close>

text \<open>
  The checks a login of a device passes, in the order it meets them on the auth core and on the core
  it is given to, each with the code it refuses with.
\<close>

datatype login_check =
  Check_name | Check_closed | Check_logged_in | Check_account auth_row | Check_no_account
| Check_password | Check_online | Check_status | Check_shutdown | Check_limit int int
| Check_select nat bool | Check_load

fun check_code :: "engine \<Rightarrow> mobi \<Rightarrow> u32 \<Rightarrow> login_check \<Rightarrow> EMobiLoad option" where
  "check_code eng s h Check_name = Some ID_NOT_EXISTS"
| "check_code eng s h Check_closed = Some ML_SHUTDOWN"
| "check_code eng s h Check_logged_in = Some ML_INGAME_REAL"
| "check_code eng s h (Check_account row) = auth_refusal eng (desc_manager s) row"
| "check_code eng s h Check_no_account = Some ID_NOT_EXISTS"
| "check_code eng s h Check_password = Some WRONG_PWD"
| "check_code eng s h Check_online = Some ML_INGAME_REAL"
| "check_code eng s h Check_status = Some INVALID_STATUS"
| "check_code eng s h Check_shutdown = Some ML_SHUTDOWN"
| "check_code eng s h (Check_limit l n) = (if 0 < l \<and> l \<le> n then Some USER_LIMIT else None)"
| "check_code eng s h (Check_select i n) =
     Option.bind (FindByHandle s h) (\<lambda>d. select_refusal d i n)"
| "check_code eng s h Check_load = Some PLAYER_LOAD_FAILED"

fun check_run :: "engine \<Rightarrow> time \<Rightarrow> login_check \<Rightarrow> u32 \<Rightarrow> mobi \<Rightarrow> mobi option" where
  "check_run eng now Check_name h s = CInputAuth_Login eng now False False False (Some h) s"
| "check_run eng now Check_closed h s = CInputAuth_Login eng now True True False (Some h) s"
| "check_run eng now Check_logged_in h s = CInputAuth_Login eng now True False True (Some h) s"
| "check_run eng now (Check_account row) h s = AnalyzeReturnQuery_auth eng now row (Some h) s"
| "check_run eng now Check_no_account h s = CInputDB_Analyze eng now DG_LOGIN_NOT_EXIST [] (Some h) s"
| "check_run eng now Check_password h s = CInputDB_Analyze eng now DG_LOGIN_WRONG_PASSWD [] (Some h) s"
| "check_run eng now Check_online h s = LoginAlready eng now (Some h) s"
| "check_run eng now Check_status h s = LoginSuccess eng now False 0 [] (Some h) s"
| "check_run eng now Check_shutdown h s = CInputLogin_LoginByKey eng now True 0 0 (Some h) s"
| "check_run eng now (Check_limit l n) h s = CInputLogin_LoginByKey eng now False l n (Some h) s"
| "check_run eng now (Check_select i n) h s = CInputLogin_CharacterSelect eng now i n (Some h) s"
| "check_run eng now Check_load h s = CInputDB_Analyze eng now DG_PLAYER_LOAD_FAILED [] (Some h) s"

text \<open>States that differ in what the game was told and in the phase of the connection \<open>h\<close> only.\<close>

definition told_more :: "u32 \<Rightarrow> mobi \<Rightarrow> mobi \<Rightarrow> bool" where
  "told_more h s t \<longleftrightarrow> net.truncate t = net.truncate s \<and> unp_packets t = unp_packets s \<and>
     mobi_descs t = mobi_descs s \<and> m_iHandleCount (desc_manager t) = m_iHandleCount (desc_manager s) \<and>
     (\<forall>k. k \<noteq> h \<longrightarrow> FindByHandle t k = FindByHandle s k) \<and>
     map_option d_is_mobile_request (FindByHandle t h) = map_option d_is_mobile_request (FindByHandle s h)"

lemma told_more_refl [simp]: "told_more h s s"
  by (simp add: told_more_def)

lemma told_more_trans: "told_more h s t \<Longrightarrow> told_more h t u \<Longrightarrow> told_more h s u"
  by (simp add: told_more_def)

lemma told_more_call [simp]: "told_more h s (call_engine c t) = told_more h s t"
  by (simp add: told_more_def net.truncate_def call_engine_def FindByHandle_def)

lemma told_more_phase [simp]: "told_more h s (upd_desc h (\<lambda>d. d\<lparr>d_phase := p\<rparr>) s)"
  by (simp add: told_more_def net.truncate_def upd_desc_def FindByHandle_def Let_def
      option.map_comp comp_def)

lemma char_inv_told: "told_more h s t \<Longrightarrow> char_inv s \<Longrightarrow> char_inv t"
  by (simp add: told_more_def char_inv_def)

lemma passage_on: "\<forall>n. ellipsis (shop eng) n = None \<Longrightarrow>
   passage eng n k s = k (call_engine (GameCall ''passage'' [of_nat n]) s)"
  by (simp add: passage_def Let_def)

lemma auth_refusal_failed: "auth_refusal eng m row = Some code \<Longrightarrow> IsLoadFailed code"
  by (auto simp: auth_refusal_def IsLoadFailed_def split: if_splits)

lemma select_refusal_failed: "select_refusal d i n = Some code \<Longrightarrow> IsLoadFailed code"
  by (auto simp: select_refusal_def IsLoadFailed_def split: if_splits)

lemma check_code_failed: "check_code eng s h c = Some code \<Longrightarrow> IsLoadFailed code"
  using auth_refusal_failed select_refusal_failed
  by (cases c) (auto simp: IsLoadFailed_def bind_Some_iff split: if_splits)

text \<open>A check that refuses comes to one \<open>NotifyStatus\<close> with its code.\<close>

lemma check_notifies:
  assumes go_on: "\<forall>n. ellipsis (shop eng) n = None"
    and live: "FindByHandle s h = Some d" "d_is_mobile_request d"
    and code: "check_code eng s h c = Some code"
  shows "\<exists>s'. told_more h s s' \<and>
     (\<forall>t. NotifyStatus eng now (Some h) code s' = Some t \<longrightarrow>
        check_run eng now c h s = Some t \<or> (\<exists>e. check_run eng now c h s = Some (call_engine e t)))"
proof -
  let ?p = "\<lambda>n s. call_engine (GameCall ''passage'' [n]) s"
  note defs = passage_on [OF go_on] LoginFailure_def notify_mobile_def for_mobile_def is_mobile_def
    live return'_def Let_def
  show ?thesis
  proof (cases c)
    case Check_name
    then show ?thesis using code
      by (intro exI [of _ "?p 61 (?p 60 s)"]) (simp add: CInputAuth_Login_def defs)
  next
    case Check_closed
    then show ?thesis using code
      by (intro exI [of _ "?p 60 s"]) (simp add: CInputAuth_Login_def defs)
  next
    case Check_logged_in
    then show ?thesis using code
      by (intro exI [of _ "?p 60 s"]) (simp add: CInputAuth_Login_def defs)
  next
    case (Check_account row)
    then show ?thesis using code
      by (intro exI [of _ "?p 63 s"]) (auto simp: AnalyzeReturnQuery_auth_def defs)
  next
    case Check_no_account
    then show ?thesis using code by (intro exI [of _ s]) (simp add: CInputDB_Analyze_def defs)
  next
    case Check_password
    then show ?thesis using code by (intro exI [of _ s]) (simp add: CInputDB_Analyze_def defs)
  next
    case Check_online
    then show ?thesis using code by (intro exI [of _ s]) (simp add: LoginAlready_def defs)
  next
    case Check_status
    then show ?thesis using code
      by (intro exI [of _ "?p 67 (?p 66 s)"]) (simp add: LoginSuccess_def defs)
  next
    case Check_shutdown
    then show ?thesis using code
      by (intro exI [of _ "?p 84 s"]) (simp add: CInputLogin_LoginByKey_def defs)
  next
    case (Check_limit l n)
    then show ?thesis using code
      by (intro exI [of _ "?p 86 (?p 84 s)"]) (simp add: CInputLogin_LoginByKey_def defs split: if_splits)
  next
    case (Check_select i n)
    then have r: "select_refusal d i n = Some code" using code live by simp
    let ?s = "?p 90 (?p 89 s)"
    let ?s' = "if code = INVALID_PID
      then upd_desc h (\<lambda>d. d\<lparr>d_phase := PHASE_OTHER\<rparr>) (call_engine (GameCall ''PHASE_CLOSE'' [h]) ?s) else ?s"
    have "told_more h s ?s'"
      using told_more_trans [OF _ told_more_phase, of h s "call_engine (GameCall ''PHASE_CLOSE'' [h]) ?s"] by simp
    then show ?thesis using r Check_select
      by (intro exI [of _ ?s']) (simp add: CInputLogin_CharacterSelect_def defs)
  next
    case Check_load
    then show ?thesis using code by (intro exI [of _ s]) (auto simp: CInputDB_Analyze_def defs)
  qed
qed

lemma call_engine_unp: "unp_packets (call_engine c s) = unp_packets s"
  by (simp add: call_engine_def)

lemma erase_ch_net:
  "net.truncate (snd (erase_ch eng pid u)) = net.truncate u \<and> unp_packets (snd (erase_ch eng pid u)) = unp_packets u"
proof -
  have "net.truncate (destroy_character eng m v) = net.truncate v \<and>
      unp_packets (destroy_character eng m v) = unp_packets v" for m v
    by (simp add: destroy_character_def destroy_desc_def call_engine_def net.truncate_def split: option.split)
  then show ?thesis
    by (cases "EraseByKey pid (mobi_descs u)") (simp add: erase_ch_def Let_def net.truncate_def split: option.split)
qed



end
