(* ===== verification/Cluster.thy ===== *)
theory Cluster
  imports Game_Login
begin

text \<open>
  The cores of the game and the data base server together: a character of a device is logged in on the
  auth core, the server chooses a core and hands it over, and it may be handed on when it warps. The
  connections between the cores and the server deliver in order; nothing else is assumed about when
  a packet is handled. Two history variables: \<open>asked\<close>, the players each core was asked to load by a
  device, and \<open>granted\<close>, those whose login the auth core was told to have succeeded.
\<close>

subsection \<open>Packets in transit\<close>

record 'n cluster =
  core :: "nat \<Rightarrow> mobi"
  db :: "'n CClientManager"
  to_db :: "nat \<Rightarrow> (u8 \<times> bytes) list"
  to_core :: "nat \<Rightarrow> (u8 \<times> bytes) list"
  asked :: "nat \<Rightarrow> u32 set"
  granted :: "u32 set"

text \<open>What \<open>DBPacket\<close> puts on the wire.\<close>

fun gd_packet :: "engine_call \<Rightarrow> (u8 \<times> bytes) option" where
  "gd_packet (DBMobiLogin pid key) =
     Some (HEADER_GD_MOBI_LOGIN, ser_TMobiGD \<lparr>gd_pid = pid, gd_login_key = key\<rparr>)"
| "gd_packet (DBMobiWarp pid key addr port) =
     Some (HEADER_GD_MOBI_WARP, ser_TMobiGDWarp
       \<lparr>gw_info = \<lparr>gd_pid = pid, gd_login_key = key\<rparr>, gw_addr = addr, gw_port = port\<rparr>)"
| "gd_packet _ = None"

definition new_packets :: "mobi \<Rightarrow> mobi \<Rightarrow> (u8 \<times> bytes) list" where
  "new_packets s t = List.map_filter gd_packet (drop (length (engine_out s)) (engine_out t))"

text \<open>Core \<open>i\<close> goes on to \<open>t\<close>; what it told the data base is on its way.\<close>

definition core_do :: "nat \<Rightarrow> mobi \<Rightarrow> 'n cluster \<Rightarrow> 'n cluster" where
  "core_do i t cl = cl\<lparr>core := (core cl)(i := t),
     to_db := (to_db cl)(i := to_db cl i @ new_packets (core cl i) t)\<rparr>"

definition deliver :: "(nat \<times> u8 \<times> u32 \<times> bytes) list \<Rightarrow> (nat \<Rightarrow> (u8 \<times> bytes) list) \<Rightarrow> nat \<Rightarrow> (u8 \<times> bytes) list" where
  "deliver out q i = q i @ map (\<lambda>(t, h, handle, d). (h, d)) (filter (\<lambda>p. fst p = i) out)"

definition db_receive ::
  "(bytes \<Rightarrow> nat \<Rightarrow> bytes) \<Rightarrow> nat \<Rightarrow> nat \<Rightarrow> ('n::{linorder,order_top}) cluster \<Rightarrow> 'n cluster option" where
  "db_receive trim n i cl =
     (case to_db cl i of
        [] \<Rightarrow> None
      | (h, d) # q \<Rightarrow> do {
          m \<leftarrow> ProcessPackets trim n i h d (db cl);
          Some (cl\<lparr>db := m\<lparr>peer_out := []\<rparr>, to_db := (to_db cl)(i := q),
                  to_core := deliver (peer_out m) (to_core cl)\<rparr>) })"

definition core_receive :: "(nat \<Rightarrow> engine) \<Rightarrow> time \<Rightarrow> nat \<Rightarrow> 'n cluster \<Rightarrow> 'n cluster option" where
  "core_receive engs now i cl =
     (case to_core cl i of
        [] \<Rightarrow> None
      | (h, d) # q \<Rightarrow> do {
          t \<leftarrow> CInputDB_Analyze (engs i) now (DG_MOBI h) d None (core cl i);
          Some (core_do i t (cl\<lparr>to_core := (to_core cl)(i := q)\<rparr>)) })"

subsection \<open>The handover\<close>

lemma new_packets_same: "engine_out t = engine_out s @ cs \<Longrightarrow> new_packets s t = List.map_filter gd_packet cs"
  by (simp add: new_packets_def)

text \<open>The auth core, when the login succeeded.\<close>

lemma HandleLoginResult_success:
  assumes inv: "char_inv s" and m: "lookup (mobi_descs s) pid = Some m" "mch_handle_id m = h"
    and d: "FindByHandle s h = Some d" "d_is_mobile_request d"
    and eng: "g_bAuthServer eng" "\<not> g_bShutdown eng"
  obtains t where "HandleLoginResult eng now (Some h) True s = Some t" "char_inv t"
    "mobi_descs t = mobi_descs s" "FindByHandle t = FindByHandle s" "desc_manager t = desc_manager s"
    "engine_out t = engine_out s @ [DBMobiLogin pid (d_login_key d)]"
proof -
  obtain b u where u: "sendChLoadStatus eng now pid ML_LOADING s = Some (b, u)" "same_chars s u"
    by (rule ch_status)
  have pid: "li_pid (mch_info m) = pid" using inv m(1) by (simp add: char_inv_def)
  have g: "MobiGetByHandleID s h = Some m" using MobiGet_entry [OF inv m(1)] m(2) by simp
  have n: "NotifyStatus eng now (Some h) ML_LOADING s = Some u"
    using d g pid u(1) by (simp add: NotifyStatus_def IsLoadFailed_def)
  have f: "FindByHandle u = FindByHandle s" "mobi_descs u = mobi_descs s" "engine_out u = engine_out s"
    "desc_manager u = desc_manager s" "char_inv u"
    using u(2) same_chars_live [OF u(2)] char_inv_cong [OF u(2)] inv by (simp_all add: same_chars_def)
  have "MobiGetByHandleID u h = Some m" using g f(2) by (simp add: MobiGetByHandleID_def)
  then have "HandleLoginResult eng now (Some h) True s =
      Some (call_engine (DBMobiLogin pid (d_login_key d)) u)"
    using d n eng f(1) pid by (simp add: HandleLoginResult_def SendMobiLogin_def)
  then show thesis using f that by simp
qed

text \<open>A core that is told to let a character go.\<close>

lemma HandleLogout_entry:
  assumes laws: "desc_laws eng" "\<not> g_bShutdown eng" and inv: "char_inv s"
    and m: "lookup (mobi_descs s) pid = Some m"
  obtains t where "HandleLogout eng now pid s = Some (True, t)" "char_inv t"
    "lookup (mobi_descs t) = (lookup (mobi_descs s))(pid := None)"
    "FindByHandle t = (FindByHandle s)(mch_handle_id m := None)" "new_packets s t = []"
proof -
  let ?e = "snd (erase_ch eng pid s)"
  obtain b t where t: "sendChLoadStatus eng now pid ML_LOGOUT ?e = Some (b, t)" "same_chars ?e t"
    by (rule ch_status)
  have e: "fst (erase_ch eng pid s)" using erase_ch_lookup(2) [OF inv] m by simp
  have run: "HandleLogout eng now pid s = Some (True, t)"
    using t(1) e by (cases "erase_ch eng pid s") (simp add: HandleLogout_def)
  have "\<exists>cs. engine_out ?e = engine_out s @ cs \<and> List.map_filter gd_packet cs = []"
    by (cases "EraseByKey pid (mobi_descs s)")
      (auto simp: erase_ch_def destroy_character_def destroy_desc_def call_engine_def m Let_def
        List.map_filter_def split: option.split)
  then have "new_packets s t = []"
    using t(2) by (auto simp: same_chars_def new_packets_def)
  moreover have "char_inv t" using char_inv_cong [OF t(2)] char_inv_erase [OF laws(1) inv] by simp
  moreover have "lookup (mobi_descs t) = (lookup (mobi_descs s))(pid := None)"
    "FindByHandle t = (FindByHandle s)(mch_handle_id m := None)"
    using erase_ch_forgets [OF laws inv m same_chars_refl] t(2) same_chars_live [OF t(2)]
    by (simp_all add: same_chars_def)
  ultimately show thesis using run that by blast
qed

text \<open>The core that takes it over.\<close>

lemma SendLoginRequest_new:
  assumes laws: "desc_laws eng" "\<not> g_bShutdown eng" and inv: "char_inv s"
    and room: "m_iHandleCount (desc_manager s) \<noteq> -1"
    and free: "FindByHandle s (m_iHandleCount (desc_manager s) + 1) = None"
    and unknown: "\<And>m. FindByLoginKey eng m (dg_login_key req) = None"
  obtains t h d where "SendLoginRequest eng now req s = Some t" "char_inv t"
    "h = m_iHandleCount (desc_manager s) + 1"
    "lookup (mobi_descs t) = (lookup (mobi_descs s))(dg_pid req \<mapsto>
       \<lparr>mch_info = \<lparr>li_pid = dg_pid req, li_login = cstr (dg_login req)\<rparr>, mch_handle_id = h\<rparr>)"
    "FindByHandle t h = Some d" "d_is_mobile_request d" "d_phase d = PHASE_LOGIN"
    "last (engine_out t) = LoginByKey h (dg_login_key req) (login_field (LOGIN_MAX_LEN eng) (dg_login req))"
    "new_packets s t = []"
proof -
  let ?e = "snd (erase_ch eng (dg_pid req) s)"
  let ?h = "m_iHandleCount (desc_manager s) + 1"
  let ?info = "\<lparr>li_pid = dg_pid req, li_login = cstr (dg_login req)\<rparr>"
  let ?m = "\<lparr>mch_info = ?info, mch_handle_id = ?h\<rparr>"
  have e: "char_inv ?e" "m_iHandleCount (desc_manager ?e) = m_iHandleCount (desc_manager s)"
    using char_inv_erase [OF laws(1) inv] erase_ch_count [OF laws(1)] by simp_all
  have le: "lookup (mobi_descs ?e) = (lookup (mobi_descs s))(dg_pid req := None)"
    by (rule erase_ch_lookup(1) [OF inv])
  have free': "FindByHandle ?e ?h = None"
    using free erase_ch_live [OF laws, of "dg_pid req" s ?h] by simp
  obtain u where u: "CreateDesc eng now ?e = Some (Some ?h, u)" "engine_out u = engine_out ?e"
    and d: "\<exists>d. FindByHandle u ?h = Some d \<and> d_is_mobile_request d"
    using free' laws(2) e(2) by (auto simp: CreateDesc_def Let_def FindByHandle_def)
  let ?v = "emplace_ch (dg_pid req) ?m u"
  note n = char_inv_new [OF e(1) u(1), unfolded e(2), OF room, of ?info]
  let ?t = "call_engine (LoginByKey ?h (dg_login_key req) (login_field (LOGIN_MAX_LEN eng) (dg_login req)))
    (upd_desc ?h (\<lambda>d. d\<lparr>d_phase := PHASE_LOGIN\<rparr>) ?v)"
  have run: "SendLoginRequest eng now req s = Some ?t"
    using laws(2) unknown u(1) by (simp add: SendLoginRequest_def start_login_def Let_def)
  have fv: "FindByHandle ?v = FindByHandle u" "engine_out ?v = engine_out u"
    by (simp_all add: emplace_ch_def FindByHandle_def fun_eq_iff)
  obtain d where d: "FindByHandle u ?h = Some d" "d_is_mobile_request d" using d by blast
  have "\<exists>cs. engine_out ?e = engine_out s @ cs \<and> List.map_filter gd_packet cs = []"
    by (cases "EraseByKey (dg_pid req) (mobi_descs s)")
      (auto simp: erase_ch_def destroy_character_def destroy_desc_def call_engine_def Let_def
        List.map_filter_def split: option.split)
  then have "new_packets s ?t = []" using u(2) fv(2) by (auto simp: new_packets_def List.map_filter_def)
  then show thesis
    using run n le d fv by (intro that [of ?t ?h "d\<lparr>d_phase := PHASE_LOGIN\<rparr>"]) simp_all
qed

lemma core_receive_eq:
  assumes "to_core cl i = (h, d) # q"
    and "CInputDB_Analyze (engs i) now (DG_MOBI h) d None (core cl i) = Some t" and "new_packets (core cl i) t = []"
  shows "core_receive engs now i cl =
     Some (cl\<lparr>core := (core cl)(i := t), to_core := (to_core cl)(i := q)\<rparr>)"
  using assms by (simp add: core_receive_def core_do_def)

text \<open>Two cores that have one packet each: the order in which they handle them does not matter.\<close>

lemma core_receive_both:
  assumes ne: "g \<noteq> a" and q: "to_core cl a = [(h, d)]" "to_core cl g = [(h', d')]"
    and a: "CInputDB_Analyze (engs a) now (DG_MOBI h) d None (core cl a) = Some t" "new_packets (core cl a) t = []"
    and g: "CInputDB_Analyze (engs g) now (DG_MOBI h') d' None (core cl g) = Some u" "new_packets (core cl g) u = []"
  shows "Option.bind (core_receive engs now a cl) (core_receive engs now g) =
      Some (cl\<lparr>core := (core cl)(a := t, g := u), to_core := (to_core cl)(a := [], g := [])\<rparr>)" (is "?ag = Some ?r")
    and "Option.bind (core_receive engs now g cl) (core_receive engs now a) =
      Some (cl\<lparr>core := (core cl)(a := t, g := u), to_core := (to_core cl)(a := [], g := [])\<rparr>)" (is "?ga = Some ?r")
proof -
  show "?ag = Some ?r"
    using core_receive_eq [where engs = engs and i = a, OF q(1) a]
      core_receive_eq [of "cl\<lparr>core := (core cl)(a := t), to_core := (to_core cl)(a := [])\<rparr>" g h' d' "[]" engs now u]
      q(2) g ne by simp
  show "?ga = Some ?r"
    using core_receive_eq [where engs = engs and i = g, OF q(2) g]
      core_receive_eq [of "cl\<lparr>core := (core cl)(g := u), to_core := (to_core cl)(g := [])\<rparr>" a h d "[]" engs now t]
      q(1) a ne by (simp add: fun_upd_twist)
qed

lemma Analyze_logout:
  "CInputDB_Analyze eng now (DG_MOBI HEADER_DG_MOBI_LOGOUT) (ser_TMobiDGLogout pid) d s =
     map_option snd (HandleLogout eng now pid s)"
  by (simp add: CInputDB_Analyze_def HEADER_DG_MOBI_LOGOUT_def HEADER_DG_MOBI_LOGIN_def)

lemma Analyze_login:
  "length (dg_login req) = LOGIN_MAX_LEN eng + 1 \<Longrightarrow>
   CInputDB_Analyze eng now (DG_MOBI HEADER_DG_MOBI_LOGIN) (ser_TMobiDGLogin req) d s =
     SendLoginRequest eng now req s"
  by (simp add: CInputDB_Analyze_def)

text \<open>The server's part: a request of core \<open>a\<close> becomes the two packets of the handover.\<close>

lemma db_receive_login:
  assumes "to_db cl a = [(HEADER_GD_MOBI_LOGIN, ser_TMobiGD info)]"
    and "GetLoginData (db cl) (gd_login_key info) = Some login" and "GetMostAvailCore (db cl) = Some p"
    and "peer_out (db cl) = []"
  shows "db_receive trim n a cl = Some (cl\<lparr>to_db := (to_db cl)(a := []),
     to_core := deliver (handover_packets trim n a (peer_id p) info login) (to_core cl)\<rparr>)"
proof -
  have "get_TMobiGD (ser_TMobiGD info) 0 = Some info" using get_TMobiGD_ser [of info "[]"] by simp
  then show ?thesis
    using assms by (simp add: db_receive_def ProcessPackets_def MobiLogin_def send_handover Let_def)
qed

text \<open>The login succeeds on the auth core and the server answers.\<close>

lemma handover_sent:
  assumes auth: "char_inv (core cl a)" "lookup (mobi_descs (core cl a)) pid = Some m"
      "FindByHandle (core cl a) (mch_handle_id m) = Some d" "d_is_mobile_request d"
      "g_bAuthServer (engs a)" "\<not> g_bShutdown (engs a)"
    and server: "GetLoginData (db cl) (d_login_key d) = Some login" "GetMostAvailCore (db cl) = Some p"
      "peer_out (db cl) = []" and idle: "to_db cl a = []"
  obtains t where "HandleLoginResult (engs a) now (Some (mch_handle_id m)) True (core cl a) = Some t" "char_inv t"
    "mobi_descs t = mobi_descs (core cl a)" "FindByHandle t = FindByHandle (core cl a)"
    "desc_manager t = desc_manager (core cl a)" "db_receive trim n a (core_do a t cl) = Some (cl\<lparr>core := (core cl)(a := t),
       to_core := deliver (handover_packets trim n a (peer_id p) \<lparr>gd_pid = pid, gd_login_key = d_login_key d\<rparr> login)
         (to_core cl)\<rparr>)"
proof -
  obtain t where t: "HandleLoginResult (engs a) now (Some (mch_handle_id m)) True (core cl a) = Some t" "char_inv t"
    "mobi_descs t = mobi_descs (core cl a)" "FindByHandle t = FindByHandle (core cl a)"
    "desc_manager t = desc_manager (core cl a)" "engine_out t = engine_out (core cl a) @ [DBMobiLogin pid (d_login_key d)]"
    by (rule HandleLoginResult_success [OF auth(1,2) refl auth(3-6)])
  have c: "to_db (core_do a t cl) a = [(HEADER_GD_MOBI_LOGIN, ser_TMobiGD \<lparr>gd_pid = pid, gd_login_key = d_login_key d\<rparr>)]"
    "(to_db (core_do a t cl))(a := []) = to_db cl"
    using idle new_packets_same [OF t(6)] by (auto simp: core_do_def List.map_filter_def)
  then have "db_receive trim n a (core_do a t cl) = Some (cl\<lparr>core := (core cl)(a := t),
       to_core := deliver (handover_packets trim n a (peer_id p) \<lparr>gd_pid = pid, gd_login_key = d_login_key d\<rparr> login)
         (to_core cl)\<rparr>)"
    using db_receive_login [OF c(1), of login p trim n] server c(2) by (simp add: core_do_def)
  then show thesis using t that by blast
qed

text \<open>The two packets arrive, in either order.\<close>

lemma handover_received:
  fixes cl :: "'n cluster" and p :: "'n CPeer"
  defines "g \<equiv> peer_id p"
  assumes ne: "g \<noteq> a" and idle: "to_core cl a = []" "to_core cl g = []"
    and auth: "char_inv (core cl a)" "lookup (mobi_descs (core cl a)) (gd_pid info) = Some m"
      "\<not> g_bShutdown (engs a)" "desc_laws (engs a)"
    and game: "char_inv (core cl g)" "desc_laws (engs g)" "\<not> g_bShutdown (engs g)"
      "m_iHandleCount (desc_manager (core cl g)) \<noteq> -1"
      "FindByHandle (core cl g) (m_iHandleCount (desc_manager (core cl g)) + 1) = None"
      "\<And>ms. FindByLoginKey (engs g) ms (gd_login_key info) = None"
    and len: "length (trim login (n + 1)) = n + 1" "n = LOGIN_MAX_LEN (engs g)"
  obtains t u h where "Option.bind
      (core_receive engs now a (cl\<lparr>to_core := deliver (handover_packets trim n a g info login) (to_core cl)\<rparr>))
      (core_receive engs now g) = Some (cl\<lparr>core := (core cl)(a := t, g := u)\<rparr>)"
    "Option.bind
      (core_receive engs now g (cl\<lparr>to_core := deliver (handover_packets trim n a g info login) (to_core cl)\<rparr>))
      (core_receive engs now a) = Some (cl\<lparr>core := (core cl)(a := t, g := u)\<rparr>)"
    "lookup (mobi_descs t) = (lookup (mobi_descs (core cl a)))(gd_pid info := None)"
    "FindByHandle t = (FindByHandle (core cl a))(mch_handle_id m := None)"
    "lookup (mobi_descs u) = (lookup (mobi_descs (core cl g)))(gd_pid info \<mapsto>
       \<lparr>mch_info = \<lparr>li_pid = gd_pid info, li_login = cstr (trim login (n + 1))\<rparr>, mch_handle_id = h\<rparr>)"
    "last (engine_out u) = LoginByKey h (gd_login_key info) (login_field n (trim login (n + 1)))"
proof -
  let ?req = "\<lparr>dg_pid = gd_pid info, dg_login_key = gd_login_key info, dg_login = trim login (n + 1)\<rparr>"
  let ?cl = "cl\<lparr>to_core := deliver (handover_packets trim n a g info login) (to_core cl)\<rparr>"
  have q: "to_core ?cl a = [(HEADER_DG_MOBI_LOGOUT, ser_TMobiDGLogout (gd_pid info))]"
    "to_core ?cl g = [(HEADER_DG_MOBI_LOGIN, ser_TMobiDGLogin ?req)]" "(to_core ?cl)(a := [], g := []) = to_core cl"
    using idle ne by (auto simp: deliver_def handover_packets_def fun_eq_iff)
  obtain t where t: "HandleLogout (engs a) now (gd_pid info) (core cl a) = Some (True, t)"
    "lookup (mobi_descs t) = (lookup (mobi_descs (core cl a)))(gd_pid info := None)"
    "FindByHandle t = (FindByHandle (core cl a))(mch_handle_id m := None)" "new_packets (core cl a) t = []"
    by (rule HandleLogout_entry [OF auth(4,3,1,2)])
  have key: "FindByLoginKey (engs g) ms (dg_login_key ?req) = None" for ms using game(6) by simp
  obtain u h where u: "SendLoginRequest (engs g) now ?req (core cl g) = Some u"
    "lookup (mobi_descs u) = (lookup (mobi_descs (core cl g)))(dg_pid ?req \<mapsto>
       \<lparr>mch_info = \<lparr>li_pid = dg_pid ?req, li_login = cstr (dg_login ?req)\<rparr>, mch_handle_id = h\<rparr>)"
    "last (engine_out u) = LoginByKey h (dg_login_key ?req) (login_field (LOGIN_MAX_LEN (engs g)) (dg_login ?req))"
    "new_packets (core cl g) u = []"
    by (rule SendLoginRequest_new [OF game(2,3,1,4,5) key])
  have "CInputDB_Analyze (engs a) now (DG_MOBI HEADER_DG_MOBI_LOGOUT) (ser_TMobiDGLogout (gd_pid info)) None
      (core ?cl a) = Some t" "new_packets (core ?cl a) t = []"
    "CInputDB_Analyze (engs g) now (DG_MOBI HEADER_DG_MOBI_LOGIN) (ser_TMobiDGLogin ?req) None (core ?cl g) = Some u"
    "new_packets (core ?cl g) u = []"
    using t(1,4) u(1,4) len by (simp_all add: Analyze_logout Analyze_login)
  from core_receive_both [OF ne q(1,2) this] show thesis
    using that [of t u h] t u q(3) len(2) by simp
qed


definition demo_db :: "u32 CClientManager" where
  "demo_db = \<lparr>m_peerList =
       [Some \<lparr>peer_id = 0, GetChannel = 1, GetUserCount = 0, GetInetAddr = 1, GetListenPort = 11\<rparr>, None,
        Some \<lparr>peer_id = 1, GetChannel = 1, GetUserCount = 40, GetInetAddr = 1, GetListenPort = 12\<rparr>,
        Some \<lparr>peer_id = 2, GetChannel = 2, GetUserCount = 70, GetInetAddr = 1, GetListenPort = 13\<rparr>],
     m_pkAuthPeer = Some 0, GetLoginData = (\<lambda>key. Some (bytes_of ''anna'')), peer_out = []\<rparr>"

definition demo_cluster :: "u32 cluster" where
  "demo_cluster = \<lparr>core = (\<lambda>i. if i = 0 then demo_loaded else mobi_init), db = demo_db,
     to_db = (\<lambda>i. []), to_core = (\<lambda>i. []), asked = (\<lambda>i. if i = 0 then {7} else {}), granted = {}\<rparr>"

definition demo_engs :: "nat \<Rightarrow> engine" where
  "demo_engs i = (if i = 0 then demo_eng\<lparr>g_bAuthServer := True\<rparr> else demo_eng)"

lemma demo_avail: "GetMostAvailCore demo_db =
   Some \<lparr>peer_id = 1, GetChannel = 1, GetUserCount = 40, GetInetAddr = 1, GetListenPort = 12\<rparr>"
  by (simp add: GetMostAvailCore_def demo_db_def avail_step_def)

lemma demo_engs_laws: "desc_laws (demo_engs i)"
  using demo_laws by (simp add: desc_laws_def demo_engs_def)


end
