(* ===== verification/Cluster_Runs.thy ===== *)
theory Cluster_Runs
  imports Cluster
begin

text \<open>
  Runs of all cores and the data base server: the operations of \<open>Char_Manager\<close> on any core, the packets
  between them, and everything around them in any order. What is shown is where the characters of
  mobile devices come from.
\<close>

subsection \<open>What an operation of a core adds\<close>

fun call_pids :: "engine_call \<Rightarrow> u32 set" where
  "call_pids (DBMobiLogin pid key) = {pid}"
| "call_pids (DBMobiWarp pid key addr port) = {pid}"
| "call_pids _ = {}"

text \<open>
  From \<open>s\<close> to \<open>t\<close> only the characters of \<open>A\<close> are added, and only those of \<open>E\<close> are announced to the server.
\<close>

definition announces :: "u32 set \<Rightarrow> u32 set \<Rightarrow> mobi \<Rightarrow> mobi \<Rightarrow> bool" where
  "announces A E s t \<longleftrightarrow> dom (lookup (mobi_descs t)) \<subseteq> A \<union> dom (lookup (mobi_descs s)) \<and>
     (\<exists>cs. engine_out t = engine_out s @ cs \<and> (\<forall>c \<in> set cs. call_pids c \<subseteq> E))"

lemma announces_trans: "announces A E s t \<Longrightarrow> announces A E t u \<Longrightarrow> announces A E s u"
proof -
  assume st: "announces A E s t" and tu: "announces A E t u"
  obtain cs where cs: "engine_out t = engine_out s @ cs" "\<forall>c \<in> set cs. call_pids c \<subseteq> E"
    using st by (auto simp: announces_def)
  obtain ds where ds: "engine_out u = engine_out t @ ds" "\<forall>c \<in> set ds. call_pids c \<subseteq> E"
    using tu by (auto simp: announces_def)
  have "\<forall>c \<in> set (cs @ ds). call_pids c \<subseteq> E" using cs(2) ds(2) by auto
  moreover have "engine_out u = engine_out s @ cs @ ds" using cs(1) ds(1) by simp
  ultimately show ?thesis using st tu unfolding announces_def by blast
qed

lemma announcesI:
  "engine_out t = engine_out s @ cs \<Longrightarrow> dom (lookup (mobi_descs t)) \<subseteq> A \<union> dom (lookup (mobi_descs s)) \<Longrightarrow>
   \<forall>c \<in> set cs. call_pids c \<subseteq> E \<Longrightarrow> announces A E s t"
  unfolding announces_def by blast

lemma announces_same: "mobi_descs t = mobi_descs s \<Longrightarrow> engine_out t = engine_out s \<Longrightarrow> announces A E s t"
  by (rule announcesI [where cs = "[]"]) simp_all

lemma announces_refl [simp]: "announces A E s s"
  by (rule announces_same) simp_all

lemma announces_same_chars: "same_chars s t \<Longrightarrow> announces A E s t"
  by (rule announces_same) (simp_all add: same_chars_def)

lemma announces_call: "call_pids c \<subseteq> E \<Longrightarrow> announces A E s t \<Longrightarrow> announces A E s (call_engine c t)"
  by (rule announces_trans [of _ _ _ t]) (simp_all add: announcesI [where cs = "[c]"])

lemma announces_upd [simp]: "announces A E s (upd_desc h f t) = announces A E s t"
  by (simp add: announces_def)

lemma status_same: "sendChLoadStatus eng now pid code s = Some (b, t) \<Longrightarrow> same_chars s t"
  using ch_status [of eng now pid code s] by (metis option.inject prod.inject)

lemma announces_status: "sendChLoadStatus eng now pid code s = Some (b, t) \<Longrightarrow> announces A E s t"
  using status_same announces_same_chars by blast

lemma announces_destroy: "announces A E s t \<Longrightarrow> announces A E s (destroy_desc eng h t)"
  unfolding destroy_desc_def
  by (intro announces_call) (simp_all add: announces_def)

lemma announces_erase:
  assumes "char_inv s"
  shows "announces A E s (snd (erase_ch eng pid s))"
proof -
  have "\<exists>cs. engine_out (snd (erase_ch eng pid s)) = engine_out s @ cs \<and> (\<forall>c \<in> set cs. call_pids c \<subseteq> E)"
    by (cases "EraseByKey pid (mobi_descs s)")
      (auto simp: erase_ch_def destroy_character_def destroy_desc_def call_engine_def Let_def split: option.split)
  then show ?thesis using erase_ch_lookup(1) [OF assms] by (auto simp: announces_def)
qed

text \<open>Only the operations that a login or a warp ends in announce a character.\<close>

lemma announces_NotifyStatus:
  assumes "char_inv s" and "NotifyStatus eng now d code s = Some t"
  shows "announces A E s t"
proof -
  have "announces A E s (snd (erase_ch eng pid u))"
    if "sendChLoadStatus eng now p code s = Some (b, u)" for p pid b u
  proof -
    have "same_chars s u" using status_same that by blast
    then show ?thesis
      using announces_trans announces_same_chars announces_erase char_inv_cong assms(1) by blast
  qed
  then show ?thesis
    using assms(2) by (auto simp: NotifyStatus_def bind_Some_iff Let_def announces_status split: option.splits if_splits)
qed

lemma announces_CharacterSelect: "CharacterSelect eng now d s = Some t \<Longrightarrow> announces A E s t"
  using CharacterSelect_cases [of eng now d s t] by (auto intro!: announces_call)

lemma announces_Entergame:
  assumes "char_inv s" and "Entergame eng now d s = Some t"
  shows "announces A E s t"
proof -
  have "announces A E s t" if "NotifyStatus eng now d code u = Some t" "char_inv u" "announces A E s u" for code u
    using announces_trans that announces_NotifyStatus by blast
  then show ?thesis
    using assms
    by (auto simp: Entergame_def bind_Some_iff Let_def announces_call split: option.splits if_splits)
qed

lemma announces_SendMobiWarp:
  assumes "char_inv s" and "SendMobiWarp eng now d addr port s = Some t"
    and "g_bAuthServer eng \<or> dom (lookup (mobi_descs s)) \<subseteq> E"
  shows "announces A E s t"
proof (cases "t = s \<or> (\<exists>h f. t = upd_desc h f s)")
  case True
  then show ?thesis by auto
next
  case False
  with assms(2) obtain h f m key where t: "\<not> g_bAuthServer eng" "MobiGetByHandleID (upd_desc h f s) h = Some m"
    "t = call_engine (DBMobiWarp (li_pid (mch_info m)) key addr port) (upd_desc h f s)"
    by (auto simp: SendMobiWarp_def bind_Some_iff Let_def split: option.splits if_splits)
  have "li_pid (mch_info m) \<in> dom (lookup (mobi_descs s))"
    using MobiGet_Some [OF _ t(2)] assms(1) by auto
  then show ?thesis using t assms(3) by (auto intro!: announces_call)
qed

lemma announces_remove_chs:
  assumes "desc_laws eng"
  shows "char_inv s \<Longrightarrow> remove_chs eng now pids s = Some t \<Longrightarrow> announces A E s t"
proof (induction pids arbitrary: s)
  case (Cons pid pids)
  obtain found u where u: "erase_ch eng pid s = (found, u)" by (cases "erase_ch eng pid s")
  have e: "char_inv u" "announces A E s u"
    using char_inv_erase [OF assms Cons.prems(1), of pid] announces_erase [OF Cons.prems(1)]
    by (metis u snd_conv)+
  have more: "announces A E s t" if "same_chars u v" "remove_chs eng now pids v = Some t" for v
    using Cons.IH [OF _ that(2)] char_inv_cong [OF that(1)] e announces_same_chars [OF that(1)] announces_trans by blast
  obtain b v where v: "sendChLoadStatus eng now pid NO_ACTIVITY u = Some (b, v)" "same_chars u v"
    by (rule ch_status)
  then show ?case using Cons.prems(2) more [OF v(2)] more [OF same_chars_refl] by (cases found) (simp_all add: u)
qed simp

lemma announces_Process:
  assumes "desc_laws eng" and "char_inv s" and "ch_Process eng now s = Some t"
  shows "announces A E s t"
proof -
  let ?s = "s\<lparr>ch_last_cleanup := now\<rparr>"
  have "char_inv ?s" "announces A E s ?s" using assms(2) by (simp_all add: char_inv_def announces_def)
  then have "announces A E s t" if "remove_chs eng now pids ?s = Some t" for pids
    using announces_remove_chs [OF assms(1) _ that] announces_trans by blast
  then show ?thesis
    using assms(3) \<open>announces A E s ?s\<close> by (auto simp: ch_Process_def Let_def split: if_splits)
qed

lemma announces_HandleLogout:
  assumes "char_inv s" and "HandleLogout eng now pid s = Some (b, t)"
  shows "announces A E s t"
proof -
  obtain found u where u: "erase_ch eng pid s = (found, u)" by (cases "erase_ch eng pid s")
  have "announces A E s u" using announces_erase [OF assms(1)] by (metis u snd_conv)
  then show ?thesis
    using assms(2) announces_status announces_trans
    by (auto simp: HandleLogout_def u bind_Some_iff split: if_splits)
qed

text \<open>A new entry.\<close>

lemma announces_new:
  assumes "CreateDesc eng now s = Some (Some h, t)" and "char_inv s" and "m_iHandleCount (desc_manager s) \<noteq> -1"
    and "li_pid info \<in> A"
  shows "announces A E s (emplace_ch (li_pid info) \<lparr>mch_info = info, mch_handle_id = h\<rparr> t)"
proof (rule announcesI [where cs = "[]"])
  show "engine_out (emplace_ch (li_pid info) \<lparr>mch_info = info, mch_handle_id = h\<rparr> t) = engine_out s @ []"
    using assms(1) by (auto simp: emplace_ch_def CreateDesc_def Let_def split: if_splits)
  show "dom (lookup (mobi_descs (emplace_ch (li_pid info) \<lparr>mch_info = info, mch_handle_id = h\<rparr> t)))
      \<subseteq> A \<union> dom (lookup (mobi_descs s))"
    using char_inv_new(2) [OF assms(2,1,3), of info] assms(4) by (auto split: if_splits)
qed simp

lemma announces_CharacterLoad:
  assumes "char_inv s" and "CharacterLoad eng now info pw s = Some (r, t)"
    and "m_iHandleCount (desc_manager s) \<noteq> -1" and "li_pid info \<in> A"
  shows "announces A E s t"
proof -
  have "announces A E s u" if "sendChLoadStatus eng now p c (call_engine (P2PClearPid p) s) = Some (b, u)" for p c b u
    using announces_trans [OF _ announces_status [OF that]] by (simp add: announces_call)
  then show ?thesis
    using assms(2) announces_new [OF _ assms(1,3,4)]
    by (auto simp: CharacterLoad_def bind_Some_iff Let_def dest!: CreateDesc_None
        intro!: announces_call split: option.splits if_splits)
qed

lemma announces_start_login:
  assumes "char_inv s" and "start_login eng now req s = Some t"
    and "m_iHandleCount (desc_manager s) \<noteq> -1" and "dg_pid req \<in> A"
  shows "announces A E s t"
proof -
  obtain a u where c: "CreateDesc eng now s = Some (a, u)"
    using assms(2) by (auto simp: start_login_def bind_Some_iff)
  show ?thesis
  proof (cases a)
    case None
    then show ?thesis using assms(2) c CreateDesc_None by (fastforce simp: start_login_def)
  next
    case (Some h)
    let ?info = "\<lparr>li_pid = dg_pid req, li_login = cstr (dg_login req)\<rparr>"
    have "announces A E s (emplace_ch (dg_pid req) \<lparr>mch_info = ?info, mch_handle_id = h\<rparr> u)"
      using announces_new [of eng now s h u ?info] c Some assms by simp
    then show ?thesis
      using assms(2) c Some by (auto simp: start_login_def Let_def intro!: announces_call)
  qed
qed

lemma announces_SendLoginRequest:
  assumes laws: "desc_laws eng" and inv: "char_inv s" and run: "SendLoginRequest eng now req s = Some t"
    and room: "m_iHandleCount (desc_manager s) \<noteq> -1" and A: "dg_pid req \<in> A"
  shows "announces A E s t"
proof -
  let ?u = "snd (erase_ch eng (dg_pid req) s)"
  have u: "char_inv ?u" "m_iHandleCount (desc_manager ?u) \<noteq> -1" "announces A E s ?u"
    using char_inv_erase [OF laws inv] erase_ch_count [OF laws] announces_erase [OF inv] room by simp_all
  have d: "char_inv (destroy_desc eng f ?u)" "m_iHandleCount (desc_manager (destroy_desc eng f ?u)) \<noteq> -1"
    "announces A E s (destroy_desc eng f ?u)" for f
    using char_inv_destroy [OF laws u(1)] u laws by (simp_all add: destroy_desc_def announces_destroy
        [unfolded destroy_desc_def], simp_all add: desc_laws_def)
  show ?thesis
    using SendLoginRequest_cases [OF run] u d announces_start_login [OF _ _ _ A] announces_trans
    unfolding Let_def by (metis announces_refl)
qed

subsection \<open>Steps\<close>

text \<open>
  The operations of a core the game calls, and, as in \<open>ch_step\<close>, steps of the game and of the client;
  the game itself announces no character.
\<close>

inductive core_step :: "engine \<Rightarrow> mobi \<Rightarrow> mobi \<Rightarrow> bool" for eng where
  core_notify: "NotifyStatus eng now d code s = Some t \<Longrightarrow> core_step eng s t"
| core_select: "CharacterSelect eng now d s = Some t \<Longrightarrow> core_step eng s t"
| core_enter: "Entergame eng now d s = Some t \<Longrightarrow> core_step eng s t"
| core_warp: "SendMobiWarp eng now d addr port s = Some t \<Longrightarrow> core_step eng s t"
| core_process: "ch_Process eng now s = Some t \<Longrightarrow> core_step eng s t"
| core_client: "same_chars s t \<Longrightarrow> core_step eng s t"
| core_game: "\<lbrakk>mobi_descs t = mobi_descs s; m_iHandleCount (desc_manager s) \<le> m_iHandleCount (desc_manager t);
    engine_out t = engine_out s @ cs; \<forall>c \<in> set cs. call_pids c = {}\<rbrakk> \<Longrightarrow> core_step eng s t"

lemma core_step_announces:
  assumes "core_step eng s t" and "desc_laws eng" and "char_inv s"
    and "g_bAuthServer eng \<or> dom (lookup (mobi_descs s)) \<subseteq> E"
  shows "char_inv t" and "announces {} E s t"
proof -
  have "ch_step eng s t" using assms(1) by cases (auto intro: ch_step.intros)
  then show "char_inv t" using char_inv_step assms(2,3) by blast
  show "announces {} E s t"
    using assms(1)
  proof cases
    case (core_game cs)
    then show ?thesis by (intro announcesI [where cs = cs]) auto
  qed (use assms(2-4) in \<open>auto intro: announces_NotifyStatus announces_CharacterSelect announces_Entergame announces_SendMobiWarp
      announces_Process announces_same_chars\<close>)
qed

text \<open>What a packet of either direction says about a player.\<close>

definition db_pids :: "u8 \<times> bytes \<Rightarrow> u32 set" where
  "db_pids p = (if fst p = HEADER_GD_MOBI_LOGIN \<or> fst p = HEADER_GD_MOBI_WARP
     then set_option (get_u32 (snd p) 0) else {})"

definition core_pids :: "u8 \<times> bytes \<Rightarrow> u32 set" where
  "core_pids p = (if fst p = HEADER_DG_MOBI_LOGIN then set_option (get_u32 (snd p) 0) else {})"

text \<open>The player whose login a result that reaches the auth core is about.\<close>

definition result_pids :: "u32 option \<Rightarrow> bool \<Rightarrow> mobi \<Rightarrow> u32 set" where
  "result_pids d res s =
     (case d of Some h \<Rightarrow> if res then (li_pid \<circ> mch_info) ` set_option (MobiGetByHandleID s h) else {}
      | None \<Rightarrow> {})"

text \<open>
  Core \<open>a\<close> is the auth core. The peers and the login keys the server knows change at any time. A core
  that starts again has lost what was on its connection.
\<close>

inductive cluster_step ::
  "(bytes \<Rightarrow> nat \<Rightarrow> bytes) \<Rightarrow> nat \<Rightarrow> nat \<Rightarrow> ('n::{linorder,order_top}) cluster \<Rightarrow> 'n cluster \<Rightarrow> bool" for trim n a where
  cl_load: "\<lbrakk>desc_laws eng; m_iHandleCount (desc_manager (core cl i)) \<noteq> -1;
     CharacterLoad eng now info pw (core cl i) = Some (r, t)\<rbrakk> \<Longrightarrow>
   cluster_step trim n a cl
     ((core_do i t cl)\<lparr>asked := (asked cl)(i := insert (li_pid info) (asked cl i))\<rparr>)"
| cl_result: "\<lbrakk>desc_laws eng; g_bAuthServer eng = (i = a);
     HandleLoginResult eng now d res (core cl i) = Some t\<rbrakk> \<Longrightarrow>
   cluster_step trim n a cl
     ((core_do i t cl)\<lparr>granted := granted cl \<union> (if i = a then result_pids d res (core cl i) else {})\<rparr>)"
| cl_core: "\<lbrakk>desc_laws eng; g_bAuthServer eng = (i = a); core_step eng (core cl i) t\<rbrakk> \<Longrightarrow>
   cluster_step trim n a cl (core_do i t cl)"
| cl_db_receive: "db_receive trim n i cl = Some cl' \<Longrightarrow> cluster_step trim n a cl cl'"
| cl_core_receive: "\<lbrakk>desc_laws (engs i); m_iHandleCount (desc_manager (core cl i)) \<noteq> -1;
     core_receive engs now i cl = Some cl'\<rbrakk> \<Longrightarrow> cluster_step trim n a cl cl'"
| cl_db: "peer_out m = peer_out (db cl) \<Longrightarrow> cluster_step trim n a cl (cl\<lparr>db := m\<rparr>)"
| cl_restart: "cluster_step trim n a cl
     (cl\<lparr>core := (core cl)(i := mobi_init), to_db := (to_db cl)(i := []), to_core := (to_core cl)(i := [])\<rparr>)"

subsection \<open>The invariant\<close>

text \<open>Who may be in the game: the login was granted, or a core that is not the auth core was asked.\<close>

definition admitted :: "nat \<Rightarrow> 'n cluster \<Rightarrow> u32 set" where
  "admitted a cl = granted cl \<union> (\<Union>j \<in> - {a}. asked cl j)"

text \<open>Who may be on core \<open>i\<close>: on the auth core also who it was asked to load.\<close>

definition allowed :: "nat \<Rightarrow> 'n cluster \<Rightarrow> nat \<Rightarrow> u32 set" where
  "allowed a cl i = admitted a cl \<union> (if i = a then asked cl a else {})"

lemma admitted_cong:
  assumes "asked cl' = asked cl" and "granted cl' = granted cl"
  shows "admitted a cl' = admitted a cl" and "allowed a cl' i = allowed a cl i"
  using assms by (simp_all add: admitted_def allowed_def)

definition cluster_inv :: "nat \<Rightarrow> 'n cluster \<Rightarrow> bool" where
  "cluster_inv a cl \<longleftrightarrow>
     (\<forall>i. char_inv (core cl i) \<and>
        dom (lookup (mobi_descs (core cl i))) \<subseteq> allowed a cl i) \<and>
     (\<forall>i. \<forall>p \<in> set (to_db cl i). db_pids p \<subseteq> admitted a cl) \<and>
     (\<forall>i. \<forall>p \<in> set (to_core cl i). core_pids p \<subseteq> admitted a cl) \<and>
     peer_out (db cl) = [] \<and> granted cl \<subseteq> (\<Union>j. asked cl j)"

lemma cluster_invD:
  assumes "cluster_inv a cl"
  shows "char_inv (core cl i)"
    and "dom (lookup (mobi_descs (core cl i))) \<subseteq> allowed a cl i"
    and "p \<in> set (to_db cl i) \<Longrightarrow> db_pids p \<subseteq> admitted a cl"
    and "p \<in> set (to_core cl i) \<Longrightarrow> core_pids p \<subseteq> admitted a cl"
    and "peer_out (db cl) = []" and "granted cl \<subseteq> (\<Union>j. asked cl j)"
  using assms unfolding cluster_inv_def by blast+

lemma cluster_invI:
  assumes "\<And>i. char_inv (core cl i)"
    and "\<And>i. dom (lookup (mobi_descs (core cl i))) \<subseteq> allowed a cl i"
    and "\<And>i p. p \<in> set (to_db cl i) \<Longrightarrow> db_pids p \<subseteq> admitted a cl"
    and "\<And>i p. p \<in> set (to_core cl i) \<Longrightarrow> core_pids p \<subseteq> admitted a cl"
    and "peer_out (db cl) = []" and "granted cl \<subseteq> (\<Union>j. asked cl j)"
  shows "cluster_inv a cl"
  unfolding cluster_inv_def by (intro conjI allI ballI assms)

lemma gd_packet_pids: "gd_packet c = Some p \<Longrightarrow> db_pids p \<subseteq> call_pids c"
  using get_u32_at [of "[]"]
  by (cases c rule: gd_packet.cases)
    (auto simp: db_pids_def ser_TMobiGD_def ser_TMobiGDWarp_def)

lemma new_packets_pids: "announces A E s t \<Longrightarrow> p \<in> set (new_packets s t) \<Longrightarrow> db_pids p \<subseteq> E"
  using gd_packet_pids by (fastforce simp: announces_def new_packets_same List.map_filter_def)

text \<open>Core \<open>i\<close> goes on to \<open>t\<close>; the history variables may grow.\<close>

lemma cluster_inv_core:
  assumes inv: "cluster_inv a cl" and t: "char_inv t" "announces A E (core cl i) t"
    and cl': "core cl' = (core cl)(i := t)" "to_db cl' = (to_db cl)(i := to_db cl i @ new_packets (core cl i) t)"
      "to_core cl' = to_core cl" "db cl' = db cl"
    and more: "\<And>j. asked cl j \<subseteq> asked cl' j" "granted cl \<subseteq> granted cl'" "granted cl' \<subseteq> (\<Union>j. asked cl' j)"
    and A: "A \<subseteq> allowed a cl' i" and E: "E \<subseteq> admitted a cl'"
  shows "cluster_inv a cl'"
proof -
  have adm: "admitted a cl \<subseteq> admitted a cl'" using more(1,2) by (auto simp: admitted_def)
  have chars: "dom (lookup (mobi_descs (core cl j))) \<subseteq> allowed a cl' j" for j
    using cluster_invD(2) [OF inv, of j] adm more(1) [of a] by (auto simp: allowed_def split: if_splits)
  show ?thesis
  proof (rule cluster_invI)
    show "char_inv (core cl' j)" for j using cluster_invD(1) [OF inv] t(1) cl'(1) by simp
    show "dom (lookup (mobi_descs (core cl' j))) \<subseteq> allowed a cl' j" for j
    proof (cases "j = i")
      case True
      have "dom (lookup (mobi_descs t)) \<subseteq> A \<union> dom (lookup (mobi_descs (core cl i)))"
        using t(2) by (simp add: announces_def)
      then show ?thesis using chars [of i] A True cl'(1) by simp blast
    qed (use chars cl'(1) in simp)
    show "db_pids p \<subseteq> admitted a cl'" if "p \<in> set (to_db cl' j)" for j p
    proof -
      have "p \<in> set (to_db cl j) \<or> p \<in> set (new_packets (core cl i) t)"
        using that cl'(2) by (auto split: if_splits)
      then show ?thesis using cluster_invD(3) [OF inv] new_packets_pids [OF t(2)] adm E by blast
    qed
    show "core_pids p \<subseteq> admitted a cl'" if "p \<in> set (to_core cl' j)" for j p
      using cluster_invD(4) [OF inv, of p j] that adm cl'(3) by simp
  qed (use more(3) cl'(4) cluster_invD(5) [OF inv] in simp_all)
qed

lemma result_pids_known: "char_inv s \<Longrightarrow> result_pids d res s \<subseteq> dom (lookup (mobi_descs s))"
  using MobiGet_Some by (fastforce simp: result_pids_def split: option.splits if_splits)

lemma announces_HandleLoginResult:
  assumes inv: "char_inv s" and run: "HandleLoginResult eng now d res s = Some t"
    and E: "g_bAuthServer eng \<Longrightarrow> result_pids d res s \<subseteq> E"
  shows "announces A E s t"
proof (cases "t = s")
  case False
  then obtain h n where h: "d = Some h" "NotifyStatus eng now d (if res then ML_LOADING else WRONG_PWD) s = Some n"
    "t = n \<or> res \<and> SendMobiLogin eng d n = Some t"
    using run by (fastforce simp: HandleLoginResult_def bind_Some_iff split: option.splits if_splits)
  have n: "announces A E s n" by (rule announces_NotifyStatus [OF inv h(2)])
  show ?thesis
  proof (cases "t = n")
    case False
    then have res: "res" "SendMobiLogin eng (Some h) n = Some t" using h by auto
    have "mobi_descs n = mobi_descs s"
      using h(1,2) res(1) status_same
      by (fastforce simp: NotifyStatus_def IsLoadFailed_def bind_Some_iff same_chars_def split: if_splits option.splits)
    then have "MobiGetByHandleID n h = MobiGetByHandleID s h" by (simp add: MobiGetByHandleID_def)
    then show ?thesis
      using res n E h(1)
      by (auto simp: SendMobiLogin_def bind_Some_iff result_pids_def intro!: announces_call split: if_splits option.splits)
  qed (use n in simp)
qed simp

lemma get_TMobiGD_pid: "get_TMobiGD d 0 = Some info \<Longrightarrow> get_u32 d 0 = Some (gd_pid info)"
  by (auto simp: get_TMobiGD_def bind_Some_iff)

lemma handover_pids:
  "p \<in> set (handover_packets trim n i j info login) \<Longrightarrow> core_pids (fst (snd p), snd (snd (snd p))) \<subseteq> {gd_pid info}"
  using get_u32_at [of "[]"]
  by (auto simp: handover_packets_def core_pids_def ser_TMobiDGLogin_def HEADER_DG_MOBI_LOGIN_def
      HEADER_DG_MOBI_LOGOUT_def)

lemma ProcessPackets_pids:
  assumes "ProcessPackets trim n i h d m = Some m'" and "peer_out m = []" and "p \<in> set (peer_out m')"
  shows "core_pids (fst (snd p), snd (snd (snd p))) \<subseteq> db_pids (h, d)"
proof -
  have ne: "m' \<noteq> m" using assms(2,3) by auto
  have "\<exists>info j login. get_TMobiGD d 0 = Some info \<and> p \<in> set (handover_packets trim n i j info login) \<and>
     (h = HEADER_GD_MOBI_LOGIN \<or> h = HEADER_GD_MOBI_WARP)"
  proof (cases "h = HEADER_GD_MOBI_LOGIN")
    case True
    then have "MobiLogin trim n (Some i) d m = Some m'" using assms(1) by (simp add: ProcessPackets_def)
    then show ?thesis using MobiLogin_packets [of trim n i d m m'] ne assms(2,3) True by auto blast
  next
    case False
    then have "h = HEADER_GD_MOBI_WARP" "MobiWarp trim n (Some i) d m = Some m'"
      using assms(1) ne by (auto simp: ProcessPackets_def split: if_splits)
    then obtain pack j login where "get_TMobiGDWarp d = Some pack"
      "p \<in> set (handover_packets trim n i j (gw_info pack) login)"
      using MobiWarp_packets [of trim n i d m m'] ne assms(2,3) by auto
    moreover from this have "get_TMobiGD d 0 = Some (gw_info pack)"
      by (auto simp: get_TMobiGDWarp_def bind_Some_iff)
    ultimately show ?thesis using \<open>h = HEADER_GD_MOBI_WARP\<close> by blast
  qed
  then obtain info j login where "get_TMobiGD d 0 = Some info" "p \<in> set (handover_packets trim n i j info login)"
    "h = HEADER_GD_MOBI_LOGIN \<or> h = HEADER_GD_MOBI_WARP" by blast
  then show ?thesis using handover_pids get_TMobiGD_pid by (fastforce simp: db_pids_def)
qed

lemma cluster_inv_db_receive:
  assumes inv: "cluster_inv a cl" and run: "db_receive trim n i cl = Some cl'"
  shows "cluster_inv a cl'"
proof -
  obtain h d q m where q: "to_db cl i = (h, d) # q" "ProcessPackets trim n i h d (db cl) = Some m"
    "cl' = cl\<lparr>db := m\<lparr>peer_out := []\<rparr>, to_db := (to_db cl)(i := q), to_core := deliver (peer_out m) (to_core cl)\<rparr>"
    using run by (auto simp: db_receive_def bind_Some_iff split: list.splits)
  have adm: "admitted a cl' = admitted a cl" "allowed a cl' j = allowed a cl j" for j
    by (rule admitted_cong; simp add: q(3))+
  have head: "db_pids (h, d) \<subseteq> admitted a cl" using cluster_invD(3) [OF inv, of "(h, d)" i] q(1) by simp
  note out = ProcessPackets_pids [OF q(2) cluster_invD(5) [OF inv]]
  show ?thesis
  proof (rule cluster_invI)
    show "db_pids p \<subseteq> admitted a cl'" if "p \<in> set (to_db cl' j)" for j p
      using cluster_invD(3) [OF inv, of p j] that q(1) adm by (cases "j = i") (simp_all add: q(3))
    show "core_pids p \<subseteq> admitted a cl'" if "p \<in> set (to_core cl' j)" for j p
    proof -
      have "p \<in> set (to_core cl j) \<or> (\<exists>x \<in> set (peer_out m). p = (fst (snd x), snd (snd (snd x))))"
        using that by (force simp: q(3) deliver_def)
      then show ?thesis using cluster_invD(4) [OF inv] out head adm by blast
    qed
    show "dom (lookup (mobi_descs (core cl' j))) \<subseteq> allowed a cl' j" for j
      using cluster_invD(2) [OF inv, of j] adm by (simp add: q(3))
  qed (use cluster_invD [OF inv] adm in \<open>simp_all add: q(3)\<close>)
qed

lemma Analyze_announces:
  assumes "desc_laws eng" and "char_inv s" and "m_iHandleCount (desc_manager s) \<noteq> -1"
    and "CInputDB_Analyze eng now (DG_MOBI h) d None s = Some t"
  shows "char_inv t" and "announces (core_pids (h, d)) {} s t"
proof -
  have login: "core_pids (h, d) = {dg_pid req}"
    if "h = HEADER_DG_MOBI_LOGIN" "get_TMobiDGLogin l d = Some req" for l req
    using that by (auto simp: core_pids_def get_TMobiDGLogin_def bind_Some_iff)
  consider "t = s" | req where "core_pids (h, d) = {dg_pid req}" "SendLoginRequest eng now req s = Some t"
    | pid b where "HandleLogout eng now pid s = Some (b, t)"
    using assms(4) login by (auto simp: CInputDB_Analyze_def bind_Some_iff split: if_splits)
  then have "char_inv t \<and> announces (core_pids (h, d)) {} s t"
  proof cases
    case 2
    then show ?thesis
      using char_inv_SendLoginRequest [OF assms(1,2) _ assms(3)] announces_SendLoginRequest [OF assms(1,2) _ assms(3)]
      by simp
  next
    case 3
    then show ?thesis
      using HandleLogout_eq [OF assms(1,2), of now pid] announces_HandleLogout [OF assms(2) 3] by simp
  qed (use assms(2) in simp)
  then show "char_inv t" "announces (core_pids (h, d)) {} s t" by simp_all
qed

lemma cluster_inv_core_receive:
  assumes inv: "cluster_inv a cl" and laws: "desc_laws (engs i)" "m_iHandleCount (desc_manager (core cl i)) \<noteq> -1"
    and run: "core_receive engs now i cl = Some cl'"
  shows "cluster_inv a cl'"
proof -
  obtain h d q t where q: "to_core cl i = (h, d) # q"
    "CInputDB_Analyze (engs i) now (DG_MOBI h) d None (core cl i) = Some t"
    "cl' = core_do i t (cl\<lparr>to_core := (to_core cl)(i := q)\<rparr>)"
    using run by (auto simp: core_receive_def bind_Some_iff split: list.splits)
  let ?cl = "cl\<lparr>to_core := (to_core cl)(i := q)\<rparr>"
  have adm: "admitted a cl' = admitted a cl" "admitted a ?cl = admitted a cl" "allowed a ?cl j = allowed a cl j" for j
    by (rule admitted_cong; simp add: q(3) core_do_def)+
  have pids: "core_pids (h, d) \<subseteq> admitted a cl"
    using inv q(1) unfolding cluster_inv_def by (metis list.set_intros(1))
  have "cluster_inv a ?cl"
  proof (rule cluster_invI)
    show "core_pids p \<subseteq> admitted a ?cl" if "p \<in> set (to_core ?cl j)" for j p
      using cluster_invD(4) [OF inv, of p j] that q(1) adm(2) by (cases "j = i") simp_all
    show "dom (lookup (mobi_descs (core ?cl j))) \<subseteq> allowed a ?cl j" for j
      using cluster_invD(2) [OF inv, of j] adm(3) by simp
  qed (use cluster_invD [OF inv] adm(2) in simp_all)
  note cl = this
  note step = Analyze_announces [OF laws(1) cluster_invD(1) [OF inv] laws(2) q(2)]
  have "announces (core_pids (h, d)) {} (core ?cl i) t" using step(2) by simp
  from cluster_inv_core [OF cl step(1) this, of cl'] show ?thesis
    using pids cluster_invD(6) [OF inv] adm(1) by (simp add: q(3) core_do_def allowed_def le_supI1)
qed

lemma cluster_inv_restart:
  assumes inv: "cluster_inv a cl"
  shows "cluster_inv a (cl\<lparr>core := (core cl)(i := mobi_init), to_db := (to_db cl)(i := []),
     to_core := (to_core cl)(i := [])\<rparr>)" (is "cluster_inv a ?cl")
proof (rule cluster_invI)
  have adm: "admitted a ?cl = admitted a cl" "allowed a ?cl j = allowed a cl j" for j
    by (rule admitted_cong; simp)+
  have none: "lookup (mobi_descs mobi_init) = Map.empty" by (simp add: lookup_unfold Container_new_def fun_eq_iff)
  show "dom (lookup (mobi_descs (core ?cl j))) \<subseteq> allowed a ?cl j" for j
    using cluster_invD(2) [OF inv, of j] adm none by (cases "j = i") simp_all
  show "db_pids p \<subseteq> admitted a ?cl" if "p \<in> set (to_db ?cl j)" for j p
    using cluster_invD(3) [OF inv, of p j] that adm by (cases "j = i") simp_all
  show "core_pids p \<subseteq> admitted a ?cl" if "p \<in> set (to_core ?cl j)" for j p
    using cluster_invD(4) [OF inv, of p j] that adm by (cases "j = i") simp_all
qed (use cluster_invD [OF inv] char_inv_init in simp_all)

lemma cluster_inv_step: "cluster_step trim n a cl cl' \<Longrightarrow> cluster_inv a cl \<Longrightarrow> cluster_inv a cl'"
proof (induction rule: cluster_step.induct)
  case (cl_load eng cl i now info pw r t)
  note inv = cluster_invD [OF cl_load.prems]
  show ?case
  proof (rule cluster_inv_core [OF cl_load.prems, where i = i and A = "{li_pid info}" and E = "{}" and t = t])
    show "char_inv t" by (rule char_inv_CharacterLoad [OF inv(1) cl_load.hyps(3,2)])
    show "announces {li_pid info} {} (core cl i) t"
      by (rule announces_CharacterLoad [OF inv(1) cl_load.hyps(3,2)]) simp
  qed (use inv(6) in \<open>auto simp: core_do_def admitted_def allowed_def\<close>)
next
  case (cl_result eng i now d res cl t)
  note inv = cluster_invD [OF cl_result.prems]
  let ?g = "if i = a then result_pids d res (core cl i) else {}"
  have known: "?g \<subseteq> (\<Union>j. asked cl j)"
  proof (cases "i = a")
    case True
    then have "?g \<subseteq> allowed a cl i"
      using result_pids_known [OF inv(1)] inv(2) [of i] by fastforce
    also have "\<dots> \<subseteq> (\<Union>j. asked cl j)" using inv(6) by (auto simp: admitted_def allowed_def split: if_splits)
    finally show ?thesis .
  qed simp
  show ?case
  proof (rule cluster_inv_core [OF cl_result.prems, where i = i and A = "{}" and E = ?g and t = t])
    show "char_inv t" by (rule char_inv_HandleLoginResult [OF cl_result.hyps(1) inv(1) cl_result.hyps(3)])
    show "announces {} ?g (core cl i) t"
      by (rule announces_HandleLoginResult [OF inv(1) cl_result.hyps(3)]) (use cl_result.hyps(2) in simp)
  qed (use inv(6) known in \<open>auto simp: core_do_def admitted_def allowed_def\<close>)
next
  case (cl_core eng i cl t)
  note inv = cluster_invD [OF cl_core.prems]
  have "i \<noteq> a \<longrightarrow> dom (lookup (mobi_descs (core cl i))) \<subseteq> admitted a cl"
    using inv(2) [of i] by (simp add: allowed_def split: if_splits)
  then have "g_bAuthServer eng \<or> dom (lookup (mobi_descs (core cl i))) \<subseteq> admitted a cl" using cl_core.hyps(2) by blast
  note step = core_step_announces [OF cl_core.hyps(3,1) inv(1) this]
  show ?case
    by (rule cluster_inv_core [OF cl_core.prems step]) (use inv(6) in \<open>simp_all add: core_do_def admitted_def\<close>)
next
  case (cl_db m cl)
  have "admitted a (cl\<lparr>db := m\<rparr>) = admitted a cl" "allowed a (cl\<lparr>db := m\<rparr>) j = allowed a cl j" for j
    by (rule admitted_cong; simp)+
  then show ?case using cl_db unfolding cluster_inv_def by simp
qed (blast intro: cluster_inv_db_receive cluster_inv_core_receive cluster_inv_restart)+

definition cluster_start :: "'n cluster \<Rightarrow> bool" where
  "cluster_start cl \<longleftrightarrow> core cl = (\<lambda>i. mobi_init) \<and> to_db cl = (\<lambda>i. []) \<and> to_core cl = (\<lambda>i. []) \<and>
     asked cl = (\<lambda>i. {}) \<and> granted cl = {} \<and> peer_out (db cl) = []"

lemma cluster_inv_start: "cluster_start cl \<Longrightarrow> cluster_inv a cl"
  using char_inv_init
  by (intro cluster_invI) (auto simp: cluster_start_def lookup_unfold Container_new_def)

text \<open>
  C3. Nobody is in the game unasked: in every run of all cores and the server in which only the auth core
  is asked to load characters, a character that is filed on a game core, or on its way to a core in
  a login packet, had its login granted by the auth core, and that only a device had asked for. On
  every core the entries stay filed under their own players.
\<close>

theorem characters_admitted:
  assumes "cluster_start cl0" and "(cluster_step trim n a)\<^sup>*\<^sup>* cl0 cl"
    and "i \<noteq> a" and "\<And>j. j \<noteq> a \<Longrightarrow> asked cl j = {}"
  shows "dom (lookup (mobi_descs (core cl i))) \<subseteq> granted cl \<and>
     (\<Union>j. \<Union> (core_pids ` set (to_core cl j))) \<subseteq> granted cl \<and>
     granted cl \<subseteq> asked cl a \<and> char_inv (core cl i)"
proof -
  have "cluster_inv a cl"
    using assms(2) by (induction rule: rtranclp_induct) (auto intro: cluster_inv_start [OF assms(1)] cluster_inv_step)
  note inv = cluster_invD [OF this]
  have adm: "admitted a cl = granted cl" using assms(4) by (auto simp: admitted_def)
  have "dom (lookup (mobi_descs (core cl i))) \<subseteq> granted cl"
    using inv(2) [of i] adm assms(3) by (simp add: allowed_def)
  moreover have "(\<Union>j. \<Union> (core_pids ` set (to_core cl j))) \<subseteq> granted cl" using inv(4) adm by blast
  moreover have "granted cl \<subseteq> asked cl a" using inv(6) assms(4) by fastforce
  ultimately show ?thesis using inv(1) by blast
qed

lemma core_receive_other: "core_receive engs now i cl = Some cl' \<Longrightarrow> j \<noteq> i \<Longrightarrow> core cl' j = core cl j"
  by (auto simp: core_receive_def core_do_def bind_Some_iff split: list.splits)

text \<open>A device loads a character on core 0 and it is handed over to core 1.\<close>

definition demo_start :: "u32 cluster" where
  "demo_start = demo_cluster\<lparr>core := (\<lambda>i. mobi_init), asked := (\<lambda>i. {})\<rparr>"

lemma demo_load_step:
  "cluster_step trim n 0 demo_start demo_cluster"
proof -
  have "new_packets mobi_init demo_loaded = []"
    by (simp add: new_packets_def demo_loaded_def CharacterLoad_def CreateDesc_def demo_eng_def demo_info_def
        Let_def List.map_filter_def DESC_MANAGER_new_def emplace_ch_def Emplace_def lookup_unfold
        Container_new_def upd_desc_def call_engine_def FindByHandle_def)
  then have "demo_cluster = (core_do 0 demo_loaded demo_start)
      \<lparr>asked := (asked demo_start)(0 := insert (li_pid demo_info) (asked demo_start 0))\<rparr>"
    by (simp add: demo_cluster_def demo_start_def core_do_def demo_info_def fun_eq_iff)
  then show ?thesis
    using cl_load [OF demo_laws, of demo_start 0 5 demo_info "bytes_of ''pw''"] demo_load
    by (simp add: demo_start_def DESC_MANAGER_new_def)
qed

lemma demo_loaded_count: "m_iHandleCount (desc_manager demo_loaded) = 1"
  by (simp add: demo_loaded_def CharacterLoad_def CreateDesc_def demo_eng_def demo_info_def Let_def
      DESC_MANAGER_new_def emplace_ch_def Emplace_def lookup_unfold Container_new_def upd_desc_def call_engine_def)

lemma characters_admitted_witness:
  "\<exists>cl. (cluster_step (\<lambda>s k. resize k s) 30 0)\<^sup>*\<^sup>* demo_start cl \<and> granted cl = {7} \<and>
     dom (lookup (mobi_descs (core cl 1))) = {7}"
proof -
  let ?trim = "\<lambda>s k. resize k s"
  let ?m = "\<lparr>mch_info = demo_info, mch_handle_id = 1\<rparr>"
  let ?p = "\<lparr>peer_id = 1, GetChannel = 1, GetUserCount = 40, GetInetAddr = 1, GetListenPort = 12\<rparr> :: u32 CPeer"
  let ?step = "(cluster_step ?trim 30 0)\<^sup>*\<^sup>*"
  let ?cl = "demo_cluster\<lparr>granted := {7}\<rparr>"
  have sel: "core ?cl 0 = demo_loaded" "core ?cl 1 = mobi_init" "to_db ?cl 0 = []" "to_core ?cl 0 = []"
    "to_core ?cl 1 = []" "db ?cl = demo_db" by (simp_all add: demo_cluster_def)
  have eng: "g_bAuthServer (demo_engs 0)" "\<not> g_bShutdown (demo_engs i)" "30 = LOGIN_MAX_LEN (demo_engs i)"
    "FindByLoginKey (demo_engs i) ms k = None" for i ms k
    by (simp_all add: demo_engs_def demo_eng_def)
  obtain d where d: "FindByHandle demo_loaded 1 = Some d" "d_is_mobile_request d"
    using demo_loaded_desc by blast
  let ?info = "\<lparr>gd_pid = 7, gd_login_key = d_login_key d\<rparr>"
  let ?ps = "handover_packets ?trim 30 0 (peer_id ?p) ?info (bytes_of ''anna'')"
  obtain t where t: "HandleLoginResult (demo_engs 0) 6 (Some 1) True demo_loaded = Some t" "char_inv t"
    "mobi_descs t = mobi_descs demo_loaded" "desc_manager t = desc_manager demo_loaded"
    "db_receive ?trim 30 0 (core_do 0 t ?cl) = Some (?cl\<lparr>core := (core ?cl)(0 := t), to_core := deliver ?ps (to_core ?cl)\<rparr>)"
    using handover_sent [of ?cl 0 7 ?m d demo_engs "bytes_of ''anna''" ?p 6 ?trim 30] sel d eng(1,2)
      demo_loaded_inv demo_loaded_entry demo_avail by (simp add: demo_db_def) metis
  let ?cl1 = "?cl\<lparr>core := (core ?cl)(0 := t)\<rparr>"
  have idle: "to_core ?cl1 0 = []" "to_core ?cl1 (peer_id ?p) = []" and ne: "peer_id ?p \<noteq> 0"
    and auth: "char_inv (core ?cl1 0)" "lookup (mobi_descs (core ?cl1 0)) (gd_pid ?info) = Some ?m"
    and game: "char_inv (core ?cl1 (peer_id ?p))" "m_iHandleCount (desc_manager (core ?cl1 (peer_id ?p))) \<noteq> -1"
      "FindByHandle (core ?cl1 (peer_id ?p)) (m_iHandleCount (desc_manager (core ?cl1 (peer_id ?p))) + 1) = None"
    and len: "length (?trim (bytes_of ''anna'') (30 + 1)) = 30 + 1"
    using sel t(2,3) demo_loaded_entry char_inv_init
    by (simp_all add: DESC_MANAGER_new_def FindByHandle_def)
  obtain u v h where r: "Option.bind (core_receive demo_engs 6 0 (?cl1\<lparr>to_core := deliver ?ps (to_core ?cl1)\<rparr>))
      (core_receive demo_engs 6 (peer_id ?p)) = Some (?cl1\<lparr>core := (core ?cl1)(0 := u, peer_id ?p := v)\<rparr>)"
    "lookup (mobi_descs v) = (lookup (mobi_descs (core ?cl1 (peer_id ?p))))(gd_pid ?info \<mapsto>
       \<lparr>mch_info = \<lparr>li_pid = gd_pid ?info, li_login = cstr (?trim (bytes_of ''anna'') (30 + 1))\<rparr>, mch_handle_id = h\<rparr>)"
    by (rule handover_received [where cl = ?cl1 and a = 0 and p = ?p and info = ?info and engs = demo_engs and n = 30
        and trim = ?trim and login = "bytes_of ''anna''" and now = 6,
        OF ne idle auth eng(2) demo_engs_laws game(1) demo_engs_laws eng(2) game(2,3) eng(4) len eng(3)])
  let ?fin = "?cl1\<lparr>core := (core ?cl1)(0 := u, peer_id ?p := v)\<rparr>"
  have s1: "cluster_step ?trim 30 0 demo_cluster (core_do 0 t ?cl)"
  proof -
    have "MobiGetByHandleID demo_loaded 1 = Some ?m"
      using MobiGet_entry [OF demo_loaded_inv demo_loaded_entry] by simp
    then have "result_pids (Some 1) True demo_loaded = {7}" by (simp add: result_pids_def demo_info_def)
    then show ?thesis
      using cl_result [OF demo_engs_laws, of 0 0 0 6 "Some 1" True demo_cluster t ?trim 30] t(1) eng(1)
      by (simp add: demo_cluster_def core_do_def)
  qed
  have s2: "cluster_step ?trim 30 0 (core_do 0 t ?cl) (?cl1\<lparr>to_core := deliver ?ps (to_core ?cl1)\<rparr>)"
    by (rule cl_db_receive [where i = 0]) (use t(5) in simp)
  obtain c where c: "core_receive demo_engs 6 0 (?cl1\<lparr>to_core := deliver ?ps (to_core ?cl1)\<rparr>) = Some c"
    "core_receive demo_engs 6 (peer_id ?p) c = Some ?fin" using r(1) by (auto simp: bind_eq_Some_conv)
  have s3: "cluster_step ?trim 30 0 (?cl1\<lparr>to_core := deliver ?ps (to_core ?cl1)\<rparr>) c"
    by (rule cl_core_receive [OF demo_engs_laws _ c(1)]) (simp add: t(4) demo_loaded_count)
  have s4: "cluster_step ?trim 30 0 c ?fin"
    by (rule cl_core_receive [OF demo_engs_laws _ c(2)])
      (use core_receive_other [OF c(1), of "peer_id ?p"] game(2) ne in simp)
  have run: "?step demo_start ?fin"
    using demo_load_step s1 s2 s3 s4 by (meson converse_rtranclp_into_rtranclp rtranclp.rtrancl_refl)
  have start: "cluster_start demo_start"
    by (simp add: cluster_start_def demo_start_def demo_cluster_def demo_db_def)
  have "dom (lookup (mobi_descs (core ?fin 1))) \<subseteq> granted ?fin"
    using characters_admitted [OF start run, of 1] by (simp add: demo_cluster_def)
  moreover have "7 \<in> dom (lookup (mobi_descs (core ?fin 1)))" "granted ?fin = {7}" using r(2) by auto
  ultimately have "dom (lookup (mobi_descs (core ?fin 1))) = {7}" by blast
  then show ?thesis using run \<open>granted ?fin = {7}\<close> by blast
qed

end
