(* ===== verification/Game_Hooks.thy ===== *)
theory Game_Hooks
  imports Game_Characters
begin

text \<open>
  The places where the game itself calls the client: guild wars with the statistics they keep
  (\<open>game.src/war_map.cpp\<close>), guilds (\<open>guild.cpp\<close>, \<open>guild_manager.cpp\<close>, \<open>guild_war.cpp\<close>), chat and the messenger
  (\<open>input_main.cpp\<close>), the users of other cores (\<open>p2p.cpp\<close>, \<open>desc_manager.cpp\<close>), and the load test
  (\<open>mobi/test.cpp\<close>, \<open>intensity_test_plug/cmd_gm.cpp\<close>). The passages the files leave out are entered
  under a number; what a passage computes (whether a member fights, the text of a shout) is an argument.
\<close>

subsection \<open>The statistics of a guild war\<close>

text \<open>\<open>std::map\<close> is the list of its entries in the order of the keys.\<close>

fun map_try_emplace :: "u32 \<Rightarrow> 'a \<Rightarrow> (u32 \<times> 'a) list \<Rightarrow> bool \<times> (u32 \<times> 'a) list" where
  "map_try_emplace k v [] = (True, [(k, v)])"
| "map_try_emplace k v ((j, w) # m) =
     (if j < k then let (b, m') = map_try_emplace k v m in (b, (j, w) # m')
      else if j = k then (False, (j, w) # m)
      else (True, (k, v) # (j, w) # m))"

fun map_update :: "u32 \<Rightarrow> ('a \<Rightarrow> 'a) \<Rightarrow> (u32 \<times> 'a) list \<Rightarrow> (u32 \<times> 'a) list" where
  "map_update k f [] = []"
| "map_update k f ((j, w) # m) = (if j = k then (j, f w) # m else (j, w) # map_update k f m)"

text \<open>
  \<open>ch\<close> is the character and the guild it is in. The result is the entry, or a null pointer when the
  character is null, has no guild or has an entry already.
\<close>

definition RegisterMemberStats ::
  "(CHARACTER \<times> u32 option) option \<Rightarrow> CWarMap \<Rightarrow> TMemberStats option \<times> CWarMap" where
  "RegisterMemberStats ch w =
     (case ch of
        None \<Rightarrow> (None, w)
      | Some (c, None) \<Rightarrow> (None, w)
      | Some (c, Some guild) \<Rightarrow>
          let stats = \<lparr>dwGuildId = guild, dwKills = 0, dwDeaths = 0\<rparr>;
              (inserted, m) = map_try_emplace (ch_pid c) stats (map_MemberStats w)
          in (if inserted then Some stats else None, w\<lparr>map_MemberStats := m\<rparr>))"

definition GetMemberStats :: "CHARACTER option \<Rightarrow> CWarMap \<Rightarrow> TMemberStats option" where
  "GetMemberStats ch w =
     (case ch of None \<Rightarrow> None | Some c \<Rightarrow> map_of (map_MemberStats w) (ch_pid c))"

definition GetTeamData :: "u8 \<Rightarrow> CWarMap \<Rightarrow> TeamData" where
  "GetTeamData bIdx w =
     (let bIdx = (if bIdx \<ge> 2 then 0 else bIdx) in if bIdx = 0 then m_TeamData0 w else m_TeamData1 w)"

definition SetEnded :: "engine \<Rightarrow> time \<Rightarrow> bool \<Rightarrow> CWarMap \<Rightarrow> mobi \<Rightarrow> mobi option" where
  "SetEnded eng now m_pkEndEvent w s =
     (if m_pkEndEvent then Some s
      else tell (sendGuildWarEnd eng now (dwID (m_TeamData0 w)) (dwID (m_TeamData1 w))) (passage eng 100 return') s)"

definition IncMember :: "engine \<Rightarrow> time \<Rightarrow> bool \<Rightarrow> u32 \<Rightarrow> CHARACTER option \<Rightarrow> mobi \<Rightarrow> mobi option" where
  "IncMember eng now isWarMember gid ch s =
     passage eng 101 (\<lambda>s.
       if isWarMember
       then passage eng 102 (game_call ''event_cancel'' [] (\<lambda>s.
         case ch of
           Some c \<Rightarrow> tell (sendGuildWarPlayerJoin eng now gid (ch_pid c)) (passage eng 103 return') s
         | None \<Rightarrow> passage eng 103 return' s)) s
       else passage eng 104 return' s) s"

text \<open>The test of \<open>ch\<close> comes after the first use.\<close>

definition DecMember :: "engine \<Rightarrow> time \<Rightarrow> bool \<Rightarrow> u32 \<Rightarrow> CHARACTER option \<Rightarrow> mobi \<Rightarrow> mobi option" where
  "DecMember eng now observer gid ch s =
     passage eng 105 (\<lambda>s. do {
       c \<leftarrow> ch;
       if \<not> observer
       then game_call ''SetQuestFlag war.is_war_member'' [ch_pid c, 0]
         (tell (sendGuildWarPlayerLeave eng now gid (ch_pid c)) (passage eng 106 return')) s
       else passage eng 106 return' s }) s"

definition war_Notice :: "engine \<Rightarrow> time \<Rightarrow> bytes \<Rightarrow> CWarMap \<Rightarrow> mobi \<Rightarrow> mobi option" where
  "war_Notice eng now psz w s =
     passage eng 107 (tell (sendGuildWarMapNotification eng now (dwID (m_TeamData0 w)) (dwID (m_TeamData1 w)) psz)
       return') s"

text \<open>The statistics of a kill.\<close>

definition count_kill :: "CHARACTER \<Rightarrow> CHARACTER \<Rightarrow> CWarMap \<Rightarrow> CWarMap" where
  "count_kill killer ch w =
     (let w = w\<lparr>map_MemberStats := map_update (ch_pid killer) (\<lambda>st. st\<lparr>dwKills := dwKills st + 1\<rparr>) (map_MemberStats w)\<rparr>
      in w\<lparr>map_MemberStats := map_update (ch_pid ch) (\<lambda>st. st\<lparr>dwDeaths := dwDeaths st + 1\<rparr>) (map_MemberStats w)\<rparr>)"

definition OnKill ::
  "engine \<Rightarrow> time \<Rightarrow> bool \<Rightarrow> u32 \<Rightarrow> u32 \<Rightarrow> CHARACTER option \<Rightarrow> CHARACTER option \<Rightarrow> CWarMap \<times> mobi \<Rightarrow>
   (CWarMap \<times> mobi) option" where
  "OnKill eng now in_team dwKillerGuild dwDeadGuild killer ch = (\<lambda>(w, s).
     let s = call_engine (GameCall ''passage'' [108]) s in
     if ellipsis (shop eng) 108 \<noteq> None \<or> \<not> in_team then Some (w, s)
     else (case (ch, killer) of
        (Some c, Some k) \<Rightarrow> do {
          (_, s) \<leftarrow> sendGuildWarPlayerKill eng now dwKillerGuild dwDeadGuild (ch_pid k) (ch_pid c) s;
          map_option (Pair (count_kill k c w)) (passage eng 109 return' s) }
      | _ \<Rightarrow> map_option (Pair w) (passage eng 109 return' s)))"

subsection \<open>Guilds\<close>

definition AddMember :: "engine \<Rightarrow> time \<Rightarrow> u32 \<Rightarrow> u32 \<Rightarrow> CHARACTER option \<Rightarrow> mobi \<Rightarrow> mobi option" where
  "AddMember eng now dwGuild dwPID ch s =
     passage eng 110 (tell (sendGuildJoin eng now dwGuild dwPID) (\<lambda>s.
       let s = (case ch of Some c \<Rightarrow> call_engine (GameCall ''LoginMember'' [ch_pid c]) s | None \<Rightarrow> s)
       in passage eng 111 return' s)) s"

definition RemoveMember :: "engine \<Rightarrow> time \<Rightarrow> u32 \<Rightarrow> mobi \<Rightarrow> mobi option" where
  "RemoveMember eng now pid s = passage eng 112 (tell (sendGuildLeave eng now pid) return') s"

record TGuildData =
  gd_guild_id :: u32
  gd_win :: u32
  gd_draw :: u32
  gd_loss :: u32
  gd_ladder_point :: u32

definition SetWarData ::
  "engine \<Rightarrow> time \<Rightarrow> u32 \<Rightarrow> u32 \<Rightarrow> u32 \<Rightarrow> TGuildData \<Rightarrow> mobi \<Rightarrow> (TGuildData \<times> mobi) option" where
  "SetWarData eng now iWin iDraw iLoss g s =
     (let g = g\<lparr>gd_win := iWin, gd_draw := iDraw, gd_loss := iLoss\<rparr>
      in map_option (Pair g) (tell (sendGuildStats eng now (gd_guild_id g) iWin iDraw iLoss) return' s))"

definition SetLadderPoint ::
  "engine \<Rightarrow> time \<Rightarrow> u32 \<Rightarrow> TGuildData \<Rightarrow> mobi \<Rightarrow> (TGuildData \<times> mobi) option" where
  "SetLadderPoint eng now point g s =
     (let s = call_engine (GameCall ''passage'' [113]) s in
      if ellipsis (shop eng) 113 \<noteq> None then Some (g, s)
      else let g = g\<lparr>gd_ladder_point := point\<rparr>
        in map_option (Pair g) (tell (sendLadderPoint eng now (gd_guild_id g) (gd_ladder_point g)) return' s))"

definition StartWar :: "engine \<Rightarrow> time \<Rightarrow> u32 \<Rightarrow> u32 \<Rightarrow> mobi \<Rightarrow> mobi option" where
  "StartWar eng now guild_id1 guild_id2 s =
     passage eng 114 (tell (sendGuildWarStart eng now guild_id1 guild_id2 100) return') s"

text \<open>\<open>pg\<close> is tested before the packet but used without a test for the result.\<close>

definition CreateGuild :: "engine \<Rightarrow> time \<Rightarrow> u32 option \<Rightarrow> mobi \<Rightarrow> mobi option" where
  "CreateGuild eng now pg s =
     passage eng 115 (\<lambda>s. do { gid \<leftarrow> pg; tell (sendGuildCreate eng now gid) return' s }) s"

definition DisbandGuild :: "engine \<Rightarrow> time \<Rightarrow> u32 \<Rightarrow> mobi \<Rightarrow> mobi option" where
  "DisbandGuild eng now guild_id s = passage eng 116 (tell (sendGuildDelete eng now guild_id) return') s"

subsection \<open>Chat and messenger\<close>

definition Chat_shout :: "engine \<Rightarrow> time \<Rightarrow> bytes \<Rightarrow> u16 \<Rightarrow> CHARACTER \<Rightarrow> mobi \<Rightarrow> mobi option" where
  "Chat_shout eng now buf code_page ch s =
     passage eng 117 (game_call ''SetLastShoutPulse'' [ch_pid ch]
       (tell (sendShout eng now (ch_pid ch) buf code_page) (passage eng 118 return'))) s"

text \<open>
  \<open>data\<close> is the text behind the packet, \<open>iExtraLen\<close> its length, \<open>n\<close> is \<open>CHAT_MAX_LEN\<close>. \<open>strlcpy\<close> copies
  up to a NUL and at most one byte less than the size it is given. The result tells whether the whisper
  went to a device; everything else is the game's.
\<close>

definition Whisper ::
  "engine \<Rightarrow> time \<Rightarrow> nat \<Rightarrow> bytes \<Rightarrow> bytes \<Rightarrow> u16 \<Rightarrow> CHARACTER option \<Rightarrow> mobi \<Rightarrow> (bool \<times> mobi) option" where
  "Whisper eng now n szNameTo data code_page ch s =
     (let s = call_engine (GameCall ''passage'' [119]) s in
      if ellipsis (shop eng) 119 \<noteq> None then Some (False, s)
      else (case ch of
        Some c \<Rightarrow>
          if IsMessageToMobile (messenger_state s) szNameTo
          then let buf = take (min (length data) n) (cstr data) in
            if length buf > 0
            then do { (_, s) \<leftarrow> sendUserCheck eng now szNameTo buf (ch_pid c) code_page s; Some (True, s) }
            else Some (True, s)
          else Some (False, call_engine (GameCall ''passage'' [120]) s)
      | None \<Rightarrow> Some (False, call_engine (GameCall ''passage'' [120]) s)))"

definition Messenger_remove :: "engine \<Rightarrow> time \<Rightarrow> bytes \<Rightarrow> CHARACTER option \<Rightarrow> mobi \<Rightarrow> mobi option" where
  "Messenger_remove eng now char_name ch s =
     passage eng 121 (\<lambda>s.
       case ch of
         Some c \<Rightarrow> tell (sendMessengerRemove eng now (ch_name c) char_name) (passage eng 122 return') s
       | None \<Rightarrow> passage eng 122 return' s) s"

definition AuthToAdd :: "engine \<Rightarrow> time \<Rightarrow> bytes \<Rightarrow> bytes \<Rightarrow> bool \<Rightarrow> mobi \<Rightarrow> mobi option" where
  "AuthToAdd eng now account companion bDeny s =
     passage eng 123 (\<lambda>s.
       if \<not> bDeny
       then passage eng 124 (tell (sendMessengerAdd eng now account companion) (passage eng 125 return')) s
       else passage eng 125 return' s) s"

definition AddToList :: "engine \<Rightarrow> bytes \<Rightarrow> bytes \<Rightarrow> mobi \<Rightarrow> mobi option" where
  "AddToList eng account companion s =
     passage eng 131 (\<lambda>s.
       case m_Relation (messenger_state s) account of
         None \<Rightarrow> passage eng 132 return' s
       | Some S \<Rightarrow> if companion \<in> S then Some s else passage eng 132 return' s) s"

text \<open>A friend who is in the list already is not added again: the second passage is not entered.\<close>

lemma AddToList_twice:
  "IsInList (messenger_state s) account companion \<Longrightarrow> AddToList eng account companion s = passage eng 131 return' s"
  by (auto simp: AddToList_def IsInList_def passage_def return'_def call_engine_def Let_def split: option.splits if_splits)

subsection \<open>Users on other cores\<close>

record CCI =
  cci_pid :: u32
  cci_channel :: u8
  cci_mobile :: bool
  cci_desc :: "u32 option"

text \<open>
  \<open>tracker\<close> holds the \<open>p2p_online_tracker\<close> of the connections to the other cores. The member \<open>pkDesc\<close>
  and the two numbers that are compared are set in passages the file leaves out.
\<close>

type_synonym trackers = "u32 \<Rightarrow> 64 word"

text \<open>The flag of the packet \<open>TPacketGGLogin\<close>, for every character when a core connects and for one that arrives.\<close>

definition P2P_Boot :: "engine \<Rightarrow> CHARACTER \<Rightarrow> mobi \<Rightarrow> mobi option" where
  "P2P_Boot eng ch s =
     passage eng 130 (\<lambda>s. do {
       mobile \<leftarrow> ch_mobile ch s;
       game_call ''Packet TPacketGGLogin'' [of_bool mobile] return' s }) s"

definition WarpEnd :: "engine \<Rightarrow> CHARACTER \<Rightarrow> mobi \<Rightarrow> mobi option" where
  "WarpEnd eng ch s =
     passage eng 129 (\<lambda>s. do {
       mobile \<leftarrow> ch_mobile ch s;
       game_call ''P2P TPacketGGLogin'' [of_bool mobile] return' s }) s"

definition P2P_Login :: "u32 option \<Rightarrow> bool \<Rightarrow> CCI \<Rightarrow> trackers \<Rightarrow> CCI \<times> trackers" where
  "P2P_Login d mobile cci tracker =
     (cci\<lparr>cci_desc := d, cci_mobile := mobile\<rparr>,
      case d of Some h \<Rightarrow> tracker(h := tracker h + 1) | None \<Rightarrow> tracker)"

definition P2P_Logout :: "u8 \<Rightarrow> bool \<Rightarrow> CCI \<Rightarrow> trackers \<Rightarrow> trackers" where
  "P2P_Logout g_bChannel cond cci tracker =
     (if cci_channel cci = g_bChannel \<and> cond
      then (case cci_desc cci of Some h \<Rightarrow> tracker(h := tracker h - 1) | None \<Rightarrow> tracker)
      else tracker)"

definition UpdateLocalUserCount :: "engine \<Rightarrow> time \<Rightarrow> u32 \<Rightarrow> u32 \<Rightarrow> u32 \<Rightarrow> mobi \<Rightarrow> mobi option" where
  "UpdateLocalUserCount eng now n1 n2 n3 s =
     passage eng 126 (tell (sendOnlineCount eng now n1 n2 n3) return') s"

text \<open>A user of another channel is counted when he comes and not when he goes.\<close>

lemma tracker_other_channel:
  assumes "cci_channel cci \<noteq> g_bChannel" and "P2P_Login (Some h) mobile cci tracker = (cci', tracker')"
  shows "P2P_Logout g_bChannel cond cci' tracker' h = tracker h + 1"
  using assms by (auto simp: P2P_Login_def P2P_Logout_def)

lemma tracker_own_channel:
  assumes "cci_channel cci = g_bChannel" and "P2P_Login d mobile cci tracker = (cci', tracker')"
  shows "P2P_Logout g_bChannel True cci' tracker' = tracker"
  using assms by (auto simp: P2P_Login_def P2P_Logout_def split: option.splits)


subsection \<open>What the statistics mean\<close>

text \<open>What happens to the statistics of a war: somebody is registered, somebody is killed.\<close>

datatype war_event =
  Register "(CHARACTER \<times> u32 option) option"
| Kill time bool u32 u32 "CHARACTER option" "CHARACTER option"

fun war_step :: "engine \<Rightarrow> war_event \<Rightarrow> CWarMap \<times> mobi \<Rightarrow> (CWarMap \<times> mobi) option" where
  "war_step eng (Register ch) (w, s) = Some (snd (RegisterMemberStats ch w), s)"
| "war_step eng (Kill now in_team g1 g2 killer ch) (w, s) = OnKill eng now in_team g1 g2 killer ch (w, s)"

fun war_run :: "engine \<Rightarrow> war_event list \<Rightarrow> CWarMap \<times> mobi \<Rightarrow> (CWarMap \<times> mobi) option" where
  "war_run eng [] r = Some r"
| "war_run eng (e # es) r = Option.bind (war_step eng e r) (war_run eng es)"

text \<open>
  The player an event registers, with his guild, and the two players of a kill that the code gets as
  far as counting.
\<close>

fun joins :: "war_event \<Rightarrow> (u32 \<times> u32) option" where
  "joins (Register (Some (c, Some g))) = Some (ch_pid c, g)"
| "joins _ = None"

fun kill_of :: "engine \<Rightarrow> war_event \<Rightarrow> (u32 \<times> u32) option" where
  "kill_of eng (Kill now True g1 g2 (Some k) (Some c)) =
     (if ellipsis (shop eng) 108 = None then Some (ch_pid k, ch_pid c) else None)"
| "kill_of eng _ = None"

text \<open>The reference: from his first registration on, the kills by and of a player are counted.\<close>

definition joined :: "u32 \<Rightarrow> war_event \<Rightarrow> bool" where
  "joined pid e \<longleftrightarrow> map_option fst (joins e) = Some pid"

definition killed_by :: "engine \<Rightarrow> u32 \<Rightarrow> war_event \<Rightarrow> bool" where
  "killed_by eng pid e \<longleftrightarrow> map_option fst (kill_of eng e) = Some pid"

definition killed :: "engine \<Rightarrow> u32 \<Rightarrow> war_event \<Rightarrow> bool" where
  "killed eng pid e \<longleftrightarrow> map_option snd (kill_of eng e) = Some pid"

definition stats_of :: "engine \<Rightarrow> u32 \<Rightarrow> war_event list \<Rightarrow> TMemberStats option" where
  "stats_of eng pid es =
     (case dropWhile (\<lambda>e. \<not> joined pid e) es of
        [] \<Rightarrow> None
      | e # es' \<Rightarrow> Some \<lparr>dwGuildId = snd (the (joins e)),
          dwKills = of_nat (length (filter (killed_by eng pid) es')),
          dwDeaths = of_nat (length (filter (killed eng pid) es'))\<rparr>)"

abbreviation strictly_sorted :: "(u32 \<times> 'a) list \<Rightarrow> bool" where
  "strictly_sorted m \<equiv> sorted_wrt (<) (map fst m)"

lemma try_emplace_keys: "fst ` set (snd (map_try_emplace k v m)) = insert k (fst ` set m)"
  by (induction m rule: map_try_emplace.induct) (auto split: prod.split simp: case_prod_unfold Let_def)

lemma try_emplace_sorted: "strictly_sorted m \<Longrightarrow> strictly_sorted (snd (map_try_emplace k v m))"
proof (induction m)
  case (Cons e m)
  obtain j w where e: "e = (j, w)" by (cases e)
  have "\<forall>i \<in> fst ` set (snd (map_try_emplace k v m)). j < i" if "j < k"
    using Cons.prems that by (simp add: e try_emplace_keys)
  then show ?case using Cons by (auto simp: e case_prod_unfold Let_def not_less)
qed simp

lemma try_emplace_lookup:
  "strictly_sorted m \<Longrightarrow>
   map_of (snd (map_try_emplace k v m)) = (if map_of m k = None then (map_of m)(k \<mapsto> v) else map_of m) \<and>
   fst (map_try_emplace k v m) = (map_of m k = None)"
proof (induction m)
  case (Cons e m)
  obtain j w where e: "e = (j, w)" by (cases e)
  have "map_of m k = None" if "k < j" using Cons.prems that by (force simp: e map_of_eq_None_iff)
  then show ?case using Cons by (auto simp: e case_prod_unfold Let_def fun_eq_iff not_less)
qed simp

lemma map_update_lookup: "map_of (map_update k f m) = (map_of m)(k := map_option f (map_of m k))"
  by (induction m) (auto simp: fun_eq_iff map_of_eq_None_iff)

lemma map_update_keys [simp]: "map fst (map_update k f m) = map fst m"
  by (induction m) auto

lemma stats_of_snoc:
  "stats_of eng pid (es @ [e]) =
     (case stats_of eng pid es of
        None \<Rightarrow> if joined pid e then Some \<lparr>dwGuildId = snd (the (joins e)), dwKills = 0, dwDeaths = 0\<rparr> else None
      | Some st \<Rightarrow> Some (st\<lparr>dwKills := dwKills st + of_bool (killed_by eng pid e),
          dwDeaths := dwDeaths st + of_bool (killed eng pid e)\<rparr>))"
proof (cases "\<exists>x \<in> set es. joined pid x")
  case True
  then have "dropWhile (\<lambda>e. \<not> joined pid e) (es @ [e]) = dropWhile (\<lambda>e. \<not> joined pid e) es @ [e]"
    by (auto intro: dropWhile_append1)
  moreover obtain x xs where "dropWhile (\<lambda>e. \<not> joined pid e) es = x # xs"
    using True by (cases "dropWhile (\<lambda>e. \<not> joined pid e) es") (auto simp: dropWhile_eq_Nil_conv)
  ultimately show ?thesis by (simp add: stats_of_def)
next
  case False
  then have d: "dropWhile (\<lambda>e. \<not> joined pid e) (es @ [e]) = (if joined pid e then [e] else [])"
    "dropWhile (\<lambda>e. \<not> joined pid e) es = []"
    by (auto simp: dropWhile_append2)
  show ?thesis unfolding stats_of_def d by simp
qed

lemma OnKill_run:
  "\<exists>t. OnKill eng now in_team g1 g2 killer ch (w, s) =
     Some (case kill_of eng (Kill now in_team g1 g2 killer ch) of
        None \<Rightarrow> w | Some _ \<Rightarrow> count_kill (the killer) (the ch) w, t)"
proof -
  define f where "f a b c d x = the (sendGuildWarPlayerKill eng now a b c d x)" for a b c d x
  have f: "sendGuildWarPlayerKill eng now a b c d x = Some (f a b c d x)" for a b c d x
    using war_fixed(3) [of eng now x a b c d] by (auto simp: sends_ok_def f_def)
  show ?thesis
    by (cases in_team; cases killer; cases ch)
      (auto simp: OnKill_def f passage_def return'_def Let_def case_prod_unfold split: option.split)
qed

lemma war_step_stats:
  assumes "strictly_sorted (map_MemberStats w)"
  shows "\<exists>w' t. war_step eng e (w, s) = Some (w', t) \<and> strictly_sorted (map_MemberStats w') \<and>
     map_of (map_MemberStats w') pid =
       (case map_of (map_MemberStats w) pid of
          None \<Rightarrow> if joined pid e then Some \<lparr>dwGuildId = snd (the (joins e)), dwKills = 0, dwDeaths = 0\<rparr> else None
        | Some st \<Rightarrow> Some (st\<lparr>dwKills := dwKills st + of_bool (killed_by eng pid e),
            dwDeaths := dwDeaths st + of_bool (killed eng pid e)\<rparr>))"
proof (cases e)
  case (Register ch)
  show ?thesis
  proof (cases "joins e")
    case None
    then have "snd (RegisterMemberStats ch w) = w" "\<not> joined pid e" "\<not> killed_by eng pid e" "\<not> killed eng pid e"
      using Register by (auto simp: RegisterMemberStats_def joined_def killed_by_def killed_def
          split: option.splits prod.splits)
    then show ?thesis using assms Register by (simp split: option.split)
  next
    case (Some p)
    then obtain c g where c: "ch = Some (c, Some g)" "p = (ch_pid c, g)"
      using Register by (cases ch) (auto split: option.splits elim: joins.elims)
    let ?r = "map_try_emplace (ch_pid c) \<lparr>dwGuildId = g, dwKills = 0, dwDeaths = 0\<rparr> (map_MemberStats w)"
    have "map_MemberStats (snd (RegisterMemberStats ch w)) = snd ?r"
      by (simp add: RegisterMemberStats_def c case_prod_unfold Let_def)
    moreover have "joined pid e \<longleftrightarrow> ch_pid c = pid" "\<not> killed_by eng pid e" "\<not> killed eng pid e"
      using Register Some c by (simp_all add: joined_def killed_by_def killed_def)
    ultimately show ?thesis
      using assms Register Some c(2) try_emplace_sorted [OF assms]
        try_emplace_lookup [OF assms, of "ch_pid c" "\<lparr>dwGuildId = g, dwKills = 0, dwDeaths = 0\<rparr>"]
      by (auto split: option.split)
  qed
next
  case (Kill now in_team g1 g2 killer ch)
  let ?w = "case kill_of eng e of None \<Rightarrow> w | Some _ \<Rightarrow> count_kill (the killer) (the ch) w"
  obtain t where t: "war_step eng e (w, s) = Some (?w, t)" using OnKill_run Kill by fastforce
  have j: "\<not> joined pid e" by (simp add: joined_def Kill)
  show ?thesis
  proof (cases "kill_of eng e")
    case None
    then have "\<not> killed_by eng pid e" "\<not> killed eng pid e" by (simp_all add: killed_by_def killed_def)
    then show ?thesis using t None assms j by (simp split: option.split)
  next
    case (Some p)
    then obtain k c where kc: "killer = Some k" "ch = Some c" "p = (ch_pid k, ch_pid c)"
      using Kill by (auto elim!: kill_of.elims split: if_splits)
    then show ?thesis
      using t Some assms j
      by (auto simp: count_kill_def Let_def map_update_lookup killed_by_def killed_def split: option.split)
  qed
qed

text \<open>
  C29. The statistics of a guild war are a count: whatever registrations and kills happen in whatever order,
  a player has an entry from his first registration on, under the guild he had then, and it holds how
  often he has killed and been killed since, to 32 bits; the entries stay in the order of the players.
\<close>

theorem war_statistics:
  "\<exists>w t. war_run eng es (w0\<lparr>map_MemberStats := []\<rparr>, s) = Some (w, t) \<and>
     strictly_sorted (map_MemberStats w) \<and> (\<forall>pid. map_of (map_MemberStats w) pid = stats_of eng pid es)"
proof (induction es rule: rev_induct)
  case Nil
  then show ?case by (simp add: stats_of_def)
next
  case (snoc e es)
  have run: "war_run eng (es @ [e]) r = Option.bind (war_run eng es r) (war_step eng e)" for r
    by (induction es arbitrary: r) (auto split: bind_split)
  obtain w t where w: "war_run eng es (w0\<lparr>map_MemberStats := []\<rparr>, s) = Some (w, t)"
    "strictly_sorted (map_MemberStats w)" "\<And>pid. map_of (map_MemberStats w) pid = stats_of eng pid es"
    using snoc by blast
  obtain w' t' where w': "war_step eng e (w, t) = Some (w', t')"
    using war_step_stats [OF w(2)] by blast
  have "strictly_sorted (map_MemberStats w')"
    "map_of (map_MemberStats w') pid = stats_of eng pid (es @ [e])" for pid
    using war_step_stats [OF w(2), of eng e t pid] w' w(3) by (simp_all add: stats_of_snoc)
  then show ?case using w(1) w' by (simp add: run)
qed


subsection \<open>The load test\<close>

definition one_hundred_bytes :: bytes where "one_hundred_bytes = replicate 100 120"
definition test_code_page :: u16 where "test_code_page = 65001"
definition intensity_part_budget :: int where "intensity_part_budget = 10 * 1000000"
definition pid_arr :: "u32 list" where "pid_arr = [1, 114, 115, 116]"

fun spam_round :: "engine \<Rightarrow> time \<Rightarrow> u32 list \<Rightarrow> mobi \<Rightarrow> mobi option" where
  "spam_round eng now [] s = Some s"
| "spam_round eng now (pid # pids) s = do {
     (_, s) \<leftarrow> sendShout eng now pid one_hundred_bytes test_code_page s;
     (_, s) \<leftarrow> sendMessage eng now pid 116 one_hundred_bytes test_code_page s;
     spam_round eng now pids s }"

text \<open>
  The clock is read once at the start and then before every round; the readings are the argument. Too
  few of them are \<open>None\<close>. The first result is \<open>write_counter\<close>.
\<close>

fun spam_loop :: "engine \<Rightarrow> time \<Rightarrow> int \<Rightarrow> time list \<Rightarrow> nat \<Rightarrow> mobi \<Rightarrow> (nat \<times> mobi) option" where
  "spam_loop eng time_start total_budget [] write_counter s = None"
| "spam_loop eng time_start total_budget (t # ts) write_counter s =
     (if t - time_start < total_budget
      then Option.bind (spam_round eng t pid_arr s)
             (spam_loop eng time_start total_budget ts (write_counter + length pid_arr * 2))
      else Some (write_counter, s))"

definition spamTest :: "engine \<Rightarrow> u8 \<Rightarrow> time \<Rightarrow> time list \<Rightarrow> mobi \<Rightarrow> (nat \<times> mobi) option" where
  "spamTest eng intensity time_start ts s =
     spam_loop eng time_start (intensity_part_budget * int (unat intensity)) ts 0 s"

definition HEADER_GG_MOBITEST :: u8 where "HEADER_GG_MOBITEST = 34"

text \<open>\<open>arg1\<close> is the number of the argument, when there is one; \<open>ch\<close> the character that gave the command.\<close>

definition do_mobitest ::
  "engine \<Rightarrow> int option \<Rightarrow> CHARACTER option \<Rightarrow> time \<Rightarrow> time list \<Rightarrow> mobi \<Rightarrow> mobi option" where
  "do_mobitest eng arg1 ch time_start ts s =
     (let s = (case (arg1, ch) of (None, Some c) \<Rightarrow> call_engine (GameCall ''ChatPacket'' [ch_pid c]) s | _ \<Rightarrow> s);
          intensity = max 0 (min (case arg1 of Some i \<Rightarrow> i | None \<Rightarrow> 0) 100)
      in do {
        (_, s) \<leftarrow> spamTest eng (of_int intensity) time_start ts s;
        Some (call_engine (GameCall ''P2P Send'' [ucast HEADER_GG_MOBITEST, of_int intensity]) s) })"

text \<open>The case of \<open>CInputP2P::Analyze\<close> on the other cores.\<close>

definition CInputP2P_Analyze ::
  "engine \<Rightarrow> u8 \<Rightarrow> bytes \<Rightarrow> time \<Rightarrow> time list \<Rightarrow> mobi \<Rightarrow> mobi option" where
  "CInputP2P_Analyze eng bHeader c_pData time_start ts s =
     passage eng 127 (\<lambda>s.
       if bHeader = HEADER_GG_MOBITEST
       then if length c_pData < 2 then None
            else map_option snd (spamTest eng (c_pData ! 1) time_start ts s)
       else passage eng 128 return' s) s"

lemma spam_round_Some: "\<exists>t. spam_round eng now pids s = Some t"
proof (induction pids arbitrary: s)
  case (Cons pid pids)
  have m: "length one_hundred_bytes < 2 ^ 31" by (simp add: one_hundred_bytes_def)
  obtain b1 s1 where 1: "sendShout eng now pid one_hundred_bytes test_code_page s = Some (b1, s1)"
    using player_messages(2) [OF m] unfolding sends_ok_def by (metis prod.exhaust)
  obtain b2 s2 where "sendMessage eng now pid 116 one_hundred_bytes test_code_page s1 = Some (b2, s2)"
    using player_messages(1) [OF m] unfolding sends_ok_def by (metis prod.exhaust)
  then show ?case using 1 Cons.IH by simp
qed simp

text \<open>The test ends with the first reading of the clock that is past its budget, eight packets a round.\<close>

lemma spam_loop_ends:
  assumes "\<forall>t \<in> set ts. t - time_start < total_budget" and "\<not> late - time_start < total_budget"
  shows "\<exists>t. spam_loop eng time_start total_budget (ts @ late # rest) n s = Some (n + 8 * length ts, t)"
  using assms(1)
proof (induction ts arbitrary: n s)
  case Nil
  then show ?case using assms(2) by simp
next
  case (Cons t ts)
  obtain u where u: "spam_round eng t pid_arr s = Some u" using spam_round_Some by blast
  obtain v where "spam_loop eng time_start total_budget (ts @ late # rest) (n + 8) u = Some (n + 8 + 8 * length ts, v)"
    using Cons by (metis list.set_intros(2))
  then show ?case using u Cons.prems by (simp add: pid_arr_def)
qed

lemma spamTest_ends:
  assumes "\<forall>t \<in> set ts. t - time_start < intensity_part_budget * int (unat intensity)"
    and "\<not> late - time_start < intensity_part_budget * int (unat intensity)"
  shows "\<exists>t. spamTest eng intensity time_start (ts @ late # rest) s = Some (8 * length ts, t)"
  using spam_loop_ends [OF assms, of eng rest 0 s] by (simp add: spamTest_def)

lemma spamTest_off: "time_start \<le> t \<Longrightarrow> spamTest eng 0 time_start (t # ts) s = Some (0, s)"
  by (simp add: spamTest_def)

end
