(* ===== verification/Game_Client.thy ===== *)
theory Game_Client
  imports Messenger
begin

text \<open>
  The game client's side of the friend lists and of whispers from mobile devices
  (\<open>binary/UserInterface/PythonNetworkStreamPhaseGame.cpp\<close>, \<open>PythonMessenger.cpp\<close>, \<open>Locale.cpp\<close>), and the
  bytes the server writes for them (\<open>MessengerManager::SendList\<close>, \<open>SendStatusUpdate\<close>). The structures are
  packed. \<open>TPacketGCMessenger\<close> is not part of the repository; its size is the argument \<open>hdr\<close>, and the
  passage before the switch leaves in \<open>iSize\<close> what the packet has behind it. A write behind the array
  \<open>char_name\<close> is \<open>None\<close>.
\<close>

subsection \<open>What the server writes\<close>

text \<open>\<open>TPacketGCMessengerUserStatus\<close>.\<close>

definition sizeof_user_status :: nat where "sizeof_user_status = 3"

definition ser_user_status :: "u16 \<Rightarrow> u8 \<Rightarrow> bytes" where
  "ser_user_status status name_len = le16 status @ [name_len]"

text \<open>What follows the packet's header, and the header's size field, a 16-bit word.\<close>

fun messenger_payload :: "outgoing_msg \<Rightarrow> bytes" where
  "messenger_payload (UpdateStatus d status name_len companion) = ser_user_status status name_len @ companion"
| "messenger_payload (FriendList d infos) =
     concat (map (\<lambda>(status, name_len, friendName). ser_user_status (ucast status) name_len @ friendName) infos)"
| "messenger_payload _ = []"

definition messenger_size :: "nat \<Rightarrow> outgoing_msg \<Rightarrow> u16" where
  "messenger_size hdr e = of_nat hdr + of_nat (length (messenger_payload e))"

subsection \<open>The client\<close>

record friend_client =
  recv_buf :: bytes
  m_FriendNameMap :: "bytes set"
  m_poMessengerHandler :: bool
  status_calls :: "(bytes \<times> u16) list"

text \<open>\<open>Recv\<close> takes \<open>n\<close> bytes from the stream or fails and takes none.\<close>

definition Recv :: "nat \<Rightarrow> friend_client \<Rightarrow> (bytes \<times> friend_client) option" where
  "Recv n c =
     (if length (recv_buf c) < n then None
      else Some (take n (recv_buf c), c\<lparr>recv_buf := drop n (recv_buf c)\<rparr>))"

text \<open>\<open>status_calls\<close> are the calls of the script's \<open>OnStatusUpdate\<close>.\<close>

definition UpdateFriendStatus :: "bytes \<Rightarrow> u16 \<Rightarrow> friend_client \<Rightarrow> friend_client" where
  "UpdateFriendStatus name status c =
     (let c = c\<lparr>m_FriendNameMap := insert name (m_FriendNameMap c)\<rparr> in
      if \<not> m_poMessengerHandler c then c
      else c\<lparr>status_calls := status_calls c @ [(name, status)]\<rparr>)"

definition sizeof_char_name :: nat where "sizeof_char_name = 24 + 1"

text \<open>
  One \<open>userInfo\<close> with its name: the first result is the length of the name, or \<open>None\<close> when \<open>Recv\<close> failed.
\<close>

definition recv_user :: "friend_client \<Rightarrow> (nat option \<times> friend_client) option" where
  "recv_user c =
     (case Recv sizeof_user_status c of
        None \<Rightarrow> Some (None, c)
      | Some (userInfo, c) \<Rightarrow>
          let name_len = unat (userInfo ! 2) in
          (case Recv name_len c of
             None \<Rightarrow> Some (None, c)
           | Some (char_name, c) \<Rightarrow>
               if name_len \<ge> sizeof_char_name then None
               else Some (Some name_len,
                 UpdateFriendStatus (cstr char_name) (of_le16 (userInfo ! 0) (userInfo ! 1)) c)))"

lemma recv_user_shorter:
  "recv_user c = Some (Some n, c') \<Longrightarrow> length (recv_buf c') < length (recv_buf c)"
  by (auto simp: recv_user_def Recv_def UpdateFriendStatus_def Let_def sizeof_user_status_def split: if_splits)

text \<open>The loop of \<open>MESSENGER_SUBHEADER_GC_LIST\<close>.\<close>

function recv_list :: "int \<Rightarrow> friend_client \<Rightarrow> (bool \<times> friend_client) option" where
  "recv_list iSize c =
     (if iSize = 0 then Some (True, c)
      else case recv_user c of
        None \<Rightarrow> None
      | Some (None, c) \<Rightarrow> Some (False, c)
      | Some (Some name_len, c) \<Rightarrow> recv_list (iSize - int sizeof_user_status - int name_len) c)"
  by pat_completeness auto
termination
  by (relation "measure (\<lambda>(_, c). length (recv_buf c))") (auto dest: recv_user_shorter)

declare recv_list.simps [simp del]

datatype messenger_subheader = GC_LIST | GC_UPDATE_STATUS | GC_OTHER

definition RecvMessenger ::
  "messenger_subheader \<Rightarrow> int \<Rightarrow> friend_client \<Rightarrow> (bool \<times> friend_client) option" where
  "RecvMessenger subheader iSize c =
     (case subheader of
        GC_LIST \<Rightarrow> recv_list iSize c
      | GC_UPDATE_STATUS \<Rightarrow>
          (case recv_user c of
             None \<Rightarrow> None
           | Some (None, c) \<Rightarrow> Some (False, c)
           | Some (Some _, c) \<Rightarrow> Some (True, c))
      | GC_OTHER \<Rightarrow> Some (True, c))"

text \<open>
  A whisper from a device. \<open>to_wide\<close> and \<open>to_code_page\<close> are the two conversions of the system, which get
  and return the final NUL. \<open>_snprintf\<close> leaves the array without a NUL when the text does not fit, and
  the script's arguments are read up to one.
\<close>

definition ConvertUtf8ToCodePage ::
  "(bytes \<Rightarrow> 'w list option) \<Rightarrow> ('w list \<Rightarrow> bytes option) \<Rightarrow> bytes \<Rightarrow> bytes" where
  "ConvertUtf8ToCodePage to_wide to_code_page s =
     (case to_wide (cstr s @ [0]) of
        None \<Rightarrow> []
      | Some wide \<Rightarrow>
          (case to_code_page wide of
             None \<Rightarrow> []
           | Some ansi \<Rightarrow> if ansi \<noteq> [] \<and> last ansi = 0 then butlast ansi else ansi))"

definition RecvWhisper_mobile :: "(bytes \<Rightarrow> bytes) \<Rightarrow> bytes \<Rightarrow> bytes \<Rightarrow> bytes option" where
  "RecvWhisper_mobile convert szNameFrom buf =
     (let converted = convert (cstr buf);
          shown = (if converted = [] then cstr buf else cstr converted);
          line = bytes_of ''[M] '' @ cstr szNameFrom @ bytes_of '' : '' @ shown
      in if length line \<ge> 256 then None else Some line)"

subsection \<open>What is shown is what is true\<close>

lemma recv_user_ser:
  assumes "length name \<le> 24" and "0 \<notin> set name" and "recv_buf c = ser_user_status st (of_nat (length name)) @ name @ rest"
  shows "recv_user c = Some (Some (length name), UpdateFriendStatus name st (c\<lparr>recv_buf := rest\<rparr>))"
proof -
  have "unat (of_nat (length name) :: u8) = length name" using assms(1) by (simp add: unat_of_nat)
  moreover have "cstr name = name" by (rule cstr_id [OF assms(2)])
  ultimately show ?thesis
    using assms(1,3)
    by (simp add: recv_user_def Recv_def ser_user_status_def sizeof_user_status_def sizeof_char_name_def
        le16_def Let_def numeral_3_eq_3)
qed

definition show_all :: "(bytes \<times> u16) list \<Rightarrow> friend_client \<Rightarrow> friend_client" where
  "show_all xs c = c\<lparr>m_FriendNameMap := m_FriendNameMap c \<union> set (map fst xs),
     status_calls := status_calls c @ (if m_poMessengerHandler c then xs else [])\<rparr>"

lemma recv_list_ser:
  assumes "\<forall>(name, st) \<in> set xs. length name \<le> 24 \<and> 0 \<notin> set name"
    and "recv_buf c = concat (map (\<lambda>(name, st). ser_user_status st (of_nat (length name)) @ name) xs) @ rest"
    and "i = int (length (concat (map (\<lambda>(name, st). ser_user_status st (of_nat (length name)) @ name) xs)))"
  shows "recv_list i c = Some (True, show_all xs (c\<lparr>recv_buf := rest\<rparr>))"
  using assms
proof (induction xs arbitrary: c i)
  case Nil
  then show ?case by (simp add: recv_list.simps show_all_def)
next
  case (Cons x xs)
  obtain name st where x: "x = (name, st)" by (cases x)
  let ?w = "concat (map (\<lambda>(name, st). ser_user_status st (of_nat (length name)) @ name) xs)"
  let ?c = "UpdateFriendStatus name st (c\<lparr>recv_buf := ?w @ rest\<rparr>)"
  have u: "recv_user c = Some (Some (length name), ?c)"
    by (rule recv_user_ser) (use Cons.prems x in auto)
  have len: "i = int sizeof_user_status + int (length name) + int (length ?w)"
    using Cons.prems(3) by (simp add: x ser_user_status_def sizeof_user_status_def)
  have "recv_list (int (length ?w)) ?c = Some (True, show_all xs (?c\<lparr>recv_buf := rest\<rparr>))"
    by (rule Cons.IH) (use Cons.prems in \<open>auto simp: UpdateFriendStatus_def Let_def\<close>)
  moreover have "show_all xs (?c\<lparr>recv_buf := rest\<rparr>) = show_all (x # xs) (c\<lparr>recv_buf := rest\<rparr>)"
    by (simp add: show_all_def UpdateFriendStatus_def x Let_def)
  moreover have "i \<noteq> 0" using len by (simp add: sizeof_user_status_def)
  moreover have "i - int sizeof_user_status - int (length name) = int (length ?w)" using len by simp
  ultimately show ?case using u by (simp add: recv_list.simps [of i c])
qed

text \<open>
  C28. Friend lists arrive: when the server sends the list of an account to its connected player, the client
  reads exactly the bytes of the packet and shows every friend once, in the order of their names, with
  the status he has, whatever follows in the stream. It takes names of up to 24 bytes and a packet
  whose size fits its field.
\<close>

theorem friend_list_shown:
  assumes "pc (cstr account) = Some d" and "m_Relation m account = Some S" and "finite S" and "S \<noteq> {}"
    and "\<forall>f \<in> S. length f \<le> 24 \<and> 0 \<notin> set f"
    and "hdr + length (messenger_payload (last (msg_out (SendList pc account m)))) < 2 ^ 16"
    and "recv_buf c = messenger_payload (last (msg_out (SendList pc account m))) @ rest" and "m_poMessengerHandler c"
  shows "RecvMessenger GC_LIST (int (unat (messenger_size hdr (last (msg_out (SendList pc account m))))) - int hdr) c =
     Some (True, c\<lparr>recv_buf := rest, m_FriendNameMap := m_FriendNameMap c \<union> S,
       status_calls := status_calls c @ map (\<lambda>f. (f, GetUserStatus m f)) (sorted_list_of_set S)\<rparr>)"
proof -
  let ?e = "last (msg_out (SendList pc account m))"
  let ?xs = "map (\<lambda>f. (f, GetUserStatus m f)) (sorted_list_of_set S)"
  have "ucast (ucast (GetUserStatus m f) :: u8) = GetUserStatus m f" for f
    by (simp add: GetUserStatus_def Let_def ST_OFFLINE_def ST_IN_GAME_def ST_IN_MOBILE_def)
  then have e: "messenger_payload ?e = concat (map (\<lambda>(name, st). ser_user_status st (of_nat (length name)) @ name) ?xs)"
    using assms(1,2,4) by (simp add: SendList_def comp_def)
  have n: "unat (messenger_size hdr ?e) = hdr + length (messenger_payload ?e)"
  proof -
    have "messenger_size hdr ?e = of_nat (hdr + length (messenger_payload ?e))"
      by (simp add: messenger_size_def)
    then show ?thesis using assms(6) by (simp only: unat_of_nat) simp
  qed
  have "recv_list (int (length (messenger_payload ?e))) c = Some (True, show_all ?xs (c\<lparr>recv_buf := rest\<rparr>))"
    by (rule recv_list_ser) (use assms(3,5,7) e in auto)
  then show ?thesis
    using assms(3,8) n by (simp add: RecvMessenger_def show_all_def comp_def)
qed

definition demo_friends :: messenger where
  "demo_friends = messenger_new\<lparr>m_Relation := [bytes_of ''anna'' \<mapsto> {bytes_of ''bob''}],
     m_set_mobileAccount := {bytes_of ''bob''}\<rparr>"

lemma friend_list_shown_witness:
  "RecvMessenger GC_LIST 6 \<lparr>recv_buf = [4, 0, 3, 98, 111, 98, 9], m_FriendNameMap = {}, m_poMessengerHandler = True,
       status_calls = []\<rparr> =
     Some (True, \<lparr>recv_buf = [9], m_FriendNameMap = {bytes_of ''bob''}, m_poMessengerHandler = True,
       status_calls = [(bytes_of ''bob'', ST_IN_MOBILE)]\<rparr>)"
proof -
  let ?pc = "\<lambda>_. Some (1 :: u32)"
  let ?c = "\<lparr>recv_buf = [4, 0, 3, 98, 111, 98, 9], m_FriendNameMap = {}, m_poMessengerHandler = True, status_calls = []\<rparr>"
  have st: "GetUserStatus demo_friends (bytes_of ''bob'') = ST_IN_MOBILE"
    by (simp add: GetUserStatus_def demo_friends_def messenger_new_def IsAccountInGame_def IsAccountInMobile_def)
  have r: "m_Relation demo_friends (bytes_of ''anna'') = Some {bytes_of ''bob''}" by (simp add: demo_friends_def)
  have p: "messenger_payload (last (msg_out (SendList ?pc (bytes_of ''anna'') demo_friends))) = [4, 0, 3, 98, 111, 98]"
    using st r by (simp add: SendList_def ser_user_status_def le16_def ST_IN_MOBILE_def) (simp add: bytes_of_def)
  have "unat (messenger_size 4 (last (msg_out (SendList ?pc (bytes_of ''anna'') demo_friends)))) = 10"
    by (simp add: messenger_size_def p)
  moreover have "\<forall>f \<in> {bytes_of ''bob''}. length f \<le> 24 \<and> 0 \<notin> set f" by (simp add: bytes_of_def)
  ultimately show ?thesis
    using friend_list_shown [of ?pc "bytes_of ''anna''" 1 demo_friends "{bytes_of ''bob''}" 4 ?c "[9]"] r st p
    by simp
qed

text \<open>A name of 25 bytes or more that arrives completely is written behind the array.\<close>

lemma long_name_overflows:
  assumes "25 \<le> length name" and "length name < 256"
    and "recv_buf c = ser_user_status st (of_nat (length name)) @ name @ rest"
  shows "RecvMessenger GC_UPDATE_STATUS i c = None"
proof -
  have "unat (of_nat (length name) :: u8) = length name" using assms(2) by (simp add: unat_of_nat)
  then show ?thesis
    using assms(1,3)
    by (simp add: RecvMessenger_def recv_user_def Recv_def ser_user_status_def sizeof_user_status_def
        sizeof_char_name_def le16_def Let_def numeral_3_eq_3)
qed

text \<open>A line that fills its array is handed on without an end.\<close>

lemma long_whisper_unterminated:
  "length (cstr name) + length (cstr text) \<ge> 249 \<Longrightarrow> RecvWhisper_mobile (\<lambda>_. []) name text = None"
  by (simp add: RecvWhisper_mobile_def Let_def)

end
