(* ===== verification/Custom_Packets.thy ===== *)
theory Custom_Packets
  imports Handlers
begin

text \<open>
  The table of the packets an operator adds for the devices of his game masters
  (\<open>constants/custom_packets.h\<close>): what a parameter is, the constructor that refuses a packet whose
  length does not tell its parameters apart, and the three examples of the table. The table is filled
  when the program starts, so a refused packet ends the program: \<open>None\<close>.
\<close>

subsection \<open>Parameters\<close>

datatype EPrimitiveTypeMobile = M_CHAR | M_BOOL | M_INT | M_UINT | M_FLOAT

text \<open>The alternatives of \<open>type_var\<close>; \<open>T_none\<close> is \<open>std::monostate\<close>. The value held is always \<open>T{}\<close>.\<close>

datatype type_var =
  T_bool | T_char | T_int8 | T_int16 | T_int32 | T_uint8 | T_uint16 | T_uint32 | T_float | T_double | T_none

fun sizeof_T :: "type_var \<Rightarrow> nat" where
  "sizeof_T T_int16 = 2"
| "sizeof_T T_uint16 = 2"
| "sizeof_T T_int32 = 4"
| "sizeof_T T_uint32 = 4"
| "sizeof_T T_float = 4"
| "sizeof_T T_double = 8"
| "sizeof_T _ = 1"

record TCustomParam =
  p_size :: u32
  p_type_var :: type_var
  p_step_count :: u32
  p_desc :: bytes
  p_mobile_type :: EPrimitiveTypeMobile

definition TCustomParam_default :: TCustomParam where
  "TCustomParam_default = \<lparr>p_size = 0, p_type_var = T_none, p_step_count = 0, p_desc = [], p_mobile_type = M_CHAR\<rparr>"

text \<open>
  The chain of \<open>if constexpr\<close>; \<open>int8_t\<close> is in none of its cases and keeps the first enumerator.
\<close>

definition mobile_type_of :: "type_var \<Rightarrow> EPrimitiveTypeMobile" where
  "mobile_type_of t =
     (if t = T_char then M_CHAR
      else if t = T_bool then M_BOOL
      else if t = T_uint8 \<or> t = T_uint16 \<or> t = T_uint32 then M_UINT
      else if t = T_int32 \<or> t = T_int16 then M_INT
      else if t = T_float \<or> t = T_double then M_FLOAT
      else p_mobile_type TCustomParam_default)"

definition TCustomParam :: "u32 \<Rightarrow> type_var \<Rightarrow> bytes option \<Rightarrow> TCustomParam" where
  "TCustomParam expected_size t description =
     \<lparr>p_size = expected_size, p_type_var = t, p_step_count = of_nat (unat expected_size div sizeof_T t),
      p_desc = (case description of None \<Rightarrow> [] | Some d \<Rightarrow> d), p_mobile_type = mobile_type_of t\<rparr>"

subsection \<open>Packets\<close>

record ICustomPacket =
  param_c :: nat
  description :: bytes
  min_authority :: u8
  params :: "TCustomParam list"

definition AdjustMinAuthority :: "u8 \<Rightarrow> ICustomPacket \<Rightarrow> ICustomPacket" where
  "AdjustMinAuthority auth p = p\<lparr>min_authority := auth\<rparr>"

definition AdjustDescription :: "bytes \<Rightarrow> ICustomPacket \<Rightarrow> ICustomPacket" where
  "AdjustDescription desc p = p\<lparr>description := desc\<rparr>"

text \<open>The loop over the parameters from \<open>i\<close> on, \<open>n\<close> rounds; \<open>last_idx\<close> wraps when there are none.\<close>

fun unlimited_before_last :: "TCustomParam list \<Rightarrow> 64 word \<Rightarrow> nat \<Rightarrow> nat \<Rightarrow> bool" where
  "unlimited_before_last arr last_idx i 0 = False"
| "unlimited_before_last arr last_idx i (Suc n) =
     (if p_size (arr ! i) = 0 \<and> last_idx > of_nat i then True
      else unlimited_before_last arr last_idx (i + 1) n)"

definition TCustomPacket :: "TCustomParam list \<Rightarrow> ICustomPacket option" where
  "TCustomPacket prms =
     (let this = \<lparr>param_c = length prms, description = [], min_authority = 5, params = prms\<rparr>;
          last_idx = of_nat (param_c this) - 1
      in if unlimited_before_last (params this) last_idx 0 (param_c this) then None else Some this)"

subsection \<open>The table\<close>

text \<open>\<open>m.emplace(id, std::make_unique<TCustomPacket>(prms)).first->second->\<dots>\<close>\<close>

definition emplace_packet ::
  "u16 \<Rightarrow> TCustomParam list \<Rightarrow> (ICustomPacket \<Rightarrow> ICustomPacket) \<Rightarrow> (u16 \<rightharpoonup> ICustomPacket) \<Rightarrow>
   (u16 \<rightharpoonup> ICustomPacket) option" where
  "emplace_packet sub_id prms adjust m =
     map_option (\<lambda>p. m(sub_id \<mapsto> adjust (case m sub_id of None \<Rightarrow> p | Some old \<Rightarrow> old))) (TCustomPacket prms)"

text \<open>\<open>EGMAuthorityLevel\<close> of \<open>constants/ingame_constants.h\<close>, with the values of its enumerators.\<close>

datatype EGMAuthorityLevel =
  GM_PLAYER | GM_LOW_WIZARD | GM_WIZARD | GM_HIGH_WIZARD | GM_GOD | GM_IMPLEMENTOR | GM_DISABLE | GM_MAX

fun gm_level :: "EGMAuthorityLevel \<Rightarrow> u8" where
  "gm_level GM_PLAYER = 0"
| "gm_level GM_LOW_WIZARD = 1"
| "gm_level GM_WIZARD = 2"
| "gm_level GM_HIGH_WIZARD = 3"
| "gm_level GM_GOD = 4"
| "gm_level GM_IMPLEMENTOR = 5"
| "gm_level GM_DISABLE = 6"
| "gm_level GM_MAX = 7"

definition event_params :: "TCustomParam list" where
  "event_params =
     [TCustomParam 2 T_uint16 (Some (bytes_of ''Event id'')),
      TCustomParam 1 T_bool (Some (bytes_of ''Open close setting''))]"

definition notification_params :: "TCustomParam list" where
  "notification_params =
     [TCustomParam 4 T_uint32 (Some (bytes_of ''Player ID'')),
      TCustomParam (32 + 1) T_char (Some (bytes_of ''Message title'')),
      TCustomParam 0 T_char (Some (bytes_of ''Message body''))]"

definition complex_params :: "TCustomParam list" where
  "complex_params =
     [TCustomParam 4 T_uint32 (Some (bytes_of ''Sub header id'')),
      TCustomParam 0 T_uint8 (Some (bytes_of ''extra data''))]"

definition g_custom_packets :: "(u16 \<rightharpoonup> ICustomPacket) option" where
  "g_custom_packets = do {
     m \<leftarrow> emplace_packet EXAMPLE_EVENT event_params
       (AdjustMinAuthority (gm_level GM_HIGH_WIZARD) \<circ> AdjustDescription (bytes_of ''Change event status'')) Map.empty;
     m \<leftarrow> emplace_packet EXAMPLE_NOTIFICATION notification_params
       (AdjustDescription (bytes_of ''Send notification to player'')) m;
     emplace_packet EXAMPLE_COMPLEX complex_params (AdjustDescription (bytes_of ''Random example!'')) m }"

subsection \<open>What the constructor accepts\<close>

text \<open>Only the last parameter is unlimited.\<close>

fun last_only :: "TCustomParam list \<Rightarrow> bool" where
  "last_only [] = True"
| "last_only [x] = True"
| "last_only (x # xs) = (p_size x \<noteq> 0 \<and> last_only xs)"

lemma last_only_Cons: "last_only (x # xs) \<longleftrightarrow> xs = [] \<or> p_size x \<noteq> 0 \<and> last_only xs"
  by (cases xs) simp_all

lemma unlimited_last_only:
  assumes "length pre + length xs < 2 ^ 64"
  shows "unlimited_before_last (pre @ xs) (of_nat (length pre + length xs) - 1) (length pre) (length xs) \<longleftrightarrow>
     \<not> last_only xs"
  using assms
proof (induction xs arbitrary: pre)
  case (Cons x xs)
  have "(of_nat (length pre + length (x # xs)) - 1 :: 64 word) = of_nat (length pre + length xs)" by simp
  moreover have "unat (of_nat (length pre + length xs) :: 64 word) = length pre + length xs"
    by (subst unat_of_nat) (use Cons.prems in simp)
  moreover have "unat (of_nat (length pre) :: 64 word) = length pre"
    by (subst unat_of_nat) (use Cons.prems in simp)
  ultimately have "(of_nat (length pre + length (x # xs)) - 1 :: 64 word) > of_nat (length pre) \<longleftrightarrow> xs \<noteq> []"
    by (simp add: word_less_nat_alt)
  then show ?case using Cons.IH [of "pre @ [x]"] Cons.prems by (auto simp: last_only_Cons)
qed simp

lemma TCustomPacket_iff:
  "length prms < 2 ^ 64 \<Longrightarrow>
   TCustomPacket prms =
     (if last_only prms then Some \<lparr>param_c = length prms, description = [], min_authority = 5, params = prms\<rparr>
      else None)"
  using unlimited_last_only [of "[]" prms] by (simp add: TCustomPacket_def Let_def)

text \<open>A value of a parameter on the wire: as long as declared, or of any length.\<close>

definition fits :: "TCustomParam \<Rightarrow> bytes \<Rightarrow> bool" where
  "fits x v \<longleftrightarrow> p_size x = 0 \<or> length v = unat (p_size x)"

lemma last_only_concat:
  "last_only xs \<Longrightarrow> list_all2 fits xs vs \<Longrightarrow> list_all2 fits xs ws \<Longrightarrow> concat vs = concat ws \<Longrightarrow> vs = ws"
proof (induction xs arbitrary: vs ws)
  case (Cons x xs)
  then obtain v vs' w ws' where e: "vs = v # vs'" "ws = w # ws'" "fits x v" "fits x w"
    "list_all2 fits xs vs'" "list_all2 fits xs ws'" by (auto simp: list_all2_Cons1)
  show ?case
  proof (cases "xs = []")
    case True
    then show ?thesis using Cons.prems(4) e by simp
  next
    case False
    then have "p_size x \<noteq> 0" "last_only xs" using Cons.prems(1) by (auto simp: last_only_Cons)
    then have "length v = length w" using e by (simp add: fits_def)
    then have "v = w" "concat vs' = concat ws'" using Cons.prems(4) e by simp_all
    then show ?thesis using Cons.IH [OF \<open>last_only xs\<close> e(5,6)] e by simp
  qed
qed simp

text \<open>
  C30. A packet the constructor accepts has a type on the wire: the bytes of its parameters, one behind
  the other and without any length between them, are the bytes of one list of values only.
\<close>

theorem payload_unambiguous:
  assumes "TCustomPacket prms = Some p" and "length prms < 2 ^ 64"
    and "list_all2 fits (params p) vs" and "list_all2 fits (params p) ws"
    and "concat vs = concat ws"
  shows "vs = ws"
proof -
  have "last_only prms" "params p = prms"
    using assms(1) by (auto simp: TCustomPacket_iff [OF assms(2)] split: if_splits)
  then show ?thesis using last_only_concat assms(3-5) by simp
qed

definition demo_notification :: "bytes list" where
  "demo_notification = [[7, 0, 0, 0], replicate 33 65, [72, 105]]"

lemma notification_packet:
  "TCustomPacket notification_params =
     Some \<lparr>param_c = 3, description = [], min_authority = 5, params = notification_params\<rparr>"
  by (simp add: TCustomPacket_iff notification_params_def TCustomParam_def)

lemma payload_unambiguous_witness:
  "{ws. list_all2 fits notification_params ws \<and> concat ws = concat demo_notification} = {demo_notification}"
proof -
  have fit: "list_all2 fits notification_params demo_notification"
    by (simp add: notification_params_def demo_notification_def fits_def TCustomParam_def)
  have len: "length notification_params < 2 ^ 64" by (simp add: notification_params_def)
  have "ws = demo_notification"
    if "list_all2 fits notification_params ws" "concat ws = concat demo_notification" for ws
    using payload_unambiguous [OF notification_packet len] that fit by simp
  then show ?thesis using fit by blast
qed

text \<open>Two of the values would do for an unlimited parameter in front.\<close>

lemma unlimited_first_ambiguous:
  "TCustomPacket [TCustomParam 0 T_char d, TCustomParam 0 T_char d'] = None"
  "list_all2 fits [TCustomParam 0 T_char d, TCustomParam 0 T_char d'] [[1], [2]]"
  "list_all2 fits [TCustomParam 0 T_char d, TCustomParam 0 T_char d'] [[], [1, 2]]"
  by (simp_all add: TCustomPacket_iff TCustomParam_def fits_def)

subsection \<open>The examples\<close>

lemma TCustomParam_sel [simp]:
  "p_size (TCustomParam n t d) = n" "p_type_var (TCustomParam n t d) = t"
  "p_mobile_type (TCustomParam n t d) = mobile_type_of t"
  by (simp_all add: TCustomParam_def)

text \<open>All three are in the table, the first from high wizards on, the others for implementors only.\<close>

lemma g_custom_packets_entries:
  obtains m where "g_custom_packets = Some m" "dom m = {EXAMPLE_EVENT, EXAMPLE_NOTIFICATION, EXAMPLE_COMPLEX}"
    "map_option min_authority (m EXAMPLE_EVENT) = Some (gm_level GM_HIGH_WIZARD)"
    "map_option min_authority (m EXAMPLE_NOTIFICATION) = Some (gm_level GM_IMPLEMENTOR)"
    "map_option min_authority (m EXAMPLE_COMPLEX) = Some (gm_level GM_IMPLEMENTOR)"
    "map_option params (m EXAMPLE_EVENT) = Some event_params"
proof -
  have ids: "EXAMPLE_EVENT \<noteq> EXAMPLE_NOTIFICATION" "EXAMPLE_EVENT \<noteq> EXAMPLE_COMPLEX"
    "EXAMPLE_NOTIFICATION \<noteq> EXAMPLE_COMPLEX"
    by (simp_all add: EXAMPLE_EVENT_def EXAMPLE_NOTIFICATION_def EXAMPLE_COMPLEX_def)
  have ok: "TCustomPacket event_params \<noteq> None" "TCustomPacket complex_params \<noteq> None"
    by (simp_all add: TCustomPacket_iff event_params_def complex_params_def)
  show thesis
    using ids ok notification_packet
    by (intro that, unfold g_custom_packets_def emplace_packet_def)
      (auto simp: AdjustMinAuthority_def AdjustDescription_def TCustomPacket_iff event_params_def complex_params_def
        split: if_splits)
qed

text \<open>A signed byte is shown as a character.\<close>

lemma int8_shown_as_char: "p_mobile_type (TCustomParam n T_int8 d) = M_CHAR"
  by (simp add: mobile_type_of_def TCustomParam_default_def)

text \<open>
  No packet of the first kind is ever handled: every payload the table describes is refused, because the
  handler counts the structure into the size that the receiving loop counts without it.
\<close>

lemma declared_event_refused:
  assumes "list_all2 fits event_params vs"
  shows "HandleForwardPacket (ser_SMForward \<lparr>SMForward_header = HEADER_SM_FORWARD,
     SMForward_size = of_nat (length (concat vs)), SMForward_sub_header = EXAMPLE_EVENT\<rparr> @ concat vs) = Some False"
proof -
  obtain v w where vs: "vs = [v, w]" "length v = 2" "length w = 1"
    using assms by (auto simp: event_params_def list_all2_Cons1 fits_def)
  let ?p = "\<lparr>SMForward_header = HEADER_SM_FORWARD, SMForward_size = 3, SMForward_sub_header = EXAMPLE_EVENT\<rparr>"
  have "get_SMForward (ser_SMForward ?p @ v @ w) 0 = Some ?p"
    using get_SMForward_ser [of "[]" ?p "v @ w"] by simp
  then show ?thesis
    using vs by (simp add: HandleForwardPacket_def Let_def advance_cursor_def sizeof_SMForward_def
        ser_SMForward_def get_u16_def nth_append)
qed

end
