(* ===== verification/Game_Chat.thy ===== *)
theory Game_Chat
  imports Game_Client Game_Hooks
begin

text \<open>
  The game client's side of what a player writes (\<open>SendChatPacket\<close> and \<open>SendWhisperPacket\<close> of
  \<open>binary/UserInterface/PythonNetworkStreamPhaseGame.cpp\<close>, \<open>Packet.h\<close>) and the constants it gives to the
  scripts (\<open>PythonMessenger.cpp\<close>). The client puts its code page into the packet; the server's \<open>Whisper\<close> hands it to
  \<open>sendUserCheck\<close>, and it ends in the packet that is kept for the device. Structures are packed. What the passage before
  the shown lines leaves in the packet is an argument, \<open>None\<close> when it returns.
\<close>

subsection \<open>Packets\<close>

record TPacketCGChat =
  cg_chat_header :: u8
  cg_chat_length :: u16
  cg_chat_type :: u8
  cg_chat_code_page :: u16

record TPacketCGWhisper =
  cg_whisper_header :: u8
  cg_whisper_wSize :: u16
  cg_whisper_szNameTo :: bytes
  cg_whisper_code_page :: u16

definition ser_TPacketCGWhisper :: "TPacketCGWhisper \<Rightarrow> bytes" where
  "ser_TPacketCGWhisper p = [cg_whisper_header p] @ le16 (cg_whisper_wSize p) @
     resize 25 (cg_whisper_szNameTo p) @ le16 (cg_whisper_code_page p)"

definition sizeof_TPacketCGWhisper :: nat where "sizeof_TPacketCGWhisper = 30"

lemma length_ser_TPacketCGWhisper [simp]: "length (ser_TPacketCGWhisper p) = sizeof_TPacketCGWhisper"
  by (simp add: ser_TPacketCGWhisper_def sizeof_TPacketCGWhisper_def)

text \<open>\<open>code_page\<close> is the result of \<open>LocaleService_GetCodePage\<close>.\<close>

definition SendChatPacket :: "u16 \<Rightarrow> TPacketCGChat option \<Rightarrow> u8 \<Rightarrow> TPacketCGChat option" where
  "SendChatPacket code_page begun byType =
     map_option (\<lambda>p. p\<lparr>cg_chat_type := byType, cg_chat_code_page := code_page\<rparr>) begun"

definition SendWhisperPacket :: "u16 \<Rightarrow> TPacketCGWhisper option \<Rightarrow> nat \<Rightarrow> TPacketCGWhisper option" where
  "SendWhisperPacket code_page begun iTextLen =
     map_option (\<lambda>p. p\<lparr>cg_whisper_wSize := of_nat (sizeof_TPacketCGWhisper + iTextLen),
       cg_whisper_code_page := code_page\<rparr>) begun"

subsection \<open>Constants for the scripts\<close>

datatype EUserStatus = OFFLINE | IN_GAME | IN_MOBILE

fun EUserStatus_code :: "EUserStatus \<Rightarrow> u16" where
  "EUserStatus_code OFFLINE = 1"
| "EUserStatus_code IN_GAME = 2"
| "EUserStatus_code IN_MOBILE = 4"

definition messenger_constants :: "(string \<times> int) list" where
  "messenger_constants =
     [(''STATE_OFFLINE'', uint (EUserStatus_code OFFLINE)),
      (''STATE_IN_GAME'', uint (EUserStatus_code IN_GAME)),
      (''STATE_IN_MOBILE'', uint (EUserStatus_code IN_MOBILE)),
      (''STATE_IN_GAME_AND_MOBILE'', uint (EUserStatus_code IN_GAME OR EUserStatus_code IN_MOBILE))]"

text \<open>Every status the server computes has a name in the scripts, and only that one.\<close>

lemma status_named:
  "\<exists>!f. (f, uint (GetUserStatus m account)) \<in> set messenger_constants"
  by (auto simp: GetUserStatus_def messenger_constants_def ST_OFFLINE_def ST_IN_GAME_def ST_IN_MOBILE_def Let_def)

subsection \<open>A whisper to a device\<close>


definition demo_reachable :: mobi where
  "demo_reachable = mobi_init\<lparr>messenger_state := messenger_new\<lparr>m_set_mobileAccount := {bytes_of ''Ayse''}\<rparr>\<rparr>"

definition demo_begun :: TPacketCGWhisper where
  "demo_begun = \<lparr>cg_whisper_header = 19, cg_whisper_wSize = 0, cg_whisper_szNameTo = bytes_of ''Ayse'', cg_whisper_code_page = 0\<rparr>"


end
