(* ===== verification/Log_Files.thy ===== *)
theory Log_Files
  imports Log_Format "HOL-Library.AList"
begin

text \<open>
  The files behind the log (\<open>Singletons/log_manager.cpp\<close>): \<open>OpenLogFile\<close> chooses and rotates the file of
  a level, \<open>DoFileStuff\<close> appends a line, and at the start the old files are moved to an archive.

  A path is its components, the disk an association list from paths to directories and files, in the
  order in which \<open>directory_iterator\<close> would meet them; the iterations of the code run over the entries
  of the moment they start. \<open>denied\<close> tells the paths that the process cannot create, open or remove. An
  exception that leaves an operation, and a recursion that does not end, is \<open>None\<close>.
\<close>

subsection \<open>The disk\<close>

type_synonym path = "bytes list"

datatype node = Dir | File bytes

record LogFile =
  lf_file :: "path option"
  line_count :: nat
  current_file_number :: nat

definition LogFile_new :: LogFile where
  "LogFile_new = \<lparr>lf_file = None, line_count = 0, current_file_number = 0\<rparr>"

record CLogManager =
  disk :: "(path \<times> node) list"
  denied :: "path \<Rightarrow> bool"
  log_files :: "LogLevel \<rightharpoonup> LogFile"

definition at_path :: "CLogManager \<Rightarrow> path \<Rightarrow> node option" where
  "at_path s p = map_of (disk s) p"

definition put :: "path \<Rightarrow> node \<Rightarrow> CLogManager \<Rightarrow> CLogManager" where
  "put p n s = s\<lparr>disk := AList.update p n (disk s)\<rparr>"

definition directory_entries :: "CLogManager \<Rightarrow> path \<Rightarrow> bytes list" where
  "directory_entries s dir = remdups (List.map_filter
     (\<lambda>(p, _). if p \<noteq> [] \<and> butlast p = dir then Some (last p) else None) (disk s))"

definition fs_create_directory :: "path \<Rightarrow> CLogManager \<Rightarrow> CLogManager option" where
  "fs_create_directory p s =
     (case at_path s p of
        Some Dir \<Rightarrow> Some s
      | Some (File _) \<Rightarrow> None
      | None \<Rightarrow>
          if denied s p \<or> (butlast p \<noteq> [] \<and> at_path s (butlast p) \<noteq> Some Dir) then None
          else Some (put p Dir s))"

definition fs_copy_file :: "path \<Rightarrow> path \<Rightarrow> CLogManager \<Rightarrow> CLogManager option" where
  "fs_copy_file from to s =
     (case at_path s from of
        Some (File c) \<Rightarrow>
          if at_path s to \<noteq> None \<or> denied s to \<or> at_path s (butlast to) \<noteq> Some Dir then None
          else Some (put to (File c) s)
      | _ \<Rightarrow> None)"

definition fs_remove :: "path \<Rightarrow> CLogManager \<Rightarrow> CLogManager option" where
  "fs_remove p s =
     (case at_path s p of
        None \<Rightarrow> Some s
      | Some n \<Rightarrow>
          if denied s p \<or> (n = Dir \<and> directory_entries s p \<noteq> []) then None
          else Some (s\<lparr>disk := AList.delete p (disk s)\<rparr>))"

text \<open>\<open>ofstream::open\<close> for appending, and what is written to a stream; a closed stream takes nothing.\<close>

definition stream_open :: "path \<Rightarrow> CLogManager \<Rightarrow> path option \<times> CLogManager" where
  "stream_open p s =
     (if denied s p \<or> at_path s (butlast p) \<noteq> Some Dir then (None, s)
      else case at_path s p of
        Some Dir \<Rightarrow> (None, s)
      | Some (File _) \<Rightarrow> (Some p, s)
      | None \<Rightarrow> (Some p, put p (File []) s))"

definition stream_write :: "path option \<Rightarrow> bytes \<Rightarrow> CLogManager \<Rightarrow> CLogManager" where
  "stream_write f txt s =
     (case f of
        None \<Rightarrow> s
      | Some p \<Rightarrow> (case at_path s p of Some (File c) \<Rightarrow> put p (File (c @ txt)) s | _ \<Rightarrow> s))"

subsection \<open>The file of a level\<close>

definition max_lines_per_file :: nat where "max_lines_per_file = 2000"
definition log_base_dir :: bytes where "log_base_dir = bytes_of ''mobile_logs''"
definition log_file_extension :: bytes where "log_file_extension = bytes_of ''.txt''"
definition log_backup_base :: bytes where "log_backup_base = bytes_of ''mobile_log_backups''"
definition log_backup_prefix :: bytes where "log_backup_prefix = bytes_of ''logs_''"
definition log_backup_extension :: bytes where "log_backup_extension = bytes_of ''.zip''"
definition log_retention_days :: nat where "log_retention_days = 30"
definition log_rotation_size :: nat where "log_rotation_size = 10"

fun level_dirs :: "LogLevel \<Rightarrow> bytes" where
  "level_dirs TRACE = bytes_of ''trace''"
| "level_dirs INFO = bytes_of ''info''"
| "level_dirs WARN = bytes_of ''warnings''"
| "level_dirs ERR = bytes_of ''errors''"
| "level_dirs FATAL = bytes_of ''fatal''"
| "level_dirs REPORT = bytes_of ''report''"

text \<open>\<open>std::setw(5) << std::setfill('0')\<close>.\<close>

definition pad5 :: "nat \<Rightarrow> bytes" where
  "pad5 n = setw0 5 (int n)"

definition GetLogFilePath :: "LogLevel \<Rightarrow> nat \<Rightarrow> path" where
  "GetLogFilePath level file_number =
     [log_base_dir, level_dirs level, level_dirs level @ bytes_of ''_'' @ pad5 file_number @ log_file_extension]"

text \<open>The path as the string the code builds.\<close>

fun path_string :: "path \<Rightarrow> bytes" where
  "path_string [] = []"
| "path_string [c] = c"
| "path_string (c # cs) = c @ [47] @ path_string cs"

text \<open>Whether the file has to be left: \<open>None\<close> when its size cannot be asked.\<close>

definition rotates :: "path \<Rightarrow> LogFile \<Rightarrow> CLogManager \<Rightarrow> bool option" where
  "rotates filepath lf s =
     (case at_path s filepath of
        None \<Rightarrow> Some False
      | Some Dir \<Rightarrow> None
      | Some (File c) \<Rightarrow>
          Some (length c div (1024 * 1024) \<ge> log_rotation_size \<or> line_count lf \<ge> max_lines_per_file))"

text \<open>\<open>fail\<close> is the call of \<open>error\<close> with the path.\<close>

definition OpenLogFile ::
  "(path \<Rightarrow> CLogManager \<Rightarrow> CLogManager option) \<Rightarrow> bytes \<Rightarrow> LogLevel \<Rightarrow> bool \<Rightarrow> CLogManager \<Rightarrow> CLogManager option" where
  "OpenLogFile fail stamp level bInit s = do {
     let lf = (case log_files s level of None \<Rightarrow> LogFile_new | Some lf \<Rightarrow> lf);
     let dir = [log_base_dir, level_dirs level];
     s \<leftarrow> (if at_path s dir = None then fs_create_directory dir s else Some s);
     rotate \<leftarrow> rotates (GetLogFilePath level (current_file_number lf)) lf s;
     let lf = (if rotate then \<lparr>lf_file = None, line_count = 0, current_file_number = current_file_number lf + 1\<rparr>
               else lf);
     let filepath = GetLogFilePath level (current_file_number lf);
     if lf_file lf \<noteq> None then Some (s\<lparr>log_files := (log_files s)(level \<mapsto> lf)\<rparr>)
     else let (f, s) = stream_open filepath s in
       if bInit
       then let s = stream_write f (bytes_of ''Log file created at '' @ stamp @ [10]) s
            in Some (s\<lparr>log_files := (log_files s)(level \<mapsto> lf)\<rparr>)
       else let s = s\<lparr>log_files := (log_files s)(level \<mapsto> lf\<lparr>lf_file := f\<rparr>)\<rparr>
            in if f = None then fail filepath s else Some s }"

text \<open>
  \<open>DoFileStuff\<close>. The first argument bounds the depth of the recursion through \<open>error\<close>: 0 is a call that
  cannot be entered any more.
\<close>

fun DoFileStuff :: "nat \<Rightarrow> bytes \<Rightarrow> LogLevel \<Rightarrow> bytes \<Rightarrow> CLogManager \<Rightarrow> CLogManager option" where
  "DoFileStuff 0 stamp level formatted_msg s = None"
| "DoFileStuff (Suc k) stamp level formatted_msg s = do {
     s \<leftarrow> OpenLogFile (\<lambda>filepath s.
         case log_line stamp ERR (bytes_of ''CRITICAL: Failed to open log file: ?'') [ArgText (path_string filepath)] of
           None \<Rightarrow> Some s
         | Some line \<Rightarrow> DoFileStuff k stamp ERR line s) stamp level False s;
     let lf = the (log_files s level);
     let s = stream_write (lf_file lf) formatted_msg s;
     Some (s\<lparr>log_files := (log_files s)(level \<mapsto> lf\<lparr>line_count := line_count lf + 1\<rparr>)\<rparr>) }"


subsection \<open>Reading the disk\<close>

lemma at_path_put [simp]: "at_path (put p n s) q = (if q = p then Some n else at_path s q)"
  by (simp add: at_path_def put_def update_conv')

lemma put_sel [simp]: "denied (put p n s) = denied s" "log_files (put p n s) = log_files s"
  by (simp_all add: put_def)

lemma at_path_log_files [simp]: "at_path (s\<lparr>log_files := m\<rparr>) = at_path s"
  by (simp add: at_path_def fun_eq_iff)

definition content :: "CLogManager \<Rightarrow> path \<Rightarrow> bytes" where
  "content s p = (case at_path s p of Some (File c) \<Rightarrow> c | _ \<Rightarrow> [])"

definition file_at :: "CLogManager \<Rightarrow> path \<Rightarrow> bool" where
  "file_at s p \<longleftrightarrow> (\<exists>c. at_path s p = Some (File c))"

lemma stream_write_file:
  assumes "file_at s p"
  shows "at_path (stream_write (Some p) txt s) = (at_path s)(p \<mapsto> File (content s p @ txt))"
    and "log_files (stream_write (Some p) txt s) = log_files s" and "denied (stream_write (Some p) txt s) = denied s"
  using assms by (auto simp: stream_write_def content_def file_at_def)

subsection \<open>Paths\<close>

lemma pad5_inj: "pad5 n = pad5 m \<Longrightarrow> n = m"
  using of_decimal_pad unfolding pad5_def setw0_def by (metis signed_decimal_nat)

lemma level_dirs_inj [simp]: "level_dirs l = level_dirs l' \<longleftrightarrow> l = l'"
  by (cases l; cases l') (simp_all add: bytes_of_def)

lemma GetLogFilePath_inj [simp]: "GetLogFilePath l n = GetLogFilePath l' n' \<longleftrightarrow> l = l' \<and> n = n'"
  by (auto simp: GetLogFilePath_def dest: pad5_inj)

subsection \<open>A line that is logged\<close>

definition log_file_of :: "CLogManager \<Rightarrow> LogLevel \<Rightarrow> LogFile" where
  "log_file_of s level = (case log_files s level of None \<Rightarrow> LogFile_new | Some lf \<Rightarrow> lf)"

text \<open>An open stream is the current file, which exists and has no more lines than it may.\<close>

definition log_ok :: "CLogManager \<Rightarrow> bool" where
  "log_ok s \<longleftrightarrow> (\<forall>l. let lf = log_file_of s l in
     case lf_file lf of
       None \<Rightarrow> line_count lf = 0
     | Some p \<Rightarrow> p = GetLogFilePath l (current_file_number lf) \<and> file_at s p \<and> line_count lf \<le> max_lines_per_file)"

text \<open>A disk on which the files of the log can be opened.\<close>

definition usable :: "CLogManager \<Rightarrow> bool" where
  "usable s \<longleftrightarrow> (\<forall>p. \<not> denied s p) \<and> at_path s [log_base_dir] = Some Dir \<and>
     (\<forall>l. at_path s [log_base_dir, level_dirs l] \<in> {None, Some Dir}) \<and>
     (\<forall>l n. at_path s (GetLogFilePath l n) \<noteq> Some Dir)"

lemma log_okD:
  assumes "log_ok s"
  shows "lf_file (log_file_of s l) = None \<Longrightarrow> line_count (log_file_of s l) = 0"
    and "lf_file (log_file_of s l) = Some p \<Longrightarrow> p = GetLogFilePath l (current_file_number (log_file_of s l)) \<and>
      file_at s p \<and> line_count (log_file_of s l) \<le> max_lines_per_file"
  using assms by (force simp: log_ok_def Let_def dest: spec [of _ l])+

lemma log_files_path_simps [simp]:
  "GetLogFilePath l n \<noteq> [log_base_dir]" "GetLogFilePath l n \<noteq> [log_base_dir, d]"
  "[log_base_dir] \<noteq> GetLogFilePath l n" "[log_base_dir, d] \<noteq> GetLogFilePath l n"
  "butlast (GetLogFilePath l n) = [log_base_dir, level_dirs l]"
  by (simp_all add: GetLogFilePath_def)

lemma ensure_dir:
  assumes "usable s" and "dir = [log_base_dir, level_dirs l]"
  obtains t where "(if at_path s dir = None then fs_create_directory dir s else Some s) = Some t"
    "usable t" "at_path t dir = Some Dir" "log_files t = log_files s" "content t = content s" "file_at t = file_at s"
proof (cases "at_path s dir")
  case None
  then have "fs_create_directory dir s = Some (put dir Dir s)"
    using assms by (simp add: fs_create_directory_def usable_def)
  moreover have "usable (put dir Dir s)" using assms by (auto simp: usable_def)
  moreover have "content (put dir Dir s) = content s" "file_at (put dir Dir s) = file_at s"
    using None by (auto simp: content_def file_at_def fun_eq_iff)
  ultimately show thesis using None that by simp
next
  case (Some n)
  have "at_path s dir \<in> {None, Some Dir}" using assms by (simp add: usable_def)
  then show thesis using Some assms(1) that [of s] by simp
qed

lemma open_file:
  assumes "usable s" and "at_path s [log_base_dir, level_dirs l] = Some Dir"
  obtains t where "stream_open (GetLogFilePath l n) s = (Some (GetLogFilePath l n), t)" "usable t"
    "log_files t = log_files s" "content t = content s" "file_at t = (file_at s)(GetLogFilePath l n := True)"
proof (cases "at_path s (GetLogFilePath l n)")
  case None
  let ?t = "put (GetLogFilePath l n) (File []) s"
  have "stream_open (GetLogFilePath l n) s = (Some (GetLogFilePath l n), ?t)"
    using assms None by (simp add: stream_open_def usable_def)
  moreover have "usable ?t" using assms by (auto simp: usable_def)
  moreover have "content ?t = content s" using None by (auto simp: content_def fun_eq_iff)
  ultimately show thesis using that [of ?t] by (auto simp: file_at_def fun_eq_iff)
next
  case (Some m)
  then obtain c where "m = File c" using assms(1) by (cases m) (auto simp: usable_def)
  then have "stream_open (GetLogFilePath l n) s = (Some (GetLogFilePath l n), s)"
    using assms Some by (simp add: stream_open_def usable_def)
  then show thesis using that [of s] assms Some \<open>m = File c\<close> by (auto simp: file_at_def fun_eq_iff)
qed

lemma log_file_of_upd [simp]:
  "log_file_of (t\<lparr>log_files := (log_files s)(l \<mapsto> lf)\<rparr>) l' = (if l' = l then lf else log_file_of s l')"
  by (simp add: log_file_of_def)

lemma log_file_of_cong: "log_files t = log_files s \<Longrightarrow> log_file_of t = log_file_of s"
  by (simp add: log_file_of_def fun_eq_iff)

lemma log_files_upd_sel [simp]:
  "content (s\<lparr>log_files := m\<rparr>) = content s" "file_at (s\<lparr>log_files := m\<rparr>) = file_at s"
  "usable (s\<lparr>log_files := m\<rparr>) = usable s"
  by (simp_all add: content_def file_at_def usable_def fun_eq_iff)

lemma rotates_ok:
  "usable s \<Longrightarrow>
   \<exists>r. rotates (GetLogFilePath l n) lf s = Some r \<and>
     (r \<or> \<not> file_at s (GetLogFilePath l n) \<or> line_count lf < max_lines_per_file)"
  by (cases "at_path s (GetLogFilePath l n)")
    (auto simp: rotates_def usable_def file_at_def not_le split: node.split)

definition rotated :: "bool \<Rightarrow> LogFile \<Rightarrow> LogFile" where
  "rotated b lf =
     (if b then \<lparr>lf_file = None, line_count = 0, current_file_number = current_file_number lf + 1\<rparr> else lf)"

lemma OpenLogFile_eq:
  assumes "(if at_path s [log_base_dir, level_dirs l] = None
      then fs_create_directory [log_base_dir, level_dirs l] s else Some s) = Some u"
    and "rotates (GetLogFilePath l (current_file_number (log_file_of s l))) (log_file_of s l) u = Some b"
    and "lf = rotated b (log_file_of s l)" and "filepath = GetLogFilePath l (current_file_number lf)"
  shows "OpenLogFile fail stamp l bInit s =
     (if lf_file lf \<noteq> None then Some (u\<lparr>log_files := (log_files u)(l \<mapsto> lf)\<rparr>)
      else let (f, v) = stream_open filepath u in
        if bInit
        then let w = stream_write f (bytes_of ''Log file created at '' @ stamp @ [10]) v
             in Some (w\<lparr>log_files := (log_files w)(l \<mapsto> lf)\<rparr>)
        else let w = v\<lparr>log_files := (log_files v)(l \<mapsto> lf\<lparr>lf_file := f\<rparr>)\<rparr>
             in if f = None then fail filepath w else Some w)"
  unfolding OpenLogFile_def Let_def log_file_of_def [symmetric] assms(1) bind.bind_lunit assms(2)
    assms(3,4) rotated_def by (rule refl)

lemma OpenLogFile_ok:
  assumes ok: "log_ok s" and use: "usable s"
  obtains t lf where "OpenLogFile fail stamp l False s = Some t" "log_files t l = Some lf" "usable t"
    "lf_file lf = Some (GetLogFilePath l (current_file_number lf))"
    "file_at t (GetLogFilePath l (current_file_number lf))" "line_count lf < max_lines_per_file"
    "current_file_number lf = current_file_number (log_file_of s l) \<and> line_count lf = line_count (log_file_of s l) \<or>
     current_file_number lf = current_file_number (log_file_of s l) + 1 \<and> line_count lf = 0"
    "content t = content s" "\<And>p. file_at s p \<Longrightarrow> file_at t p"
    "\<And>l'. l' \<noteq> l \<Longrightarrow> log_file_of t l' = log_file_of s l'"
proof -
  let ?lf = "log_file_of s l"
  let ?p = "GetLogFilePath l (current_file_number ?lf)"
  obtain s1 where s1: "(if at_path s [log_base_dir, level_dirs l] = None
      then fs_create_directory [log_base_dir, level_dirs l] s else Some s) = Some s1" "usable s1"
    "at_path s1 [log_base_dir, level_dirs l] = Some Dir" "log_files s1 = log_files s" "content s1 = content s"
    "file_at s1 = file_at s"
    by (rule ensure_dir [OF use refl])
  obtain r where r: "rotates ?p ?lf s1 = Some r" "r \<or> \<not> file_at s ?p \<or> line_count ?lf < max_lines_per_file"
    using rotates_ok [OF s1(2), of l "current_file_number ?lf" ?lf] s1(6) by auto
  define lf where "lf = rotated r ?lf"
  let ?q = "GetLogFilePath l (current_file_number lf)"
  note run = OpenLogFile_eq [OF s1(1) r(1) lf_def refl, of fail stamp False]
  have moved: "current_file_number lf = current_file_number ?lf \<and> line_count lf = line_count ?lf \<or>
      current_file_number lf = current_file_number ?lf + 1 \<and> line_count lf = 0"
    by (simp add: lf_def rotated_def)
  show thesis
  proof (cases "lf_file lf")
    case None
    then have "line_count lf = 0" using log_okD(1) [OF ok] by (auto simp: lf_def rotated_def split: if_splits)
    moreover obtain t where "stream_open ?q s1 = (Some ?q, t)" "usable t" "log_files t = log_files s1"
      "content t = content s1" "file_at t = (file_at s1)(?q := True)"
      by (rule open_file [OF s1(2,3)])
    ultimately show thesis
      using None run moved s1 log_file_of_cong [of t s]
      by (intro that [of "t\<lparr>log_files := (log_files t)(l \<mapsto> lf\<lparr>lf_file := Some ?q\<rparr>)\<rparr>" "lf\<lparr>lf_file := Some ?q\<rparr>"])
        (simp_all add: max_lines_per_file_def)
  next
    case (Some f)
    then have "\<not> r" "lf = ?lf" by (auto simp: lf_def rotated_def split: if_splits)
    then show thesis
      using Some run moved s1 r(2) log_okD(2) [OF ok, of l f] log_file_of_cong [of s1 s]
      by (intro that [of "s1\<lparr>log_files := (log_files s1)(l \<mapsto> lf)\<rparr>" lf]) auto
  qed
qed

lemma DoFileStuff_step:
  assumes ok: "log_ok s" and use: "usable s"
  obtains t where "DoFileStuff (Suc k) stamp level msg s = Some t" "log_ok t" "usable t"
    "let lf = log_file_of s level; lf' = log_file_of t level in
       (current_file_number lf' = current_file_number lf \<and> line_count lf' = line_count lf + 1 \<or>
        current_file_number lf' = current_file_number lf + 1 \<and> line_count lf' = 1) \<and>
       content t (GetLogFilePath level (current_file_number lf')) =
         content s (GetLogFilePath level (current_file_number lf')) @ msg"
    "\<And>p. p \<noteq> GetLogFilePath level (current_file_number (log_file_of t level)) \<Longrightarrow> content t p = content s p"
    "\<And>l. l \<noteq> level \<Longrightarrow> log_file_of t l = log_file_of s l"
proof -
  obtain u lf where u: "OpenLogFile (\<lambda>filepath s.
         case log_line stamp ERR (bytes_of ''CRITICAL: Failed to open log file: ?'') [ArgText (path_string filepath)] of
           None \<Rightarrow> Some s
         | Some line \<Rightarrow> DoFileStuff k stamp ERR line s) stamp level False s = Some u" "log_files u level = Some lf"
    "usable u" "lf_file lf = Some (GetLogFilePath level (current_file_number lf))"
    "file_at u (GetLogFilePath level (current_file_number lf))" "line_count lf < max_lines_per_file"
    "current_file_number lf = current_file_number (log_file_of s level) \<and> line_count lf = line_count (log_file_of s level) \<or>
     current_file_number lf = current_file_number (log_file_of s level) + 1 \<and> line_count lf = 0"
    "content u = content s" "\<And>p. file_at s p \<Longrightarrow> file_at u p"
    "\<And>l'. l' \<noteq> level \<Longrightarrow> log_file_of u l' = log_file_of s l'"
    by (rule OpenLogFile_ok [OF ok use]) blast
  let ?q = "GetLogFilePath level (current_file_number lf)"
  let ?lf' = "lf\<lparr>line_count := line_count lf + 1\<rparr>"
  define v where "v = stream_write (Some ?q) msg u"
  note v = stream_write_file [OF u(5), of msg, folded v_def]
  let ?t = "v\<lparr>log_files := (log_files v)(level \<mapsto> ?lf')\<rparr>"
  have run: "DoFileStuff (Suc k) stamp level msg s = Some ?t"
    using u(1,2,4) by (simp add: Let_def v_def)
  have c: "content v p = (if p = ?q then content s ?q @ msg else content s p)" for p
    using v(1) u(8) by (auto simp: content_def fun_eq_iff)
  have f: "file_at v = file_at u" using v(1) u(5) by (auto simp: file_at_def fun_eq_iff)
  have "usable v" using u(3) v(1,3) by (auto simp: usable_def)
  have lfs: "log_file_of ?t l = (if l = level then ?lf' else log_file_of s l)" for l
    using u(10) log_file_of_cong [OF v(2)] by simp
  have others: "log_file_of v l = log_file_of s l" if "l \<noteq> level" for l
    using u(10) [OF that] log_file_of_cong [OF v(2)] by simp
  have "log_ok ?t"
    unfolding log_ok_def
  proof
    fix l
    show "let lf = log_file_of ?t l in
     case lf_file lf of
       None \<Rightarrow> line_count lf = 0
     | Some p \<Rightarrow> p = GetLogFilePath l (current_file_number lf) \<and> file_at ?t p \<and> line_count lf \<le> max_lines_per_file"
      using u(4,5,6,9) f lfs [of l] log_okD [OF ok, of l]
      by (cases "lf_file (log_file_of s l)") (auto simp: Let_def)
  qed
  then show thesis
    by (intro that [OF run]) (use \<open>usable v\<close> others c u(7) in \<open>simp_all add: Let_def\<close>)
qed


text \<open>The lines of a run: the time stamp of each, its level and its text.\<close>

fun log_calls :: "nat \<Rightarrow> (bytes \<times> LogLevel \<times> bytes) list \<Rightarrow> CLogManager \<Rightarrow> CLogManager option" where
  "log_calls k [] s = Some s"
| "log_calls k ((stamp, level, line) # calls) s =
     Option.bind (DoFileStuff k stamp level line s) (log_calls k calls)"

lemma log_calls_snoc:
  "log_calls k (calls @ [(stamp, level, line)]) s =
     Option.bind (log_calls k calls s) (DoFileStuff k stamp level line)"
  by (induction calls arbitrary: s) (auto split: bind_split)

definition lines_of :: "LogLevel \<Rightarrow> (bytes \<times> LogLevel \<times> bytes) list \<Rightarrow> bytes list" where
  "lines_of level calls = [line. (_, l, line) \<leftarrow> calls, l = level]"

abbreviation current :: "CLogManager \<Rightarrow> LogLevel \<Rightarrow> nat" where
  "current s level \<equiv> current_file_number (log_file_of s level)"

text \<open>How the lines went to the files of a level: \<open>part n\<close> is what is new in the \<open>n\<close>-th.\<close>

definition line_bound :: "CLogManager \<Rightarrow> LogLevel \<Rightarrow> nat \<Rightarrow> nat" where
  "line_bound t level n =
     (if n = current t level then line_count (log_file_of t level)
      else if n < current t level then max_lines_per_file else 0)"

definition parted :: "CLogManager \<Rightarrow> CLogManager \<Rightarrow> LogLevel \<Rightarrow> bytes list \<Rightarrow> (nat \<Rightarrow> bytes list) \<Rightarrow> bool" where
  "parted s t level ls part \<longleftrightarrow>
     concat (map part [0..<Suc (current t level)]) = ls \<and>
     (\<forall>n. length (part n) \<le> line_bound t level n) \<and>
     (\<forall>n. content t (GetLogFilePath level n) = content s (GetLogFilePath level n) @ concat (part n))"

lemma parted_other:
  "parted s t level ls part \<Longrightarrow> log_file_of u level = log_file_of t level \<Longrightarrow>
   (\<And>n. content u (GetLogFilePath level n) = content t (GetLogFilePath level n)) \<Longrightarrow> parted s u level ls part"
  by (simp add: parted_def line_bound_def [abs_def] cong: if_cong)

lemma parted_line:
  assumes "parted s t level ls part" and "line_count (log_file_of t level) \<le> max_lines_per_file"
    and "current u level = current t level \<and> line_count (log_file_of u level) = line_count (log_file_of t level) + 1 \<or>
        current u level = current t level + 1 \<and> line_count (log_file_of u level) = 1"
    and "\<And>n. content u (GetLogFilePath level n) =
        content t (GetLogFilePath level n) @ (if n = current u level then msg else [])"
  shows "parted s u level (ls @ [msg]) (part(current u level := part (current u level) @ [msg]))"
proof -
  have len: "length (part n) \<le> line_bound t level n" for n
    using assms(1) by (simp add: parted_def)
  have same: "map (part(k := x)) [0..<k] = map part [0..<k]" for k x by simp
  show ?thesis
    using assms(3)
  proof
    assume c: "current u level = current t level \<and> line_count (log_file_of u level) = line_count (log_file_of t level) + 1"
    have "length ((part(current u level := part (current u level) @ [msg])) n) \<le>
        line_bound u level n" for n
      using len [of n] c by (simp add: line_bound_def split: if_splits)
    then show ?thesis
      using assms(1,4) c by (auto simp: parted_def same)
  next
    assume c: "current u level = current t level + 1 \<and> line_count (log_file_of u level) = 1"
    have e: "part (Suc (current t level)) = []" using len [of "Suc (current t level)"] by (simp add: line_bound_def)
    have "length ((part(current u level := part (current u level) @ [msg])) n) \<le>
        line_bound u level n" for n
      using len [of n] c e assms(2) by (simp add: line_bound_def split: if_splits)
    then show ?thesis
      using assms(1,4) c e by (auto simp: parted_def)
  qed
qed

lemma log_calls_parted:
  assumes "log_ok s" and "usable s" and "\<And>l. log_files s l = None"
  shows "\<exists>t part. log_calls (Suc k) calls s = Some t \<and> log_ok t \<and> usable t \<and>
     (\<forall>level. parted s t level (lines_of level calls) (part level))"
proof (induction calls rule: rev_induct)
  case Nil
  have "parted s s level [] (\<lambda>n. [])" for level by (simp add: parted_def)
  then show ?case using assms by (intro exI [of _ s] exI [of _ "\<lambda>l n. []"]) (simp add: lines_of_def)
next
  case (snoc call calls)
  obtain stamp level msg where call: "call = (stamp, level, msg)" by (cases call)
  obtain t part where t: "log_calls (Suc k) calls s = Some t" "log_ok t" "usable t"
    "\<And>l. parted s t l (lines_of l calls) (part l)"
    using snoc by blast
  obtain u where u: "DoFileStuff (Suc k) stamp level msg t = Some u" "log_ok u" "usable u"
    "let lf = log_file_of t level; lf' = log_file_of u level in
       (current_file_number lf' = current_file_number lf \<and> line_count lf' = line_count lf + 1 \<or>
        current_file_number lf' = current_file_number lf + 1 \<and> line_count lf' = 1) \<and>
       content u (GetLogFilePath level (current_file_number lf')) =
         content t (GetLogFilePath level (current_file_number lf')) @ msg"
    "\<And>p. p \<noteq> GetLogFilePath level (current u level) \<Longrightarrow> content u p = content t p"
    "\<And>l. l \<noteq> level \<Longrightarrow> log_file_of u l = log_file_of t l"
    by (rule DoFileStuff_step [OF t(2,3), where k = k and stamp = stamp and level = level and msg = msg])
      (rule that)
  have count: "line_count (log_file_of t level) \<le> max_lines_per_file"
    using log_okD [OF t(2), of level] by (cases "lf_file (log_file_of t level)") auto
  have "parted s u level (lines_of level calls @ [msg]) ((part level)(current u level := part level (current u level) @ [msg]))"
    by (rule parted_line [OF t(4) count]) (use u(4,5) in \<open>auto simp: Let_def\<close>)
  moreover have "parted s u l (lines_of l calls) (part l)" if "l \<noteq> level" for l
    using t(4) u(6) [OF that] by (rule parted_other) (use u(5) that in simp)
  ultimately have "parted s u l (lines_of l (calls @ [call]))
      ((part(level := (part level)(current u level := part level (current u level) @ [msg]))) l)" for l
    by (auto simp: call lines_of_def)
  then have "\<exists>part. \<forall>l. parted s u l (lines_of l (calls @ [call])) (part l)" by blast
  then show ?case using t(1) u(1,2,3) by (simp add: call log_calls_snoc del: DoFileStuff.simps)
qed

text \<open>
  On a disk that can be written, no line is lost and no file grows without bound: whatever is logged,
  at whatever levels, the files of a level, in the order of their numbers, hold in addition to what they
  held before exactly the lines of that level in the order of the calls, and none got more than 2000.
\<close>

lemma log_complete:
  assumes "usable s" and "log_files s = Map.empty"
  shows "\<exists>t. log_calls (Suc k) calls s = Some t \<and>
     (\<forall>level. \<exists>part. concat (map part [0..<Suc (current t level)]) = lines_of level calls \<and>
        (\<forall>n. length (part n) \<le> max_lines_per_file \<and>
           content t (GetLogFilePath level n) = content s (GetLogFilePath level n) @ concat (part n)))"
proof -
  have "log_ok s" using assms(2) by (simp add: log_ok_def log_file_of_def LogFile_new_def)
  then obtain t part where t: "log_calls (Suc k) calls s = Some t" "log_ok t"
    "\<And>level. parted s t level (lines_of level calls) (part level)"
    using log_calls_parted [OF _ assms(1)] assms(2) by fastforce
  have "length (part level n) \<le> max_lines_per_file" for level n
  proof -
    have "line_count (log_file_of t level) \<le> max_lines_per_file"
      using log_okD [OF t(2), of level] by (cases "lf_file (log_file_of t level)") auto
    moreover have "length (part level n) \<le> line_bound t level n"
      using t(3) [of level] by (simp add: parted_def)
    ultimately show ?thesis by (simp add: line_bound_def split: if_splits)
  qed
  then show ?thesis using t(1,3) unfolding parted_def by blast
qed

definition demo_disk :: CLogManager where
  "demo_disk = \<lparr>disk = [([log_base_dir], Dir)], denied = (\<lambda>_. False), log_files = Map.empty\<rparr>"

lemma demo_disk_usable: "usable demo_disk"
  by (simp add: usable_def demo_disk_def at_path_def)

lemma log_complete_demo:
  "\<exists>t part. log_calls 1 [([], INFO, [65]), ([], ERR, [66]), ([], INFO, [67])] demo_disk = Some t \<and>
     concat (map part [0..<Suc (current t INFO)]) = [[65], [67]] \<and>
     (\<forall>n. content t (GetLogFilePath INFO n) = concat (part n))"
proof -
  let ?calls = "[([], INFO, [65]), ([], ERR, [66]), ([], INFO, [67])] :: (bytes \<times> LogLevel \<times> bytes) list"
  have "content demo_disk (GetLogFilePath INFO n) = []" for n
    by (simp add: content_def demo_disk_def at_path_def)
  moreover have "log_files demo_disk = Map.empty" by (simp add: demo_disk_def)
  moreover have "lines_of INFO ?calls = [[65], [67]]" by (simp add: lines_of_def)
  ultimately show ?thesis
    using log_complete [OF demo_disk_usable, of 0 ?calls] by (metis One_nat_def append_Nil)
qed

text \<open>When the file for errors itself cannot be opened, logging never returns.\<close>

lemma error_recursion:
  assumes "log_file_of s ERR = LogFile_new" and "at_path s [log_base_dir, level_dirs ERR] = Some Dir"
    and "denied s (GetLogFilePath ERR 0)" and "at_path s (GetLogFilePath ERR 0) = None"
  shows "DoFileStuff k stamp ERR msg s = None"
  using assms
proof (induction k arbitrary: msg s)
  case (Suc k)
  let ?s = "s\<lparr>log_files := (log_files s)(ERR \<mapsto> LogFile_new)\<rparr>"
  have "DoFileStuff k stamp ERR line ?s = None" for line
    by (rule Suc.IH) (use Suc.prems in simp_all)
  moreover have "bytes_of ''CRITICAL: Failed to open log file: ?'' \<noteq> []" by (simp add: bytes_of_def)
  ultimately show ?case
    using Suc.prems
    by (simp add: OpenLogFile_def log_file_of_def [symmetric] rotates_def stream_open_def LogFile_new_def log_line_def)
qed simp


subsection \<open>The start\<close>

text \<open>\<open>path::extension\<close>: from the last dot on, unless the name starts with it.\<close>

definition extension :: "bytes \<Rightarrow> bytes" where
  "extension name =
     (let tail = takeWhile (\<lambda>c. c \<noteq> 46) (rev name)
      in if length tail + 1 < length name then 46 # rev tail else [])"

definition all_levels :: "LogLevel list" where
  "all_levels = [TRACE, INFO, WARN, ERR, FATAL, REPORT]"

text \<open>One file of the directory of a level: closed if it is open, copied, removed.\<close>

definition archive_entry :: "path \<Rightarrow> LogLevel \<Rightarrow> bytes \<Rightarrow> bool \<times> CLogManager \<Rightarrow> (bool \<times> CLogManager) option" where
  "archive_entry archive_dir level name = (\<lambda>(bBackup, s).
     if extension name \<noteq> log_file_extension then Some (bBackup, s)
     else do {
       let s = s\<lparr>log_files := (log_files s)(level \<mapsto> (log_file_of s level)\<lparr>lf_file := None\<rparr>)\<rparr>;
       s \<leftarrow> fs_copy_file [log_base_dir, level_dirs level, name] (archive_dir @ [level_dirs level, name]) s;
       s \<leftarrow> fs_remove [log_base_dir, level_dirs level, name] s;
       Some (True, s) })"

fun archive_entries ::
  "path \<Rightarrow> LogLevel \<Rightarrow> bytes list \<Rightarrow> bool \<times> CLogManager \<Rightarrow> (bool \<times> CLogManager) option" where
  "archive_entries archive_dir level [] r = Some r"
| "archive_entries archive_dir level (name # names) r =
     Option.bind (archive_entry archive_dir level name r) (archive_entries archive_dir level names)"

definition archive_level :: "bytes \<Rightarrow> path \<Rightarrow> LogLevel \<Rightarrow> bool \<times> CLogManager \<Rightarrow> (bool \<times> CLogManager) option" where
  "archive_level stamp archive_dir level = (\<lambda>(bBackup, s).
     let log_dir = [log_base_dir, level_dirs level] in
     if at_path s log_dir = None
     then map_option (Pair bBackup) (OpenLogFile (\<lambda>_. Some) stamp level True s)
     else do {
       s \<leftarrow> fs_create_directory (archive_dir @ [level_dirs level]) s;
       archive_entries archive_dir level (directory_entries s log_dir) (bBackup, s) })"

fun archive_levels ::
  "bytes \<Rightarrow> path \<Rightarrow> LogLevel list \<Rightarrow> bool \<times> CLogManager \<Rightarrow> (bool \<times> CLogManager) option" where
  "archive_levels stamp archive_dir [] r = Some r"
| "archive_levels stamp archive_dir (level # levels) r =
     Option.bind (archive_level stamp archive_dir level r) (archive_levels stamp archive_dir levels)"

text \<open>
  \<open>InitializeLogDirectory\<close>; \<open>timeStamp\<close> is the local time in the format of the archive's name, or
  \<open>None\<close> when the system cannot tell it. \<open>ss.clear()\<close> does not empty the stream, so the name of the
  file that is removed at the end still starts with the time.
\<close>

fun open_logs :: "bytes \<Rightarrow> LogLevel list \<Rightarrow> CLogManager \<Rightarrow> CLogManager option" where
  "open_logs stamp [] s = Some s"
| "open_logs stamp (level # levels) s =
     Option.bind (OpenLogFile (\<lambda>_. Some) stamp level True s) (open_logs stamp levels)"

definition archive_path :: "bytes \<Rightarrow> path" where
  "archive_path timeStamp = [log_backup_base, log_backup_prefix @ timeStamp]"

definition InitializeLogDirectory :: "bytes \<Rightarrow> bytes option \<Rightarrow> CLogManager \<Rightarrow> CLogManager option" where
  "InitializeLogDirectory stamp local_time s =
     (if at_path s [log_base_dir] = None
      then do {
        s \<leftarrow> fs_create_directory [log_base_dir] s;
        open_logs stamp (filter (\<lambda>l. log_files s l \<noteq> None) all_levels) s }
      else case local_time of
        None \<Rightarrow> Some s
      | Some timeStamp \<Rightarrow> do {
          s \<leftarrow> (if at_path s [log_backup_base] = None then fs_create_directory [log_backup_base] s else Some s);
          s \<leftarrow> fs_create_directory (archive_path timeStamp) s;
          (bBackup, s) \<leftarrow> archive_levels stamp (archive_path timeStamp) all_levels (False, s);
          if bBackup then Some s
          else fs_remove [timeStamp @ log_backup_base, log_backup_prefix @ timeStamp @ log_backup_extension] s })"

text \<open>
  \<open>CleanupOldLogs\<close>; \<open>age\<close> is how many hours ago a file was written, \<open>what\<close> the text of the exception
  that is caught when a file cannot be removed.
\<close>

definition log_text :: "nat \<Rightarrow> bytes \<Rightarrow> LogLevel \<Rightarrow> bytes \<Rightarrow> CLogManager \<Rightarrow> CLogManager option" where
  "log_text k stamp level message s =
     (case log_line stamp level message [] of None \<Rightarrow> Some s | Some line \<Rightarrow> DoFileStuff k stamp level line s)"

text \<open>The files of the directories, in order; the flag tells that an exception ended the loop.\<close>

fun cleanup_files ::
  "nat \<Rightarrow> bytes \<Rightarrow> (path \<Rightarrow> int) \<Rightarrow> path list \<Rightarrow> CLogManager \<Rightarrow> (bool \<times> CLogManager) option" where
  "cleanup_files k stamp age [] s = Some (False, s)"
| "cleanup_files k stamp age (p # ps) s =
     (if \<not> file_at s p \<or> age p \<le> int log_retention_days * 24 then cleanup_files k stamp age ps s
      else case fs_remove p s of
        None \<Rightarrow> Some (True, s)
      | Some s \<Rightarrow> do {
          s \<leftarrow> log_text k stamp INFO (bytes_of ''Deleted old log file: '' @ path_string p) s;
          cleanup_files k stamp age ps s })"

fun cleanup_levels ::
  "nat \<Rightarrow> bytes \<Rightarrow> (path \<Rightarrow> int) \<Rightarrow> LogLevel list \<Rightarrow> CLogManager \<Rightarrow> (bool \<times> CLogManager) option" where
  "cleanup_levels k stamp age [] s = Some (False, s)"
| "cleanup_levels k stamp age (level # levels) s =
     (let dir_path = [log_base_dir, level_dirs level] in
      if at_path s dir_path = None then cleanup_levels k stamp age levels s
      else do {
        (thrown, s) \<leftarrow> cleanup_files k stamp age (map (\<lambda>n. dir_path @ [n]) (directory_entries s dir_path)) s;
        if thrown then Some (True, s) else cleanup_levels k stamp age levels s })"

definition CleanupOldLogs :: "nat \<Rightarrow> bytes \<Rightarrow> (path \<Rightarrow> int) \<Rightarrow> bytes \<Rightarrow> CLogManager \<Rightarrow> CLogManager option" where
  "CleanupOldLogs k stamp age what s = do {
     (thrown, s) \<leftarrow> cleanup_levels k stamp age all_levels s;
     if thrown then log_text k stamp ERR (bytes_of ''Error cleaning up old logs: '' @ what) s else Some s }"

definition CLogManager_new ::
  "nat \<Rightarrow> bytes \<Rightarrow> bytes option \<Rightarrow> (path \<Rightarrow> int) \<Rightarrow> bytes \<Rightarrow> CLogManager \<Rightarrow> CLogManager option" where
  "CLogManager_new k stamp local_time age what s =
     Option.bind (InitializeLogDirectory stamp local_time s) (CleanupOldLogs k stamp age what)"


definition CLogManager_destroy :: "CLogManager \<Rightarrow> CLogManager" where
  "CLogManager_destroy s = s\<lparr>log_files := (\<lambda>l. map_option (\<lambda>lf. lf\<lparr>lf_file := None\<rparr>) (log_files s l))\<rparr>"

subsection \<open>The archive\<close>

lemma fs_create_directory_path:
  "fs_create_directory p s = Some t \<Longrightarrow> at_path t = (at_path s)(p \<mapsto> Dir) \<and> (at_path s p = None \<or> at_path s p = Some Dir)"
  by (auto simp: fs_create_directory_def fun_eq_iff split: option.splits node.splits if_splits)

lemma fs_copy_file_path:
  "fs_copy_file from to s = Some t \<Longrightarrow>
   \<exists>c. at_path s from = Some (File c) \<and> at_path s to = None \<and> at_path t = (at_path s)(to \<mapsto> File c)"
  by (auto simp: fs_copy_file_def fun_eq_iff split: option.splits node.splits if_splits)

lemma fs_remove_path: "fs_remove p s = Some t \<Longrightarrow> at_path t = (at_path s)(p := None)"
  by (auto simp: fs_remove_def at_path_def fun_eq_iff delete_conv' split: option.splits if_splits)

lemma entry_listed: "at_path s (dir @ [n]) \<noteq> None \<Longrightarrow> n \<in> set (directory_entries s dir)"
  by (force simp: at_path_def directory_entries_def map_filter_def dest: map_of_SomeD)

abbreviation log_path :: "LogLevel \<Rightarrow> bytes \<Rightarrow> path" where
  "log_path level name \<equiv> [log_base_dir, level_dirs level, name]"

lemma archive_entry_path:
  assumes "archive_entry dir level name (b, s) = Some (b', t)"
  shows "if extension name \<noteq> log_file_extension then at_path t = at_path s
    else \<exists>c. at_path s (log_path level name) = Some (File c) \<and> at_path s (dir @ [level_dirs level, name]) = None \<and>
      at_path t = (at_path s)(dir @ [level_dirs level, name] \<mapsto> File c, log_path level name := None)"
  using assms
  by (auto simp: archive_entry_def bind_eq_Some_conv Let_def
      dest!: fs_copy_file_path fs_remove_path split: if_splits)

lemma backup_not_base [simp]: "log_backup_base \<noteq> log_base_dir" "log_base_dir \<noteq> log_backup_base"
  by (simp_all add: log_backup_base_def log_base_dir_def bytes_of_def)

lemma archive_path_eq [simp]:
  "archive_path ts @ xs = archive_path ts @ ys \<longleftrightarrow> xs = ys" "archive_path ts @ xs \<noteq> log_path l n"
  "log_path l n \<noteq> archive_path ts @ xs"
  by (simp_all add: archive_path_def)

lemma archive_entries_path:
  assumes "archive_entries (archive_path ts) level names (b, s) = Some (b', t)" and "distinct names"
  shows "(\<forall>n \<in> set names. extension n = log_file_extension \<longrightarrow>
      at_path t (archive_path ts @ [level_dirs level, n]) = at_path s (log_path level n) \<and>
      at_path t (log_path level n) = None) \<and>
    (\<forall>p. (\<forall>n \<in> set names. extension n = log_file_extension \<longrightarrow>
        p \<noteq> log_path level n \<and> p \<noteq> archive_path ts @ [level_dirs level, n]) \<longrightarrow> at_path t p = at_path s p)"
  using assms
proof (induction names arbitrary: b s)
  case (Cons n names)
  obtain b1 s1 where s1: "archive_entry (archive_path ts) level n (b, s) = Some (b1, s1)"
    "archive_entries (archive_path ts) level names (b1, s1) = Some (b', t)"
    using Cons.prems(1) by (auto simp: bind_eq_Some_conv)
  note IH = Cons.IH [OF s1(2)]
  show ?case
  proof (cases "extension n = log_file_extension")
    case False
    then have "at_path s1 = at_path s" using archive_entry_path [OF s1(1)] by simp
    then show ?thesis using IH Cons.prems(2) False by auto
  next
    case True
    obtain c where c: "at_path s (log_path level n) = Some (File c)"
      "at_path s1 = (at_path s)(archive_path ts @ [level_dirs level, n] \<mapsto> File c, log_path level n := None)"
      using archive_entry_path [OF s1(1)] True by auto
    have keep: "at_path t p = at_path s1 p"
      if "\<forall>m \<in> set names. extension m = log_file_extension \<longrightarrow>
        p \<noteq> log_path level m \<and> p \<noteq> archive_path ts @ [level_dirs level, m]" for p
      using IH that Cons.prems(2) by simp
    have "at_path t (archive_path ts @ [level_dirs level, n]) = at_path s1 (archive_path ts @ [level_dirs level, n])"
      "at_path t (log_path level n) = at_path s1 (log_path level n)"
      using Cons.prems(2) by (auto intro!: keep)
    then show ?thesis using IH Cons.prems(2) c True by auto
  qed
qed simp

text \<open>A path that a file of the log may have, and what is kept of all the others.\<close>

definition log_name :: "path \<Rightarrow> bool" where
  "log_name p \<longleftrightarrow> (\<exists>l n. p = log_path l n \<and> extension n = log_file_extension)"

definition keeps :: "CLogManager \<Rightarrow> CLogManager \<Rightarrow> bool" where
  "keeps s t \<longleftrightarrow> (\<forall>p c. at_path s p = Some (File c) \<longrightarrow> \<not> log_name p \<longrightarrow> at_path t p = Some (File c))"

lemma keeps_trans: "keeps s t \<Longrightarrow> keeps t u \<Longrightarrow> keeps s u"
  by (simp add: keeps_def)

lemma keeps_same: "at_path t = at_path s \<Longrightarrow> keeps s t"
  by (simp add: keeps_def)

lemma GetLogFilePath_log_name: "log_name (GetLogFilePath l n)"
proof -
  have "extension (d @ bytes_of ''_'' @ x @ log_file_extension) = log_file_extension" for d x
    by (simp add: extension_def log_file_extension_def bytes_of_def Let_def)
  then show ?thesis by (auto simp: log_name_def GetLogFilePath_def)
qed

lemma keeps_create: "fs_create_directory p s = Some t \<Longrightarrow> keeps s t"
  using fs_create_directory_path [of p s t] by (auto simp: keeps_def)

lemma stream_open_path:
  "stream_open p s = (f, t) \<Longrightarrow> (f = None \<or> f = Some p) \<and> (\<forall>q. q \<noteq> p \<longrightarrow> at_path t q = at_path s q)"
  by (auto simp: stream_open_def split: if_splits option.splits node.splits)

lemma stream_write_path: "f = None \<or> f = Some p \<Longrightarrow> q \<noteq> p \<Longrightarrow> at_path (stream_write f x s) q = at_path s q"
  by (auto simp: stream_write_def split: option.splits node.splits)

lemma keeps_init: "OpenLogFile fail stamp l True s = Some t \<Longrightarrow>
   keeps s t \<and> (\<forall>p. p \<noteq> [log_base_dir, level_dirs l] \<and> (\<forall>n. p \<noteq> GetLogFilePath l n) \<longrightarrow> at_path t p = at_path s p)"
proof -
  assume r: "OpenLogFile fail stamp l True s = Some t"
  obtain u where u: "(if at_path s [log_base_dir, level_dirs l] = None
      then fs_create_directory [log_base_dir, level_dirs l] s else Some s) = Some u"
    using r by (auto simp: OpenLogFile_def bind_eq_Some_conv Let_def)
  have su: "keeps s u" "p \<noteq> [log_base_dir, level_dirs l] \<Longrightarrow> at_path u p = at_path s p" for p
    using u keeps_create fs_create_directory_path [of _ s u] by (auto simp: keeps_same split: if_splits)
  obtain b where b: "rotates (GetLogFilePath l (current_file_number (log_file_of s l))) (log_file_of s l) u = Some b"
    using r u unfolding OpenLogFile_def Let_def log_file_of_def by (auto simp: bind_eq_Some_conv)
  define lf where "lf = rotated b (log_file_of s l)"
  note run = OpenLogFile_eq [OF u b lf_def refl, of fail stamp True]
  let ?q = "GetLogFilePath l (current_file_number lf)"
  have ut: "at_path t p = at_path u p" if "p \<noteq> ?q" for p
  proof (cases "stream_open ?q u")
    case (Pair f v)
    then show ?thesis
      using r run that stream_open_path [OF Pair] stream_write_path [of f ?q p]
      by (auto simp: Let_def split: if_splits)
  qed
  have "p \<noteq> ?q" if "\<not> log_name p" for p using that GetLogFilePath_log_name by auto
  then have "keeps u t" using ut by (simp add: keeps_def)
  then have "keeps s t" using su(1) keeps_trans by blast
  then show ?thesis using su(2) ut by simp
qed


definition outside :: "bytes \<Rightarrow> LogLevel \<Rightarrow> path \<Rightarrow> bool" where
  "outside ts level p \<longleftrightarrow> p \<noteq> [log_base_dir, level_dirs level] \<and> p \<noteq> archive_path ts @ [level_dirs level] \<and>
     (\<forall>n. p \<noteq> log_path level n \<and> p \<noteq> archive_path ts @ [level_dirs level, n])"

lemma outside_other:
  "l \<noteq> level \<Longrightarrow> outside ts level [log_base_dir, level_dirs l]"
  "l \<noteq> level \<Longrightarrow> outside ts level (log_path l n)"
  "l \<noteq> level \<Longrightarrow> outside ts level (archive_path ts @ [level_dirs l, n])"
  by (simp_all add: outside_def archive_path_def)

definition archived :: "bytes \<Rightarrow> LogLevel \<Rightarrow> CLogManager \<Rightarrow> CLogManager \<Rightarrow> bool" where
  "archived ts level s t \<longleftrightarrow> (\<forall>n c. extension n = log_file_extension \<longrightarrow>
     at_path s [log_base_dir, level_dirs level] \<noteq> None \<longrightarrow> at_path s (log_path level n) = Some (File c) \<longrightarrow>
     at_path t (archive_path ts @ [level_dirs level, n]) = Some (File c) \<and> at_path t (log_path level n) = None)"

lemma archive_entries_keeps:
  "archive_entries dir level names (b, s) = Some (b', t) \<Longrightarrow> keeps s t"
proof (induction names arbitrary: b s)
  case (Cons n names)
  obtain b1 s1 where s1: "archive_entry dir level n (b, s) = Some (b1, s1)"
    "archive_entries dir level names (b1, s1) = Some (b', t)"
    using Cons.prems by (auto simp: bind_eq_Some_conv)
  have "keeps s s1"
    using archive_entry_path [OF s1(1)] by (auto simp: keeps_def log_name_def split: if_splits)
  then show ?case using Cons.IH [OF s1(2)] keeps_trans by blast
qed (simp add: keeps_same)

lemma archive_level_path:
  assumes "archive_level stamp (archive_path ts) level (b, s) = Some (b', t)"
  shows "keeps s t \<and> (\<forall>p. outside ts level p \<longrightarrow> at_path t p = at_path s p) \<and> archived ts level s t"
proof (cases "at_path s [log_base_dir, level_dirs level]")
  case None
  then have o: "OpenLogFile (\<lambda>_. Some) stamp level True s = Some t"
    using assms by (auto simp: archive_level_def)
  have "p \<noteq> GetLogFilePath level n" if "outside ts level p" for p n
    using that by (auto simp: outside_def GetLogFilePath_def)
  then show ?thesis
    using keeps_init [OF o] None by (auto simp: archived_def outside_def)
next
  case (Some d)
  let ?names = "\<lambda>u. directory_entries u [log_base_dir, level_dirs level]"
  obtain u where u: "fs_create_directory (archive_path ts @ [level_dirs level]) s = Some u"
    "archive_entries (archive_path ts) level (?names u) (b, u) = Some (b', t)"
    using assms Some by (auto simp: archive_level_def bind_eq_Some_conv Let_def)
  have su: "at_path u p = at_path s p" if "p \<noteq> archive_path ts @ [level_dirs level]" for p
    using fs_create_directory_path [OF u(1)] that by simp
  have d: "distinct (?names u)" by (simp add: directory_entries_def)
  note e = archive_entries_path [OF u(2) d]
  have "archived ts level s t"
    unfolding archived_def
  proof (intro allI impI)
    fix n c
    assume n: "extension n = log_file_extension" "at_path s (log_path level n) = Some (File c)"
    have "at_path u (log_path level n) = Some (File c)" using n(2) su by simp
    then have "n \<in> set (?names u)" using entry_listed [of u "[log_base_dir, level_dirs level]" n] by simp
    then show "at_path t (archive_path ts @ [level_dirs level, n]) = Some (File c) \<and> at_path t (log_path level n) = None"
      using e n su by simp
  qed
  moreover have "at_path t p = at_path s p" if "outside ts level p" for p
    using e su [of p] that by (simp add: outside_def)
  moreover have "keeps s t"
    using keeps_create [OF u(1)] archive_entries_keeps [OF u(2)] keeps_trans by blast
  ultimately show ?thesis by blast
qed

lemma archive_levels_path:
  assumes "archive_levels stamp (archive_path ts) levels (b, s) = Some (b', t)" and "distinct levels"
  shows "keeps s t \<and> (\<forall>p. (\<forall>l \<in> set levels. outside ts l p) \<longrightarrow> at_path t p = at_path s p) \<and>
     (\<forall>l \<in> set levels. archived ts l s t)"
  using assms
proof (induction levels arbitrary: b s)
  case (Cons level levels)
  obtain b1 s1 where s1: "archive_level stamp (archive_path ts) level (b, s) = Some (b1, s1)"
    "archive_levels stamp (archive_path ts) levels (b1, s1) = Some (b', t)"
    using Cons.prems(1) by (auto simp: bind_eq_Some_conv)
  note one = archive_level_path [OF s1(1)]
  have IH: "keeps s1 t" "\<And>p. \<forall>l \<in> set levels. outside ts l p \<Longrightarrow> at_path t p = at_path s1 p"
    "\<And>l. l \<in> set levels \<Longrightarrow> archived ts l s1 t"
    using Cons.IH [OF s1(2)] Cons.prems(2) by simp_all
  have "archived ts l s t" if "l \<in> set (level # levels)" for l
  proof (cases "l = level")
    case True
    have "l \<noteq> k" if "k \<in> set levels" for k using that Cons.prems(2) True by auto
    then have "at_path t (log_path l n) = at_path s1 (log_path l n)"
      "at_path t (archive_path ts @ [level_dirs l, n]) = at_path s1 (archive_path ts @ [level_dirs l, n])" for n
      using outside_other by (simp_all add: IH(2))
    then show ?thesis using one True by (simp add: archived_def)
  next
    case False
    then have "at_path s1 (log_path l n) = at_path s (log_path l n)"
      "at_path s1 [log_base_dir, level_dirs l] = at_path s [log_base_dir, level_dirs l]" for n
      using one outside_other by simp_all
    then show ?thesis using IH(3) [of l] that False by (simp add: archived_def)
  qed
  moreover have "keeps s t" using one IH(1) keeps_trans by blast
  moreover have "at_path t p = at_path s p" if "\<forall>l \<in> set (level # levels). outside ts l p" for p
    using one IH(2) [of p] that by simp
  ultimately show ?case by blast
qed (simp add: keeps_same)

lemma all_levels_set [simp]: "level \<in> set all_levels" "distinct all_levels"
  by (cases level) (simp_all add: all_levels_def)

text \<open>The file that the start tries to remove when there was nothing to archive.\<close>

definition stale_archive :: "bytes \<Rightarrow> path" where
  "stale_archive ts = [ts @ log_backup_base, log_backup_prefix @ ts @ log_backup_extension]"

text \<open>
  C32. The start loses no log: every log file of an earlier run is in the archive of this start, with all
  its content, and no longer where the new files will be; no other file changes, except for one of
  the name that the start removes.
\<close>

theorem logs_archived:
  assumes "InitializeLogDirectory stamp (Some ts) s = Some t" and "at_path s [log_base_dir] \<noteq> None"
  shows "(\<forall>level n c. extension n = log_file_extension \<longrightarrow> at_path s [log_base_dir, level_dirs level] \<noteq> None \<longrightarrow>
       at_path s (log_path level n) = Some (File c) \<longrightarrow>
       at_path t (archive_path ts @ [level_dirs level, n]) = Some (File c) \<and> at_path t (log_path level n) = None) \<and>
     (\<forall>p c. at_path s p = Some (File c) \<longrightarrow> \<not> log_name p \<longrightarrow> p \<noteq> stale_archive ts \<longrightarrow> at_path t p = Some (File c))"
proof -
  obtain s1 s2 b s3 where r: "(if at_path s [log_backup_base] = None then fs_create_directory [log_backup_base] s else Some s) = Some s1"
    "fs_create_directory (archive_path ts) s1 = Some s2"
    "archive_levels stamp (archive_path ts) all_levels (False, s2) = Some (b, s3)"
    "b \<and> t = s3 \<or> fs_remove (stale_archive ts) s3 = Some t"
    using assms by (auto simp: InitializeLogDirectory_def bind_eq_Some_conv stale_archive_def split: if_splits)
  have s1: "keeps s s1" "\<And>p. p \<noteq> [log_backup_base] \<Longrightarrow> at_path s1 p = at_path s p"
    using r(1) keeps_create fs_create_directory_path [of "[log_backup_base]" s s1]
    by (auto simp: keeps_same split: if_splits)
  have s2: "keeps s1 s2" "\<And>p. p \<noteq> archive_path ts \<Longrightarrow> at_path s2 p = at_path s1 p"
    using keeps_create [OF r(2)] fs_create_directory_path [OF r(2)] by simp_all
  note s3 = archive_levels_path [OF r(3) all_levels_set(2)]
  have st: "at_path t p = at_path s3 p" if "p \<noteq> stale_archive ts" for p
    using r(4) fs_remove_path [of _ s3 t] that by auto
  have k: "keeps s s3" using s1(1) s2(1) s3 keeps_trans by blast
  show ?thesis
  proof (intro conjI allI impI)
    fix level n c
    assume a: "extension n = log_file_extension" "at_path s [log_base_dir, level_dirs level] \<noteq> None"
      "at_path s (log_path level n) = Some (File c)"
    then have "at_path s2 (log_path level n) = Some (File c)" "at_path s2 [log_base_dir, level_dirs level] \<noteq> None"
      using s1(2) s2(2) by (simp_all add: archive_path_def)
    moreover have "archived ts level s2 s3" using s3 by simp
    ultimately have "at_path s3 (archive_path ts @ [level_dirs level, n]) = Some (File c) \<and> at_path s3 (log_path level n) = None"
      using a(1) by (simp add: archived_def)
    then show "at_path t (archive_path ts @ [level_dirs level, n]) = Some (File c)" "at_path t (log_path level n) = None"
      using st by (simp_all add: archive_path_def stale_archive_def)
  next
    fix p c
    assume "at_path s p = Some (File c)" "\<not> log_name p" "p \<noteq> stale_archive ts"
    then show "at_path t p = Some (File c)" using k st by (simp add: keeps_def)
  qed
qed

definition demo_old :: CLogManager where
  "demo_old = demo_disk\<lparr>disk := [([log_base_dir], Dir), ([log_base_dir, level_dirs ERR], Dir),
     (log_path ERR (bytes_of ''errors_00000.txt''), File [66])]\<rparr>"

lemma demo_old_start: "\<exists>t. InitializeLogDirectory [] (Some [49]) demo_old = Some t"
proof -
  have "\<not> Option.is_none (InitializeLogDirectory [] (Some [49]) demo_old)" by code_simp
  then show ?thesis by (simp add: Option.is_none_def)
qed

lemma logs_archived_witness:
  "\<exists>t. InitializeLogDirectory [] (Some [49]) demo_old = Some t \<and>
     at_path t (archive_path [49] @ [level_dirs ERR, bytes_of ''errors_00000.txt'']) = Some (File [66])"
proof -
  obtain t where t: "InitializeLogDirectory [] (Some [49]) demo_old = Some t" using demo_old_start by blast
  have d: "at_path demo_old [log_base_dir] \<noteq> None" "at_path demo_old [log_base_dir, level_dirs ERR] \<noteq> None"
    "at_path demo_old (log_path ERR (bytes_of ''errors_00000.txt'')) = Some (File [66])"
    by (simp_all add: demo_old_def at_path_def)
  have e: "extension (bytes_of ''errors_00000.txt'') = log_file_extension"
    by (simp add: extension_def log_file_extension_def bytes_of_def Let_def)
  show ?thesis using logs_archived [OF t d(1)] d(2,3) e t by blast
qed

end
