(* ===== verification/Time_Text.thy ===== *)
theory Time_Text
  imports Decimal "HOL-Library.Signed_Division"
begin

text \<open>
  Points in time as text: the time stamps of the log (\<open>Abstract/abstract_logger.cpp\<close>) and the two
  conversions of \<open>JsonManager\<close> (\<open>Singletons/json_manager.cpp\<close>). The library the code uses is modelled as far as
  it is used: \<open>localtime\<close> and \<open>mktime\<close> over a time zone, \<open>put_time\<close> and \<open>get_time\<close> for its formats, and
  reading a \<open>long\<close>. A point in time is its number of microseconds, the tick of \<open>system_clock\<close>; \<open>None\<close> is
  an overflow of its 64 bits.
\<close>

subsection \<open>The calendar\<close>

definition leap :: "int \<Rightarrow> bool" where
  "leap y \<longleftrightarrow> 4 dvd y \<and> (\<not> 100 dvd y \<or> 400 dvd y)"

text \<open>Months count from 0, as in \<open>tm\<close>.\<close>

definition month_len :: "int \<Rightarrow> int \<Rightarrow> int" where
  "month_len y m = (if m = 1 then (if leap y then 29 else 28) else if m \<in> {3, 5, 8, 10} then 30 else 31)"

type_synonym date = "int \<times> int \<times> int"

fun next_day :: "date \<Rightarrow> date" where
  "next_day (y, m, d) =
     (if d < month_len y m then (y, m, d + 1) else if m < 11 then (y, m + 1, 1) else (y + 1, 0, 1))"

fun prev_day :: "date \<Rightarrow> date" where
  "prev_day (y, m, d) =
     (if 1 < d then (y, m, d - 1) else if 0 < m then (y, m - 1, month_len y (m - 1)) else (y - 1, 11, 31))"

text \<open>The date of a day, counted from the first of January 1970.\<close>

definition date_of :: "int \<Rightarrow> date" where
  "date_of n = (if 0 \<le> n then (next_day ^^ nat n) (1970, 0, 1) else (prev_day ^^ nat (- n)) (1970, 0, 1))"

text \<open>The day of a date. The day of the month may be out of range, and carries over.\<close>

definition leaps_before :: "int \<Rightarrow> int" where
  "leaps_before y = (y - 1) div 4 - (y - 1) div 100 + (y - 1) div 400"

definition days_before_month :: "int \<Rightarrow> int \<Rightarrow> int" where
  "days_before_month y m = sum_list (map (\<lambda>k. month_len y (int k)) [0..<nat m])"

fun day_of :: "date \<Rightarrow> int" where
  "day_of (y, m, d) = 365 * (y - 1970) + leaps_before y - leaps_before 1970 + days_before_month y m + (d - 1)"

subsection \<open>\<open>localtime\<close> and \<open>mktime\<close>\<close>

text \<open>Seconds east of Greenwich, and when it is summer time.\<close>

record zone =
  utc_offset :: int
  summer :: "int \<Rightarrow> bool"

record tm =
  tm_year :: int
  tm_mon :: int
  tm_mday :: int
  tm_hour :: int
  tm_min :: int
  tm_sec :: int
  tm_isdst :: int

definition tm_zero :: tm where
  "tm_zero = \<lparr>tm_year = 0, tm_mon = 0, tm_mday = 0, tm_hour = 0, tm_min = 0, tm_sec = 0, tm_isdst = 0\<rparr>"

definition localtime :: "zone \<Rightarrow> int \<Rightarrow> tm" where
  "localtime z t =
     (let l = t + utc_offset z + (if summer z t then 3600 else 0);
          (y, m, d) = date_of (l div 86400);
          s = l mod 86400
      in \<lparr>tm_year = y - 1900, tm_mon = m, tm_mday = d, tm_hour = s div 3600, tm_min = s div 60 mod 60,
          tm_sec = s mod 60, tm_isdst = (if summer z t then 1 else 0)\<rparr>)"

text \<open>\<open>mktime\<close> takes the fields for summer time exactly when \<open>tm_isdst\<close> says so (here never negative).\<close>

definition mktime :: "zone \<Rightarrow> tm \<Rightarrow> int" where
  "mktime z t = day_of (tm_year t + 1900, tm_mon t, tm_mday t) * 86400 +
     tm_hour t * 3600 + tm_min t * 60 + tm_sec t - utc_offset z - (if tm_isdst t > 0 then 3600 else 0)"

subsection \<open>\<open>put_time\<close> and \<open>get_time\<close>\<close>

datatype conversion = Year | Mon | Mday | Hour | Min | Sec | Lit u8 | Blank

text \<open>\<open>"%Y-%m-%d %H:%M:%S"\<close>, and the format with dots.\<close>

definition format_iso :: "conversion list" where
  "format_iso = [Year, Lit 45, Mon, Lit 45, Mday, Blank, Hour, Lit 58, Min, Lit 58, Sec]"

definition format_dots :: "conversion list" where
  "format_dots = [Year, Lit 46, Mon, Lit 46, Mday, Blank, Hour, Lit 58, Min, Lit 58, Sec]"

fun put_conversion :: "tm \<Rightarrow> conversion \<Rightarrow> bytes" where
  "put_conversion t Year = signed_decimal (tm_year t + 1900)"
| "put_conversion t Mon = setw0 2 (tm_mon t + 1)"
| "put_conversion t Mday = setw0 2 (tm_mday t)"
| "put_conversion t Hour = setw0 2 (tm_hour t)"
| "put_conversion t Min = setw0 2 (tm_min t)"
| "put_conversion t Sec = setw0 2 (tm_sec t)"
| "put_conversion t (Lit c) = [c]"
| "put_conversion t Blank = [32]"

definition put_time :: "tm \<Rightarrow> conversion list \<Rightarrow> bytes" where
  "put_time t f = concat (map (put_conversion t) f)"

definition is_space :: "u8 \<Rightarrow> bool" where
  "is_space c \<longleftrightarrow> c = 32 \<or> 9 \<le> c \<and> c \<le> 13"

text \<open>At most \<open>w\<close> digits and at least one, in a range.\<close>

definition get_digits :: "nat \<Rightarrow> int \<Rightarrow> int \<Rightarrow> bytes \<Rightarrow> (int \<times> bytes) option" where
  "get_digits w lo hi s =
     (let ds = takeWhile is_digit (take w s); n = int (of_decimal ds)
      in if ds = [] \<or> n < lo \<or> hi < n then None else Some (n, drop (length ds) s))"

fun get_conversion :: "conversion \<Rightarrow> tm \<times> bytes \<Rightarrow> (tm \<times> bytes) option" where
  "get_conversion Year (t, s) = map_option (\<lambda>(n, s). (t\<lparr>tm_year := n - 1900\<rparr>, s)) (get_digits 4 0 9999 s)"
| "get_conversion Mon (t, s) = map_option (\<lambda>(n, s). (t\<lparr>tm_mon := n - 1\<rparr>, s)) (get_digits 2 1 12 s)"
| "get_conversion Mday (t, s) = map_option (\<lambda>(n, s). (t\<lparr>tm_mday := n\<rparr>, s)) (get_digits 2 1 31 s)"
| "get_conversion Hour (t, s) = map_option (\<lambda>(n, s). (t\<lparr>tm_hour := n\<rparr>, s)) (get_digits 2 0 23 s)"
| "get_conversion Min (t, s) = map_option (\<lambda>(n, s). (t\<lparr>tm_min := n\<rparr>, s)) (get_digits 2 0 59 s)"
| "get_conversion Sec (t, s) = map_option (\<lambda>(n, s). (t\<lparr>tm_sec := n\<rparr>, s)) (get_digits 2 0 60 s)"
| "get_conversion (Lit c) (t, s) = (case s of [] \<Rightarrow> None | x # s \<Rightarrow> if x = c then Some (t, s) else None)"
| "get_conversion Blank (t, s) = Some (t, dropWhile is_space s)"

text \<open>
  What was read before the first failure stays; the flag says whether the stream is still good. Leading
  white space is skipped.
\<close>

fun get_time_from :: "conversion list \<Rightarrow> tm \<times> bytes \<Rightarrow> bool \<times> tm \<times> bytes" where
  "get_time_from [] ts = (True, ts)"
| "get_time_from (c # f) ts =
     (case get_conversion c ts of None \<Rightarrow> (False, ts) | Some ts \<Rightarrow> get_time_from f ts)"

definition get_time :: "conversion list \<Rightarrow> bytes \<Rightarrow> bool \<times> tm \<times> bytes" where
  "get_time f s = get_time_from f (tm_zero, dropWhile is_space s)"

text \<open>\<open>ss >> microseconds\<close>: a \<open>long\<close>, clamped; \<open>0\<close> when there is no number.\<close>

definition get_long :: "bytes \<Rightarrow> int" where
  "get_long s =
     (let s = dropWhile is_space s;
          neg = (s \<noteq> [] \<and> hd s = 45);
          s = (if s \<noteq> [] \<and> hd s \<in> {43, 45} then tl s else s);
          ds = takeWhile is_digit s; n = int (of_decimal ds)
      in if ds = [] then 0 else if neg then max (- (2 ^ 63)) (- n) else min (2 ^ 63 - 1) n)"

subsection \<open>The operations\<close>

definition TimeToStr :: "zone \<Rightarrow> int \<Rightarrow> bytes" where
  "TimeToStr z tp = put_time (localtime z (tp sdiv 1000000)) format_iso"

definition GetCurrentTimestamp :: "zone \<Rightarrow> int \<Rightarrow> bool \<Rightarrow> bytes" where
  "GetCurrentTimestamp z now w_milli_seconds =
     (let timeinfo = localtime z (now sdiv 1000000);
          ms = (now sdiv 1000) smod 1000
      in if w_milli_seconds then put_time timeinfo format_dots @ [46] @ setw0 3 ms
         else put_time timeinfo format_iso)"

definition timePointToStringWithMS :: "zone \<Rightarrow> int \<Rightarrow> bytes" where
  "timePointToStringWithMS z tp =
     (let microsec = tp smod 1000000
      in put_time (localtime z (tp sdiv 1000000)) format_iso @ [46] @ setw0 6 microsec)"

definition time_point :: "int \<Rightarrow> int option" where
  "time_point n = (if - (2 ^ 63) \<le> n \<and> n < 2 ^ 63 then Some n else None)"

definition stringToTimePoint :: "zone \<Rightarrow> bytes \<Rightarrow> int option" where
  "stringToTimePoint z timeStr =
     (let (good, t, ss) = get_time format_iso timeStr;
          dotPos = length (takeWhile (\<lambda>c. c \<noteq> 46) timeStr);
          microseconds =
            (if dotPos = length timeStr then 0
             else let m = (if good then get_long (tl ss) else 0);
                      microLen = length timeStr - dotPos - 1
                  in if microLen < 6 then m * 10 ^ (6 - microLen) else m)
      in do {
        s \<leftarrow> time_point (mktime z t * 1000000);
        time_point (s + microseconds) })"

subsection \<open>Days and dates\<close>

definition valid_date :: "date \<Rightarrow> bool" where
  "valid_date = (\<lambda>(y, m, d). 0 \<le> m \<and> m \<le> 11 \<and> 1 \<le> d \<and> d \<le> month_len y m)"

lemma month_len_pos: "28 \<le> month_len y m" "month_len y m \<le> 31"
  by (auto simp: month_len_def)

lemma valid_next: "valid_date c \<Longrightarrow> valid_date (next_day c)"
  using month_len_pos by (cases c) (auto simp: valid_date_def intro: order_trans [of _ 28])

lemma valid_prev: "valid_date c \<Longrightarrow> valid_date (prev_day c)"
  using month_len_pos by (cases c) (auto simp: valid_date_def month_len_def intro: order_trans [of _ 28])

lemma div_before:
  assumes "0 < (k::int)"
  shows "y div k = (y - 1) div k + (if k dvd y then 1 else 0)"
proof -
  have y: "y = k * (y div k) + y mod k" and r: "0 \<le> y mod k" "y mod k < k" using assms by simp_all
  show ?thesis
  proof (cases "k dvd y")
    case True
    then have "y - 1 = k * (y div k - 1) + (k - 1)" using y by (simp add: right_diff_distrib)
    then have "(y - 1) div k = y div k - 1" using assms by (intro int_div_pos_eq [of _ _ _ "k - 1"]) linarith+
    then show ?thesis using True by simp
  next
    case False
    then have "y mod k \<noteq> 0" by (simp add: dvd_eq_mod_eq_0)
    moreover have "y - 1 = k * (y div k) + (y mod k - 1)" using y by simp
    ultimately have "(y - 1) div k = y div k" using r by (intro int_div_pos_eq [of _ _ _ "y mod k - 1"]) linarith+
    then show ?thesis using False by simp
  qed
qed

lemma div_diff: "0 < (k::int) \<Longrightarrow> y div k - (y - 1) div k = of_bool (k dvd y)"
  using div_before [of k y] by (cases "k dvd y") simp_all

lemma leaps_Suc: "leaps_before (y + 1) = leaps_before y + (if leap y then 1 else 0)"
proof -
  have dvd: "100 dvd y \<Longrightarrow> 4 dvd y" "400 dvd y \<Longrightarrow> 100 dvd y"
    by (rule dvd_trans; simp)+
  have diffs: "a - b + c - (a' - b' + c') = (a - a') - (b - b') + (c - c')" for a b c a' b' c' :: int by simp
  have bools: "of_bool A - of_bool B + of_bool C = (of_bool (A \<and> (\<not> B \<or> C)) :: int)"
    if "B \<Longrightarrow> A" "C \<Longrightarrow> B" for A B C
    by (cases C; cases B; cases A) (use that in simp_all)
  have "leaps_before (y + 1) - leaps_before y =
      (y div 4 - (y - 1) div 4) - (y div 100 - (y - 1) div 100) + (y div 400 - (y - 1) div 400)"
    unfolding leaps_before_def add_diff_cancel_right' by (rule diffs)
  also have "\<dots> = of_bool (4 dvd y) - of_bool (100 dvd y) + of_bool (400 dvd y)"
    by (simp only: div_diff zero_less_numeral)
  also have "\<dots> = of_bool (leap y)" unfolding leap_def by (rule bools [OF dvd])
  finally show ?thesis unfolding of_bool_def by linarith
qed

lemma months_Suc: "0 \<le> m \<Longrightarrow> days_before_month y (m + 1) = days_before_month y m + month_len y m"
  by (simp add: days_before_month_def nat_add_distrib)

lemma months_year: "days_before_month y 12 = 365 + (if leap y then 1 else 0)"
  by (simp add: days_before_month_def month_len_def upt_rec)

lemma year_Suc:
  "day_of (y + 1, 0, 1) = day_of (y, 11, 31) + 1"
  using leaps_Suc [of y] months_year [of y] months_Suc [of 11 y]
  by (simp add: days_before_month_def month_len_def)

lemma day_of_next: "valid_date c \<Longrightarrow> day_of (next_day c) = day_of c + 1"
proof (induction c rule: next_day.induct)
  case (1 y m d)
  consider "d < month_len y m" | "d = month_len y m" "m < 11" | "d = 31" "m = 11"
    using 1 by (fastforce simp: valid_date_def month_len_def split: if_splits)
  then show ?case
  proof cases
    case 2
    then show ?thesis using 1 months_Suc [of m y] by (simp add: valid_date_def)
  next
    case 3
    then show ?thesis using year_Suc [of y] by (simp add: month_len_def del: day_of.simps)
  qed simp
qed

lemma next_prev: "valid_date c \<Longrightarrow> next_day (prev_day c) = c"
  using month_len_pos by (cases c) (auto simp: valid_date_def month_len_def)

lemma day_of_prev: "valid_date c \<Longrightarrow> day_of (prev_day c) = day_of c - 1"
  using day_of_next [OF valid_prev] next_prev by fastforce

lemma next_days: "valid_date c \<Longrightarrow> valid_date ((next_day ^^ n) c) \<and> day_of ((next_day ^^ n) c) = day_of c + int n"
  by (induction n) (simp_all add: valid_next day_of_next)

lemma prev_days: "valid_date c \<Longrightarrow> valid_date ((prev_day ^^ n) c) \<and> day_of ((prev_day ^^ n) c) = day_of c - int n"
  by (induction n) (simp_all add: valid_prev day_of_prev)

lemma epoch: "valid_date (1970, 0, 1)" "day_of (1970, 0, 1) = 0"
  by (simp_all add: valid_date_def month_len_def days_before_month_def)

text \<open>The closed formula is the inverse of counting days.\<close>

lemma day_of_date_of: "day_of (date_of n) = n" and valid_date_of: "valid_date (date_of n)"
  using next_days [OF epoch(1)] prev_days [OF epoch(1)] epoch(2)
  by (simp_all add: date_of_def)

subsection \<open>Reading what was printed\<close>

lemma get_digits_setw0:
  assumes "0 < w" "0 \<le> n" "n < 10 ^ w" "lo \<le> n" "n \<le> hi"
  shows "get_digits w lo hi (setw0 w n @ s) = Some (n, s)"
proof -
  note p = setw0_nat [OF assms(1-3)]
  have tw: "takeWhile is_digit (setw0 w n) = setw0 w n" using p(3) by (simp add: takeWhile_eq_all_conv)
  have "setw0 w n \<noteq> []" using p(1) assms(1) by (metis length_0_conv less_numeral_extra(3))
  then show ?thesis using assms by (simp add: get_digits_def Let_def p(1,2) tw)
qed

text \<open>What \<open>localtime\<close> fills in, for the years the formats are made for.\<close>

definition tm_ok :: "tm \<Rightarrow> bool" where
  "tm_ok t \<longleftrightarrow> 1000 \<le> tm_year t + 1900 \<and> tm_year t + 1900 < 10000 \<and> 0 \<le> tm_mon t \<and> tm_mon t \<le> 11 \<and>
     1 \<le> tm_mday t \<and> tm_mday t \<le> 31 \<and> 0 \<le> tm_hour t \<and> tm_hour t \<le> 23 \<and>
     0 \<le> tm_min t \<and> tm_min t \<le> 59 \<and> 0 \<le> tm_sec t \<and> tm_sec t \<le> 59"

definition tm_at :: "date \<Rightarrow> int \<Rightarrow> int \<Rightarrow> tm" where
  "tm_at = (\<lambda>(y, m, d) r dst. \<lparr>tm_year = y - 1900, tm_mon = m, tm_mday = d, tm_hour = r div 3600,
     tm_min = r div 60 mod 60, tm_sec = r mod 60, tm_isdst = dst\<rparr>)"

lemma localtime_at:
  obtains l where "l = t + utc_offset z + (if summer z t then 3600 else 0)"
    and "localtime z t = tm_at (date_of (l div 86400)) (l mod 86400) (if summer z t then 1 else 0)"
proof (rule that [OF refl])
  let ?l = "t + utc_offset z + (if summer z t then 3600 else 0)"
  obtain y m d where "date_of (?l div 86400) = (y, m, d)" by (rule prod_cases3)
  then show "localtime z t = tm_at (date_of (?l div 86400)) (?l mod 86400) (if summer z t then 1 else 0)"
    by (simp only: localtime_def tm_at_def Let_def prod.case)
qed

lemma hour_bounds: "0 \<le> r \<Longrightarrow> r < 86400 \<Longrightarrow> 0 \<le> r div 3600 \<and> r div 3600 \<le> (23::int)"
  using zdiv_mono1 [of r 86399 3600] by (simp add: pos_imp_zdiv_nonneg_iff)

lemma tm_okI:
  "1000 \<le> y \<Longrightarrow> y < 10000 \<Longrightarrow> 0 \<le> m \<Longrightarrow> m \<le> 11 \<Longrightarrow> 1 \<le> d \<Longrightarrow> d \<le> 31 \<Longrightarrow> 0 \<le> h \<Longrightarrow> h \<le> 23 \<Longrightarrow>
   0 \<le> i \<Longrightarrow> i < 60 \<Longrightarrow> 0 \<le> s \<Longrightarrow> s < 60 \<Longrightarrow>
   tm_ok \<lparr>tm_year = y - 1900, tm_mon = m, tm_mday = d, tm_hour = h, tm_min = i, tm_sec = s, tm_isdst = dst\<rparr>"
  by (simp add: tm_ok_def)

lemma tm_at_ok:
  assumes "valid_date c" and "0 \<le> r" "r < 86400" and "1000 \<le> fst c" "fst c < 10000"
  shows "tm_ok (tm_at c r dst)"
proof -
  obtain y m d where c: "c = (y, m, d)" by (cases c)
  have d: "0 \<le> m" "m \<le> 11" "1 \<le> d" "d \<le> 31"
    using assms(1) month_len_pos(2) [of y m] unfolding c valid_date_def by auto
  have "1000 \<le> y" "y < 10000" using assms(4,5) c by simp_all
  then show ?thesis
    unfolding c tm_at_def prod.case using d hour_bounds [OF assms(2,3)]
    by (intro tm_okI pos_mod_bound pos_mod_sign zero_less_numeral) blast+
qed

lemma localtime_ok:
  assumes "1000 \<le> tm_year (localtime z t) + 1900" and "tm_year (localtime z t) + 1900 < 10000"
  shows "tm_ok (localtime z t)"
proof -
  obtain l where l: "localtime z t = tm_at (date_of (l div 86400)) (l mod 86400) (if summer z t then 1 else 0)"
    by (rule localtime_at)
  have "tm_year (tm_at c r dst) + 1900 = fst c" for c r dst by (cases c) (simp add: tm_at_def)
  then have "1000 \<le> fst (date_of (l div 86400))" "fst (date_of (l div 86400)) < 10000"
    using assms unfolding l by metis+
  then show ?thesis unfolding l by (intro tm_at_ok valid_date_of) simp_all
qed

lemma put_year: "1000 \<le> y \<Longrightarrow> signed_decimal y = setw0 4 y"
  using signed_decimal_setw0 [of 3 "nat y"] by simp

lemma is_space_blank [simp]: "is_space 32"
  by (simp add: is_space_def)

lemma dropWhile_space: "is_digit c \<Longrightarrow> dropWhile is_space (c # s) = c # s"
  by (auto simp: is_digit_def is_space_def word_le_nat_alt)

lemma dropWhile_setw0:
  assumes "0 < w" "0 \<le> n" "n < 10 ^ w"
  shows "dropWhile is_space (setw0 w n @ s) = setw0 w n @ s"
proof -
  obtain c cs where c: "setw0 w n = c # cs"
    using setw0_nat(1) [OF assms] assms(1) by (cases "setw0 w n") auto
  then show ?thesis using setw0_nat(3) [OF assms] dropWhile_space [of c "cs @ s"] by simp
qed

lemma get_put_time:
  assumes "tm_ok t"
  shows "get_time format_iso (put_time t format_iso @ s) = (True, t\<lparr>tm_isdst := 0\<rparr>, s)"
proof -
  have r: "1000 \<le> tm_year t + 1900" "tm_year t + 1900 < 10000"
    using assms by (simp_all add: tm_ok_def)
  note digits = get_digits_setw0 dropWhile_setw0
  show ?thesis
    using assms put_year [OF r(1)]
    by (cases t) (simp add: tm_ok_def get_time_def put_time_def format_iso_def digits tm_zero_def)
qed

lemma no_dot_setw0: "0 < w \<Longrightarrow> 0 \<le> n \<Longrightarrow> n < 10 ^ w \<Longrightarrow> 46 \<notin> set (setw0 w n)"
  using setw0_nat(3) [of w n] by (auto simp: is_digit_def)

lemma no_dot: "tm_ok t \<Longrightarrow> 46 \<notin> set (put_time t format_iso)"
  using put_year [of "tm_year t + 1900"]
  by (simp add: tm_ok_def put_time_def format_iso_def no_dot_setw0)

lemma get_long_setw0:
  assumes "0 < w" "0 \<le> n" "n < 10 ^ w" "n < 2 ^ 63"
  shows "get_long (setw0 w n) = n"
proof -
  note p = setw0_nat [OF assms(1-3)]
  obtain c cs where c: "setw0 w n = c # cs" using p(1) assms(1) by (cases "setw0 w n") auto
  have d: "takeWhile is_digit (c # cs) = c # cs" using p(3) takeWhile_digits [of "c # cs" "[]"] c by simp
  have "is_digit c" using p(3) c by simp
  then have "c \<noteq> 43" "c \<noteq> 45" "dropWhile is_space (c # cs) = c # cs"
    using dropWhile_space by (auto simp: is_digit_def)
  then show ?thesis using p(2) c d assms(2,4) by (simp add: get_long_def)
qed

lemma hms: "r div 3600 * 3600 + r div 60 mod 60 * 60 + r mod 60 = (r::int)"
proof -
  have split: "a * 3600 + b * 60 + c = (a * 60 + b) * 60 + c" for a b c :: int by simp
  have "r div 3600 = r div 60 div 60" using zdiv_zmult2_eq [of 60 r 60] by simp
  then show ?thesis by (simp only: split div_mult_mod_eq)
qed

lemma mktime_at:
  "mktime z ((tm_at c r dst)\<lparr>tm_isdst := 0\<rparr>) = day_of c * 86400 + r - utc_offset z"
  using hms [of r] by (cases c) (simp add: mktime_def tm_at_def del: day_of.simps)

lemma mktime_localtime:
  "mktime z ((localtime z t)\<lparr>tm_isdst := 0\<rparr>) = t + (if summer z t then 3600 else 0)"
proof -
  obtain l where l: "l = t + utc_offset z + (if summer z t then 3600 else 0)"
    "localtime z t = tm_at (date_of (l div 86400)) (l mod 86400) (if summer z t then 1 else 0)"
    by (rule localtime_at)
  have "l div 86400 * 86400 + l mod 86400 = l" by simp
  then show ?thesis unfolding l(2) mktime_at day_of_date_of using l(1) by simp
qed

text \<open>
  A point in time survives the way through its text, to the microsecond, in the years 1000 to 9999;
  but a moment of summer time comes back an hour late, because \<open>tm_isdst\<close> is not part of the text and
  \<open>stringToTimePoint\<close> leaves it zero.
\<close>

lemma time_point_roundtrip:
  assumes "0 \<le> tp" and "tp < 2 ^ 62"
    and "1000 \<le> tm_year (localtime z (tp div 1000000)) + 1900"
    and "tm_year (localtime z (tp div 1000000)) + 1900 < 10000"
  shows "stringToTimePoint z (timePointToStringWithMS z tp) =
     Some (tp + (if summer z (tp div 1000000) then 3600 * 1000000 else 0))"
proof -
  let ?t = "localtime z (tp div 1000000)"
  let ?us = "tp mod 1000000"
  have pos: "tp sdiv 1000000 = tp div 1000000" "tp smod 1000000 = ?us"
    using assms(1) by (simp_all add: signed_divide_int_def signed_modulo_int_def sgn_if)
  have ok: "tm_ok ?t" by (rule localtime_ok [OF assms(3,4)])
  have us: "0 \<le> ?us" "?us < 10 ^ 6" "?us < 2 ^ 63" by simp_all
  have shown: "timePointToStringWithMS z tp = put_time ?t format_iso @ 46 # setw0 6 ?us"
    by (simp add: timePointToStringWithMS_def pos)
  have dot: "takeWhile (\<lambda>c. c \<noteq> 46) (put_time ?t format_iso @ 46 # setw0 6 ?us) = put_time ?t format_iso"
    using no_dot [OF ok] by (auto simp: takeWhile_append)
  have "setw0 6 ?us \<noteq> [] \<and> length (setw0 6 ?us) = 6" using setw0_nat(1) [of 6 ?us] us by auto
  then have "stringToTimePoint z (timePointToStringWithMS z tp) = do {
      s \<leftarrow> time_point (mktime z (?t\<lparr>tm_isdst := 0\<rparr>) * 1000000); time_point (s + ?us) }"
    using get_long_setw0 [of 6 ?us] us
    by (simp add: stringToTimePoint_def shown dot get_put_time [OF ok])
  moreover have "tp div 1000000 * 1000000 + ?us = tp" by simp
  moreover have "0 \<le> tp div 1000000" using assms(1) by (simp add: pos_imp_zdiv_nonneg_iff)
  ultimately show ?thesis
    using assms(1,2) us unfolding mktime_localtime time_point_def
    by (auto simp: distrib_right)
qed

text \<open>A moment of the first of January 1970 in Turkey, as winter and as summer time.\<close>

definition demo_zone :: "bool \<Rightarrow> zone" where
  "demo_zone dst = \<lparr>utc_offset = 7200, summer = (\<lambda>t. dst)\<rparr>"

lemma time_point_demo:
  "stringToTimePoint (demo_zone False) (timePointToStringWithMS (demo_zone False) 1500250) = Some 1500250 \<and>
   stringToTimePoint (demo_zone True) (timePointToStringWithMS (demo_zone True) 1500250) = Some (1500250 + 3600 * 1000000)"
  using time_point_roundtrip [of 1500250 "demo_zone False"] time_point_roundtrip [of 1500250 "demo_zone True"]
  by (simp_all add: demo_zone_def localtime_def date_of_def)

text \<open>
  Fewer than six digits are filled up, but of more than six all count: seven digits are ten times as much.
  A text that cannot be read is taken for a moment before the first of January 1900.
\<close>

lemma fraction_digits:
  "stringToTimePoint (demo_zone False) (bytes_of ''1970-01-01 02:00:01.5'') = Some 1500000"
  "stringToTimePoint (demo_zone False) (bytes_of ''1970-01-01 02:00:01.5000000'') = Some 6000000"
  "stringToTimePoint (demo_zone False) (bytes_of ''1970/01/01'') = stringToTimePoint (demo_zone False) (bytes_of ''1970'')"
  by (simp_all add: bytes_of_def stringToTimePoint_def get_time_def get_digits_def format_iso_def tm_zero_def
      is_digit_def is_space_def of_decimal_def get_long_def mktime_def days_before_month_def demo_zone_def
      time_point_def month_len_def leaps_before_def Let_def)

text \<open>The time stamp of a log line has 23 characters.\<close>

lemma length_timestamp:
  assumes "0 \<le> now" and "tm_ok (localtime z (now div 1000000))"
  shows "length (GetCurrentTimestamp z now True) = 23"
proof -
  let ?t = "localtime z (now div 1000000)"
  have pos: "now sdiv 1000000 = now div 1000000" "now sdiv 1000 = now div 1000"
    "(now div 1000) smod 1000 = now div 1000 mod 1000"
    using assms(1) by (simp_all add: signed_divide_int_def signed_modulo_int_def sgn_if pos_imp_zdiv_neg_iff)
  have "0 \<le> now div 1000 mod 1000" "now div 1000 mod 1000 < 10 ^ 3" by simp_all
  then show ?thesis
    using assms(2) put_year [of "tm_year ?t + 1900"]
    by (simp add: GetCurrentTimestamp_def pos put_time_def format_dots_def setw0_nat(1) tm_ok_def Let_def)
qed

end
