(* ===== verification/Logger.thy ===== *)
theory Logger
  imports Log_Files Time_Text
begin

text \<open>
  From a macro of \<open>Singletons/log_manager.h\<close> to the line in a file: \<open>CAbstractLogger::log\<close> and its six shorthands
  (\<open>Abstract/abstract_logger.h\<close>) put the time stamp of \<open>Time_Text\<close>, the text of \<open>Log_Format\<close> and the files of
  \<open>Log_Files\<close> together. \<open>now\<close> is the reading of the clock in microseconds, one for each call.
\<close>

subsection \<open>\<open>CAbstractLogger\<close>\<close>

text \<open>The first argument is the bound of \<open>DoFileStuff\<close>.\<close>

definition log_write ::
  "nat \<Rightarrow> zone \<Rightarrow> int \<Rightarrow> LogLevel \<Rightarrow> bytes \<Rightarrow> log_arg list \<Rightarrow> CLogManager \<Rightarrow> CLogManager option" where
  "log_write k z now level message args s =
     (let timeStamp = GetCurrentTimestamp z now True in
      case log_line timeStamp level message args of
        None \<Rightarrow> Some s
      | Some formatted_message \<Rightarrow> DoFileStuff k timeStamp level formatted_message s)"

type_synonym shorthand = "nat \<Rightarrow> zone \<Rightarrow> int \<Rightarrow> bytes \<Rightarrow> log_arg list \<Rightarrow> CLogManager \<Rightarrow> CLogManager option"

definition log_trace :: shorthand where
  "log_trace k z now message args = log_write k z now TRACE message args"

definition log_info :: shorthand where
  "log_info k z now message args = log_write k z now INFO message args"

definition log_warn :: shorthand where
  "log_warn k z now message args = log_write k z now WARN message args"

definition log_error :: shorthand where
  "log_error k z now message args = log_write k z now ERR message args"

definition log_fatal :: shorthand where
  "log_fatal k z now message args = log_write k z now FATAL message args"

definition log_report :: shorthand where
  "log_report k z now message args = log_write k z now REPORT message args"

subsection \<open>The macros\<close>

record log_call =
  call_time :: int
  call_level :: LogLevel
  call_func :: bytes
  call_message :: bytes
  call_args :: "log_arg list"

fun LOG :: "LogLevel \<Rightarrow> nat \<Rightarrow> zone \<Rightarrow> int \<Rightarrow> bytes \<Rightarrow> bytes \<Rightarrow> log_arg list \<Rightarrow> CLogManager \<Rightarrow> CLogManager option" where
  "LOG FATAL k z now func message args = log_fatal k z now (bytes_of ''? : ?'') (ArgText func # ArgText message # args)"
| "LOG ERR k z now func message args = log_error k z now (bytes_of ''? : ?'') (ArgText func # ArgText message # args)"
| "LOG REPORT k z now func message args = log_report k z now (bytes_of ''? : ?'') (ArgText func # ArgText message # args)"
| "LOG INFO k z now func message args = log_info k z now (bytes_of ''? : ?'') (ArgText func # ArgText message # args)"
| "LOG TRACE k z now func message args = log_trace k z now (bytes_of ''? : ?'') (ArgText func # ArgText message # args)"
| "LOG WARN k z now func message args = log_warn k z now (bytes_of ''? : ?'') (ArgText func # ArgText message # args)"

fun logging :: "nat \<Rightarrow> zone \<Rightarrow> log_call list \<Rightarrow> CLogManager \<Rightarrow> CLogManager option" where
  "logging k z [] s = Some s"
| "logging k z (c # calls) s =
     Option.bind (LOG (call_level c) k z (call_time c) (call_func c) (call_message c) (call_args c) s) (logging k z calls)"

subsection \<open>What a run of the program leaves in the files\<close>

text \<open>The line that is meant: time, level and function in front of the message with its arguments in place.\<close>

definition meant_line :: "zone \<Rightarrow> log_call \<Rightarrow> bytes" where
  "meant_line z c =
     GetCurrentTimestamp z (call_time c) True @ bytes_of '' ['' @ GetLogLevelStr (call_level c) @ bytes_of ''] '' @
     call_func c @ bytes_of '' : '' @ fill (call_message c) (map render (call_args c)) @ [10]"

definition plain_call :: "log_call \<Rightarrow> bool" where
  "plain_call c \<longleftrightarrow> clean (call_func c) \<and> (\<forall>a \<in> set (call_args c). clean (render a))"

lemma LOG_macro:
  "LOG level k z now func message args s =
     (case log_macro (GetCurrentTimestamp z now True) level func message args of
        None \<Rightarrow> Some s | Some line \<Rightarrow> DoFileStuff k (GetCurrentTimestamp z now True) level line s)"
  by (cases level)
    (simp_all add: log_fatal_def log_error_def log_report_def log_info_def log_trace_def log_warn_def
      log_write_def log_macro_def Let_def split: option.split)

lemma LOG_plain:
  assumes "plain_call c"
  shows "LOG (call_level c) k z (call_time c) (call_func c) (call_message c) (call_args c) s =
     DoFileStuff k (GetCurrentTimestamp z (call_time c) True) (call_level c) (meant_line z c) s"
  using assms by (simp add: LOG_macro log_macro_text plain_call_def meant_line_def)

definition as_calls :: "zone \<Rightarrow> log_call list \<Rightarrow> (bytes \<times> LogLevel \<times> bytes) list" where
  "as_calls z = map (\<lambda>c. (GetCurrentTimestamp z (call_time c) True, call_level c, meant_line z c))"

lemma logging_calls:
  "\<forall>c \<in> set calls. plain_call c \<Longrightarrow> logging k z calls s = log_calls k (as_calls z calls) s"
proof (induction calls arbitrary: s)
  case (Cons c calls)
  then have "logging k z calls = log_calls k (as_calls z calls)" by (intro ext) simp
  then show ?case using Cons.prems by (simp add: LOG_plain as_calls_def del: LOG.simps)
qed (simp add: as_calls_def)

lemma lines_of_as_calls: "lines_of level (as_calls z calls) = map (meant_line z) [c \<leftarrow> calls. call_level c = level]"
  by (induction calls) (simp_all add: lines_of_def as_calls_def)


definition demo_call :: log_call where
  "demo_call = \<lparr>call_time = 1500250, call_level = INFO, call_func = bytes_of ''f'',
     call_message = bytes_of ''a ? b'', call_args = [ArgNum 7]\<rparr>"

lemma demo_call_plain: "plain_call demo_call"
  by (simp add: plain_call_def demo_call_def bytes_of_def MARK_def signed_decimal_def decimal.simps)

lemma demo_call_line: "meant_line (demo_zone False) demo_call = bytes_of ''1970.01.01 02:00:01.500 [INFO] f : a 7 b'' @ [10]"
  by (simp add: meant_line_def demo_call_def bytes_of_def MARK_def signed_decimal_def decimal.simps
      GetCurrentTimestamp_def demo_zone_def put_time_def format_dots_def localtime_def date_of_def setw0_def
      signed_divide_int_def signed_modulo_int_def Let_def)


end
