(* ===== verification/Json_Time.thy ===== *)
theory Json_Time
  imports Json Time_Text
begin

text \<open>
  The branches of the templates of \<open>Singletons/json_manager.h\<close> for points in time, and \<open>toString\<close>. A point in
  time is kept as text, so the operations here put \<open>Json\<close> and \<open>Time_Text\<close> together. \<open>None\<close> is an overflow of the
  clock's type; an exception is swallowed by the templates.
\<close>

subsection \<open>Operations\<close>

definition json_set_time :: "zone \<Rightarrow> json \<Rightarrow> bytes \<Rightarrow> int \<Rightarrow> json" where
  "json_set_time z j f tp = json_set j f (SVText (timePointToStringWithMS z tp))"

definition getFieldValue_time :: "zone \<Rightarrow> json \<Rightarrow> bytes \<Rightarrow> int \<Rightarrow> int option" where
  "getFieldValue_time z j f v =
     (if \<not> jcontains j f then Some v
      else (case Option.bind (jat j f) get_ref_string of
          None \<Rightarrow> Some v
        | Some jsonStr \<Rightarrow> stringToTimePoint z jsonStr))"

definition valcmp_time :: "zone \<Rightarrow> json \<Rightarrow> bytes \<Rightarrow> int \<Rightarrow> bool option" where
  "valcmp_time z j f v =
     (if j = JNull then Some False
      else if \<not> jcontains j f then Some False
      else (case Option.bind (jat j f) get_ref_string of
          None \<Rightarrow> Some False
        | Some jsonStr \<Rightarrow> do { jsonTime \<leftarrow> stringToTimePoint z jsonStr; Some (jsonTime = v) }))"

text \<open>
  The printer of the library is a parameter: it gets what it does with bytes that are not UTF-8, and
  may throw.
\<close>

datatype error_handler = replace | ignore

definition json_toString :: "(error_handler \<Rightarrow> json \<Rightarrow> bytes option) \<Rightarrow> json \<Rightarrow> bytes" where
  "json_toString dump j =
     (case dump replace j of
        Some s \<Rightarrow> s
      | None \<Rightarrow> (case dump ignore j of Some s \<Rightarrow> s | None \<Rightarrow> []))"

subsection \<open>A field with a point in time\<close>

text \<open>
  C37. A point in time that is set in a field is read back to the microsecond when the zone has standard
  time at that moment, and then it compares equal to what was set. In summer time it is read back one
  hour late, and compares different. No other field changes either way.
\<close>

theorem time_field_roundtrip:
  assumes "settable j" and "0 \<le> tp" and "tp < 2 ^ 62"
    and "1000 \<le> tm_year (localtime z (tp div 1000000)) + 1900"
    and "tm_year (localtime z (tp div 1000000)) + 1900 < 10000"
  shows "getFieldValue_time z (json_set_time z j f tp) f v =
      Some (tp + (if summer z (tp div 1000000) then 3600 * 1000000 else 0)) \<and>
     valcmp_time z (json_set_time z j f tp) f tp = Some (\<not> summer z (tp div 1000000)) \<and>
     (\<forall>g. g \<noteq> f \<longrightarrow> jat (json_set_time z j f tp) g = jat j g)"
proof -
  have at: "jat (json_set_time z j f tp) g = (if g = f then Some (JStr (timePointToStringWithMS z tp)) else jat j g)" for g
    using assms(1) by (simp add: json_set_time_def jat_set set_value_json_def)
  have "json_set_time z j f tp \<noteq> JNull" using at [of f] by (auto simp: jat_def)
  with at show ?thesis
    using time_point_roundtrip [OF assms(2-5)]
    by (simp add: getFieldValue_time_def valcmp_time_def jcontains_jat get_ref_string_def)
qed

theorem time_field_roundtrip_witness:
  "getFieldValue_time (demo_zone False) (json_set_time (demo_zone False) (JObj []) [97] 1500250) [97] 0 = Some 1500250 \<and>
   valcmp_time (demo_zone True) (json_set_time (demo_zone True) (JObj []) [97] 1500250) [97] 1500250 = Some False"
  using time_field_roundtrip [of "JObj []" 1500250 "demo_zone False" "[97]" 0]
    time_field_roundtrip [of "JObj []" 1500250 "demo_zone True" "[97]" 0]
  by (simp add: demo_zone_def localtime_def date_of_def settable_def)

text \<open>A field that holds anything but text leaves the value as it is, and compares different.\<close>

lemma time_field_other:
  assumes "jat j f = Some x" and "get_ref_string x = None"
  shows "getFieldValue_time z j f v = Some v" "valcmp_time z j f v = Some False"
  using assms by (simp_all add: getFieldValue_time_def valcmp_time_def jcontains_jat)

end
