(* ===== verification/Openssl_Lib.thy ===== *)
theory Openssl_Lib
  imports Openssl_Compat
begin

text \<open>
  All of \<open>Source/Core/openssl_compat.h\<close>, for any version of the library, and the calls
  \<open>Raw/Network/key_exchange.cpp\<close> makes one by one. The library itself is the parameter \<open>libssl\<close>: a field per
  function, with the integer it returns and what it leaves in the buffer; a pointer it returns is whether it
  is not null. The key agreement of \<open>Crypto\<close>, where one call stands for several, is shown to be this one.
\<close>

subsection \<open>The library\<close>

record libssl =
  OPENSSL_VERSION_NUMBER :: nat
  HMAC :: hmac_fn
  EVP_KDF_fetch :: "bytes \<Rightarrow> bool"
  EVP_KDF_CTX_new :: bool
  EVP_KDF_derive :: "bytes \<Rightarrow> bytes \<Rightarrow> bytes \<Rightarrow> nat \<Rightarrow> int \<times> bytes"
  RAND_bytes_call :: "nat \<Rightarrow> nat \<Rightarrow> int \<times> bytes"
  EVP_PKEY_CTX_new_id :: bool
  EVP_PKEY_keygen_init :: int
  EVP_PKEY_keygen :: "nat \<Rightarrow> int \<times> bytes"
  EVP_PKEY_get_raw_public_key :: "bytes \<Rightarrow> int \<times> bytes"
  EVP_PKEY_new_raw_public_key :: "bytes \<Rightarrow> bool"
  EVP_PKEY_CTX_new :: "bytes \<Rightarrow> bool"
  EVP_PKEY_derive_init :: int
  EVP_PKEY_derive_set_peer :: "bytes \<Rightarrow> bytes \<Rightarrow> int"
  EVP_PKEY_derive_len :: "bytes \<Rightarrow> bytes \<Rightarrow> int \<times> nat"
  EVP_PKEY_derive :: "bytes \<Rightarrow> bytes \<Rightarrow> nat \<Rightarrow> int \<times> bytes"
  ERR_error_string_n :: "64 word \<Rightarrow> bytes"

definition is_openssl_1_1 :: "libssl \<Rightarrow> bool" where
  "is_openssl_1_1 lib \<longleftrightarrow> OPENSSL_VERSION_NUMBER lib \<ge> 0x10101000 \<and> OPENSSL_VERSION_NUMBER lib < 0x30000000"

definition is_openssl_3_x :: "libssl \<Rightarrow> bool" where
  "is_openssl_3_x lib \<longleftrightarrow> OPENSSL_VERSION_NUMBER lib \<ge> 0x30000000"

text \<open>Calls that have no result.\<close>

datatype libcall = EVP_CIPHER_CTX_cleanup | EVP_CIPHER_CTX_reset | OpenSSL_add_all_algorithms |
  ERR_load_crypto_strings | EVP_cleanup | ERR_free_strings | CRYPTO_cleanup_all_ex_data

definition reset_cipher_context :: "libssl \<Rightarrow> libcall list" where
  "reset_cipher_context lib =
     (if OPENSSL_VERSION_NUMBER lib < 0x10100000 then [EVP_CIPHER_CTX_cleanup] else [EVP_CIPHER_CTX_reset])"

definition initialize_openssl :: "libssl \<Rightarrow> libcall list" where
  "initialize_openssl lib =
     (if OPENSSL_VERSION_NUMBER lib < 0x10100000 then [OpenSSL_add_all_algorithms, ERR_load_crypto_strings] else [])"

definition cleanup_openssl :: "libssl \<Rightarrow> libcall list" where
  "cleanup_openssl lib =
     (if OPENSSL_VERSION_NUMBER lib < 0x10100000
      then [EVP_cleanup, ERR_free_strings, CRYPTO_cleanup_all_ex_data] else [])"

subsection \<open>The error queue\<close>

text \<open>The oldest error is taken; 0 is no error.\<close>

fun ERR_get_error :: "64 word list \<Rightarrow> 64 word \<times> 64 word list" where
  "ERR_get_error [] = (0, [])"
| "ERR_get_error (e # q) = (e, q)"

definition get_openssl_error :: "libssl \<Rightarrow> 64 word list \<Rightarrow> bytes \<times> 64 word list" where
  "get_openssl_error lib q =
     (let (err, q) = ERR_get_error q in
      if err = 0 then (bytes_of ''No OpenSSL error'', q)
      else (cstr (take 255 (ERR_error_string_n lib err)), q))"

function clear_openssl_errors :: "64 word list \<Rightarrow> 64 word list" where
  "clear_openssl_errors q =
     (let (err, q) = ERR_get_error q in if err = 0 then q else clear_openssl_errors q)"
  by auto
termination
proof (relation "measure length")
  fix q x err q'
  assume "x = ERR_get_error q" "(err, q') = x" "err \<noteq> 0"
  then show "(q', q) \<in> measure length" by (cases q) auto
qed simp

declare clear_openssl_errors.simps [simp del]

lemma clear_openssl_errors_empty: "0 \<notin> set q \<Longrightarrow> clear_openssl_errors q = []"
  by (induction q) (auto simp: clear_openssl_errors.simps [of "_ # _"] clear_openssl_errors.simps [of "[]"])

subsection \<open>Keys\<close>

definition create_x25519_context :: "libssl \<Rightarrow> bool" where
  "create_x25519_context lib = EVP_PKEY_CTX_new_id lib"

definition pkey_keygen_init :: "libssl \<Rightarrow> bool" where
  "pkey_keygen_init lib \<longleftrightarrow> EVP_PKEY_keygen_init lib > 0"

definition pkey_keygen :: "libssl \<Rightarrow> nat \<Rightarrow> bool \<times> bytes" where
  "pkey_keygen lib rng = (let (ret, pkey) = EVP_PKEY_keygen lib rng in (ret > 0, pkey))"

definition pkey_derive_init :: "libssl \<Rightarrow> bool" where
  "pkey_derive_init lib \<longleftrightarrow> EVP_PKEY_derive_init lib > 0"

definition pkey_derive_set_peer :: "libssl \<Rightarrow> bytes \<Rightarrow> bytes \<Rightarrow> bool" where
  "pkey_derive_set_peer lib pkey peer \<longleftrightarrow> EVP_PKEY_derive_set_peer lib pkey peer > 0"

text \<open>\<open>pkey_derive\<close> with a null buffer asks for the length.\<close>

definition pkey_derive_len :: "libssl \<Rightarrow> bytes \<Rightarrow> bytes \<Rightarrow> bool \<times> nat" where
  "pkey_derive_len lib pkey peer = (let (ret, keylen) = EVP_PKEY_derive_len lib pkey peer in (ret > 0, keylen))"

definition pkey_derive :: "libssl \<Rightarrow> bytes \<Rightarrow> bytes \<Rightarrow> nat \<Rightarrow> bool \<times> bytes" where
  "pkey_derive lib pkey peer keylen = (let (ret, key) = EVP_PKEY_derive lib pkey peer keylen in (ret > 0, key))"

definition generate_random_bytes :: "libssl \<Rightarrow> nat \<Rightarrow> nat \<Rightarrow> bool \<times> bytes" where
  "generate_random_bytes lib rng num = (let (ret, buf) = RAND_bytes_call lib rng num in (ret = 1, buf))"

text \<open>As in \<open>Openssl_Compat\<close>, an outer \<open>None\<close> is a loop that does not end.\<close>

definition lib_hkdf_derive :: "libssl \<Rightarrow> bytes \<Rightarrow> bytes \<Rightarrow> bytes \<Rightarrow> nat \<Rightarrow> bytes option option" where
  "lib_hkdf_derive lib salt key info output_len =
     (if OPENSSL_VERSION_NUMBER lib < 0x10101000 then Some None
      else if OPENSSL_VERSION_NUMBER lib \<ge> 0x30000000
      then Some (if \<not> EVP_KDF_fetch lib (bytes_of ''HKDF'') then None
                 else if \<not> EVP_KDF_CTX_new lib then None
                 else let (ret, output) = EVP_KDF_derive lib salt key info output_len
                      in if ret > 0 then Some output else None)
      else compat_hkdf_derive (HMAC lib) salt key info output_len)"

subsection \<open>The key exchange, call by call\<close>

definition KeyExchange_calls :: "libssl \<Rightarrow> nat \<Rightarrow> KeyExchange \<times> nat" where
  "KeyExchange_calls lib rng =
     (let none = \<lparr>private_key = None, m_public_key = []\<rparr> in
      if \<not> create_x25519_context lib then (none, Suc rng)
      else if \<not> pkey_keygen_init lib then (none, Suc rng)
      else let (generated, pkey) = pkey_keygen lib rng in
        if \<not> generated then (none, Suc rng)
        else let kx = \<lparr>private_key = Some pkey, m_public_key = replicate 32 0\<rparr>;
                 (ret, pub) = EVP_PKEY_get_raw_public_key lib pkey
             in if ret \<le> 0 then (kx, Suc rng) else (kx\<lparr>m_public_key := pub\<rparr>, Suc rng))"

definition deriveAESKey_calls :: "libssl \<Rightarrow> bytes \<Rightarrow> bytes \<Rightarrow> (bool \<times> bytes) option" where
  "deriveAESKey_calls lib shared_secret computed = do {
     derived \<leftarrow> lib_hkdf_derive lib (bytes_of ''CryptoHelperSalt'') shared_secret (bytes_of ''AES-256-Key'') 32;
     Some (case derived of None \<Rightarrow> (False, computed) | Some derived_key \<Rightarrow> (True, derived_key)) }"

text \<open>A context for no key is not made.\<close>

definition computeSharedKey_calls :: "libssl \<Rightarrow> KeyExchange \<Rightarrow> bytes \<Rightarrow> bytes \<Rightarrow> (bool \<times> bytes) option" where
  "computeSharedKey_calls lib kx peer_public_key computed =
     (if \<not> EVP_PKEY_new_raw_public_key lib peer_public_key then Some (False, computed)
      else (case private_key kx of
        None \<Rightarrow> Some (False, computed)
      | Some pkey \<Rightarrow>
          if \<not> EVP_PKEY_CTX_new lib pkey then Some (False, computed)
          else if \<not> pkey_derive_init lib then Some (False, computed)
          else if \<not> pkey_derive_set_peer lib pkey peer_public_key then Some (False, computed)
          else let (known, shared_secret_len) = pkey_derive_len lib pkey peer_public_key in
            if \<not> known then Some (False, computed)
            else let (derived, shared_secret) = pkey_derive lib pkey peer_public_key shared_secret_len in
              if \<not> derived then Some (False, computed)
              else do {
                (ok, computed) \<leftarrow> deriveAESKey_calls lib shared_secret computed;
                Some (if \<not> ok then (False, computed) else (True, computed)) }))"

subsection \<open>What several calls come to\<close>

definition lib_keygen :: "libssl \<Rightarrow> nat \<Rightarrow> bytes option" where
  "lib_keygen lib rng =
     (if create_x25519_context lib \<and> pkey_keygen_init lib \<and> fst (pkey_keygen lib rng)
      then Some (snd (pkey_keygen lib rng)) else None)"

definition lib_public :: "libssl \<Rightarrow> bytes \<Rightarrow> bytes option" where
  "lib_public lib pkey =
     (let (ret, pub) = EVP_PKEY_get_raw_public_key lib pkey in if ret \<le> 0 then None else Some pub)"

definition lib_secret :: "libssl \<Rightarrow> bytes \<Rightarrow> bytes \<Rightarrow> bytes option" where
  "lib_secret lib pkey peer =
     (let (known, len) = pkey_derive_len lib pkey peer; (derived, secret) = pkey_derive lib pkey peer len
      in if EVP_PKEY_new_raw_public_key lib peer \<and> EVP_PKEY_CTX_new lib pkey \<and> pkey_derive_init lib \<and>
            pkey_derive_set_peer lib pkey peer \<and> known \<and> derived then Some secret else None)"

text \<open>The parameter of the other theories, with the ciphers of \<open>ssl\<close>.\<close>

definition openssl_of :: "libssl \<Rightarrow> openssl \<Rightarrow> openssl" where
  "openssl_of lib ssl = ssl
     \<lparr>RAND_bytes := (\<lambda>rng num. let (ok, buf) = generate_random_bytes lib rng num in if ok then Some buf else None),
      x25519_keygen := lib_keygen lib, x25519_public := lib_public lib, x25519_derive := lib_secret lib,
      hkdf_derive := (\<lambda>salt key info n. Option.bind (lib_hkdf_derive lib salt key info n) id)\<rparr>"

lemma openssl_of_sel:
  "x25519_keygen (openssl_of lib ssl) = lib_keygen lib" "x25519_public (openssl_of lib ssl) = lib_public lib"
  "x25519_derive (openssl_of lib ssl) = lib_secret lib"
  "hkdf_derive (openssl_of lib ssl) salt key info n = Option.bind (lib_hkdf_derive lib salt key info n) id"
  by (simp_all add: openssl_of_def)

lemma lib_hkdf_returns:
  assumes "hmac_ok (HMAC lib)"
  shows "\<exists>r. lib_hkdf_derive lib salt key info n = Some r"
proof -
  have "\<exists>r. compat_hkdf_derive (HMAC lib) salt key info n = Some r"
  proof (cases "n \<le> 255 * 32")
    case True
    then show ?thesis
      using hkdf_expand_eq [OF assms True] by (auto simp: compat_hkdf_derive_def split: option.split)
  next
    case False
    then show ?thesis by (auto simp: compat_hkdf_derive_def hkdf_expand_def split: option.split)
  qed
  then show ?thesis by (auto simp: lib_hkdf_derive_def Let_def split: prod.split)
qed

lemma KeyExchange_calls_eq: "KeyExchange_calls lib rng = KeyExchange_new (openssl_of lib ssl) rng"
  by (simp add: KeyExchange_calls_def KeyExchange_new_def openssl_of_sel lib_keygen_def lib_public_def Let_def
      split: prod.split option.split)

lemma deriveAESKey_calls_eq:
  assumes "hmac_ok (HMAC lib)"
  shows "deriveAESKey_calls lib secret computed = Some (deriveAESKey (openssl_of lib ssl) secret computed)"
proof -
  obtain r where "lib_hkdf_derive lib (bytes_of ''CryptoHelperSalt'') secret (bytes_of ''AES-256-Key'') 32 = Some r"
    using lib_hkdf_returns [OF assms] by blast
  then show ?thesis by (simp add: deriveAESKey_calls_def deriveAESKey_def openssl_of_sel)
qed

lemma deriveAESKey_False: "deriveAESKey ssl secret computed = (False, k) \<Longrightarrow> k = computed"
  by (simp add: deriveAESKey_def split: option.splits)

lemma computeSharedKey_calls_eq:
  assumes "hmac_ok (HMAC lib)"
  shows "computeSharedKey_calls lib kx peer computed = Some (computeSharedKey (openssl_of lib ssl) kx peer computed)"
proof (cases "private_key kx")
  case None
  then show ?thesis by (simp add: computeSharedKey_calls_def computeSharedKey_def)
next
  case (Some pkey)
  obtain known len where len: "pkey_derive_len lib pkey peer = (known, len)" by fastforce
  obtain derived secret where key: "pkey_derive lib pkey peer len = (derived, secret)" by fastforce
  obtain ok k where aes: "deriveAESKey (openssl_of lib ssl) secret computed = (ok, k)" by fastforce
  have "ok \<or> k = computed" using aes deriveAESKey_False [of "openssl_of lib ssl" secret computed k] by (cases ok) auto
  then show ?thesis
    using deriveAESKey_calls_eq [OF assms, of secret computed ssl] Some len key aes
    by (auto simp: computeSharedKey_calls_def computeSharedKey_def openssl_of_sel lib_secret_def Let_def)
qed


subsection \<open>Versions\<close>

text \<open>What OpenSSL documents: HMAC yields 32 bytes, and the HKDF of version 3 is the one of RFC 5869.\<close>

definition lib_ok :: "libssl \<Rightarrow> bool" where
  "lib_ok lib \<longleftrightarrow> hmac_ok (HMAC lib) \<and> EVP_KDF_fetch lib (bytes_of ''HKDF'') \<and> EVP_KDF_CTX_new lib \<and>
     (\<forall>salt key info n. 0 < n \<longrightarrow> n \<le> 255 * 32 \<longrightarrow> EVP_KDF_derive lib salt key info n =
        (1, rfc_expand (HMAC lib) (hmac_val (HMAC lib) salt key) info n))"

lemma lib_hkdf_rfc:
  assumes "lib_ok lib" and "0x10101000 \<le> OPENSSL_VERSION_NUMBER lib" and "0 < n" "n \<le> 32"
  shows "lib_hkdf_derive lib salt key info n =
     Some (Some (rfc_expand (HMAC lib) (hmac_val (HMAC lib) salt key) info n))"
proof -
  have ok: "hmac_ok (HMAC lib)" using assms(1) by (simp add: lib_ok_def)
  have "compat_hkdf_derive (HMAC lib) salt key info n =
      Some (Some (rfc_expand (HMAC lib) (hmac_val (HMAC lib) salt key) info n))"
    using hkdf_expand_eq [OF ok, of n] expand_one [OF ok assms(4)] assms(4) hmac_okD [OF ok]
    by (simp add: compat_hkdf_derive_def hkdf_extract_def)
  then show ?thesis
    using assms by (simp add: lib_hkdf_derive_def lib_ok_def)
qed

text \<open>
  C35. Two peers whose libraries have different versions derive the same key: the hand-written
  derivation for OpenSSL 1.1.1 and the one of OpenSSL 3 give the bytes of RFC 5869, as long as the secret is
  the same; with a version older than 1.1.1 no key is derived at all.
\<close>

theorem versions_agree:
  assumes lib: "lib_ok la" "lib_ok lb" "HMAC lb = HMAC la"
    and version: "0x10101000 \<le> OPENSSL_VERSION_NUMBER la"
    and keys: "private_key kxa = Some a" "private_key kxb = Some b"
      "lib_secret la a pb = Some secret" "lib_secret lb b pa = Some secret"
  shows "\<exists>key. length key = KEY_SIZE \<and> computeSharedKey_calls la kxa pb c = Some (True, key) \<and>
     computeSharedKey_calls lb kxb pa c' =
       Some (if OPENSSL_VERSION_NUMBER lb < 0x10101000 then (False, c') else (True, key))"
proof -
  let ?salt = "bytes_of ''CryptoHelperSalt''" and ?info = "bytes_of ''AES-256-Key''"
  let ?key = "rfc_expand (HMAC la) (hmac_val (HMAC la) ?salt secret) ?info 32"
  have hmac: "hmac_ok (HMAC la)" "hmac_ok (HMAC lb)" using lib by (simp_all add: lib_ok_def)
  note calls = computeSharedKey_calls_eq [OF hmac(1), of kxa pb c undefined]
    computeSharedKey_calls_eq [OF hmac(2), of kxb pa c' undefined]
  have "computeSharedKey_calls la kxa pb c = Some (True, ?key)"
    using lib_hkdf_rfc [OF lib(1) version, of 32] keys calls(1)
    by (simp add: computeSharedKey_def openssl_of_sel deriveAESKey_def)
  moreover have "computeSharedKey_calls lb kxb pa c' =
      Some (if OPENSSL_VERSION_NUMBER lb < 0x10101000 then (False, c') else (True, ?key))"
  proof (cases "OPENSSL_VERSION_NUMBER lb < 0x10101000")
    case True
    then have "lib_hkdf_derive lb salt key info n = Some None" for salt key info n by (simp add: lib_hkdf_derive_def)
    then show ?thesis
      using keys calls(2) True by (simp add: computeSharedKey_def openssl_of_sel deriveAESKey_def)
  next
    case False
    then show ?thesis
      using lib_hkdf_rfc [OF lib(2), of 32] keys calls(2) lib(3)
      by (simp add: computeSharedKey_def openssl_of_sel deriveAESKey_def)
  qed
  moreover have "length ?key = KEY_SIZE"
    using expand_one [OF hmac(1), of 32, symmetric] length_unchained [OF hmac(1)] by (simp add: KEY_SIZE_def)
  ultimately show ?thesis by blast
qed

text \<open>A library for the examples: keys are public, and secrets are constant.\<close>

definition demo_lib :: "nat \<Rightarrow> libssl" where
  "demo_lib version = \<lparr>OPENSSL_VERSION_NUMBER = version, HMAC = demo_hmac, EVP_KDF_fetch = (\<lambda>name. True),
     EVP_KDF_CTX_new = True,
     EVP_KDF_derive = (\<lambda>salt key info n. (1, rfc_expand demo_hmac (hmac_val demo_hmac salt key) info n)),
     RAND_bytes_call = (\<lambda>rng num. (1, replicate num (of_nat rng))), EVP_PKEY_CTX_new_id = True,
     EVP_PKEY_keygen_init = 1, EVP_PKEY_keygen = (\<lambda>rng. (1, replicate 32 (of_nat rng))),
     EVP_PKEY_get_raw_public_key = (\<lambda>k. (1, k)), EVP_PKEY_new_raw_public_key = (\<lambda>p. length p = 32),
     EVP_PKEY_CTX_new = (\<lambda>k. True), EVP_PKEY_derive_init = 1, EVP_PKEY_derive_set_peer = (\<lambda>k p. 1),
     EVP_PKEY_derive_len = (\<lambda>k p. (1, 32)), EVP_PKEY_derive = (\<lambda>k p n. (1, replicate n 7)),
     ERR_error_string_n = (\<lambda>e. bytes_of ''error'')\<rparr>"

lemma demo_lib_ok: "lib_ok (demo_lib version)" "HMAC (demo_lib version) = demo_hmac"
  by (simp_all add: lib_ok_def demo_lib_def demo_hmac_ok)


definition demo_pair :: KeyExchange where
  "demo_pair = \<lparr>private_key = Some (replicate 32 1), m_public_key = replicate 32 1\<rparr>"

lemma versions_agree_witness:
  "\<exists>key. length key = 32 \<and>
     computeSharedKey_calls (demo_lib 0x30000000) demo_pair (replicate 32 1) [] = Some (True, key) \<and>
     computeSharedKey_calls (demo_lib 0x10101000) demo_pair (replicate 32 1) [] = Some (True, key)"
proof -
  have secret: "lib_secret (demo_lib v) (replicate 32 1) (replicate 32 1) = Some (replicate 32 7)" for v
    by (simp add: lib_secret_def demo_lib_def pkey_derive_len_def pkey_derive_def pkey_derive_init_def
        pkey_derive_set_peer_def)
  have v: "OPENSSL_VERSION_NUMBER (demo_lib n) = n" for n by (simp add: demo_lib_def)
  show ?thesis
    using versions_agree [OF demo_lib_ok(1) demo_lib_ok(1), of "0x10101000" "0x30000000" demo_pair "replicate 32 1"
        demo_pair "replicate 32 1" "replicate 32 1" "replicate 32 7" "replicate 32 1" "[]" "[]"] secret
    by (simp add: demo_lib_ok(2) v demo_pair_def KEY_SIZE_def)
qed

end
