(* ===== verification/Main_Program.thy ===== *)
theory Main_Program
  imports Client
begin

text \<open>
  Where the client lives in the program: \<open>CSingleton\<close> (\<open>Source/Core/singleton.h\<close>) and the three places of
  \<open>game.src/main.cpp\<close>. \<open>main\<close> makes an object of its own, and everything else uses the one
  \<open>getInstance\<close> makes. The passages the file leaves out are entered under a number: they may do with the
  instance what they like, but they cannot name the variable of \<open>main\<close>. They return a value, or go on.
  What the two objects share, the characters and the messenger, is part of the instance here.
\<close>

subsection \<open>\<open>CSingleton\<close>\<close>

text \<open>\<open>new\<close> is the constructor.\<close>

definition getInstance :: "'a option \<Rightarrow> 'a option \<Rightarrow> ('a \<times> 'a option) option" where
  "getInstance new inst =
     (case inst of
        None \<Rightarrow> do { x \<leftarrow> new; Some (x, Some x) }
      | Some x \<Rightarrow> Some (x, inst))"

definition ResetSingleton :: "'a option \<Rightarrow> 'a option" where
  "ResetSingleton inst = None"

lemma getInstance_same: "getInstance new inst = Some (x, inst') \<Longrightarrow> getInstance new' inst' = Some (x, inst')"
  by (auto simp: getInstance_def bind_Some_iff split: option.splits)

subsection \<open>\<open>main\<close>\<close>

record program =
  mobile_client :: "mobi option"
  the_instance :: "mobi option"

type_synonym game = "nat \<Rightarrow> mobi option \<Rightarrow> (int option \<times> mobi option) option"

definition game_passage :: "game \<Rightarrow> nat \<Rightarrow> (program \<Rightarrow> (int \<times> program) option) \<Rightarrow> program \<Rightarrow> (int \<times> program) option" where
  "game_passage game n k p = do {
     (ret, i) \<leftarrow> game n (the_instance p);
     let p = p\<lparr>the_instance := i\<rparr>;
     (case ret of Some r \<Rightarrow> Some (r, p) | None \<Rightarrow> k p) }"

text \<open>\<open>mobileInstance.f()\<close>.\<close>

definition mobileInstance :: "engine \<Rightarrow> (mobi \<Rightarrow> mobi option) \<Rightarrow> program \<Rightarrow> program option" where
  "mobileInstance eng f p = do {
     (c, i) \<leftarrow> getInstance (MobiClient_new eng) (the_instance p);
     c \<leftarrow> f c;
     Some (p\<lparr>the_instance := Some c\<rparr>) }"

text \<open>A function without a result returns 0 here; \<open>es\<close> are the handlers that run in this pulse.\<close>

definition heartbeat :: "engine \<Rightarrow> game \<Rightarrow> time \<Rightarrow> event list \<Rightarrow> program \<Rightarrow> (int \<times> program) option" where
  "heartbeat eng game now es =
     game_passage game 0 (game_passage game 1 (\<lambda>p. do {
       p \<leftarrow> mobileInstance eng (MobiClient_Process eng now es) p;
       game_passage game 2 (\<lambda>p. Some (0, p)) p }))"

text \<open>The last passage of \<open>start\<close> has to return a value.\<close>

definition start_game :: "engine \<Rightarrow> game \<Rightarrow> program \<Rightarrow> (int \<times> program) option" where
  "start_game eng game =
     game_passage game 3 (\<lambda>p. do {
       (r, p) \<leftarrow> (if \<not> g_bAuthServer eng then game_passage game 4 (\<lambda>p. Some (0, p)) p else Some (0, p));
       p \<leftarrow> mobileInstance eng (\<lambda>s. Some (ConnectToBridge s)) p;
       game_passage game 5 (\<lambda>p. None) p })"

fun pulses :: "engine \<Rightarrow> game \<Rightarrow> (time \<times> event list) list \<Rightarrow> program \<Rightarrow> program option" where
  "pulses eng game [] p = Some p"
| "pulses eng game ((now, es) # ps) p = do { (r, p) \<leftarrow> heartbeat eng game now es p; pulses eng game ps p }"

text \<open>The end of \<open>main\<close>.\<close>

definition shutdown_game :: "engine \<Rightarrow> game \<Rightarrow> program \<Rightarrow> (int \<times> program) option" where
  "shutdown_game eng game p =
     game_passage game 8 (game_passage game 9 (\<lambda>p. None))
       (p\<lparr>mobile_client := map_option (MobiClient_Disconnect eng False) (mobile_client p)\<rparr>)"

text \<open>The main loop is in the passage before the end; \<open>ps\<close> are its pulses.\<close>

definition main_program :: "engine \<Rightarrow> game \<Rightarrow> (time \<times> event list) list \<Rightarrow> program \<Rightarrow> (int \<times> program) option" where
  "main_program eng game ps =
     game_passage game 6 (\<lambda>p. do {
       c \<leftarrow> MobiClient_new eng;
       (ok, p) \<leftarrow> start_game eng game (p\<lparr>mobile_client := Some c\<rparr>);
       if ok = 0 then game_passage game 10 (\<lambda>p. Some (0, p)) p
       else do {
         p \<leftarrow> pulses eng game ps p;
         game_passage game 7 (shutdown_game eng game) p } })"

definition program_init :: program where
  "program_init = \<lparr>mobile_client = None, the_instance = None\<rparr>"

subsection \<open>The two objects\<close>

lemma new_disconnected: "MobiClient_new eng = Some c \<Longrightarrow> connect_state c = DISCONNECTED"
proof -
  have reg: "connect_state (snd (packet_register_fixed h n s)) = connect_state s"
    "connect_state (snd (packet_register_dynamic h n i s)) = connect_state s" for h n i and s :: mobi
    by (simp_all add: packet_register_fixed_def packet_register_dynamic_def)
  have "connect_state (RegisterPackets s) = connect_state s" for s
    unfolding RegisterPackets_def Let_def by (simp only: reg)
  moreover have "LoadInfoFile eng mobi_init = Some u \<Longrightarrow> connect_state u = DISCONNECTED" for u
    using kept_LoadInfoFile [of eng mobi_init u] by (simp add: kept_def)
  ultimately show "MobiClient_new eng = Some c \<Longrightarrow> connect_state c = DISCONNECTED"
    by (auto simp: MobiClient_new_def)
qed

text \<open>What the game and the instance do leaves the object of \<open>main\<close> alone.\<close>

lemma game_passage_Some:
  assumes "game_passage game n k p = Some (r, q)"
  obtains i where "q = p\<lparr>the_instance := i\<rparr>" | i where "k (p\<lparr>the_instance := i\<rparr>) = Some (r, q)"
  using assms by (auto simp: game_passage_def bind_Some_iff Let_def split: option.splits)

lemma mobileInstance_client: "mobileInstance eng f p = Some q \<Longrightarrow> mobile_client q = mobile_client p"
  by (auto simp: mobileInstance_def bind_Some_iff)

lemma passage_client:
  assumes "game_passage game n k p = Some (r, q)"
    and "\<And>p r q. k p = Some (r, q) \<Longrightarrow> mobile_client q = mobile_client p"
  shows "mobile_client q = mobile_client p"
  using assms(1) by (rule game_passage_Some) (auto dest: assms(2))

lemma passage_end:
  "game_passage game n (\<lambda>p. Some (x, p)) p = Some (r, q) \<Longrightarrow> mobile_client q = mobile_client p"
  "game_passage game n (\<lambda>p. None) p = Some (r, q) \<Longrightarrow> mobile_client q = mobile_client p"
  by (erule passage_client; simp)+

lemma heartbeat_client: "heartbeat eng game now es p = Some (r, q) \<Longrightarrow> mobile_client q = mobile_client p"
  unfolding heartbeat_def
  by (elim passage_client) (auto simp: bind_Some_iff dest!: mobileInstance_client passage_end)

lemma start_client: "start_game eng game p = Some (r, q) \<Longrightarrow> mobile_client q = mobile_client p"
  unfolding start_game_def
  by (elim passage_client)
    (auto simp: bind_Some_iff dest!: mobileInstance_client passage_end split: if_splits)

lemma pulses_client: "pulses eng game ps p = Some q \<Longrightarrow> mobile_client q = mobile_client p"
  by (induction ps arbitrary: p) (auto simp: bind_Some_iff dest!: heartbeat_client)

lemma shutdown_client:
  "shutdown_game eng game p = Some (r, q) \<Longrightarrow>
   mobile_client q = map_option (MobiClient_Disconnect eng False) (mobile_client p)"
  unfolding shutdown_game_def
  by (drule passage_client) (auto dest!: passage_end)

lemma main_program_cases:
  assumes "main_program eng game ps program_init = Some (r, q)"
  obtains "mobile_client q = None"
  | c where "MobiClient_new eng = Some c" "mobile_client q = Some c"
  | c where "MobiClient_new eng = Some c" "mobile_client q = Some (MobiClient_Disconnect eng False c)"
  using assms unfolding main_program_def
proof (rule game_passage_Some)
  fix i assume "q = program_init\<lparr>the_instance := i\<rparr>"
  then show thesis using that(1) by (simp add: program_init_def)
next
  let ?p = "\<lambda>i c. program_init\<lparr>the_instance := i, mobile_client := Some c\<rparr>"
  fix i assume "do {
       c \<leftarrow> MobiClient_new eng;
       (ok, p) \<leftarrow> start_game eng game (program_init\<lparr>the_instance := i\<rparr>\<lparr>mobile_client := Some c\<rparr>);
       if ok = 0 then game_passage game 10 (\<lambda>p. Some (0, p)) p
       else do { p \<leftarrow> pulses eng game ps p; game_passage game 7 (shutdown_game eng game) p } } = Some (r, q)"
  then obtain c ok p where c: "MobiClient_new eng = Some c"
    and p: "start_game eng game (program_init\<lparr>the_instance := i\<rparr>\<lparr>mobile_client := Some c\<rparr>) = Some (ok, p)"
    and rest: "(if ok = 0 then game_passage game 10 (\<lambda>p. Some (0, p)) p
       else do { p \<leftarrow> pulses eng game ps p; game_passage game 7 (shutdown_game eng game) p }) = Some (r, q)"
    by (auto simp: bind_Some_iff)
  have mp: "mobile_client p = Some c" using start_client [OF p] by simp
  show thesis
  proof (cases "ok = 0")
    case True
    then have "mobile_client q = mobile_client p" using rest by (auto dest: passage_end)
    then show thesis using that(2) c mp by simp
  next
    case False
    then obtain u where u: "pulses eng game ps p = Some u" "game_passage game 7 (shutdown_game eng game) u = Some (r, q)"
      using rest by (auto simp: bind_Some_iff)
    have mu: "mobile_client u = Some c" using pulses_client [OF u(1)] mp by simp
    from u(2) show thesis
    proof (rule game_passage_Some)
      fix j assume "q = u\<lparr>the_instance := j\<rparr>"
      then show thesis using that(2) c mu by simp
    next
      fix j assume "shutdown_game eng game (u\<lparr>the_instance := j\<rparr>) = Some (r, q)"
      then show thesis using that(3) c mu shutdown_client by fastforce
    qed
  qed
qed

text \<open>
  C39. The object \<open>main\<close> disconnects at the end is one that was never connected: in every run it is as its
  constructor left it, but that the call, which is not to reconnect, has started its reconnect
  timer. The end itself does nothing to the instance the game was connected with.
\<close>

theorem main_disconnects_other:
  assumes "main_program eng game ps program_init = Some (r, q)" and "mobile_client q = Some c"
  shows "\<exists>c0. MobiClient_new eng = Some c0 \<and> connect_state c0 = DISCONNECTED \<and>
     (c = c0 \<or> c = c0\<lparr>connect_state := CONNECTING, reconnect_timer := True\<rparr>)"
  using assms(1)
proof (rule main_program_cases)
  assume "mobile_client q = None"
  then show ?thesis using assms(2) by simp
next
  fix c0 assume new: "MobiClient_new eng = Some c0" and q: "mobile_client q = Some c0"
  show ?thesis using new new_disconnected [OF new] q assms(2) by simp
next
  fix c0 assume new: "MobiClient_new eng = Some c0" and q: "mobile_client q = Some (MobiClient_Disconnect eng False c0)"
  show ?thesis
    using new new_disconnected [OF new] q assms(2)
    by (simp add: MobiClient_Disconnect_def Disconnect_def StartReconnectTimer_def)
qed

text \<open>A run in which the game starts and stops at once.\<close>

definition demo_game :: game where
  "demo_game n i = Some (if n = 5 \<or> n = 9 then Some 1 else None, i)"

theorem main_disconnects_other_witness:
  "\<exists>r q c. main_program demo_eng demo_game [] program_init = Some (r, q) \<and> mobile_client q = Some c \<and>
     connect_state c = CONNECTING \<and>
     (\<exists>c0. MobiClient_new demo_eng = Some c0 \<and> (c = c0 \<or> c = c0\<lparr>connect_state := CONNECTING, reconnect_timer := True\<rparr>))"
proof -
  obtain c0 where new: "MobiClient_new demo_eng = Some c0"
    by (simp add: MobiClient_new_def LoadInfoFile_def Let_def)
  have dis: "connect_state (MobiClient_Disconnect demo_eng False c0) = CONNECTING"
    using new_disconnected [OF new] by (simp add: MobiClient_Disconnect_def Disconnect_def StartReconnectTimer_def)
  have "\<exists>r q. main_program demo_eng demo_game [] program_init = Some (r, q) \<and>
      mobile_client q = Some (MobiClient_Disconnect demo_eng False c0)"
    by (cases "g_bAuthServer demo_eng")
      (simp_all add: main_program_def start_game_def shutdown_game_def game_passage_def demo_game_def
        mobileInstance_def getInstance_def program_init_def new Let_def)
  then obtain r q where run: "main_program demo_eng demo_game [] program_init = Some (r, q)"
    and q: "mobile_client q = Some (MobiClient_Disconnect demo_eng False c0)" by blast
  show ?thesis using main_disconnects_other [OF run q] run q dis by blast
qed

end
