(* ===== verification/Random_Names.thy ===== *)
theory Random_Names
  imports Prelude
begin

text \<open>
  \<open>Core/Utility/random_generator.h\<close>: identifiers and names from random digits. \<open>draw lo hi rng\<close> is what
  \<open>uniform_int_distribution(lo, hi)\<close> yields in the state \<open>rng\<close> of the generator, which counts the draws.
\<close>

type_synonym draw = "int \<Rightarrow> int \<Rightarrow> nat \<Rightarrow> int"

text \<open>The documented behaviour: the number is in the range, if there is one.\<close>

definition draw_ok :: "draw \<Rightarrow> bool" where
  "draw_ok draw \<longleftrightarrow> (\<forall>lo hi rng. lo \<le> hi \<longrightarrow> lo \<le> draw lo hi rng \<and> draw lo hi rng \<le> hi)"

definition m_hex_digits :: bytes where "m_hex_digits = bytes_of ''0123456789abcdef''"
definition m_name_digits :: bytes where "m_name_digits = bytes_of ''abcdefghiklmnoprstuvyzx''"

definition generate_number :: "draw \<Rightarrow> int \<Rightarrow> int \<Rightarrow> nat \<Rightarrow> int \<times> nat" where
  "generate_number draw minVal maxVal rng = (draw minVal maxVal rng, Suc rng)"

definition uuid_char :: "draw \<Rightarrow> nat \<Rightarrow> bytes \<times> nat \<Rightarrow> bytes \<times> nat" where
  "uuid_char draw i = (\<lambda>(client_uuid, rng).
     if i = 8 \<or> i = 13 \<or> i = 18 \<or> i = 23 then (client_uuid @ [45], rng)
     else (client_uuid @ [m_hex_digits ! nat (draw 0 15 rng)], Suc rng))"

definition generate_client_uuid :: "draw \<Rightarrow> nat \<Rightarrow> bytes \<times> nat" where
  "generate_client_uuid draw rng = fold (uuid_char draw) [0..<36] ([], rng)"

definition name_char :: "draw \<Rightarrow> bytes \<times> nat \<Rightarrow> bytes \<times> nat" where
  "name_char draw = (\<lambda>(name, rng). (name @ [m_name_digits ! nat (draw 0 22 rng)], Suc rng))"

definition generate_name :: "draw \<Rightarrow> nat \<Rightarrow> bytes \<times> nat" where
  "generate_name draw rng =
     (let (nameLen, rng) = generate_number draw 5 15 rng in (name_char draw ^^ nat nameLen) ([], rng))"

subsection \<open>Form\<close>

lemma digit_counts: "length m_hex_digits = 16" "length m_name_digits = 23" "45 \<notin> set m_hex_digits"
  by (simp_all add: m_hex_digits_def m_name_digits_def bytes_of_def)

lemma draw_digit:
  assumes "draw_ok draw" and "0 \<le> hi"
  shows "nat (draw 0 hi rng) < Suc (nat hi)"
proof -
  have "draw 0 hi rng \<le> hi" using assms by (simp add: draw_ok_def)
  then show ?thesis using nat_mono by (simp add: less_Suc_eq_le)
qed

lemma uuid_prefix:
  assumes "draw_ok draw"
  shows "\<exists>u rng'. fold (uuid_char draw) [0..<n] ([], rng) = (u, rng') \<and> length u = n \<and>
     rng' + card ({8, 13, 18, 23} \<inter> {..<n}) = rng + n \<and>
     (\<forall>i < n. if i \<in> {8, 13, 18, 23} then u ! i = 45 else u ! i \<in> set m_hex_digits)"
proof (induction n)
  case (Suc n)
  then obtain u r where u: "fold (uuid_char draw) [0..<n] ([], rng) = (u, r)" "length u = n"
    and r: "r + card ({8, 13, 18, 23} \<inter> {..<n}) = rng + n"
    and i: "\<forall>i < n. if i \<in> {8, 13, 18, 23} then u ! i = 45 else u ! i \<in> set m_hex_digits" by blast
  have digit: "m_hex_digits ! nat (draw 0 15 r) \<in> set m_hex_digits"
    using draw_digit [OF assms, of 15 r] by (intro nth_mem) (simp add: digit_counts)
  have marks: "{8, 13, 18, 23} \<inter> {..<Suc n} =
      (if n \<in> {8, 13, 18, 23} then insert n ({8, 13, 18, 23} \<inter> {..<n}) else {8, 13, 18, 23} \<inter> {..<n})"
    by (auto simp: lessThan_Suc)
  show ?case
  proof (cases "n \<in> {8, 13, 18, 23}")
    case True
    then have "fold (uuid_char draw) [0..<Suc n] ([], rng) = (u @ [45], r)" using u(1) by (auto simp: uuid_char_def)
    moreover have "r + card ({8, 13, 18, 23} \<inter> {..<Suc n}) = rng + Suc n" using r True by (simp only: marks) simp
    ultimately show ?thesis using True i u(2) by (auto simp: nth_append less_Suc_eq)
  next
    case False
    then have "fold (uuid_char draw) [0..<Suc n] ([], rng) = (u @ [m_hex_digits ! nat (draw 0 15 r)], Suc r)"
      using u(1) by (auto simp: uuid_char_def)
    moreover have "Suc r + card ({8, 13, 18, 23} \<inter> {..<Suc n}) = rng + Suc n" using r False by (simp only: marks) simp
    ultimately show ?thesis using False i u(2) digit by (auto simp: nth_append less_Suc_eq)
  qed
qed simp

text \<open>An identifier has 36 characters, hyphens where they belong and digits elsewhere, and takes 32 draws.\<close>

theorem uuid_form:
  assumes "draw_ok draw" and "generate_client_uuid draw rng = (u, rng')"
  shows "length u = 36 \<and> rng' = rng + 32 \<and>
     (\<forall>i < 36. if i \<in> {8, 13, 18, 23} then u ! i = 45 else u ! i \<in> set m_hex_digits)"
proof -
  have "{8, 13, 18, 23} \<inter> {..<36} = {8, 13, 18, 23 :: nat}" by auto
  then show ?thesis using uuid_prefix [OF assms(1), of 36 rng] assms(2) by (auto simp: generate_client_uuid_def)
qed

lemma name_prefix:
  assumes "draw_ok draw"
  shows "\<exists>u. (name_char draw ^^ n) ([], rng) = (u, rng + n) \<and> length u = n \<and> set u \<subseteq> set m_name_digits"
proof (induction n)
  case (Suc n)
  then obtain u where u: "(name_char draw ^^ n) ([], rng) = (u, rng + n)" "length u = n" "set u \<subseteq> set m_name_digits" by blast
  have "m_name_digits ! nat (draw 0 22 (rng + n)) \<in> set m_name_digits"
    using draw_digit [OF assms, of 22] by (intro nth_mem) (simp add: digit_counts)
  then show ?case using u by (simp add: name_char_def)
qed simp

text \<open>A name has 5 to 15 letters of the alphabet, which has no j, q and w.\<close>

theorem name_form:
  assumes "draw_ok draw" and "generate_name draw rng = (u, rng')"
  shows "5 \<le> length u \<and> length u \<le> 15 \<and> rng' = rng + 1 + length u \<and> set u \<subseteq> set m_name_digits"
proof -
  have len: "5 \<le> draw 5 15 rng" "draw 5 15 rng \<le> 15" using assms(1) by (simp_all add: draw_ok_def)
  obtain v where "(name_char draw ^^ nat (draw 5 15 rng)) ([], Suc rng) = (v, Suc rng + nat (draw 5 15 rng))"
    "length v = nat (draw 5 15 rng)" "set v \<subseteq> set m_name_digits"
    using name_prefix [OF assms(1)] by blast
  then show ?thesis using assms(2) len by (simp add: generate_name_def generate_number_def) linarith
qed

lemma uuid_form_demo:
  "draw_ok (\<lambda>lo hi rng. lo) \<and>
   fst (generate_client_uuid (\<lambda>lo hi rng. lo) 0) = bytes_of ''00000000-0000-0000-0000-000000000000''"
  by (simp add: draw_ok_def generate_client_uuid_def uuid_char_def m_hex_digits_def bytes_of_def upt_rec)

end
