(* ===== verification/Data_Cache.thy ===== *)
theory Data_Cache
  imports Mobi_Client
begin

text \<open>
  The configuration without \<open>__MT_DB_INFO__\<close>, where the core sends the rows of the data base itself. Its branches for
  the game do not compile; what is modelled is what the library builds on Windows, to test it: the structures
  \<open>MSCache\<close> of \<open>constants/packets.h\<close>, the two senders of \<open>mobi_client.cpp\<close> and \<open>HandleGetCache\<close> of
  \<open>mobi/packet_handlers.cpp\<close>. \<open>MSDataUpdate\<close> of this configuration is \<open>MSDataUpdateCache\<close> here, and the record \<open>X\<close> of
  the name space \<open>MSCache\<close> is \<open>CacheX\<close>. Of the game build, \<open>GetResultOfQuery\<close>.
\<close>

subsection \<open>Structures\<close>

abbreviation HEADER_SM_GET_CACHE :: u8 where "HEADER_SM_GET_CACHE \<equiv> 36"

datatype ECacheType = ACCOUNT | PLAYER | GUILD | GUILD_MEMBER | MESSENGER

fun ECacheType_code :: "ECacheType \<Rightarrow> u8" where
  "ECacheType_code ACCOUNT = 0"
| "ECacheType_code PLAYER = 1"
| "ECacheType_code GUILD = 2"
| "ECacheType_code GUILD_MEMBER = 3"
| "ECacheType_code MESSENGER = 4"

record MSDataUpdateCache =
  MSDataUpdateCache_header :: u8
  MSDataUpdateCache_size :: u32
  MSDataUpdateCache_cache_type :: u8
  MSDataUpdateCache_is_invalidate :: bool

definition MSDataUpdateCache_new :: MSDataUpdateCache where
  "MSDataUpdateCache_new = \<lparr>MSDataUpdateCache_header = HEADER_MS_DATA_UPDATE, MSDataUpdateCache_size = 0, MSDataUpdateCache_cache_type = 0, MSDataUpdateCache_is_invalidate = False\<rparr>"

definition ser_MSDataUpdateCache :: "MSDataUpdateCache \<Rightarrow> bytes" where
  "ser_MSDataUpdateCache p =
     [MSDataUpdateCache_header p] @
     le32 (MSDataUpdateCache_size p) @
     [MSDataUpdateCache_cache_type p] @
     le_bool (MSDataUpdateCache_is_invalidate p)"

definition sizeof_MSDataUpdateCache :: nat where "sizeof_MSDataUpdateCache = 7"

lemma length_ser_MSDataUpdateCache [simp, wire_len]: "length (ser_MSDataUpdateCache p) = sizeof_MSDataUpdateCache"
  by (simp add: ser_MSDataUpdateCache_def sizeof_MSDataUpdateCache_def)

definition get_MSDataUpdateCache :: "bytes \<Rightarrow> nat \<Rightarrow> MSDataUpdateCache option" where
  "get_MSDataUpdateCache d i = do {
     x0 \<leftarrow> get_u8 d (i + 0);
     x1 \<leftarrow> get_u32 d (i + 1);
     x2 \<leftarrow> get_u8 d (i + 5);
     x3 \<leftarrow> get_bool d (i + 6);
     Some \<lparr>MSDataUpdateCache_header = x0, MSDataUpdateCache_size = x1, MSDataUpdateCache_cache_type = x2, MSDataUpdateCache_is_invalidate = x3\<rparr> }"

lemma get_MSDataUpdateCache_ser [simp]:
  "get_MSDataUpdateCache (xs @ ser_MSDataUpdateCache p @ ys) (length xs) = Some p"
  unfolding get_MSDataUpdateCache_def ser_MSDataUpdateCache_def by (simp add: field_at)

record SMGetCache =
  SMGetCache_header :: u8
  SMGetCache_acc_id :: u32

definition ser_SMGetCache :: "SMGetCache \<Rightarrow> bytes" where
  "ser_SMGetCache p =
     [SMGetCache_header p] @
     le32 (SMGetCache_acc_id p)"

definition sizeof_SMGetCache :: nat where "sizeof_SMGetCache = 5"

lemma length_ser_SMGetCache [simp, wire_len]: "length (ser_SMGetCache p) = sizeof_SMGetCache"
  by (simp add: ser_SMGetCache_def sizeof_SMGetCache_def)

definition get_SMGetCache :: "bytes \<Rightarrow> nat \<Rightarrow> SMGetCache option" where
  "get_SMGetCache d i = do {
     x0 \<leftarrow> get_u8 d (i + 0);
     x1 \<leftarrow> get_u32 d (i + 1);
     Some \<lparr>SMGetCache_header = x0, SMGetCache_acc_id = x1\<rparr> }"

lemma get_SMGetCache_ser [simp]:
  "get_SMGetCache (xs @ ser_SMGetCache p @ ys) (length xs) = Some p"
  unfolding get_SMGetCache_def ser_SMGetCache_def by (simp add: field_at)

record CacheAccount =
  CacheAccount_login :: bytes
  CacheAccount_acc_id :: u32
  CacheAccount_empire :: u8
  CacheAccount_email :: bytes
  CacheAccount_authority :: u8

definition ser_CacheAccount :: "CacheAccount \<Rightarrow> bytes" where
  "ser_CacheAccount p =
     resize 33 (CacheAccount_login p) @
     le32 (CacheAccount_acc_id p) @
     [CacheAccount_empire p] @
     resize 65 (CacheAccount_email p) @
     [CacheAccount_authority p]"

definition sizeof_CacheAccount :: nat where "sizeof_CacheAccount = 104"

lemma length_ser_CacheAccount [simp, wire_len]: "length (ser_CacheAccount p) = sizeof_CacheAccount"
  by (simp add: ser_CacheAccount_def sizeof_CacheAccount_def)

definition get_CacheAccount :: "bytes \<Rightarrow> nat \<Rightarrow> CacheAccount option" where
  "get_CacheAccount d i = do {
     x0 \<leftarrow> get_chars d (i + 0) 33;
     x1 \<leftarrow> get_u32 d (i + 33);
     x2 \<leftarrow> get_u8 d (i + 37);
     x3 \<leftarrow> get_chars d (i + 38) 65;
     x4 \<leftarrow> get_u8 d (i + 103);
     Some \<lparr>CacheAccount_login = x0, CacheAccount_acc_id = x1, CacheAccount_empire = x2, CacheAccount_email = x3, CacheAccount_authority = x4\<rparr> }"

lemma get_CacheAccount_ser [simp]:
  "length (CacheAccount_login p) = 33 \<Longrightarrow> length (CacheAccount_email p) = 65 \<Longrightarrow> get_CacheAccount (xs @ ser_CacheAccount p @ ys) (length xs) = Some p"
  unfolding get_CacheAccount_def ser_CacheAccount_def by (simp add: field_at)

record CachePlayer =
  CachePlayer_pid :: u32
  CachePlayer_acc_id :: u32
  CachePlayer_name :: bytes
  CachePlayer_race :: u8
  CachePlayer_map_idx :: u32
  CachePlayer_level :: u8
  CachePlayer_play_time :: u32
  CachePlayer_last_play :: bytes
  CachePlayer_guild_id :: u32
  CachePlayer_is_guild_leader :: bool

definition ser_CachePlayer :: "CachePlayer \<Rightarrow> bytes" where
  "ser_CachePlayer p =
     le32 (CachePlayer_pid p) @
     le32 (CachePlayer_acc_id p) @
     resize 25 (CachePlayer_name p) @
     [CachePlayer_race p] @
     le32 (CachePlayer_map_idx p) @
     [CachePlayer_level p] @
     le32 (CachePlayer_play_time p) @
     resize 33 (CachePlayer_last_play p) @
     le32 (CachePlayer_guild_id p) @
     le_bool (CachePlayer_is_guild_leader p)"

definition sizeof_CachePlayer :: nat where "sizeof_CachePlayer = 81"

lemma length_ser_CachePlayer [simp, wire_len]: "length (ser_CachePlayer p) = sizeof_CachePlayer"
  by (simp add: ser_CachePlayer_def sizeof_CachePlayer_def)

definition get_CachePlayer :: "bytes \<Rightarrow> nat \<Rightarrow> CachePlayer option" where
  "get_CachePlayer d i = do {
     x0 \<leftarrow> get_u32 d (i + 0);
     x1 \<leftarrow> get_u32 d (i + 4);
     x2 \<leftarrow> get_chars d (i + 8) 25;
     x3 \<leftarrow> get_u8 d (i + 33);
     x4 \<leftarrow> get_u32 d (i + 34);
     x5 \<leftarrow> get_u8 d (i + 38);
     x6 \<leftarrow> get_u32 d (i + 39);
     x7 \<leftarrow> get_chars d (i + 43) 33;
     x8 \<leftarrow> get_u32 d (i + 76);
     x9 \<leftarrow> get_bool d (i + 80);
     Some \<lparr>CachePlayer_pid = x0, CachePlayer_acc_id = x1, CachePlayer_name = x2, CachePlayer_race = x3, CachePlayer_map_idx = x4, CachePlayer_level = x5, CachePlayer_play_time = x6, CachePlayer_last_play = x7, CachePlayer_guild_id = x8, CachePlayer_is_guild_leader = x9\<rparr> }"

lemma get_CachePlayer_ser [simp]:
  "length (CachePlayer_name p) = 25 \<Longrightarrow> length (CachePlayer_last_play p) = 33 \<Longrightarrow> get_CachePlayer (xs @ ser_CachePlayer p @ ys) (length xs) = Some p"
  unfolding get_CachePlayer_def ser_CachePlayer_def by (simp add: field_at)

record CacheGuild =
  CacheGuild_name :: bytes
  CacheGuild_id :: u32
  CacheGuild_master :: u32
  CacheGuild_level :: u16
  CacheGuild_win :: u32
  CacheGuild_draw :: u32
  CacheGuild_loss :: u32
  CacheGuild_ladder_point :: u32

definition ser_CacheGuild :: "CacheGuild \<Rightarrow> bytes" where
  "ser_CacheGuild p =
     resize 13 (CacheGuild_name p) @
     le32 (CacheGuild_id p) @
     le32 (CacheGuild_master p) @
     le16 (CacheGuild_level p) @
     le32 (CacheGuild_win p) @
     le32 (CacheGuild_draw p) @
     le32 (CacheGuild_loss p) @
     le32 (CacheGuild_ladder_point p)"

definition sizeof_CacheGuild :: nat where "sizeof_CacheGuild = 39"

lemma length_ser_CacheGuild [simp, wire_len]: "length (ser_CacheGuild p) = sizeof_CacheGuild"
  by (simp add: ser_CacheGuild_def sizeof_CacheGuild_def)

definition get_CacheGuild :: "bytes \<Rightarrow> nat \<Rightarrow> CacheGuild option" where
  "get_CacheGuild d i = do {
     x0 \<leftarrow> get_chars d (i + 0) 13;
     x1 \<leftarrow> get_u32 d (i + 13);
     x2 \<leftarrow> get_u32 d (i + 17);
     x3 \<leftarrow> get_u16 d (i + 21);
     x4 \<leftarrow> get_u32 d (i + 23);
     x5 \<leftarrow> get_u32 d (i + 27);
     x6 \<leftarrow> get_u32 d (i + 31);
     x7 \<leftarrow> get_u32 d (i + 35);
     Some \<lparr>CacheGuild_name = x0, CacheGuild_id = x1, CacheGuild_master = x2, CacheGuild_level = x3, CacheGuild_win = x4, CacheGuild_draw = x5, CacheGuild_loss = x6, CacheGuild_ladder_point = x7\<rparr> }"

lemma get_CacheGuild_ser [simp]:
  "length (CacheGuild_name p) = 13 \<Longrightarrow> get_CacheGuild (xs @ ser_CacheGuild p @ ys) (length xs) = Some p"
  unfolding get_CacheGuild_def ser_CacheGuild_def by (simp add: field_at)

record CacheGuildMember =
  CacheGuildMember_pid :: u32
  CacheGuildMember_guild_id :: u32

definition ser_CacheGuildMember :: "CacheGuildMember \<Rightarrow> bytes" where
  "ser_CacheGuildMember p =
     le32 (CacheGuildMember_pid p) @
     le32 (CacheGuildMember_guild_id p)"

definition sizeof_CacheGuildMember :: nat where "sizeof_CacheGuildMember = 8"

lemma length_ser_CacheGuildMember [simp, wire_len]: "length (ser_CacheGuildMember p) = sizeof_CacheGuildMember"
  by (simp add: ser_CacheGuildMember_def sizeof_CacheGuildMember_def)

definition get_CacheGuildMember :: "bytes \<Rightarrow> nat \<Rightarrow> CacheGuildMember option" where
  "get_CacheGuildMember d i = do {
     x0 \<leftarrow> get_u32 d (i + 0);
     x1 \<leftarrow> get_u32 d (i + 4);
     Some \<lparr>CacheGuildMember_pid = x0, CacheGuildMember_guild_id = x1\<rparr> }"

lemma get_CacheGuildMember_ser [simp]:
  "get_CacheGuildMember (xs @ ser_CacheGuildMember p @ ys) (length xs) = Some p"
  unfolding get_CacheGuildMember_def ser_CacheGuildMember_def by (simp add: field_at)

record CacheMessengerList =
  CacheMessengerList_account :: bytes
  CacheMessengerList_companion :: bytes

definition ser_CacheMessengerList :: "CacheMessengerList \<Rightarrow> bytes" where
  "ser_CacheMessengerList p =
     resize 33 (CacheMessengerList_account p) @
     resize 33 (CacheMessengerList_companion p)"

definition sizeof_CacheMessengerList :: nat where "sizeof_CacheMessengerList = 66"

lemma length_ser_CacheMessengerList [simp, wire_len]: "length (ser_CacheMessengerList p) = sizeof_CacheMessengerList"
  by (simp add: ser_CacheMessengerList_def sizeof_CacheMessengerList_def)

definition get_CacheMessengerList :: "bytes \<Rightarrow> nat \<Rightarrow> CacheMessengerList option" where
  "get_CacheMessengerList d i = do {
     x0 \<leftarrow> get_chars d (i + 0) 33;
     x1 \<leftarrow> get_chars d (i + 33) 33;
     Some \<lparr>CacheMessengerList_account = x0, CacheMessengerList_companion = x1\<rparr> }"

lemma get_CacheMessengerList_ser [simp]:
  "length (CacheMessengerList_account p) = 33 \<Longrightarrow> length (CacheMessengerList_companion p) = 33 \<Longrightarrow> get_CacheMessengerList (xs @ ser_CacheMessengerList p @ ys) (length xs) = Some p"
  unfolding get_CacheMessengerList_def ser_CacheMessengerList_def by (simp add: field_at)

subsection \<open>Operations\<close>

definition sendCharacterCreate_cache ::
  "engine \<Rightarrow> time \<Rightarrow> CachePlayer \<Rightarrow> mobi \<Rightarrow> (bool \<times> mobi) option" where
  "sendCharacterCreate_cache eng now player s =
     (if \<not> IsCoreP2PManager s then Some (True, s)
      else let packet = MSDataUpdateCache_new
            \<lparr>MSDataUpdateCache_cache_type := ECacheType_code PLAYER,
             MSDataUpdateCache_is_invalidate := False,
             MSDataUpdateCache_size := of_nat sizeof_MSDataUpdateCache + of_nat sizeof_CachePlayer\<rparr>
        in send_parts eng now (MSDataUpdateCache_size packet)
             [(ser_MSDataUpdateCache packet, of_nat sizeof_MSDataUpdateCache),
              (ser_CachePlayer player, of_nat sizeof_CachePlayer)] s)"

definition sendGuildCreate_cache ::
  "engine \<Rightarrow> time \<Rightarrow> CacheGuild \<Rightarrow> mobi \<Rightarrow> (bool \<times> mobi) option" where
  "sendGuildCreate_cache eng now gld s =
     (let packet = MSDataUpdateCache_new
            \<lparr>MSDataUpdateCache_cache_type := ECacheType_code GUILD,
             MSDataUpdateCache_is_invalidate := False,
             MSDataUpdateCache_size := of_nat sizeof_MSDataUpdateCache + of_nat sizeof_CacheGuild\<rparr>
      in send_parts eng now (MSDataUpdateCache_size packet)
           [(ser_MSDataUpdateCache packet, of_nat sizeof_MSDataUpdateCache),
            (ser_CacheGuild gld, of_nat sizeof_CacheGuild)] s)"

text \<open>
  \<open>HandleGetCache\<close> writes \<open>sizeof(MSCache::Account)\<close> bytes from the address of its argument, which is the vector
  that holds the packet: \<open>object\<close> are the bytes of the object itself. The field of the request is only logged.
\<close>

definition HandleGetCache :: "engine \<Rightarrow> time \<Rightarrow> bytes \<Rightarrow> bytes \<Rightarrow> mobi \<Rightarrow> (bool \<times> mobi) option" where
  "HandleGetCache eng now object data s = do {
     let packet = MSDataUpdateCache_new
            \<lparr>MSDataUpdateCache_cache_type := ECacheType_code ACCOUNT,
             MSDataUpdateCache_is_invalidate := False,
             MSDataUpdateCache_size := of_nat sizeof_MSDataUpdateCache + of_nat sizeof_CacheAccount\<rparr>;
     account \<leftarrow> get_chars object 0 sizeof_CacheAccount;
     pkt \<leftarrow> get_SMGetCache data 0;
     send_parts eng now (MSDataUpdateCache_size packet)
       [(ser_MSDataUpdateCache packet, of_nat sizeof_MSDataUpdateCache),
        (account, of_nat sizeof_CacheAccount)] s }"

text \<open>
  \<open>direct_query\<close> yields the message of the data base, \<open>get_result\<close> its result, if there is one, of which only the
  number of rows counts here.
\<close>

definition GetResultOfQuery :: "(bytes \<Rightarrow> 'msg option) \<Rightarrow> ('msg \<Rightarrow> u32 option) \<Rightarrow> bytes \<Rightarrow> 'msg option" where
  "GetResultOfQuery direct_query get_result query =
     (case direct_query query of
        None \<Rightarrow> None
      | Some ret \<Rightarrow>
          (case get_result ret of
             None \<Rightarrow> None
           | Some uiNumRows \<Rightarrow> if uiNumRows = 0 then None else Some ret))"

subsection \<open>What is sent\<close>

lemma cache_sizes: "sizeof_MSDataUpdateCache = 7" "sizeof_CachePlayer = 81" "sizeof_CacheGuild = 39"
  "sizeof_CacheAccount = 104"
  by (simp_all add: sizeof_MSDataUpdateCache_def sizeof_CachePlayer_def sizeof_CacheGuild_def sizeof_CacheAccount_def)

text \<open>A row goes out behind a header that can be read back and whose size is that of the whole packet.\<close>

theorem cache_row_sent:
  assumes "IsCoreP2PManager s" and "length (CachePlayer_name player) = 25" "length (CachePlayer_last_play player) = 33"
  shows "\<exists>h data. sendCharacterCreate_cache eng now player s = Some (SendPacket eng now data True s) \<and>
     get_MSDataUpdateCache data 0 = Some h \<and> unat (MSDataUpdateCache_size h) = length data \<and>
     MSDataUpdateCache_cache_type h = ECacheType_code PLAYER \<and>
     get_CachePlayer data sizeof_MSDataUpdateCache = Some player"
proof -
  let ?h = "\<lparr>MSDataUpdateCache_header = HEADER_MS_DATA_UPDATE, MSDataUpdateCache_size = 88,
    MSDataUpdateCache_cache_type = 1, MSDataUpdateCache_is_invalidate = False\<rparr>"
  let ?data = "ser_MSDataUpdateCache ?h @ ser_CachePlayer player"
  have "sendCharacterCreate_cache eng now player s = Some (SendPacket eng now ?data True s)"
    using assms(1) send_parts_full [of "[(ser_MSDataUpdateCache ?h, 7), (ser_CachePlayer player, 81)]" 88 eng now s]
    by (simp add: sendCharacterCreate_cache_def MSDataUpdateCache_new_def exact_def cache_sizes)
  moreover have "get_MSDataUpdateCache ?data 0 = Some ?h"
    using get_MSDataUpdateCache_ser [of "[]" ?h "ser_CachePlayer player"] by simp
  moreover have "get_CachePlayer ?data sizeof_MSDataUpdateCache = Some player"
    using get_CachePlayer_ser [OF assms(2,3), of "ser_MSDataUpdateCache ?h" "[]"] by simp
  moreover have "length ?data = 88" by (simp add: cache_sizes)
  ultimately show ?thesis by (intro exI [of _ ?h] exI [of _ ?data]) simp
qed

text \<open>A guild is sent by every core, a character only by the one that manages them.\<close>

lemma cache_guild_sent:
  "\<exists>data. sendGuildCreate_cache eng now gld s = Some (SendPacket eng now data True s) \<and> length data = 46"
proof -
  have "length (ser_MSDataUpdateCache h @ ser_CacheGuild gld) = 46" for h by (simp add: cache_sizes)
  then show ?thesis
    using send_parts_full [of "[(ser_MSDataUpdateCache h, 7), (ser_CacheGuild gld, 39)]" 46 eng now s for h]
    by (auto simp: sendGuildCreate_cache_def exact_def cache_sizes)
qed

text \<open>The object of a vector is smaller than an account (three or four pointers), so the reply reads behind it.\<close>

lemma HandleGetCache_undefined: "length object \<le> 32 \<Longrightarrow> HandleGetCache eng now object data s = None"
  by (simp add: HandleGetCache_def get_chars_def cache_sizes)

end
