(* ===== verification/Spec2Isabelle.thy ===== *)
theory Spec2Isabelle
  imports Buffer Flag_Wrapper Container Bounded_Queue Raw_Delivery Packets Messenger Mobi_State
    Unprocessed Mobi_Client Sync Utf8 Openssl_Compat Key_Exchange Cluster_Runs Game_Hooks Game_Client
    Custom_Packets Game_Chat Logger Json_Time Openssl_Lib Main_Program Random_Names Data_Cache
begin

text \<open>
  The mobile client of a game server, verified. A game has an auth core, several game cores and a data
  base server; every core runs a client (\<open>src/IMPL/mt/source/server/game.src/mobigame\<close>) on top of a network
  library (\<open>src/Source\<close>) that keeps one connection to a bridge server, and the bridge serves the mobile
  devices of the players. The client tells the bridge what happens in the game (logins, chat, guilds,
  wars, private shops), carries out what devices ask for (messages, shop operations, logging a character
  in without a game client), and holds what cannot be sent until the connection is back.

  \<^bold>\<open>How the parts interact.\<close> The game's main loop calls \<open>MobiClient::Process\<close>, which sends the sync packet,
  removes idle characters, polls the network and cleans up what has expired. The network's handlers call
  \<open>OnDataReceived\<close>, that is \<open>HandlePacket\<close> and the registered handler; handlers change the administration,
  the messenger, the waiting messages, the characters and the shops, and send. \<open>Send\<close> queues packets,
  encrypts them once the keys are exchanged, and posts the writes. A device's character is created on
  the auth core, which asks the data base server; the server picks a core and tells both.

  \<^bold>\<open>Theories and code.\<close>

  The network library (\<open>src/Source\<close>):
  \<^item> \<open>Prelude\<close>: machine integers, fields on the wire, C strings, clocks; the simp collections.
  \<^item> \<open>Buffer\<close>: \<open>Raw/Network/buffer.*\<close>, \<open>common.h\<close>. \<open>Flag_Wrapper\<close>, \<open>Container\<close>: \<open>Core/Utility\<close>. \<open>Bounded_Queue\<close>:
    the interface of the three bounded queues.
  \<^item> \<open>Error_Handler\<close>: \<open>Raw/Network/error_handler.*\<close>. \<open>Crypto\<close>: \<open>crypto_helper.*\<close> and \<open>key_exchange.*\<close>.
  \<^item> \<open>Raw_Client\<close>: \<open>Raw/raw_client.cpp\<close>, \<open>raw_session.cpp\<close>, \<open>raw_data.cpp\<close>, operation by operation. The
    closures given to \<open>PostTask\<close> are the list \<open>tasks\<close>, outstanding asynchronous operations the list \<open>ops\<close>;
    \<open>net_event\<close> is the completion of one of them. \<open>Raw_Inv\<close> holds the invariants, \<open>Raw_Delivery\<close> what
    reaches the handlers and the socket.
  \<^item> \<open>Openssl_Compat\<close>: the HKDF written by hand in \<open>Core/openssl_compat.h\<close>. \<open>Openssl_Lib\<close>: all of that file for any
    version number, and \<open>key_exchange.cpp\<close> call by call. \<open>Crypter\<close>, \<open>Json\<close>, \<open>Utf8\<close>: \<open>Core/Singletons\<close>.
  \<^item> \<open>Decimal\<close>: numbers as a stream prints and reads them. \<open>Time_Text\<close>: calendar, zone, \<open>put_time\<close> and \<open>get_time\<close>, the
    conversions of \<open>json_manager.cpp\<close> and \<open>abstract_logger.cpp\<close>. \<open>Json_Time\<close>: fields that hold a point in time.
  \<^item> \<open>Log_Format\<close>: the text of a log line (\<open>Abstract/abstract_logger.h\<close>). \<open>Log_Files\<close>: \<open>Singletons/log_manager.cpp\<close>.
    \<open>Logger\<close>: from the macros to the files. \<open>Random_Names\<close>: \<open>Utility/random_generator.h\<close>.

  The client (\<open>mobigame\<close>):
  \<^item> \<open>Packets\<close>: \<open>constants/packets.h\<close>, \<open>packet_constants.h\<close>, a record with its layout for every structure.
  \<^item> \<open>Mobi_State\<close>: the state of \<open>MobiClient\<close> and all it owns, one record extending the network's; the
    record \<open>engine\<close> is what the code asks of the game, \<open>engine_out\<close> what it tells the game.
  \<^item> \<open>Messenger\<close>: \<open>messenger_manager.*\<close>. \<open>Unprocessed\<close>: \<open>unprocessed/\<close>. \<open>Mobi_Client\<close>: \<open>mobi_client.cpp\<close>, one
    function per packet. \<open>Sync\<close>: \<open>mobi/sync.cpp\<close>. \<open>Admin\<close>: \<open>admin/\<close>. \<open>Char_Manager\<close>: \<open>character/ch_manager.*\<close>.
    \<open>Shop_Manager\<close>: \<open>offshop_ikarus\<close>. \<open>Handlers\<close>: \<open>mobi/packet_handlers.cpp\<close>, \<open>packet_registry.cpp\<close>,
    \<open>base.cpp\<close>. \<open>Client\<close> puts them together, \<open>Key_Exchange\<close> follows the first packets of a connection.
    \<open>Custom_Packets\<close>: \<open>constants/custom_packets.h\<close>. \<open>Data_Cache\<close>: what the library builds without \<open>__MT_DB_INFO__\<close>.
  \<^item> \<open>Main_Program\<close>: \<open>game.src/main.cpp\<close> and \<open>Core/singleton.h\<close>.

  The game around it:
  \<^item> \<open>Game_Characters\<close>: \<open>char.cpp\<close>, \<open>char_battle.cpp\<close>, \<open>sectree_manager.cpp\<close>. \<open>Game_Login\<close>: \<open>input_auth.cpp\<close>,
    \<open>db.cpp\<close>, \<open>input_db.cpp\<close>, \<open>input_login.cpp\<close>. \<open>Game_Hooks\<close>: \<open>war_map.cpp\<close>, the guild files, \<open>input_main.cpp\<close>,
    \<open>p2p.cpp\<close>, the load test. \<open>Db_Manager\<close>: \<open>db.src/ClientManager.cpp\<close>. \<open>Cluster\<close> connects cores and server by
    queues, \<open>Cluster_Runs\<close> runs all of them in any order. \<open>Game_Client\<close>, \<open>Game_Chat\<close>: the player's game client
    (\<open>binary/UserInterface\<close>), the friend list it shows and the whispers it sends.

  \<^bold>\<open>Conventions.\<close> A function that the code may leave with undefined behaviour or an exception returns an
  option, and \<open>None\<close> is that outcome. Words have the width of the code. \<open>now\<close> is the reading of a clock,
  in nanoseconds. Sets and maps of the library are sets and maps, with the order of \<open>std::set\<close> and
  \<open>std::map\<close> where it is seen. What is not in the repository is a parameter: OpenSSL is the record
  \<open>openssl\<close> with its documented behaviour \<open>openssl_ok\<close>, the game the record \<open>engine\<close>, with \<open>desc_laws\<close>
  for its manager of connections. Files of the game that are fragments (\<open>...\<close>) are modelled as far as
  they go; a passage that is left out is entered under a number and returns or goes on as the engine says.

  \<^bold>\<open>Interfaces.\<close> \<open>byte_sink\<close> (interpreted on \<open>TMP_BUFFER\<close>), \<open>keyed_store\<close> (on \<open>Container\<close>), \<open>bounded_fifo\<close> (on the
  write queue and the two stores of waiting packets), \<open>net_client\<close> and \<open>net_client_reads\<close>: what the network asks
  of a class derived from it, proved of \<open>MobiClient\<close> in \<open>Client\<close>.

  \<^bold>\<open>What is shown.\<close> The network: the state of a connection is consistent in every run, at most one read is
  outstanding, handlers see complete packets only, no read or write of the framing leaves its buffer,
  packets reach the socket in order, an encrypted packet decrypts on the other side, the public key goes
  out in the clear and before everything encrypted. The client: every request becomes one well-framed packet
  or is refused; what waits is bounded, sent once, in order; the sync packet is sent once and given up
  in the end; entries of characters stay consistent with connections, are removed when idle, and a
  refused login is told and forgotten; shop operations reach the shops only after the checks; the client
  that is disconnected when the program ends is not the one that was connected. The system: a login is
  handed over between cores completely in whatever order the packets are handled, no character is on a
  game core whose login the auth core was not told to have succeeded, the server picks a core with the
  fewest users, a killed character is taken to safety, the friend list a player sees is the one the server
  has, a whisper to a device is kept for it whole and in its code page, war statistics count, every call of
  the log is one line in its file. Libraries: peers with different versions of OpenSSL agree on the key. Text: \<open>isValidUtf8\<close> accepts
  exactly UTF-8, encrypted files, JSON and points in time read back, these but for summer time.

  \<^bold>\<open>Bounds and fuel.\<close> The network's \<open>poll\<close> runs the closures that were posted when it began, as the code does.
  \<open>DoFileStuff\<close> has the depth of its recursion through \<open>error\<close> as an argument: 1 is enough on a disk that can
  be written, and when the file for errors cannot be opened no depth is. The loop of the load test runs over
  the readings of the clock and ends with the first that is late. All other loops are structural or have a
  measure.

  \<^bold>\<open>Configuration.\<close> FreeBSD, \<open>__BUILD_FOR_GAME__\<close>, \<open>__MT_DB_INFO__\<close>, \<open>__MOBI_PACKET_ENCRYPTION__\<close>, \<open>__OFFSHOP__\<close>:
  the game build of the Makefile, little-endian, structures packed.

  \<^bold>\<open>Not modelled.\<close> The build without \<open>__MT_DB_INFO__\<close> for the game (it does not compile) and its \<open>GetDBCache\<close>, which
  calls a class for Windows that is not in the repository; the other branches for Windows, except in the
  game client; the SQL texts of \<open>queries.h\<close> (used by that build only); \<open>CSingletonShared\<close>, packet structures,
  constants and enumerators nothing uses; the passages the fragments leave out; the code under \<open>#else\<close> of
  \<open>__MOBICORE__\<close>, that is the game without the client; mutexes (one thread), and the durations of timers.
\<close>

end
